theory Spec2Isabelle
  imports Main "HOL-Library.Word" "HOL-Library.List_Lexorder" "HOL-Library.Multiset"
begin

section \<open>FROST(Ed25519, SHA-512) threshold signing: a model of the Go implementation\<close>

text \<open>
  The development follows the Go packages \<^verbatim>\<open>internal\<close> (helpers.go, frost.go),
  \<^verbatim>\<open>frost\<close> (the public constructors) and \<^verbatim>\<open>trusteddealer\<close> (key generation).
  Scalars are the integers modulo the order \<open>ell\<close> of the edwards25519 prime-order
  group; that they form a field rests on \<open>ell\<close> being prime, which is proved first,
  by Pocklington certificates whose arithmetic the kernel checks.
\<close>

subsection \<open>Primes, Fermat's little theorem and Pocklington's criterion\<close>

definition prime_nat :: "nat \<Rightarrow> bool" where
  "prime_nat p \<longleftrightarrow> 1 < p \<and> (\<forall>d. d dvd p \<longrightarrow> d = 1 \<or> d = p)"

lemma prime_nat_coprime:
  assumes "prime_nat p" "\<not> p dvd a"
  shows "coprime p a"
proof -
  have "gcd p a dvd p" by simp
  with assms(1) have "gcd p a = 1 \<or> gcd p a = p" by (simp add: prime_nat_def)
  moreover have "gcd p a \<noteq> p" using assms(2) by (metis gcd_dvd2)
  ultimately show ?thesis by (simp add: coprime_iff_gcd_eq_1)
qed

lemma prime_nat_dvd_mult:
  assumes "prime_nat p" "p dvd a * b"
  shows "p dvd a \<or> p dvd b"
proof (cases "p dvd a")
  case False
  then have "coprime p a" using assms(1) by (rule prime_nat_coprime[rotated])
  then show ?thesis using assms(2) by (simp add: coprime_dvd_mult_right_iff)
qed simp

lemma prime_factor_exists: "1 < n \<Longrightarrow> \<exists>p. prime_nat p \<and> p dvd n"
proof (induction n rule: less_induct)
  case (less n)
  show ?case
  proof (cases "prime_nat n")
    case True then show ?thesis by auto
  next
    case False
    with less.prems obtain d where d: "d dvd n" "d \<noteq> 1" "d \<noteq> n"
      by (auto simp: prime_nat_def)
    have "d \<noteq> 0" using d(1) less.prems by (cases "d = 0") auto
    then have "1 < d" using d(2) by simp
    have "d \<le> n" using d(1) less.prems by (simp add: dvd_imp_le)
    then have "d < n" using d(3) by simp
    note \<open>1 < d\<close> \<open>d < n\<close>
    with less.IH obtain p where "prime_nat p" "p dvd d" by blast
    with d(1) show ?thesis by (meson dvd_trans)
  qed
qed

lemma small_prime_factor:
  assumes "1 < n" "\<not> prime_nat n"
  shows "\<exists>p. prime_nat p \<and> p dvd n \<and> p * p \<le> n"
proof -
  from assms obtain d where d: "d dvd n" "d \<noteq> 1" "d \<noteq> n"
    by (auto simp: prime_nat_def)
  then obtain e where e: "n = d * e" by (auto simp: dvd_def)
  have d1: "1 < d" using d assms(1) e by (cases d; cases "d - 1") auto
  have e1: "1 < e" using d assms(1) e by (cases e; cases "e - 1") auto
  define m where "m = min d e"
  have m1: "1 < m" using d1 e1 by (simp add: m_def)
  have mm: "m * m \<le> n" unfolding e m_def by (simp add: min_def mult_le_mono)
  have mn: "m dvd n" unfolding e m_def by (simp add: min_def)
  from prime_factor_exists[OF m1] obtain p where p: "prime_nat p" "p dvd m" by blast
  have "p \<le> m" using p(2) m1 by (simp add: dvd_imp_le)
  then have "p * p \<le> m * m" by (simp add: mult_le_mono)
  with mm p mn show ?thesis by (meson dvd_trans le_trans)
qed

lemma prime_dvd_choose:
  assumes "prime_nat p" "0 < k" "k < p"
  shows "p dvd (p choose k)"
proof -
  have "k * (p choose k) = p * ((p - 1) choose (k - 1))"
    using assms(2) by (rule times_binomial_minus1_eq)
  then have "p dvd k * (p choose k)" by simp
  then have "p dvd k \<or> p dvd (p choose k)" using assms(1) by (rule prime_nat_dvd_mult[rotated])
  moreover have "\<not> p dvd k" using assms(2,3) by (simp add: nat_dvd_not_less)
  ultimately show ?thesis by simp
qed

lemma fermat_aux:
  assumes "prime_nat p"
  shows "((a::nat) + 1) ^ p mod p = (a ^ p + 1) mod p"
proof -
  have p1: "1 < p" using assms by (simp add: prime_nat_def)
  have "(a + 1) ^ p = (\<Sum>k\<le>p. (p choose k) * a ^ k)"
    using binomial[of a 1 p] by simp
  also have "{..p} = insert 0 (insert p {1..<p})" using p1 by auto
  also have "(\<Sum>k\<in>insert 0 (insert p {1..<p}). (p choose k) * a ^ k)
      = 1 + (a ^ p + (\<Sum>k\<in>{1..<p}. (p choose k) * a ^ k))"
    using p1 by simp
  finally have eq: "(a + 1) ^ p = (a ^ p + 1) + (\<Sum>k\<in>{1..<p}. (p choose k) * a ^ k)"
    by simp
  have "p dvd (\<Sum>k\<in>{1..<p}. (p choose k) * a ^ k)"
    by (rule dvd_sum) (auto intro!: dvd_mult2 prime_dvd_choose[OF assms])
  then obtain M where "(\<Sum>k\<in>{1..<p}. (p choose k) * a ^ k) = p * M" by (auto simp: dvd_def)
  then show ?thesis unfolding eq by simp
qed

lemma fermat: "prime_nat p \<Longrightarrow> (a::nat) ^ p mod p = a mod p"
proof (induction a)
  case 0
  then show ?case by (simp add: prime_nat_def power_0_left)
next
  case (Suc a)
  have "(Suc a) ^ p mod p = (a ^ p + 1) mod p"
    using fermat_aux[OF Suc.prems, of a] by simp
  also have "\<dots> = (a ^ p mod p + 1) mod p" by (metis mod_add_left_eq)
  also have "\<dots> = (a mod p + 1) mod p" using Suc by simp
  also have "\<dots> = (a + 1) mod p" by (metis mod_add_left_eq)
  also have "\<dots> = Suc a mod p" by simp
  finally show ?case .
qed

lemma fermat_little:
  assumes "prime_nat p" "\<not> p dvd a"
  shows "(a::nat) ^ (p - 1) mod p = 1"
proof -
  have p1: "1 < p" using assms by (simp add: prime_nat_def)
  have a0: "0 < a" using assms(2) by (cases a) auto
  have "a ^ p mod p = a mod p" using assms(1) by (rule fermat)
  moreover have "a \<le> a ^ p" using a0 p1 by (simp add: self_le_power)
  ultimately have "p dvd a ^ p - a" by (simp add: mod_eq_dvd_iff_nat)
  moreover have "a ^ p - a = a * (a ^ (p - 1) - 1)"
    using p1 by (cases p) (auto simp: algebra_simps)
  ultimately have "p dvd a * (a ^ (p - 1) - 1)" by simp
  then have "p dvd a ^ (p - 1) - 1" using prime_nat_dvd_mult[OF assms(1)] assms(2) by blast
  moreover have "1 \<le> a ^ (p - 1)" using a0 by simp
  ultimately have "a ^ (p - 1) mod p = 1 mod p"
    using mod_eq_dvd_iff_nat[of 1 "a ^ (p - 1)" p] by blast
  then show ?thesis using p1 by simp
qed

lemma pow_mod_one_mod:
  assumes "(a::nat) ^ m mod r = 1" "a ^ n mod r = 1"
  shows "a ^ (m mod n) mod r = 1"
proof -
  have "a ^ m = (a ^ n) ^ (m div n) * a ^ (m mod n)"
    by (metis power_add power_mult mult.commute div_mult_mod_eq)
  then have "a ^ m mod r = ((a ^ n) ^ (m div n) mod r) * (a ^ (m mod n) mod r) mod r"
    by (simp add: mod_mult_eq)
  moreover have "(a ^ n) ^ (m div n) mod r = (a ^ n mod r) ^ (m div n) mod r"
    by (simp add: power_mod)
  ultimately have "1 = (1 mod r) * (a ^ (m mod n) mod r) mod r"
    using assms by simp
  also have "\<dots> = a ^ (m mod n) mod r"
    by (simp add: mod_mult_left_eq)
  finally show ?thesis by simp
qed

lemma pow_gcd:
  "(a::nat) ^ m mod r = 1 \<Longrightarrow> a ^ n mod r = 1 \<Longrightarrow> a ^ (gcd m n) mod r = 1"
proof (induction m n rule: gcd_nat_induct)
  case (step m n)
  have "a ^ (m mod n) mod r = 1" using step.prems by (rule pow_mod_one_mod)
  with step.prems(2) have "a ^ gcd n (m mod n) mod r = 1" by (rule step.IH)
  then show ?case by (simp add: gcd_red_nat[of m n])
qed simp

lemma coprime_cert:
  assumes "u * x = n * v + (1::nat)"
  shows "coprime x n"
proof (rule coprimeI)
  fix d assume d: "d dvd x" "d dvd n"
  then have "d dvd u * x" "d dvd n * v" by simp_all
  then have "d dvd 1" using assms by (metis dvd_add_right_iff)
  then show "is_unit d" by simp
qed

lemma pock_divisor:
  assumes q: "prime_nat q" and r: "prime_nat r" "r dvd n"
    and n: "n = q * m + 1" and an: "a ^ (q * m) mod n = 1"
    and c: "a ^ m mod n = c" and cop: "coprime (c - 1) n"
  shows "q dvd r - 1"
proof -
  have r1: "1 < r" using r(1) by (simp add: prime_nat_def)
  define b where "b = a ^ m"
  have bq: "b ^ q mod r = 1"
  proof -
    have "b ^ q = a ^ (q * m)" by (simp add: b_def power_mult mult.commute)
    then have "b ^ q mod r = a ^ (q * m) mod n mod r" using r(2) by (simp add: mod_mod_cancel)
    then show ?thesis using an r1 by simp
  qed
  have b1: "b mod r \<noteq> 1"
  proof
    assume "b mod r = 1"
    then have "c mod r = 1" using c r(2) by (auto simp: b_def mod_mod_cancel)
    then have "c mod r = 1 mod r" using r1 by simp
    moreover have "1 \<le> c" using \<open>c mod r = 1\<close> by (cases c) auto
    ultimately have "r dvd c - 1" using mod_eq_dvd_iff_nat[of 1 c r] by blast
    with r(2) cop have "is_unit r" by (meson coprime_common_divisor)
    then show False using r1 by simp
  qed
  have nd: "\<not> r dvd b"
  proof
    assume "r dvd b"
    moreover have "0 < q" using q by (simp add: prime_nat_def)
    ultimately have "r dvd b ^ q" by (metis dvd_power dvd_trans)
    then show False using bq by (simp add: dvd_eq_mod_eq_0)
  qed
  have "b ^ (r - 1) mod r = 1" using r(1) nd by (rule fermat_little)
  with bq have g: "b ^ gcd q (r - 1) mod r = 1" by (rule pow_gcd)
  have "gcd q (r - 1) dvd q" by simp
  then have "gcd q (r - 1) = 1 \<or> gcd q (r - 1) = q" using q by (simp add: prime_nat_def)
  moreover have "gcd q (r - 1) \<noteq> 1" using g b1 by auto
  ultimately have "gcd q (r - 1) = q" by simp
  then show ?thesis by (metis gcd_dvd2)
qed

theorem pocklington1:
  assumes q: "prime_nat q" and e: "e = q * m" and n: "n = e + 1" and an: "a ^ e mod n = 1"
    and c: "a ^ m mod n = c" and c': "c = c' + 1" and cert: "u * c' = n * v + 1"
    and sz: "n \<le> q * q"
  shows "prime_nat n"
proof (rule ccontr)
  assume np: "\<not> prime_nat n"
  have n1: "1 < n"
  proof (rule ccontr)
    assume "\<not> 1 < n"
    with n have "n = 1" by simp
    with an show False by simp
  qed
  from small_prime_factor[OF n1 np] obtain r where r: "prime_nat r" "r dvd n" "r * r \<le> n"
    by blast
  have cop: "coprime (c - 1) n" using coprime_cert[OF cert] c' by simp
  have "q dvd r - 1"
    using q r(1,2) n[unfolded e] an[unfolded e] c cop by (rule pock_divisor)
  moreover have "0 < r - 1" using r(1) by (simp add: prime_nat_def)
  ultimately have "q \<le> r - 1" by (simp add: dvd_imp_le)
  then have "q < r" using \<open>0 < r - 1\<close> by simp
  then have "q * q < r * r" by (simp add: mult_strict_mono)
  with r(3) sz show False by simp
qed

theorem pocklington2:
  assumes q1: "prime_nat q1" and q2: "prime_nat q2" and ne: "q1 \<noteq> q2"
    and e1: "e = q1 * m1" and e2: "e = q2 * m2" and n: "n = e + 1"
    and an1: "a1 ^ e mod n = 1" and c1: "a1 ^ m1 mod n = c1"
    and c1': "c1 = c1' + 1" and cert1: "u1 * c1' = n * v1 + 1"
    and an2: "a2 ^ e mod n = 1" and c2: "a2 ^ m2 mod n = c2"
    and c2': "c2 = c2' + 1" and cert2: "u2 * c2' = n * v2 + 1"
    and sz: "n \<le> (q1 * q2) * (q1 * q2)"
  shows "prime_nat n"
proof (rule ccontr)
  assume np: "\<not> prime_nat n"
  have n_gt: "1 < n"
  proof (rule ccontr)
    assume "\<not> 1 < n"
    with n have "n = 1" by simp
    with an1 show False by simp
  qed
  from small_prime_factor[OF n_gt np] obtain r where r: "prime_nat r" "r dvd n" "r * r \<le> n"
    by blast
  have cop1: "coprime (c1 - 1) n" using coprime_cert[OF cert1] c1' by simp
  have cop2: "coprime (c2 - 1) n" using coprime_cert[OF cert2] c2' by simp
  have d1: "q1 dvd r - 1"
    using q1 r(1,2) n[unfolded e1] an1[unfolded e1] c1 cop1 by (rule pock_divisor)
  have d2: "q2 dvd r - 1"
    using q2 r(1,2) n[unfolded e2] an2[unfolded e2] c2 cop2 by (rule pock_divisor)
  have "\<not> q1 dvd q2" using q1 q2 ne by (auto simp: prime_nat_def)
  then have "coprime q1 q2" using q1 by (rule prime_nat_coprime[rotated])
  then have "q1 * q2 dvd r - 1" using d1 d2 by (simp add: divides_mult)
  moreover have "0 < r - 1" using r(1) by (simp add: prime_nat_def)
  ultimately have "q1 * q2 \<le> r - 1" by (simp add: dvd_imp_le)
  then have "q1 * q2 < r" using \<open>0 < r - 1\<close> by simp
  then have "(q1 * q2) * (q1 * q2) < r * r" by (simp add: mult_strict_mono)
  with r(3) sz show False by simp
qed

lemma prime_trial:
  assumes "1 < n" "list_all (\<lambda>d. n mod d \<noteq> 0) [2..<Suc k]" "n < Suc k * Suc k"
  shows "prime_nat n"
proof (rule ccontr)
  assume "\<not> prime_nat n"
  from small_prime_factor[OF assms(1) this] obtain p where
    p: "prime_nat p" "p dvd n" "p * p \<le> n" by blast
  have "p < Suc k"
  proof (rule ccontr)
    assume "\<not> p < Suc k"
    then have "Suc k \<le> p" by simp
    then have "Suc k * Suc k \<le> p * p" by (rule mult_le_mono) (rule \<open>Suc k \<le> p\<close>)
    with p(3) assms(3) show False by simp
  qed
  moreover have "2 \<le> p" using p(1) by (simp add: prime_nat_def)
  ultimately have "p \<in> set [2..<Suc k]" by auto
  with assms(2) have "n mod p \<noteq> 0" unfolding list_all_iff by blast
  with p(2) show False by (simp add: dvd_eq_mod_eq_0)
qed

lemma pw_sq0:
  assumes "(a::nat) ^ numeral k mod n = x" "x * x = n * q + r" "r < n"
  shows "a ^ numeral (Num.Bit0 k) mod n = r"
proof -
  have "a ^ numeral (Num.Bit0 k) = a ^ numeral k * a ^ numeral k"
    by (simp add: power_numeral_even Let_def)
  then have "a ^ numeral (Num.Bit0 k) mod n = (x * x) mod n"
    using assms(1) by (metis mod_mult_eq)
  then show ?thesis using assms(2,3) by simp
qed

lemma pw_sq1:
  assumes "(a::nat) ^ numeral k mod n = x" "x * x * a = n * q + r" "r < n"
  shows "a ^ numeral (Num.Bit1 k) mod n = r"
proof -
  have "a ^ numeral (Num.Bit1 k) = a ^ numeral k * a ^ numeral k * a"
    by (simp add: power_numeral_odd Let_def mult.commute mult.left_commute)
  then have "a ^ numeral (Num.Bit1 k) mod n = (x * x * a) mod n"
    using assms(1) by (metis mod_mult_eq mod_mult_left_eq)
  then show ?thesis using assms(2,3) by simp
qed

lemma pw_init0:
  assumes "a * a = n * q + r" "r < n"
  shows "(a::nat) ^ 2 mod n = r"
  using assms by (simp add: power2_eq_square)

lemma pw_init1:
  assumes "a * a * a = n * q + r" "r < n"
  shows "(a::nat) ^ 3 mod n = r"
  using assms by (simp add: power3_eq_cube)


subsection \<open>The certificate chain for the group order\<close>

text \<open>
  Each lemma below is one step of a square-and-multiply computation
  \<open>a ^ e mod n\<close>, given with its quotient so that the kernel only multiplies and adds.
  The chain runs from the small primes up to the group order.
\<close>

lemma prime_q9: "prime_nat 3797"
  by (rule prime_trial[where k = 61]; simp)

lemma prime_q8: "prime_nat 2551"
  by (rule prime_trial[where k = 50]; simp)

lemma q7_a0_1: "(2::nat) ^ 2 mod 531581 = 4"
  by (rule pw_init0[where q = "0"]; simp only: semiring_norm)

lemma q7_a0_2: "(2::nat) ^ 4 mod 531581 = 16"
  by (rule pw_sq0[where q = "0", OF q7_a0_1]; simp only: semiring_norm)

lemma q7_a0_3: "(2::nat) ^ 8 mod 531581 = 256"
  by (rule pw_sq0[where q = "0", OF q7_a0_2]; simp only: semiring_norm)

lemma q7_a0_4: "(2::nat) ^ 17 mod 531581 = 131072"
  by (rule pw_sq1[where q = "0", OF q7_a0_3]; simp only: semiring_norm)

lemma q7_a0_5: "(2::nat) ^ 35 mod 531581 = 468852"
  by (rule pw_sq1[where q = "64636", OF q7_a0_4]; simp only: semiring_norm)

lemma q7_a0_6: "(2::nat) ^ 70 mod 531581 = 164879"
  by (rule pw_sq0[where q = "413525", OF q7_a0_5]; simp only: semiring_norm)

lemma q7_a0_7: "(2::nat) ^ 140 mod 531581 = 32301"
  by (rule pw_sq0[where q = "51140", OF q7_a0_6]; simp only: semiring_norm)

lemma q7_b0_1: "(2::nat) ^ 2 mod 531581 = 4"
  by (rule pw_init0[where q = "0"]; simp only: semiring_norm)

lemma q7_b0_2: "(2::nat) ^ 4 mod 531581 = 16"
  by (rule pw_sq0[where q = "0", OF q7_b0_1]; simp only: semiring_norm)

lemma q7_b0_3: "(2::nat) ^ 8 mod 531581 = 256"
  by (rule pw_sq0[where q = "0", OF q7_b0_2]; simp only: semiring_norm)

lemma q7_b0_4: "(2::nat) ^ 16 mod 531581 = 65536"
  by (rule pw_sq0[where q = "0", OF q7_b0_3]; simp only: semiring_norm)

lemma q7_b0_5: "(2::nat) ^ 32 mod 531581 = 324397"
  by (rule pw_sq0[where q = "8079", OF q7_b0_4]; simp only: semiring_norm)

lemma q7_b0_6: "(2::nat) ^ 64 mod 531581 = 44106"
  by (rule pw_sq0[where q = "197963", OF q7_b0_5]; simp only: semiring_norm)

lemma q7_b0_7: "(2::nat) ^ 129 mod 531581 = 37133"
  by (rule pw_sq1[where q = "7319", OF q7_b0_6]; simp only: semiring_norm)

lemma q7_b0_8: "(2::nat) ^ 259 mod 531581 = 408731"
  by (rule pw_sq1[where q = "5187", OF q7_b0_7]; simp only: semiring_norm)

lemma q7_b0_9: "(2::nat) ^ 519 mod 531581 = 12658"
  by (rule pw_sq1[where q = "628544", OF q7_b0_8]; simp only: semiring_norm)

lemma q7_b0_10: "(2::nat) ^ 1038 mod 531581 = 219083"
  by (rule pw_sq0[where q = "301", OF q7_b0_9]; simp only: semiring_norm)

lemma q7_b0_11: "(2::nat) ^ 2076 mod 531581 = 380818"
  by (rule pw_sq0[where q = "90291", OF q7_b0_10]; simp only: semiring_norm)

lemma q7_b0_12: "(2::nat) ^ 4152 mod 531581 = 141771"
  by (rule pw_sq0[where q = "272813", OF q7_b0_11]; simp only: semiring_norm)

lemma q7_b0_13: "(2::nat) ^ 8305 mod 531581 = 409243"
  by (rule pw_sq1[where q = "75619", OF q7_b0_12]; simp only: semiring_norm)

lemma q7_b0_14: "(2::nat) ^ 16611 mod 531581 = 377959"
  by (rule pw_sq1[where q = "630119", OF q7_b0_13]; simp only: semiring_norm)

lemma q7_b0_15: "(2::nat) ^ 33223 mod 531581 = 360778"
  by (rule pw_sq1[where q = "537464", OF q7_b0_14]; simp only: semiring_norm)

lemma q7_b0_16: "(2::nat) ^ 66447 mod 531581 = 467477"
  by (rule pw_sq1[where q = "489711", OF q7_b0_15]; simp only: semiring_norm)

lemma q7_b0_17: "(2::nat) ^ 132895 mod 531581 = 403372"
  by (rule pw_sq1[where q = "822206", OF q7_b0_16]; simp only: semiring_norm)

lemma q7_b0_18: "(2::nat) ^ 265790 mod 531581 = 531580"
  by (rule pw_sq0[where q = "306084", OF q7_b0_17]; simp only: semiring_norm)

lemma q7_b0_19: "(2::nat) ^ 531580 mod 531581 = 1"
  by (rule pw_sq0[where q = "531579", OF q7_b0_18]; simp only: semiring_norm)

lemma prime_q7: "prime_nat 531581"
  by (rule pocklington1[where q = "3797" and m = "140" and e = "531580" and a = "2"
        and c = "32301" and c' = "32300" and u = "50673" and v = "3079",
        OF prime_q9 _ _ q7_b0_19 q7_a0_7]; simp only: semiring_norm not_False_eq_True)

lemma q6_a0_1: "(2::nat) ^ 3 mod 1224481 = 8"
  by (rule pw_init1[where q = "0"]; simp only: semiring_norm)

lemma q6_a0_2: "(2::nat) ^ 7 mod 1224481 = 128"
  by (rule pw_sq1[where q = "0", OF q6_a0_1]; simp only: semiring_norm)

lemma q6_a0_3: "(2::nat) ^ 15 mod 1224481 = 32768"
  by (rule pw_sq1[where q = "0", OF q6_a0_2]; simp only: semiring_norm)

lemma q6_a0_4: "(2::nat) ^ 30 mod 1224481 = 1096468"
  by (rule pw_sq0[where q = "876", OF q6_a0_3]; simp only: semiring_norm)

lemma q6_a0_5: "(2::nat) ^ 60 mod 1224481 = 98946"
  by (rule pw_sq0[where q = "981838", OF q6_a0_4]; simp only: semiring_norm)

lemma q6_a0_6: "(2::nat) ^ 120 mod 1224481 = 585321"
  by (rule pw_sq0[where q = "7995", OF q6_a0_5]; simp only: semiring_norm)

lemma q6_a0_7: "(2::nat) ^ 240 mod 1224481 = 685089"
  by (rule pw_sq0[where q = "279792", OF q6_a0_6]; simp only: semiring_norm)

lemma q6_a0_8: "(2::nat) ^ 480 mod 1224481 = 921659"
  by (rule pw_sq0[where q = "383302", OF q6_a0_7]; simp only: semiring_norm)

lemma q6_b0_1: "(2::nat) ^ 2 mod 1224481 = 4"
  by (rule pw_init0[where q = "0"]; simp only: semiring_norm)

lemma q6_b0_2: "(2::nat) ^ 4 mod 1224481 = 16"
  by (rule pw_sq0[where q = "0", OF q6_b0_1]; simp only: semiring_norm)

lemma q6_b0_3: "(2::nat) ^ 9 mod 1224481 = 512"
  by (rule pw_sq1[where q = "0", OF q6_b0_2]; simp only: semiring_norm)

lemma q6_b0_4: "(2::nat) ^ 18 mod 1224481 = 262144"
  by (rule pw_sq0[where q = "0", OF q6_b0_3]; simp only: semiring_norm)

lemma q6_b0_5: "(2::nat) ^ 37 mod 1224481 = 757070"
  by (rule pw_sq1[where q = "112242", OF q6_b0_4]; simp only: semiring_norm)

lemma q6_b0_6: "(2::nat) ^ 74 mod 1224481 = 1142901"
  by (rule pw_sq0[where q = "468079", OF q6_b0_5]; simp only: semiring_norm)

lemma q6_b0_7: "(2::nat) ^ 149 mod 1224481 = 484330"
  by (rule pw_sq1[where q = "2133512", OF q6_b0_6]; simp only: semiring_norm)

lemma q6_b0_8: "(2::nat) ^ 298 mod 1224481 = 499249"
  by (rule pw_sq0[where q = "191571", OF q6_b0_7]; simp only: semiring_norm)

lemma q6_b0_9: "(2::nat) ^ 597 mod 1224481 = 668092"
  by (rule pw_sq1[where q = "407110", OF q6_b0_8]; simp only: semiring_norm)

lemma q6_b0_10: "(2::nat) ^ 1195 mod 1224481 = 661650"
  by (rule pw_sq1[where q = "729038", OF q6_b0_9]; simp only: semiring_norm)

lemma q6_b0_11: "(2::nat) ^ 2391 mod 1224481 = 1203874"
  by (rule pw_sq1[where q = "715046", OF q6_b0_10]; simp only: semiring_norm)

lemma q6_b0_12: "(2::nat) ^ 4783 mod 1224481 = 731565"
  by (rule pw_sq1[where q = "2367227", OF q6_b0_11]; simp only: semiring_norm)

lemma q6_b0_13: "(2::nat) ^ 9566 mod 1224481 = 989593"
  by (rule pw_sq0[where q = "437072", OF q6_b0_12]; simp only: semiring_norm)

lemma q6_b0_14: "(2::nat) ^ 19132 mod 1224481 = 932127"
  by (rule pw_sq0[where q = "799762", OF q6_b0_13]; simp only: semiring_norm)

lemma q6_b0_15: "(2::nat) ^ 38265 mod 1224481 = 501589"
  by (rule pw_sq1[where q = "1419149", OF q6_b0_14]; simp only: semiring_norm)

lemma q6_b0_16: "(2::nat) ^ 76530 mod 1224481 = 1087294"
  by (rule pw_sq0[where q = "205467", OF q6_b0_15]; simp only: semiring_norm)

lemma q6_b0_17: "(2::nat) ^ 153060 mod 1224481 = 1224480"
  by (rule pw_sq0[where q = "965476", OF q6_b0_16]; simp only: semiring_norm)

lemma q6_b0_18: "(2::nat) ^ 306120 mod 1224481 = 1"
  by (rule pw_sq0[where q = "1224479", OF q6_b0_17]; simp only: semiring_norm)

lemma q6_b0_19: "(2::nat) ^ 612240 mod 1224481 = 1"
  by (rule pw_sq0[where q = "0", OF q6_b0_18]; simp only: semiring_norm)

lemma q6_b0_20: "(2::nat) ^ 1224480 mod 1224481 = 1"
  by (rule pw_sq0[where q = "0", OF q6_b0_19]; simp only: semiring_norm)

lemma prime_q6: "prime_nat 1224481"
  by (rule pocklington1[where q = "2551" and m = "480" and e = "1224480" and a = "2"
        and c = "921659" and c' = "921658" and u = "1100631" and v = "828437",
        OF prime_q8 _ _ q6_b0_20 q6_a0_8]; simp only: semiring_norm not_False_eq_True)

lemma q5_a0_1: "(2::nat) ^ 3 mod 1257559732178653 = 8"
  by (rule pw_init1[where q = "0"]; simp only: semiring_norm)

lemma q5_a0_2: "(2::nat) ^ 7 mod 1257559732178653 = 128"
  by (rule pw_sq1[where q = "0", OF q5_a0_1]; simp only: semiring_norm)

lemma q5_a0_3: "(2::nat) ^ 15 mod 1257559732178653 = 32768"
  by (rule pw_sq1[where q = "0", OF q5_a0_2]; simp only: semiring_norm)

lemma q5_a0_4: "(2::nat) ^ 30 mod 1257559732178653 = 1073741824"
  by (rule pw_sq0[where q = "0", OF q5_a0_3]; simp only: semiring_norm)

lemma q5_a0_5: "(2::nat) ^ 61 mod 1257559732178653 = 736020130223003"
  by (rule pw_sq1[where q = "1833", OF q5_a0_4]; simp only: semiring_norm)

lemma q5_a0_6: "(2::nat) ^ 122 mod 1257559732178653 = 576012532405335"
  by (rule pw_sq0[where q = "430775269143658", OF q5_a0_5]; simp only: semiring_norm)

lemma q5_a0_7: "(2::nat) ^ 244 mod 1257559732178653 = 769983143964867"
  by (rule pw_sq0[where q = "263836722024486", OF q5_a0_6]; simp only: semiring_norm)

lemma q5_a0_8: "(2::nat) ^ 489 mod 1257559732178653 = 337464441580843"
  by (rule pw_sq1[where q = "942896033992595", OF q5_a0_7]; simp only: semiring_norm)

lemma q5_a0_9: "(2::nat) ^ 979 mod 1257559732178653 = 285572012690516"
  by (rule pw_sq1[where q = "181116246675894", OF q5_a0_8]; simp only: semiring_norm)

lemma q5_a0_10: "(2::nat) ^ 1958 mod 1257559732178653 = 345654423429051"
  by (rule pw_sq0[where q = "64848907248985", OF q5_a0_9]; simp only: semiring_norm)

lemma q5_a0_11: "(2::nat) ^ 3917 mod 1257559732178653 = 437227538966574"
  by (rule pw_sq1[where q = "190014004709076", OF q5_a0_10]; simp only: semiring_norm)

lemma q5_a0_12: "(2::nat) ^ 7835 mod 1257559732178653 = 435954988051321"
  by (rule pw_sq1[where q = "304029965240027", OF q5_a0_11]; simp only: semiring_norm)

lemma q5_a0_13: "(2::nat) ^ 15670 mod 1257559732178653 = 1228761888558648"
  by (rule pw_sq0[where q = "151131391013581", OF q5_a0_12]; simp only: semiring_norm)

lemma q5_a0_14: "(2::nat) ^ 31341 mod 1257559732178653 = 575866011428626"
  by (rule pw_sq1[where q = "2401247018554694", OF q5_a0_13]; simp only: semiring_norm)

lemma q5_a0_15: "(2::nat) ^ 62683 mod 1257559732178653 = 704972560008195"
  by (rule pw_sq1[where q = "527405028378569", OF q5_a0_14]; simp only: semiring_norm)

lemma q5_a0_16: "(2::nat) ^ 125367 mod 1257559732178653 = 383109490241314"
  by (rule pw_sq1[where q = "790397939195312", OF q5_a0_15]; simp only: semiring_norm)

lemma q5_a0_17: "(2::nat) ^ 250735 mod 1257559732178653 = 441172771460247"
  by (rule pw_sq1[where q = "233424906598565", OF q5_a0_16]; simp only: semiring_norm)

lemma q5_a0_18: "(2::nat) ^ 501471 mod 1257559732178653 = 661069035450220"
  by (rule pw_sq1[where q = "309541422641966", OF q5_a0_17]; simp only: semiring_norm)

lemma q5_a0_19: "(2::nat) ^ 1002943 mod 1257559732178653 = 790812897363870"
  by (rule pw_sq1[where q = "695016321608810", OF q5_a0_18]; simp only: semiring_norm)

lemma q5_a0_20: "(2::nat) ^ 2005887 mod 1257559732178653 = 550491089145226"
  by (rule pw_sq1[where q = "994600928503958", OF q5_a0_19]; simp only: semiring_norm)

lemma q5_a0_21: "(2::nat) ^ 4011775 mod 1257559732178653 = 405070757515962"
  by (rule pw_sq1[where q = "481949972592230", OF q5_a0_20]; simp only: semiring_norm)

lemma q5_a0_22: "(2::nat) ^ 8023550 mod 1257559732178653 = 162049868081184"
  by (rule pw_sq0[where q = "130476759390420", OF q5_a0_21]; simp only: semiring_norm)

lemma q5_a0_23: "(2::nat) ^ 16047101 mod 1257559732178653 = 459073045152463"
  by (rule pw_sq1[where q = "41763677816933", OF q5_a0_22]; simp only: semiring_norm)

lemma q5_a0_24: "(2::nat) ^ 32094202 mod 1257559732178653 = 266113543665070"
  by (rule pw_sq0[where q = "167584930872783", OF q5_a0_23]; simp only: semiring_norm)

lemma q5_a0_25: "(2::nat) ^ 64188405 mod 1257559732178653 = 727396395397650"
  by (rule pw_sq1[where q = "112625136301550", OF q5_a0_24]; simp only: semiring_norm)

lemma q5_a0_26: "(2::nat) ^ 128376811 mod 1257559732178653 = 455322723579036"
  by (rule pw_sq1[where q = "841479736506588", OF q5_a0_25]; simp only: semiring_norm)

lemma q5_a0_27: "(2::nat) ^ 256753623 mod 1257559732178653 = 227252455921440"
  by (rule pw_sq1[where q = "329716000445184", OF q5_a0_26]; simp only: semiring_norm)

lemma q5_a0_28: "(2::nat) ^ 513507246 mod 1257559732178653 = 882974972131776"
  by (rule pw_sq0[where q = "41066581094208", OF q5_a0_27]; simp only: semiring_norm)

lemma q5_a0_29: "(2::nat) ^ 1027014492 mod 1257559732178653 = 1252739704402215"
  by (rule pw_sq0[where q = "619966417070637", OF q5_a0_28]; simp only: semiring_norm)

lemma q5_b0_1: "(2::nat) ^ 2 mod 1257559732178653 = 4"
  by (rule pw_init0[where q = "0"]; simp only: semiring_norm)

lemma q5_b0_2: "(2::nat) ^ 4 mod 1257559732178653 = 16"
  by (rule pw_sq0[where q = "0", OF q5_b0_1]; simp only: semiring_norm)

lemma q5_b0_3: "(2::nat) ^ 8 mod 1257559732178653 = 256"
  by (rule pw_sq0[where q = "0", OF q5_b0_2]; simp only: semiring_norm)

lemma q5_b0_4: "(2::nat) ^ 17 mod 1257559732178653 = 131072"
  by (rule pw_sq1[where q = "0", OF q5_b0_3]; simp only: semiring_norm)

lemma q5_b0_5: "(2::nat) ^ 35 mod 1257559732178653 = 34359738368"
  by (rule pw_sq1[where q = "0", OF q5_b0_4]; simp only: semiring_norm)

lemma q5_b0_6: "(2::nat) ^ 71 mod 1257559732178653 = 406333773341925"
  by (rule pw_sq1[where q = "1877591", OF q5_b0_5]; simp only: semiring_norm)

lemma q5_b0_7: "(2::nat) ^ 142 mod 1257559732178653 = 810971103482243"
  by (rule pw_sq0[where q = "131291684310094", OF q5_b0_6]; simp only: semiring_norm)

lemma q5_b0_8: "(2::nat) ^ 285 mod 1257559732178653 = 343016581960687"
  by (rule pw_sq1[where q = "1045952909996287", OF q5_b0_7]; simp only: semiring_norm)

lemma q5_b0_9: "(2::nat) ^ 571 mod 1257559732178653 = 316385652375154"
  by (rule pw_sq1[where q = "187124909440528", OF q5_b0_8]; simp only: semiring_norm)

lemma q5_b0_10: "(2::nat) ^ 1143 mod 1257559732178653 = 436452084341425"
  by (rule pw_sq1[where q = "159197020177219", OF q5_b0_9]; simp only: semiring_norm)

lemma q5_b0_11: "(2::nat) ^ 2287 mod 1257559732178653 = 1044152964908383"
  by (rule pw_sq1[where q = "302952483371839", OF q5_b0_10]; simp only: semiring_norm)

lemma q5_b0_12: "(2::nat) ^ 4574 mod 1257559732178653 = 124450553631443"
  by (rule pw_sq0[where q = "866961136102982", OF q5_b0_11]; simp only: semiring_norm)

lemma q5_b0_13: "(2::nat) ^ 9149 mod 1257559732178653 = 238080585396871"
  by (rule pw_sq1[where q = "24631737010759", OF q5_b0_12]; simp only: semiring_norm)

lemma q5_b0_14: "(2::nat) ^ 18299 mod 1257559732178653 = 1010035389369752"
  by (rule pw_sq1[where q = "90146596925010", OF q5_b0_13]; simp only: semiring_norm)

lemma q5_b0_15: "(2::nat) ^ 36599 mod 1257559732178653 = 772377047249167"
  by (rule pw_sq1[where q = "1622462077426597", OF q5_b0_14]; simp only: semiring_norm)

lemma q5_b0_16: "(2::nat) ^ 73199 mod 1257559732178653 = 896949118933614"
  by (rule pw_sq1[where q = "948768138565988", OF q5_b0_15]; simp only: semiring_norm)

lemma q5_b0_17: "(2::nat) ^ 146399 mod 1257559732178653 = 385408349372773"
  by (rule pw_sq1[where q = "1279490272103423", OF q5_b0_16]; simp only: semiring_norm)

lemma q5_b0_18: "(2::nat) ^ 292798 mod 1257559732178653 = 1073163971669088"
  by (rule pw_sq0[where q = "118117328318797", OF q5_b0_17]; simp only: semiring_norm)

lemma q5_b0_19: "(2::nat) ^ 585596 mod 1257559732178653 = 162104577725480"
  by (rule pw_sq0[where q = "915806128821688", OF q5_b0_18]; simp only: semiring_norm)

lemma q5_b0_20: "(2::nat) ^ 1171193 mod 1257559732178653 = 831897420388006"
  by (rule pw_sq1[where q = "41791882241698", OF q5_b0_19]; simp only: semiring_norm)

lemma q5_b0_21: "(2::nat) ^ 2342387 mod 1257559732178653 = 1183125738345074"
  by (rule pw_sq1[where q = "1100628940860366", OF q5_b0_20]; simp only: semiring_norm)

lemma q5_b0_22: "(2::nat) ^ 4684775 mod 1257559732178653 = 121836698958353"
  by (rule pw_sq1[where q = "2226194870774883", OF q5_b0_21]; simp only: semiring_norm)

lemma q5_b0_23: "(2::nat) ^ 9369550 mod 1257559732178653 = 607762201312033"
  by (rule pw_sq0[where q = "11803957166592", OF q5_b0_22]; simp only: semiring_norm)

lemma q5_b0_24: "(2::nat) ^ 18739100 mod 1257559732178653 = 923389432588245"
  by (rule pw_sq0[where q = "293723537651548", OF q5_b0_23]; simp only: semiring_norm)

lemma q5_b0_25: "(2::nat) ^ 37478200 mod 1257559732178653 = 704546735069912"
  by (rule pw_sq0[where q = "678017928212821", OF q5_b0_24]; simp only: semiring_norm)

lemma q5_b0_26: "(2::nat) ^ 74956401 mod 1257559732178653 = 688692521154560"
  by (rule pw_sq1[where q = "789443378626176", OF q5_b0_25]; simp only: semiring_norm)

lemma q5_b0_27: "(2::nat) ^ 149912802 mod 1257559732178653 = 1092939976475754"
  by (rule pw_sq0[where q = "377156946551182", OF q5_b0_26]; simp only: semiring_norm)

lemma q5_b0_28: "(2::nat) ^ 299825604 mod 1257559732178653 = 584031472151214"
  by (rule pw_sq0[where q = "949869625762734", OF q5_b0_27]; simp only: semiring_norm)

lemma q5_b0_29: "(2::nat) ^ 599651208 mod 1257559732178653 = 536335552623627"
  by (rule pw_sq0[where q = "271233844194573", OF q5_b0_28]; simp only: semiring_norm)

lemma q5_b0_30: "(2::nat) ^ 1199302417 mod 1257559732178653 = 985374706761514"
  by (rule pw_sq1[where q = "457482563487848", OF q5_b0_29]; simp only: semiring_norm)

lemma q5_b0_31: "(2::nat) ^ 2398604835 mod 1257559732178653 = 163556461772814"
  by (rule pw_sq1[where q = "1544202295732226", OF q5_b0_30]; simp only: semiring_norm)

lemma q5_b0_32: "(2::nat) ^ 4797209671 mod 1257559732178653 = 997184236266287"
  by (rule pw_sq1[where q = "42543849811885", OF q5_b0_31]; simp only: semiring_norm)

lemma q5_b0_33: "(2::nat) ^ 9594419343 mod 1257559732178653 = 885260359937689"
  by (rule pw_sq1[where q = "1581438043241533", OF q5_b0_32]; simp only: semiring_norm)

lemma q5_b0_34: "(2::nat) ^ 19188838686 mod 1257559732178653 = 634480562610875"
  by (rule pw_sq0[where q = "623179865595182", OF q5_b0_33]; simp only: semiring_norm)

lemma q5_b0_35: "(2::nat) ^ 38377677373 mod 1257559732178653 = 635838939525691"
  by (rule pw_sq1[where q = "640232943263203", OF q5_b0_34]; simp only: semiring_norm)

lemma q5_b0_36: "(2::nat) ^ 76755354747 mod 1257559732178653 = 33673890760242"
  by (rule pw_sq1[where q = "642977262506240", OF q5_b0_35]; simp only: semiring_norm)

lemma q5_b0_37: "(2::nat) ^ 153510709494 mod 1257559732178653 = 111116119298737"
  by (rule pw_sq0[where q = "901691498159", OF q5_b0_36]; simp only: semiring_norm)

lemma q5_b0_38: "(2::nat) ^ 307021418988 mod 1257559732178653 = 244702116546201"
  by (rule pw_sq0[where q = "9818056074856", OF q5_b0_37]; simp only: semiring_norm)

lemma q5_b0_39: "(2::nat) ^ 614042837977 mod 1257559732178653 = 1203872579084186"
  by (rule pw_sq1[where q = "95230666679272", OF q5_b0_38]; simp only: semiring_norm)

lemma q5_b0_40: "(2::nat) ^ 1228085675955 mod 1257559732178653 = 367381875765280"
  by (rule pw_sq1[where q = "2304954825740104", OF q5_b0_39]; simp only: semiring_norm)

lemma q5_b0_41: "(2::nat) ^ 2456171351911 mod 1257559732178653 = 465507276069561"
  by (rule pw_sq1[where q = "214652933275763", OF q5_b0_40]; simp only: semiring_norm)

lemma q5_b0_42: "(2::nat) ^ 4912342703822 mod 1257559732178653 = 1025762079454394"
  by (rule pw_sq0[where q = "172315492082659", OF q5_b0_41]; simp only: semiring_norm)

lemma q5_b0_43: "(2::nat) ^ 9824685407645 mod 1257559732178653 = 100743262587807"
  by (rule pw_sq1[where q = "1673380304287805", OF q5_b0_42]; simp only: semiring_norm)

lemma q5_b0_44: "(2::nat) ^ 19649370815291 mod 1257559732178653 = 1091599576991494"
  by (rule pw_sq1[where q = "16141109956268", OF q5_b0_43]; simp only: semiring_norm)

lemma q5_b0_45: "(2::nat) ^ 39298741630582 mod 1257559732178653 = 1255322862601805"
  by (rule pw_sq0[where q = "947541183132227", OF q5_b0_44]; simp only: semiring_norm)

lemma q5_b0_46: "(2::nat) ^ 78597483261165 mod 1257559732178653 = 621565938685568"
  by (rule pw_sq1[where q = "2506179943660794", OF q5_b0_45]; simp only: semiring_norm)

lemma q5_b0_47: "(2::nat) ^ 157194966522331 mod 1257559732178653 = 832987396990104"
  by (rule pw_sq1[where q = "614434775936648", OF q5_b0_46]; simp only: semiring_norm)

lemma q5_b0_48: "(2::nat) ^ 314389933044663 mod 1257559732178653 = 408415061801554"
  by (rule pw_sq1[where q = "1103514983486726", OF q5_b0_47]; simp only: semiring_norm)

lemma q5_b0_49: "(2::nat) ^ 628779866089326 mod 1257559732178653 = 1257559732178652"
  by (rule pw_sq0[where q = "132640111191688", OF q5_b0_48]; simp only: semiring_norm)

lemma q5_b0_50: "(2::nat) ^ 1257559732178652 mod 1257559732178653 = 1"
  by (rule pw_sq0[where q = "1257559732178651", OF q5_b0_49]; simp only: semiring_norm)

lemma q5_a1_1: "(2::nat) ^ 2 mod 1257559732178653 = 4"
  by (rule pw_init0[where q = "0"]; simp only: semiring_norm)

lemma q5_a1_2: "(2::nat) ^ 4 mod 1257559732178653 = 16"
  by (rule pw_sq0[where q = "0", OF q5_a1_1]; simp only: semiring_norm)

lemma q5_a1_3: "(2::nat) ^ 8 mod 1257559732178653 = 256"
  by (rule pw_sq0[where q = "0", OF q5_a1_2]; simp only: semiring_norm)

lemma q5_a1_4: "(2::nat) ^ 17 mod 1257559732178653 = 131072"
  by (rule pw_sq1[where q = "0", OF q5_a1_3]; simp only: semiring_norm)

lemma q5_a1_5: "(2::nat) ^ 35 mod 1257559732178653 = 34359738368"
  by (rule pw_sq1[where q = "0", OF q5_a1_4]; simp only: semiring_norm)

lemma q5_a1_6: "(2::nat) ^ 70 mod 1257559732178653 = 831946752760289"
  by (rule pw_sq0[where q = "938795", OF q5_a1_5]; simp only: semiring_norm)

lemma q5_a1_7: "(2::nat) ^ 141 mod 1257559732178653 = 1034265417830448"
  by (rule pw_sq1[where q = "1100759481586298", OF q5_a1_6]; simp only: semiring_norm)

lemma q5_a1_8: "(2::nat) ^ 282 mod 1257559732178653 = 828851905356744"
  by (rule pw_sq0[where q = "850619598535320", OF q5_a1_7]; simp only: semiring_norm)

lemma q5_a1_9: "(2::nat) ^ 564 mod 1257559732178653 = 1004589674489045"
  by (rule pw_sq0[where q = "546292524668647", OF q5_a1_8]; simp only: semiring_norm)

lemma q5_a1_10: "(2::nat) ^ 1128 mod 1257559732178653 = 983518057514242"
  by (rule pw_sq0[where q = "802506941234211", OF q5_a1_9]; simp only: semiring_norm)

lemma q5_a1_11: "(2::nat) ^ 2256 mod 1257559732178653 = 191049562566899"
  by (rule pw_sq0[where q = "769194293284805", OF q5_a1_10]; simp only: semiring_norm)

lemma q5_a1_12: "(2::nat) ^ 4512 mod 1257559732178653 = 865881535542853"
  by (rule pw_sq0[where q = "29024414843316", OF q5_a1_11]; simp only: semiring_norm)

lemma q5_a1_13: "(2::nat) ^ 9024 mod 1257559732178653 = 303718770876872"
  by (rule pw_sq0[where q = "596195007210629", OF q5_a1_12]; simp only: semiring_norm)

lemma q5_a1_14: "(2::nat) ^ 18048 mod 1257559732178653 = 365581635939763"
  by (rule pw_sq0[where q = "73352453503857", OF q5_a1_13]; simp only: semiring_norm)

lemma q5_a1_15: "(2::nat) ^ 36097 mod 1257559732178653 = 1244459604607033"
  by (rule pw_sq1[where q = "212554408536685", OF q5_a1_14]; simp only: semiring_norm)

lemma q5_a1_16: "(2::nat) ^ 72195 mod 1257559732178653 = 309773509903941"
  by (rule pw_sq1[where q = "2462991884792129", OF q5_a1_15]; simp only: semiring_norm)

lemma q5_a1_17: "(2::nat) ^ 144390 mod 1257559732178653 = 65956866483123"
  by (rule pw_sq0[where q = "76306218291486", OF q5_a1_16]; simp only: semiring_norm)

lemma q5_a1_18: "(2::nat) ^ 288781 mod 1257559732178653 = 1150503519230740"
  by (rule pw_sq1[where q = "6918650661206", OF q5_a1_17]; simp only: semiring_norm)

lemma q5_a1_19: "(2::nat) ^ 577562 mod 1257559732178653 = 1105728802871775"
  by (rule pw_sq0[where q = "1052561014711525", OF q5_a1_18]; simp only: semiring_norm)

lemma q5_a1_20: "(2::nat) ^ 1155125 mod 1257559732178653 = 633230827293723"
  by (rule pw_sq1[where q = "1944458230039059", OF q5_a1_19]; simp only: semiring_norm)

lemma q5_a1_21: "(2::nat) ^ 2310251 mod 1257559732178653 = 866017303586522"
  by (rule pw_sq1[where q = "637713295638712", OF q5_a1_20]; simp only: semiring_norm)

lemma q5_a1_22: "(2::nat) ^ 4620502 mod 1257559732178653 = 634873743380875"
  by (rule pw_sq0[where q = "596381985619053", OF q5_a1_21]; simp only: semiring_norm)

lemma q5_a1_23: "(2::nat) ^ 9241005 mod 1257559732178653 = 24704258335377"
  by (rule pw_sq1[where q = "641026680038741", OF q5_a1_22]; simp only: semiring_norm)

lemma q5_a1_24: "(2::nat) ^ 18482010 mod 1257559732178653 = 79716087550755"
  by (rule pw_sq0[where q = "485305281558", OF q5_a1_23]; simp only: semiring_norm)

lemma q5_a1_25: "(2::nat) ^ 36964020 mod 1257559732178653 = 783499602899019"
  by (rule pw_sq0[where q = "5053163242902", OF q5_a1_24]; simp only: semiring_norm)

lemma q5_a1_26: "(2::nat) ^ 73928040 mod 1257559732178653 = 1037150469860731"
  by (rule pw_sq0[where q = "488145105186710", OF q5_a1_25]; simp only: semiring_norm)

lemma q5_a1_27: "(2::nat) ^ 147856080 mod 1257559732178653 = 1121547834025745"
  by (rule pw_sq0[where q = "855371772495272", OF q5_a1_26]; simp only: semiring_norm)

lemma q5_a1_28: "(2::nat) ^ 295712161 mod 1257559732178653 = 641376370687806"
  by (rule pw_sq1[where q = "2000492719067348", OF q5_a1_27]; simp only: semiring_norm)

lemma q5_a1_29: "(2::nat) ^ 591424323 mod 1257559732178653 = 514303799075821"
  by (rule pw_sq1[where q = "654225224218967", OF q5_a1_28]; simp only: semiring_norm)

lemma q5_a1_30: "(2::nat) ^ 1182848646 mod 1257559732178653 = 1069899211790632"
  by (rule pw_sq0[where q = "210334659241653", OF q5_a1_29]; simp only: semiring_norm)

lemma q5_a1_31: "(2::nat) ^ 2365697292 mod 1257559732178653 = 1139842034583224"
  by (rule pw_sq0[where q = "910242507055400", OF q5_a1_30]; simp only: semiring_norm)

lemma q5_b1_1: "(2::nat) ^ 2 mod 1257559732178653 = 4"
  by (rule pw_init0[where q = "0"]; simp only: semiring_norm)

lemma q5_b1_2: "(2::nat) ^ 4 mod 1257559732178653 = 16"
  by (rule pw_sq0[where q = "0", OF q5_b1_1]; simp only: semiring_norm)

lemma q5_b1_3: "(2::nat) ^ 8 mod 1257559732178653 = 256"
  by (rule pw_sq0[where q = "0", OF q5_b1_2]; simp only: semiring_norm)

lemma q5_b1_4: "(2::nat) ^ 17 mod 1257559732178653 = 131072"
  by (rule pw_sq1[where q = "0", OF q5_b1_3]; simp only: semiring_norm)

lemma q5_b1_5: "(2::nat) ^ 35 mod 1257559732178653 = 34359738368"
  by (rule pw_sq1[where q = "0", OF q5_b1_4]; simp only: semiring_norm)

lemma q5_b1_6: "(2::nat) ^ 71 mod 1257559732178653 = 406333773341925"
  by (rule pw_sq1[where q = "1877591", OF q5_b1_5]; simp only: semiring_norm)

lemma q5_b1_7: "(2::nat) ^ 142 mod 1257559732178653 = 810971103482243"
  by (rule pw_sq0[where q = "131291684310094", OF q5_b1_6]; simp only: semiring_norm)

lemma q5_b1_8: "(2::nat) ^ 285 mod 1257559732178653 = 343016581960687"
  by (rule pw_sq1[where q = "1045952909996287", OF q5_b1_7]; simp only: semiring_norm)

lemma q5_b1_9: "(2::nat) ^ 571 mod 1257559732178653 = 316385652375154"
  by (rule pw_sq1[where q = "187124909440528", OF q5_b1_8]; simp only: semiring_norm)

lemma q5_b1_10: "(2::nat) ^ 1143 mod 1257559732178653 = 436452084341425"
  by (rule pw_sq1[where q = "159197020177219", OF q5_b1_9]; simp only: semiring_norm)

lemma q5_b1_11: "(2::nat) ^ 2287 mod 1257559732178653 = 1044152964908383"
  by (rule pw_sq1[where q = "302952483371839", OF q5_b1_10]; simp only: semiring_norm)

lemma q5_b1_12: "(2::nat) ^ 4574 mod 1257559732178653 = 124450553631443"
  by (rule pw_sq0[where q = "866961136102982", OF q5_b1_11]; simp only: semiring_norm)

lemma q5_b1_13: "(2::nat) ^ 9149 mod 1257559732178653 = 238080585396871"
  by (rule pw_sq1[where q = "24631737010759", OF q5_b1_12]; simp only: semiring_norm)

lemma q5_b1_14: "(2::nat) ^ 18299 mod 1257559732178653 = 1010035389369752"
  by (rule pw_sq1[where q = "90146596925010", OF q5_b1_13]; simp only: semiring_norm)

lemma q5_b1_15: "(2::nat) ^ 36599 mod 1257559732178653 = 772377047249167"
  by (rule pw_sq1[where q = "1622462077426597", OF q5_b1_14]; simp only: semiring_norm)

lemma q5_b1_16: "(2::nat) ^ 73199 mod 1257559732178653 = 896949118933614"
  by (rule pw_sq1[where q = "948768138565988", OF q5_b1_15]; simp only: semiring_norm)

lemma q5_b1_17: "(2::nat) ^ 146399 mod 1257559732178653 = 385408349372773"
  by (rule pw_sq1[where q = "1279490272103423", OF q5_b1_16]; simp only: semiring_norm)

lemma q5_b1_18: "(2::nat) ^ 292798 mod 1257559732178653 = 1073163971669088"
  by (rule pw_sq0[where q = "118117328318797", OF q5_b1_17]; simp only: semiring_norm)

lemma q5_b1_19: "(2::nat) ^ 585596 mod 1257559732178653 = 162104577725480"
  by (rule pw_sq0[where q = "915806128821688", OF q5_b1_18]; simp only: semiring_norm)

lemma q5_b1_20: "(2::nat) ^ 1171193 mod 1257559732178653 = 831897420388006"
  by (rule pw_sq1[where q = "41791882241698", OF q5_b1_19]; simp only: semiring_norm)

lemma q5_b1_21: "(2::nat) ^ 2342387 mod 1257559732178653 = 1183125738345074"
  by (rule pw_sq1[where q = "1100628940860366", OF q5_b1_20]; simp only: semiring_norm)

lemma q5_b1_22: "(2::nat) ^ 4684775 mod 1257559732178653 = 121836698958353"
  by (rule pw_sq1[where q = "2226194870774883", OF q5_b1_21]; simp only: semiring_norm)

lemma q5_b1_23: "(2::nat) ^ 9369550 mod 1257559732178653 = 607762201312033"
  by (rule pw_sq0[where q = "11803957166592", OF q5_b1_22]; simp only: semiring_norm)

lemma q5_b1_24: "(2::nat) ^ 18739100 mod 1257559732178653 = 923389432588245"
  by (rule pw_sq0[where q = "293723537651548", OF q5_b1_23]; simp only: semiring_norm)

lemma q5_b1_25: "(2::nat) ^ 37478200 mod 1257559732178653 = 704546735069912"
  by (rule pw_sq0[where q = "678017928212821", OF q5_b1_24]; simp only: semiring_norm)

lemma q5_b1_26: "(2::nat) ^ 74956401 mod 1257559732178653 = 688692521154560"
  by (rule pw_sq1[where q = "789443378626176", OF q5_b1_25]; simp only: semiring_norm)

lemma q5_b1_27: "(2::nat) ^ 149912802 mod 1257559732178653 = 1092939976475754"
  by (rule pw_sq0[where q = "377156946551182", OF q5_b1_26]; simp only: semiring_norm)

lemma q5_b1_28: "(2::nat) ^ 299825604 mod 1257559732178653 = 584031472151214"
  by (rule pw_sq0[where q = "949869625762734", OF q5_b1_27]; simp only: semiring_norm)

lemma q5_b1_29: "(2::nat) ^ 599651208 mod 1257559732178653 = 536335552623627"
  by (rule pw_sq0[where q = "271233844194573", OF q5_b1_28]; simp only: semiring_norm)

lemma q5_b1_30: "(2::nat) ^ 1199302417 mod 1257559732178653 = 985374706761514"
  by (rule pw_sq1[where q = "457482563487848", OF q5_b1_29]; simp only: semiring_norm)

lemma q5_b1_31: "(2::nat) ^ 2398604835 mod 1257559732178653 = 163556461772814"
  by (rule pw_sq1[where q = "1544202295732226", OF q5_b1_30]; simp only: semiring_norm)

lemma q5_b1_32: "(2::nat) ^ 4797209671 mod 1257559732178653 = 997184236266287"
  by (rule pw_sq1[where q = "42543849811885", OF q5_b1_31]; simp only: semiring_norm)

lemma q5_b1_33: "(2::nat) ^ 9594419343 mod 1257559732178653 = 885260359937689"
  by (rule pw_sq1[where q = "1581438043241533", OF q5_b1_32]; simp only: semiring_norm)

lemma q5_b1_34: "(2::nat) ^ 19188838686 mod 1257559732178653 = 634480562610875"
  by (rule pw_sq0[where q = "623179865595182", OF q5_b1_33]; simp only: semiring_norm)

lemma q5_b1_35: "(2::nat) ^ 38377677373 mod 1257559732178653 = 635838939525691"
  by (rule pw_sq1[where q = "640232943263203", OF q5_b1_34]; simp only: semiring_norm)

lemma q5_b1_36: "(2::nat) ^ 76755354747 mod 1257559732178653 = 33673890760242"
  by (rule pw_sq1[where q = "642977262506240", OF q5_b1_35]; simp only: semiring_norm)

lemma q5_b1_37: "(2::nat) ^ 153510709494 mod 1257559732178653 = 111116119298737"
  by (rule pw_sq0[where q = "901691498159", OF q5_b1_36]; simp only: semiring_norm)

lemma q5_b1_38: "(2::nat) ^ 307021418988 mod 1257559732178653 = 244702116546201"
  by (rule pw_sq0[where q = "9818056074856", OF q5_b1_37]; simp only: semiring_norm)

lemma q5_b1_39: "(2::nat) ^ 614042837977 mod 1257559732178653 = 1203872579084186"
  by (rule pw_sq1[where q = "95230666679272", OF q5_b1_38]; simp only: semiring_norm)

lemma q5_b1_40: "(2::nat) ^ 1228085675955 mod 1257559732178653 = 367381875765280"
  by (rule pw_sq1[where q = "2304954825740104", OF q5_b1_39]; simp only: semiring_norm)

lemma q5_b1_41: "(2::nat) ^ 2456171351911 mod 1257559732178653 = 465507276069561"
  by (rule pw_sq1[where q = "214652933275763", OF q5_b1_40]; simp only: semiring_norm)

lemma q5_b1_42: "(2::nat) ^ 4912342703822 mod 1257559732178653 = 1025762079454394"
  by (rule pw_sq0[where q = "172315492082659", OF q5_b1_41]; simp only: semiring_norm)

lemma q5_b1_43: "(2::nat) ^ 9824685407645 mod 1257559732178653 = 100743262587807"
  by (rule pw_sq1[where q = "1673380304287805", OF q5_b1_42]; simp only: semiring_norm)

lemma q5_b1_44: "(2::nat) ^ 19649370815291 mod 1257559732178653 = 1091599576991494"
  by (rule pw_sq1[where q = "16141109956268", OF q5_b1_43]; simp only: semiring_norm)

lemma q5_b1_45: "(2::nat) ^ 39298741630582 mod 1257559732178653 = 1255322862601805"
  by (rule pw_sq0[where q = "947541183132227", OF q5_b1_44]; simp only: semiring_norm)

lemma q5_b1_46: "(2::nat) ^ 78597483261165 mod 1257559732178653 = 621565938685568"
  by (rule pw_sq1[where q = "2506179943660794", OF q5_b1_45]; simp only: semiring_norm)

lemma q5_b1_47: "(2::nat) ^ 157194966522331 mod 1257559732178653 = 832987396990104"
  by (rule pw_sq1[where q = "614434775936648", OF q5_b1_46]; simp only: semiring_norm)

lemma q5_b1_48: "(2::nat) ^ 314389933044663 mod 1257559732178653 = 408415061801554"
  by (rule pw_sq1[where q = "1103514983486726", OF q5_b1_47]; simp only: semiring_norm)

lemma q5_b1_49: "(2::nat) ^ 628779866089326 mod 1257559732178653 = 1257559732178652"
  by (rule pw_sq0[where q = "132640111191688", OF q5_b1_48]; simp only: semiring_norm)

lemma q5_b1_50: "(2::nat) ^ 1257559732178652 mod 1257559732178653 = 1"
  by (rule pw_sq0[where q = "1257559732178651", OF q5_b1_49]; simp only: semiring_norm)

lemma prime_q5: "prime_nat 1257559732178653"
  by (rule pocklington2[where ?q1.0 = "1224481" and ?q2.0 = "531581" and ?m1.0 = "1027014492" and ?m2.0 = "2365697292"
        and e = "1257559732178652" and ?a1.0 = "2" and ?a2.0 = "2"
        and ?c1.0 = "1252739704402215" and ?c1' = "1252739704402214" and ?u1.0 = "790900187493841" and ?v1.0 = "787868792026441"
        and ?c2.0 = "1139842034583224" and ?c2' = "1139842034583223" and ?u2.0 = "212927577457398" and ?v2.0 = "192995844966701",
        OF prime_q6 prime_q7 _ _ _ _ q5_b0_50 q5_a0_29 _ _ q5_b1_50 q5_a1_31]; simp only: semiring_norm not_False_eq_True)

lemma q4_a0_1: "(2::nat) ^ 3 mod 4434155615661930479 = 8"
  by (rule pw_init1[where q = "0"]; simp only: semiring_norm)

lemma q4_a0_2: "(2::nat) ^ 6 mod 4434155615661930479 = 64"
  by (rule pw_sq0[where q = "0", OF q4_a0_1]; simp only: semiring_norm)

lemma q4_a0_3: "(2::nat) ^ 13 mod 4434155615661930479 = 8192"
  by (rule pw_sq1[where q = "0", OF q4_a0_2]; simp only: semiring_norm)

lemma q4_a0_4: "(2::nat) ^ 27 mod 4434155615661930479 = 134217728"
  by (rule pw_sq1[where q = "0", OF q4_a0_3]; simp only: semiring_norm)

lemma q4_a0_5: "(2::nat) ^ 55 mod 4434155615661930479 = 36028797018963968"
  by (rule pw_sq1[where q = "0", OF q4_a0_4]; simp only: semiring_norm)

lemma q4_a0_6: "(2::nat) ^ 110 mod 4434155615661930479 = 2028562959957477108"
  by (rule pw_sq0[where q = "292744397614004", OF q4_a0_5]; simp only: semiring_norm)

lemma q4_a0_7: "(2::nat) ^ 220 mod 4434155615661930479 = 1418984147305173989"
  by (rule pw_sq0[where q = "928038625432216325", OF q4_a0_6]; simp only: semiring_norm)

lemma q4_a0_8: "(2::nat) ^ 440 mod 4434155615661930479 = 1642176686889080452"
  by (rule pw_sq0[where q = "454092319897711611", OF q4_a0_7]; simp only: semiring_norm)

lemma q4_a0_9: "(2::nat) ^ 881 mod 4434155615661930479 = 2194920277261642361"
  by (rule pw_sq1[where q = "1216350757486632393", OF q4_a0_8]; simp only: semiring_norm)

lemma q4_a0_10: "(2::nat) ^ 1763 mod 4434155615661930479 = 2767138247365062394"
  by (rule pw_sq1[where q = "2172984189602079512", OF q4_a0_9]; simp only: semiring_norm)

lemma q4_a0_11: "(2::nat) ^ 3526 mod 4434155615661930479 = 415787812636281767"
  by (rule pw_sq0[where q = "1726834767139209811", OF q4_a0_10]; simp only: semiring_norm)

lemma q4_b0_1: "(2::nat) ^ 3 mod 4434155615661930479 = 8"
  by (rule pw_init1[where q = "0"]; simp only: semiring_norm)

lemma q4_b0_2: "(2::nat) ^ 7 mod 4434155615661930479 = 128"
  by (rule pw_sq1[where q = "0", OF q4_b0_1]; simp only: semiring_norm)

lemma q4_b0_3: "(2::nat) ^ 15 mod 4434155615661930479 = 32768"
  by (rule pw_sq1[where q = "0", OF q4_b0_2]; simp only: semiring_norm)

lemma q4_b0_4: "(2::nat) ^ 30 mod 4434155615661930479 = 1073741824"
  by (rule pw_sq0[where q = "0", OF q4_b0_3]; simp only: semiring_norm)

lemma q4_b0_5: "(2::nat) ^ 61 mod 4434155615661930479 = 2305843009213693952"
  by (rule pw_sq1[where q = "0", OF q4_b0_4]; simp only: semiring_norm)

lemma q4_b0_6: "(2::nat) ^ 123 mod 4434155615661930479 = 3206676086398963923"
  by (rule pw_sq1[where q = "2398162105253924515", OF q4_b0_5]; simp only: semiring_norm)

lemma q4_b0_7: "(2::nat) ^ 246 mod 4434155615661930479 = 204768209475427835"
  by (rule pw_sq0[where q = "2318992027876307186", OF q4_b0_6]; simp only: semiring_norm)

lemma q4_b0_8: "(2::nat) ^ 492 mod 4434155615661930479 = 4027281638116646789"
  by (rule pw_sq0[where q = "9456145261043884", OF q4_b0_7]; simp only: semiring_norm)

lemma q4_b0_9: "(2::nat) ^ 984 mod 4434155615661930479 = 3050627321788313254"
  by (rule pw_sq0[where q = "3657742036708003773", OF q4_b0_8]; simp only: semiring_norm)

lemma q4_b0_10: "(2::nat) ^ 1969 mod 4434155615661930479 = 4246727724753165768"
  by (rule pw_sq1[where q = "4197564480403148416", OF q4_b0_9]; simp only: semiring_norm)

lemma q4_b0_11: "(2::nat) ^ 3938 mod 4434155615661930479 = 1935425468705481176"
  by (rule pw_sq0[where q = "4067222247339865112", OF q4_b0_10]; simp only: semiring_norm)

lemma q4_b0_12: "(2::nat) ^ 7876 mod 4434155615661930479 = 3815557445615437804"
  by (rule pw_sq0[where q = "844776789448479468", OF q4_b0_11]; simp only: semiring_norm)

lemma q4_b0_13: "(2::nat) ^ 15753 mod 4434155615661930479 = 4328087346548845106"
  by (rule pw_sq1[where q = "6566516776889489394", OF q4_b0_12]; simp only: semiring_norm)

lemma q4_b0_14: "(2::nat) ^ 31506 mod 4434155615661930479 = 2399250445823975930"
  by (rule pw_sq0[where q = "4224556308576883414", OF q4_b0_13]; simp only: semiring_norm)

lemma q4_b0_15: "(2::nat) ^ 63013 mod 4434155615661930479 = 626811198418467150"
  by (rule pw_sq1[where q = "2596391827771805350", OF q4_b0_14]; simp only: semiring_norm)

lemma q4_b0_16: "(2::nat) ^ 126026 mod 4434155615661930479 = 2356877274861565592"
  by (rule pw_sq0[where q = "88605884077468052", OF q4_b0_15]; simp only: semiring_norm)

lemma q4_b0_17: "(2::nat) ^ 252052 mod 4434155615661930479 = 2064976115756946340"
  by (rule pw_sq0[where q = "1252745949902718756", OF q4_b0_16]; simp only: semiring_norm)

lemma q4_b0_18: "(2::nat) ^ 504105 mod 4434155615661930479 = 3783762140869286577"
  by (rule pw_sq1[where q = "1923309296401451137", OF q4_b0_17]; simp only: semiring_norm)

lemma q4_b0_19: "(2::nat) ^ 1008210 mod 4434155615661930479 = 3790923968203188197"
  by (rule pw_sq0[where q = "3228767138461943108", OF q4_b0_18]; simp only: semiring_norm)

lemma q4_b0_20: "(2::nat) ^ 2016420 mod 4434155615661930479 = 1786615557039011789"
  by (rule pw_sq0[where q = "3241001394253523380", OF q4_b0_19]; simp only: semiring_norm)

lemma q4_b0_21: "(2::nat) ^ 4032841 mod 4434155615661930479 = 3473324945394478167"
  by (rule pw_sq1[where q = "1439730774165587125", OF q4_b0_20]; simp only: semiring_norm)

lemma q4_b0_22: "(2::nat) ^ 8065682 mod 4434155615661930479 = 1030441034681136947"
  by (rule pw_sq0[where q = "2720695262405364098", OF q4_b0_21]; simp only: semiring_norm)

lemma q4_b0_23: "(2::nat) ^ 16131364 mod 4434155615661930479 = 419060351845740148"
  by (rule pw_sq0[where q = "239461313041045659", OF q4_b0_22]; simp only: semiring_norm)

lemma q4_b0_24: "(2::nat) ^ 32262728 mod 4434155615661930479 = 1801367293494397626"
  by (rule pw_sq0[where q = "39604288552435082", OF q4_b0_23]; simp only: semiring_norm)

lemma q4_b0_25: "(2::nat) ^ 64525456 mod 4434155615661930479 = 2672427657744952121"
  by (rule pw_sq0[where q = "731802040192251845", OF q4_b0_24]; simp only: semiring_norm)

lemma q4_b0_26: "(2::nat) ^ 129050913 mod 4434155615661930479 = 1789249860275015320"
  by (rule pw_sq1[where q = "3221298576285547478", OF q4_b0_25]; simp only: semiring_norm)

lemma q4_b0_27: "(2::nat) ^ 258101826 mod 4434155615661930479 = 1943396584785796168"
  by (rule pw_sq0[where q = "721989785650825608", OF q4_b0_26]; simp only: semiring_norm)

lemma q4_b0_28: "(2::nat) ^ 516203653 mod 4434155615661930479 = 1424015767974919156"
  by (rule pw_sq1[where q = "1703499206215069748", OF q4_b0_27]; simp only: semiring_norm)

lemma q4_b0_29: "(2::nat) ^ 1032407306 mod 4434155615661930479 = 4094416571240577390"
  by (rule pw_sq0[where q = "457318390062520574", OF q4_b0_28]; simp only: semiring_norm)

lemma q4_b0_30: "(2::nat) ^ 2064814612 mod 4434155615661930479 = 3993249705004720652"
  by (rule pw_sq0[where q = "3780707875843658312", OF q4_b0_29]; simp only: semiring_norm)

lemma q4_b0_31: "(2::nat) ^ 4129629224 mod 4434155615661930479 = 2090434687995528713"
  by (rule pw_sq0[where q = "3596184840738807529", OF q4_b0_30]; simp only: semiring_norm)

lemma q4_b0_32: "(2::nat) ^ 8259258448 mod 4434155615661930479 = 3355223940600569708"
  by (rule pw_sq0[where q = "985512815414039659", OF q4_b0_31]; simp only: semiring_norm)

lemma q4_b0_33: "(2::nat) ^ 16518516896 mod 4434155615661930479 = 2181897489167196893"
  by (rule pw_sq0[where q = "2538821067040673149", OF q4_b0_32]; simp only: semiring_norm)

lemma q4_b0_34: "(2::nat) ^ 33037033793 mod 4434155615661930479 = 3593590399320079351"
  by (rule pw_sq1[where q = "2147275407484067093", OF q4_b0_33]; simp only: semiring_norm)

lemma q4_b0_35: "(2::nat) ^ 66074067587 mod 4434155615661930479 = 1327773830266042112"
  by (rule pw_sq1[where q = "5824735565198544510", OF q4_b0_34]; simp only: semiring_norm)

lemma q4_b0_36: "(2::nat) ^ 132148135175 mod 4434155615661930479 = 1481236744126479022"
  by (rule pw_sq1[where q = "795183343639227854", OF q4_b0_35]; simp only: semiring_norm)

lemma q4_b0_37: "(2::nat) ^ 264296270350 mod 4434155615661930479 = 2339946899801492322"
  by (rule pw_sq0[where q = "494809493018409278", OF q4_b0_36]; simp only: semiring_norm)

lemma q4_b0_38: "(2::nat) ^ 528592540700 mod 4434155615661930479 = 1970882187865918687"
  by (rule pw_sq0[where q = "1234812660735465643", OF q4_b0_37]; simp only: semiring_norm)

lemma q4_b0_39: "(2::nat) ^ 1057185081401 mod 4434155615661930479 = 438753604342861316"
  by (rule pw_sq1[where q = "1752025384371762018", OF q4_b0_38]; simp only: semiring_norm)

lemma q4_b0_40: "(2::nat) ^ 2114370162802 mod 4434155615661930479 = 2064743550967756004"
  by (rule pw_sq0[where q = "43414066173930388", OF q4_b0_39]; simp only: semiring_norm)

lemma q4_b0_41: "(2::nat) ^ 4228740325605 mod 4434155615661930479 = 4325699182956089110"
  by (rule pw_sq1[where q = "1922876101237837718", OF q4_b0_40]; simp only: semiring_norm)

lemma q4_b0_42: "(2::nat) ^ 8457480651210 mod 4434155615661930479 = 3309614577844964534"
  by (rule pw_sq0[where q = "4219895520882322354", OF q4_b0_41]; simp only: semiring_norm)

lemma q4_b0_43: "(2::nat) ^ 16914961302421 mod 4434155615661930479 = 68003959009969476"
  by (rule pw_sq1[where q = "4940534164022007484", OF q4_b0_42]; simp only: semiring_norm)

lemma q4_b0_44: "(2::nat) ^ 33829922604842 mod 4434155615661930479 = 4196891854775817315"
  by (rule pw_sq0[where q = "1042935530881059", OF q4_b0_43]; simp only: semiring_norm)

lemma q4_b0_45: "(2::nat) ^ 67659845209685 mod 4434155615661930479 = 866027866951847544"
  by (rule pw_sq1[where q = "7944647309385959814", OF q4_b0_44]; simp only: semiring_norm)

lemma q4_b0_46: "(2::nat) ^ 135319690419370 mod 4434155615661930479 = 3785010879448809124"
  by (rule pw_sq0[where q = "169142522578158628", OF q4_b0_45]; simp only: semiring_norm)

lemma q4_b0_47: "(2::nat) ^ 270639380838740 mod 4434155615661930479 = 928338760317279302"
  by (rule pw_sq0[where q = "3230898642109838806", OF q4_b0_46]; simp only: semiring_norm)

lemma q4_b0_48: "(2::nat) ^ 541278761677481 mod 4434155615661930479 = 411936114422133663"
  by (rule pw_sq1[where q = "388715655744423655", OF q4_b0_47]; simp only: semiring_norm)

lemma q4_b0_49: "(2::nat) ^ 1082557523354963 mod 4434155615661930479 = 3448733780814246489"
  by (rule pw_sq1[where q = "76538298189552231", OF q4_b0_48]; simp only: semiring_norm)

lemma q4_b0_50: "(2::nat) ^ 2165115046709926 mod 4434155615661930479 = 92491745314753372"
  by (rule pw_sq0[where q = "2682306558867539131", OF q4_b0_49]; simp only: semiring_norm)

lemma q4_b0_51: "(2::nat) ^ 4330230093419853 mod 4434155615661930479 = 1708688649280096317"
  by (rule pw_sq1[where q = "3858557837326669", OF q4_b0_50]; simp only: semiring_norm)

lemma q4_b0_52: "(2::nat) ^ 8660460186839707 mod 4434155615661930479 = 2662247817729562872"
  by (rule pw_sq1[where q = "1316876155571188614", OF q4_b0_51]; simp only: semiring_norm)

lemma q4_b0_53: "(2::nat) ^ 17320920373679415 mod 4434155615661930479 = 3144125740380022627"
  by (rule pw_sq1[where q = "3196804107628409779", OF q4_b0_52]; simp only: semiring_norm)

lemma q4_b0_54: "(2::nat) ^ 34641840747358831 mod 4434155615661930479 = 2046613546291385892"
  by (rule pw_sq1[where q = "4458809084824829554", OF q4_b0_53]; simp only: semiring_norm)

lemma q4_b0_55: "(2::nat) ^ 69283681494717663 mod 4434155615661930479 = 4268737640474751518"
  by (rule pw_sq1[where q = "1889255755061327390", OF q4_b0_54]; simp only: semiring_norm)

lemma q4_b0_56: "(2::nat) ^ 138567362989435327 mod 4434155615661930479 = 428050250071156021"
  by (rule pw_sq1[where q = "8218981299999211613", OF q4_b0_55]; simp only: semiring_norm)

lemma q4_b0_57: "(2::nat) ^ 277134725978870654 mod 4434155615661930479 = 3769637184447267368"
  by (rule pw_sq0[where q = "41321737996474687", OF q4_b0_56]; simp only: semiring_norm)

lemma q4_b0_58: "(2::nat) ^ 554269451957741309 mod 4434155615661930479 = 918500284642832086"
  by (rule pw_sq1[where q = "6409411727534162678", OF q4_b0_57]; simp only: semiring_norm)

lemma q4_b0_59: "(2::nat) ^ 1108538903915482619 mod 4434155615661930479 = 897678727087133997"
  by (rule pw_sq1[where q = "380520146793731605", OF q4_b0_58]; simp only: semiring_norm)

lemma q4_b0_60: "(2::nat) ^ 2217077807830965239 mod 4434155615661930479 = 1"
  by (rule pw_sq1[where q = "363463607013929023", OF q4_b0_59]; simp only: semiring_norm)

lemma q4_b0_61: "(2::nat) ^ 4434155615661930478 mod 4434155615661930479 = 1"
  by (rule pw_sq0[where q = "0", OF q4_b0_60]; simp only: semiring_norm)

lemma prime_q4: "prime_nat 4434155615661930479"
  by (rule pocklington1[where q = "1257559732178653" and m = "3526" and e = "4434155615661930478" and a = "2"
        and c = "415787812636281767" and c' = "415787812636281766" and u = "1010501025739283171" and v = "94754006754933215",
        OF prime_q5 _ _ q4_b0_61 q4_a0_11]; simp only: semiring_norm not_False_eq_True)

lemma q3_a0_1: "(2::nat) ^ 2 mod 172054593956031949258510691 = 4"
  by (rule pw_init0[where q = "0"]; simp only: semiring_norm)

lemma q3_a0_2: "(2::nat) ^ 4 mod 172054593956031949258510691 = 16"
  by (rule pw_sq0[where q = "0", OF q3_a0_1]; simp only: semiring_norm)

lemma q3_a0_3: "(2::nat) ^ 9 mod 172054593956031949258510691 = 512"
  by (rule pw_sq1[where q = "0", OF q3_a0_2]; simp only: semiring_norm)

lemma q3_a0_4: "(2::nat) ^ 18 mod 172054593956031949258510691 = 262144"
  by (rule pw_sq0[where q = "0", OF q3_a0_3]; simp only: semiring_norm)

lemma q3_a0_5: "(2::nat) ^ 37 mod 172054593956031949258510691 = 137438953472"
  by (rule pw_sq1[where q = "0", OF q3_a0_4]; simp only: semiring_norm)

lemma q3_a0_6: "(2::nat) ^ 74 mod 172054593956031949258510691 = 18889465931478580854784"
  by (rule pw_sq0[where q = "0", OF q3_a0_5]; simp only: semiring_norm)

lemma q3_a0_7: "(2::nat) ^ 148 mod 172054593956031949258510691 = 31984044512296906456259822"
  by (rule pw_sq0[where q = "2073829677966472774", OF q3_a0_6]; simp only: semiring_norm)

lemma q3_a0_8: "(2::nat) ^ 296 mod 172054593956031949258510691 = 29024443532358241270411834"
  by (rule pw_sq0[where q = "5945665732273380560698350", OF q3_a0_7]; simp only: semiring_norm)

lemma q3_a0_9: "(2::nat) ^ 592 mod 172054593956031949258510691 = 19808387174203048784497920"
  by (rule pw_sq0[where q = "4896226848661359734432396", OF q3_a0_8]; simp only: semiring_norm)

lemma q3_a0_10: "(2::nat) ^ 1184 mod 172054593956031949258510691 = 150010420116626843684561259"
  by (rule pw_sq0[where q = "2280509885969109424278951", OF q3_a0_9]; simp only: semiring_norm)

lemma q3_a0_11: "(2::nat) ^ 2368 mod 172054593956031949258510691 = 140535356440195322503150377"
  by (rule pw_sq0[where q = "130790614921432972698007344", OF q3_a0_10]; simp only: semiring_norm)

lemma q3_a0_12: "(2::nat) ^ 4736 mod 172054593956031949258510691 = 9305664854811807573173237"
  by (rule pw_sq0[where q = "114790229982582456155186612", OF q3_a0_11]; simp only: semiring_norm)

lemma q3_a0_13: "(2::nat) ^ 9473 mod 172054593956031949258510691 = 118875755576714418193740050"
  by (rule pw_sq1[where q = "1006603734303181253662368", OF q3_a0_12]; simp only: semiring_norm)

lemma q3_a0_14: "(2::nat) ^ 18946 mod 172054593956031949258510691 = 144280111927389765958270015"
  by (rule pw_sq0[where q = "82133495764408352887561335", OF q3_a0_13]; simp only: semiring_norm)

lemma q3_a0_15: "(2::nat) ^ 37892 mod 172054593956031949258510691 = 90133693166330921620135190"
  by (rule pw_sq0[where q = "120989217545099543588439385", OF q3_a0_14]; simp only: semiring_norm)

lemma q3_a0_16: "(2::nat) ^ 75785 mod 172054593956031949258510691 = 131278503214799028589577906"
  by (rule pw_sq1[where q = "94436102599833808036158834", OF q3_a0_15]; simp only: semiring_norm)

lemma q3_a0_17: "(2::nat) ^ 151570 mod 172054593956031949258510691 = 66351917947308499425261398"
  by (rule pw_sq0[where q = "100166145001173924076201018", OF q3_a0_16]; simp only: semiring_norm)

lemma q3_a0_18: "(2::nat) ^ 303141 mod 172054593956031949258510691 = 23146504394297308454578531"
  by (rule pw_sq1[where q = "51176512222759079539645847", OF q3_a0_17]; simp only: semiring_norm)

lemma q3_a0_19: "(2::nat) ^ 606282 mod 172054593956031949258510691 = 167480910592361093104214314"
  by (rule pw_sq0[where q = "3113899218594167203600917", OF q3_a0_18]; simp only: semiring_norm)

lemma q3_a0_20: "(2::nat) ^ 1212565 mod 172054593956031949258510691 = 44645500580478167137132656"
  by (rule pw_sq1[where q = "326057616572731665733124296", OF q3_a0_19]; simp only: semiring_norm)

lemma q3_a0_21: "(2::nat) ^ 2425131 mod 172054593956031949258510691 = 29295608793347465632114613"
  by (rule pw_sq1[where q = "23169630943894914114272249", OF q3_a0_20]; simp only: semiring_norm)

lemma q3_a0_22: "(2::nat) ^ 4850263 mod 172054593956031949258510691 = 27497632718918193860451487"
  by (rule pw_sq1[where q = "9976283397491568503194961", OF q3_a0_21]; simp only: semiring_norm)

lemma q3_a0_23: "(2::nat) ^ 9700527 mod 172054593956031949258510691 = 114262896645587233754028454"
  by (rule pw_sq1[where q = "8789300974291271736830324", OF q3_a0_22]; simp only: semiring_norm)

lemma q3_a0_24: "(2::nat) ^ 19401055 mod 172054593956031949258510691 = 28969258566049086852573871"
  by (rule pw_sq1[where q = "151765893018544748163420371", OF q3_a0_23]; simp only: semiring_norm)

lemma q3_a0_25: "(2::nat) ^ 38802110 mod 172054593956031949258510691 = 81982237619807054769897707"
  by (rule pw_sq0[where q = "4877625889379437891713874", OF q3_a0_24]; simp only: semiring_norm)

lemma q3_b0_1: "(2::nat) ^ 2 mod 172054593956031949258510691 = 4"
  by (rule pw_init0[where q = "0"]; simp only: semiring_norm)

lemma q3_b0_2: "(2::nat) ^ 4 mod 172054593956031949258510691 = 16"
  by (rule pw_sq0[where q = "0", OF q3_b0_1]; simp only: semiring_norm)

lemma q3_b0_3: "(2::nat) ^ 8 mod 172054593956031949258510691 = 256"
  by (rule pw_sq0[where q = "0", OF q3_b0_2]; simp only: semiring_norm)

lemma q3_b0_4: "(2::nat) ^ 17 mod 172054593956031949258510691 = 131072"
  by (rule pw_sq1[where q = "0", OF q3_b0_3]; simp only: semiring_norm)

lemma q3_b0_5: "(2::nat) ^ 35 mod 172054593956031949258510691 = 34359738368"
  by (rule pw_sq1[where q = "0", OF q3_b0_4]; simp only: semiring_norm)

lemma q3_b0_6: "(2::nat) ^ 71 mod 172054593956031949258510691 = 2361183241434822606848"
  by (rule pw_sq1[where q = "0", OF q3_b0_5]; simp only: semiring_norm)

lemma q3_b0_7: "(2::nat) ^ 142 mod 172054593956031949258510691 = 16629868878882634406364437"
  by (rule pw_sq0[where q = "32403588718226137", OF q3_b0_6]; simp only: semiring_norm)

lemma q3_b0_8: "(2::nat) ^ 284 mod 172054593956031949258510691 = 96871806178257332331883805"
  by (rule pw_sq0[where q = "1607353413646725202964404", OF q3_b0_7]; simp only: semiring_norm)

lemma q3_b0_9: "(2::nat) ^ 569 mod 172054593956031949258510691 = 4289815693316360527797319"
  by (rule pw_sq1[where q = "109083362628910064148584441", OF q3_b0_8]; simp only: semiring_norm)

lemma q3_b0_10: "(2::nat) ^ 1138 mod 172054593956031949258510691 = 65145982441971570876864756"
  by (rule pw_sq0[where q = "106957438679760198985055", OF q3_b0_9]; simp only: semiring_norm)

lemma q3_b0_11: "(2::nat) ^ 2277 mod 172054593956031949258510691 = 161937696246404929504051923"
  by (rule pw_sq1[where q = "49333167231956733420292239", OF q3_b0_10]; simp only: semiring_norm)

lemma q3_b0_12: "(2::nat) ^ 4554 mod 172054593956031949258510691 = 81846030359905255095158454"
  by (rule pw_sq0[where q = "152415677272147289636874225", OF q3_b0_11]; simp only: semiring_norm)

lemma q3_b0_13: "(2::nat) ^ 9108 mod 172054593956031949258510691 = 50130339001185226473878114"
  by (rule pw_sq0[where q = "38933994912024171843644822", OF q3_b0_12]; simp only: semiring_norm)

lemma q3_b0_14: "(2::nat) ^ 18216 mod 172054593956031949258510691 = 94360963610943572245837325"
  by (rule pw_sq0[where q = "14606124896705492504610781", OF q3_b0_13]; simp only: semiring_norm)

lemma q3_b0_15: "(2::nat) ^ 36433 mod 172054593956031949258510691 = 55958470222262333125651974"
  by (rule pw_sq1[where q = "103501932135112952657178436", OF q3_b0_14]; simp only: semiring_norm)

lemma q3_b0_16: "(2::nat) ^ 72867 mod 172054593956031949258510691 = 96942170747293602065713790"
  by (rule pw_sq1[where q = "36399497596861932425191982", OF q3_b0_15]; simp only: semiring_norm)

lemma q3_b0_17: "(2::nat) ^ 145735 mod 172054593956031949258510691 = 92208385878681490415511769"
  by (rule pw_sq1[where q = "109241889485368857412499141", OF q3_b0_16]; simp only: semiring_norm)

lemma q3_b0_18: "(2::nat) ^ 291471 mod 172054593956031949258510691 = 144576786183119954632429042"
  by (rule pw_sq1[where q = "98833588000848012223238480", OF q3_b0_17]; simp only: semiring_norm)

lemma q3_b0_19: "(2::nat) ^ 582943 mod 172054593956031949258510691 = 28564586967552342608609719"
  by (rule pw_sq1[where q = "242974588732936064969341499", OF q3_b0_18]; simp only: semiring_norm)

lemma q3_b0_20: "(2::nat) ^ 1165887 mod 172054593956031949258510691 = 29454765347053383472617908"
  by (rule pw_sq1[where q = "9484613108736534070829754", OF q3_b0_19]; simp only: semiring_norm)

lemma q3_b0_21: "(2::nat) ^ 2331774 mod 172054593956031949258510691 = 100977994980450929754846128"
  by (rule pw_sq0[where q = "5042487862147320448264096", OF q3_b0_20]; simp only: semiring_norm)

lemma q3_b0_22: "(2::nat) ^ 4663549 mod 172054593956031949258510691 = 67348371964003242274549133"
  by (rule pw_sq1[where q = "118526977232327469733655985", OF q3_b0_21]; simp only: semiring_norm)

lemma q3_b0_23: "(2::nat) ^ 9327098 mod 172054593956031949258510691 = 96050729320176486892776781"
  by (rule pw_sq0[where q = "26362581212803008616915188", OF q3_b0_22]; simp only: semiring_norm)

lemma q3_b0_24: "(2::nat) ^ 18654196 mod 172054593956031949258510691 = 67166299682207802843152821"
  by (rule pw_sq0[where q = "53621018717439318846156540", OF q3_b0_23]; simp only: semiring_norm)

lemma q3_b0_25: "(2::nat) ^ 37308392 mod 172054593956031949258510691 = 11413594539312451538153147"
  by (rule pw_sq0[where q = "26220234573643529689115434", OF q3_b0_24]; simp only: semiring_norm)

lemma q3_b0_26: "(2::nat) ^ 74616785 mod 172054593956031949258510691 = 24086237507163597950969768"
  by (rule pw_sq1[where q = "1514288428022016873091950", OF q3_b0_25]; simp only: semiring_norm)

lemma q3_b0_27: "(2::nat) ^ 149233571 mod 172054593956031949258510691 = 133885302935231773295790203"
  by (rule pw_sq1[where q = "6743752943902786217579895", OF q3_b0_26]; simp only: semiring_norm)

lemma q3_b0_28: "(2::nat) ^ 298467143 mod 172054593956031949258510691 = 82610680913197084003294579"
  by (rule pw_sq1[where q = "208367285405230544193955829", OF q3_b0_27]; simp only: semiring_norm)

lemma q3_b0_29: "(2::nat) ^ 596934286 mod 172054593956031949258510691 = 4660513788403658342194173"
  by (rule pw_sq0[where q = "39664878711033152656238948", OF q3_b0_28]; simp only: semiring_norm)

lemma q3_b0_30: "(2::nat) ^ 1193868573 mod 172054593956031949258510691 = 155849974018653924336708373"
  by (rule pw_sq1[where q = "252482520489411652898335", OF q3_b0_29]; simp only: semiring_norm)

lemma q3_b0_31: "(2::nat) ^ 2387737146 mod 172054593956031949258510691 = 119267517564558213077754904"
  by (rule pw_sq0[where q = "141171554000017815831314475", OF q3_b0_30]; simp only: semiring_norm)

lemma q3_b0_32: "(2::nat) ^ 4775474292 mod 172054593956031949258510691 = 150557999360806761038659825"
  by (rule pw_sq0[where q = "82675739246156327383345701", OF q3_b0_31]; simp only: semiring_norm)

lemma q3_b0_33: "(2::nat) ^ 9550948585 mod 172054593956031949258510691 = 95459349180429378164076"
  by (rule pw_sq1[where q = "263494401984074388432222514", OF q3_b0_32]; simp only: semiring_norm)

lemma q3_b0_34: "(2::nat) ^ 19101897170 mod 172054593956031949258510691 = 38984972136842806184713426"
  by (rule pw_sq0[where q = "52962766854570663850", OF q3_b0_33]; simp only: semiring_norm)

lemma q3_b0_35: "(2::nat) ^ 38203794340 mod 172054593956031949258510691 = 166968813139647092558090065"
  by (rule pw_sq0[where q = "8833405825239386454831921", OF q3_b0_34]; simp only: semiring_norm)

lemma q3_b0_36: "(2::nat) ^ 76407588681 mod 172054593956031949258510691 = 85996909291737008522209179"
  by (rule pw_sq1[where q = "324066726964427101941286381", OF q3_b0_35]; simp only: semiring_norm)

lemma q3_b0_37: "(2::nat) ^ 152815177362 mod 172054593956031949258510691 = 57861796522635521682388178"
  by (rule pw_sq0[where q = "42983266169696889701927693", OF q3_b0_36]; simp only: semiring_norm)

lemma q3_b0_38: "(2::nat) ^ 305630354724 mod 172054593956031949258510691 = 108405263524598049665707670"
  by (rule pw_sq0[where q = "19458867210964704667701754", OF q3_b0_37]; simp only: semiring_norm)

lemma q3_b0_39: "(2::nat) ^ 611260709448 mod 172054593956031949258510691 = 128196126438500325411492891"
  by (rule pw_sq0[where q = "68302164386500841653193699", OF q3_b0_38]; simp only: semiring_norm)

lemma q3_b0_40: "(2::nat) ^ 1222521418896 mod 172054593956031949258510691 = 66479288483572313897489986"
  by (rule pw_sq0[where q = "95517628770991642779254845", OF q3_b0_39]; simp only: semiring_norm)

lemma q3_b0_41: "(2::nat) ^ 2445042837792 mod 172054593956031949258510691 = 37946554125071460122040136"
  by (rule pw_sq0[where q = "25686589911173309160624660", OF q3_b0_40]; simp only: semiring_norm)

lemma q3_b0_42: "(2::nat) ^ 4890085675584 mod 172054593956031949258510691 = 56297240282281070749220758"
  by (rule pw_sq0[where q = "8369093418888603291258318", OF q3_b0_41]; simp only: semiring_norm)

lemma q3_b0_43: "(2::nat) ^ 9780171351168 mod 172054593956031949258510691 = 22337541034681035881423099"
  by (rule pw_sq0[where q = "18420776746076400036162115", OF q3_b0_42]; simp only: semiring_norm)

lemma q3_b0_44: "(2::nat) ^ 19560342702337 mod 172054593956031949258510691 = 145989962448484205326896706"
  by (rule pw_sq1[where q = "5800086216861705716434256", OF q3_b0_43]; simp only: semiring_norm)

lemma q3_b0_45: "(2::nat) ^ 39120685404675 mod 172054593956031949258510691 = 14438778751472272441414191"
  by (rule pw_sq1[where q = "247747748498436736611871891", OF q3_b0_44]; simp only: semiring_norm)

lemma q3_b0_46: "(2::nat) ^ 78241370809351 mod 172054593956031949258510691 = 53456983337355773972764802"
  by (rule pw_sq1[where q = "2423397446594692211869760", OF q3_b0_45]; simp only: semiring_norm)

lemma q3_b0_47: "(2::nat) ^ 156482741618703 mod 172054593956031949258510691 = 73957778471294336128515633"
  by (rule pw_sq1[where q = "33217933933930258957270525", OF q3_b0_46]; simp only: semiring_norm)

lemma q3_b0_48: "(2::nat) ^ 312965483237407 mod 172054593956031949258510691 = 97136866904823086263956345"
  by (rule pw_sq1[where q = "63581597801530686816766563", OF q3_b0_47]; simp only: semiring_norm)

lemma q3_b0_49: "(2::nat) ^ 625930966474814 mod 172054593956031949258510691 = 63015141429298263379625806"
  by (rule pw_sq0[where q = "54840563655606587711707009", OF q3_b0_48]; simp only: semiring_norm)

lemma q3_b0_50: "(2::nat) ^ 1251861932949628 mod 172054593956031949258510691 = 122207402847599530185786334"
  by (rule pw_sq0[where q = "23079349165005244645249122", OF q3_b0_49]; simp only: semiring_norm)

lemma q3_b0_51: "(2::nat) ^ 2503723865899256 mod 172054593956031949258510691 = 167681491909110434518744243"
  by (rule pw_sq0[where q = "86801804981574533982851643", OF q3_b0_50]; simp only: semiring_norm)

lemma q3_b0_52: "(2::nat) ^ 5007447731798513 mod 172054593956031949258510691 = 10812518559508506035898131"
  by (rule pw_sq1[where q = "326839081507469736890776437", OF q3_b0_51]; simp only: semiring_norm)

lemma q3_b0_53: "(2::nat) ^ 10014895463597026 mod 172054593956031949258510691 = 123331931473104187824361417"
  by (rule pw_sq0[where q = "679496867311732758050784", OF q3_b0_52]; simp only: semiring_norm)

lemma q3_b0_54: "(2::nat) ^ 20029790927194052 mod 172054593956031949258510691 = 106608286813168061420289938"
  by (rule pw_sq0[where q = "88406621242403641541983861", OF q3_b0_53]; simp only: semiring_norm)

lemma q3_b0_55: "(2::nat) ^ 40059581854388105 mod 172054593956031949258510691 = 22058825189248436191712331"
  by (rule pw_sq1[where q = "132113029427660378169333727", OF q3_b0_54]; simp only: semiring_norm)

lemma q3_b0_56: "(2::nat) ^ 80119163708776211 mod 172054593956031949258510691 = 102016850195492322727481124"
  by (rule pw_sq1[where q = "5656248491152388724953178", OF q3_b0_55]; simp only: semiring_norm)

lemma q3_b0_57: "(2::nat) ^ 160238327417552423 mod 172054593956031949258510691 = 63871845798043103345152141"
  by (rule pw_sq1[where q = "120978318387349917394671121", OF q3_b0_56]; simp only: semiring_norm)

lemma q3_b0_58: "(2::nat) ^ 320476654835104847 mod 172054593956031949258510691 = 68625776404960854598375245"
  by (rule pw_sq1[where q = "47422304651644809737946487", OF q3_b0_57]; simp only: semiring_norm)

lemma q3_b0_59: "(2::nat) ^ 640953309670209695 mod 172054593956031949258510691 = 78424465505986826705379642"
  by (rule pw_sq1[where q = "54744219016752092729735688", OF q3_b0_58]; simp only: semiring_norm)

lemma q3_b0_60: "(2::nat) ^ 1281906619340419391 mod 172054593956031949258510691 = 116489120944895938851734767"
  by (rule pw_sq1[where q = "71493549209984286947127571", OF q3_b0_59]; simp only: semiring_norm)

lemma q3_b0_61: "(2::nat) ^ 2563813238680838782 mod 172054593956031949258510691 = 129060605540996093058839875"
  by (rule pw_sq0[where q = "78868660153197042568838154", OF q3_b0_60]; simp only: semiring_norm)

lemma q3_b0_62: "(2::nat) ^ 5127626477361677564 mod 172054593956031949258510691 = 92030085040024261477952202"
  by (rule pw_sq0[where q = "96810201457713749208484853", OF q3_b0_61]; simp only: semiring_norm)

lemma q3_b0_63: "(2::nat) ^ 10255252954723355129 mod 172054593956031949258510691 = 131640696559808112041343280"
  by (rule pw_sq1[where q = "98451733926249743610876808", OF q3_b0_62]; simp only: semiring_norm)

lemma q3_b0_64: "(2::nat) ^ 20510505909446710259 mod 172054593956031949258510691 = 36213442084041054292683025"
  by (rule pw_sq1[where q = "201439236143615213001131525", OF q3_b0_63]; simp only: semiring_norm)

lemma q3_b0_65: "(2::nat) ^ 41021011818893420519 mod 172054593956031949258510691 = 107603859062788066169390107"
  by (rule pw_sq1[where q = "15244154281742963190417773", OF q3_b0_64]; simp only: semiring_norm)

lemma q3_b0_66: "(2::nat) ^ 82042023637786841038 mod 172054593956031949258510691 = 33191942752588601960324815"
  by (rule pw_sq0[where q = "67296026330823997308110574", OF q3_b0_65]; simp only: semiring_norm)

lemma q3_b0_67: "(2::nat) ^ 164084047275573682077 mod 172054593956031949258510691 = 43880813624530125528461809"
  by (rule pw_sq1[where q = "12806459140203562844635451", OF q3_b0_66]; simp only: semiring_norm)

lemma q3_b0_68: "(2::nat) ^ 328168094551147364155 mod 172054593956031949258510691 = 57363751328337979720286939"
  by (rule pw_sq1[where q = "22382730505211749332225453", OF q3_b0_67]; simp only: semiring_norm)

lemma q3_b0_69: "(2::nat) ^ 656336189102294728311 mod 172054593956031949258510691 = 60147213792478197843894463"
  by (rule pw_sq1[where q = "38250649294494287986040369", OF q3_b0_68]; simp only: semiring_norm)

lemma q3_b0_70: "(2::nat) ^ 1312672378204589456623 mod 172054593956031949258510691 = 51166245551536598435041902"
  by (rule pw_sq1[where q = "42052783873037055002933596", OF q3_b0_69]; simp only: semiring_norm)

lemma q3_b0_71: "(2::nat) ^ 2625344756409178913246 mod 172054593956031949258510691 = 124590959096109963656487648"
  by (rule pw_sq0[where q = "15216011520791808179267916", OF q3_b0_70]; simp only: semiring_norm)

lemma q3_b0_72: "(2::nat) ^ 5250689512818357826492 mod 172054593956031949258510691 = 152051311594972909760853895"
  by (rule pw_sq0[where q = "90220823121150603052195699", OF q3_b0_71]; simp only: semiring_norm)

lemma q3_b0_73: "(2::nat) ^ 10501379025636715652985 mod 172054593956031949258510691 = 56901804737414909314821581"
  by (rule pw_sq1[where q = "268747271737012614396366759", OF q3_b0_72]; simp only: semiring_norm)

lemma q3_b0_74: "(2::nat) ^ 21002758051273431305970 mod 172054593956031949258510691 = 91901234100244506806698934"
  by (rule pw_sq0[where q = "18818534907602107471179697", OF q3_b0_73]; simp only: semiring_norm)

lemma q3_b0_75: "(2::nat) ^ 42005516102546862611941 mod 172054593956031949258510691 = 56359529941164544335317704"
  by (rule pw_sq1[where q = "98176243190649739764236288", OF q3_b0_74]; simp only: semiring_norm)

lemma q3_b0_76: "(2::nat) ^ 84011032205093725223882 mod 172054593956031949258510691 = 59344311240781236886621714"
  by (rule pw_sq0[where q = "18461562357357000631801722", OF q3_b0_75]; simp only: semiring_norm)

lemma q3_b0_77: "(2::nat) ^ 168022064410187450447764 mod 172054593956031949258510691 = 163971234199517154342589839"
  by (rule pw_sq0[where q = "20468777936511747744632327", OF q3_b0_76]; simp only: semiring_norm)

lemma q3_b0_78: "(2::nat) ^ 336044128820374900895528 mod 172054593956031949258510691 = 123747702650551333537318103"
  by (rule pw_sq0[where q = "156267641721811203970121198", OF q3_b0_77]; simp only: semiring_norm)

lemma q3_b0_79: "(2::nat) ^ 672088257640749801791057 mod 172054593956031949258510691 = 62986063444089396794631704"
  by (rule pw_sq1[where q = "178007381949970930049590254", OF q3_b0_78]; simp only: semiring_norm)

lemma q3_b0_80: "(2::nat) ^ 1344176515281499603582114 mod 172054593956031949258510691 = 33466043495908907808984287"
  by (rule pw_sq0[where q = "23058054405665403805498219", OF q3_b0_79]; simp only: semiring_norm)

lemma q3_b0_81: "(2::nat) ^ 2688353030562999207164229 mod 172054593956031949258510691 = 132520914449198278749135766"
  by (rule pw_sq1[where q = "13018845257410255909811492", OF q3_b0_80]; simp only: semiring_norm)

lemma q3_b0_82: "(2::nat) ^ 5376706061125998414328459 mod 172054593956031949258510691 = 64617141317453307249252959"
  by (rule pw_sq1[where q = "204142096559648900347385283", OF q3_b0_81]; simp only: semiring_norm)

lemma q3_b0_83: "(2::nat) ^ 10753412122251996828656918 mod 172054593956031949258510691 = 25865633804477598663034548"
  by (rule pw_sq0[where q = "24267733026104122792163663", OF q3_b0_82]; simp only: semiring_norm)

lemma q3_b0_84: "(2::nat) ^ 21506824244503993657313836 mod 172054593956031949258510691 = 124986276829901698524723212"
  by (rule pw_sq0[where q = "3888480956679966491760812", OF q3_b0_83]; simp only: semiring_norm)

lemma q3_b0_85: "(2::nat) ^ 43013648489007987314627672 mod 172054593956031949258510691 = 42203025079099066766622177"
  by (rule pw_sq0[where q = "90794259174462198739751237", OF q3_b0_84]; simp only: semiring_norm)

lemma q3_b0_86: "(2::nat) ^ 86027296978015974629255345 mod 172054593956031949258510691 = 172054593956031949258510690"
  by (rule pw_sq1[where q = "20703839227707206906282848", OF q3_b0_85]; simp only: semiring_norm)

lemma q3_b0_87: "(2::nat) ^ 172054593956031949258510690 mod 172054593956031949258510691 = 1"
  by (rule pw_sq0[where q = "172054593956031949258510689", OF q3_b0_86]; simp only: semiring_norm)

lemma prime_q3: "prime_nat 172054593956031949258510691"
  by (rule pocklington1[where q = "4434155615661930479" and m = "38802110" and e = "172054593956031949258510690" and a = "2"
        and c = "81982237619807054769897707" and c' = "81982237619807054769897706" and u = "154275350521713489305385904" and v = "73510611687487158067405653",
        OF prime_q4 _ _ q3_b0_87 q3_a0_25]; simp only: semiring_norm not_False_eq_True)

lemma q2_a0_1: "(2::nat) ^ 3 mod 19757330305831588566944191468367130476339 = 8"
  by (rule pw_init1[where q = "0"]; simp only: semiring_norm)

lemma q2_a0_2: "(2::nat) ^ 6 mod 19757330305831588566944191468367130476339 = 64"
  by (rule pw_sq0[where q = "0", OF q2_a0_1]; simp only: semiring_norm)

lemma q2_a0_3: "(2::nat) ^ 13 mod 19757330305831588566944191468367130476339 = 8192"
  by (rule pw_sq1[where q = "0", OF q2_a0_2]; simp only: semiring_norm)

lemma q2_a0_4: "(2::nat) ^ 26 mod 19757330305831588566944191468367130476339 = 67108864"
  by (rule pw_sq0[where q = "0", OF q2_a0_3]; simp only: semiring_norm)

lemma q2_a0_5: "(2::nat) ^ 52 mod 19757330305831588566944191468367130476339 = 4503599627370496"
  by (rule pw_sq0[where q = "0", OF q2_a0_4]; simp only: semiring_norm)

lemma q2_a0_6: "(2::nat) ^ 104 mod 19757330305831588566944191468367130476339 = 20282409603651670423947251286016"
  by (rule pw_sq0[where q = "0", OF q2_a0_5]; simp only: semiring_norm)

lemma q2_a0_7: "(2::nat) ^ 208 mod 19757330305831588566944191468367130476339 = 18748596071776446107177033409625920989373"
  by (rule pw_sq0[where q = "20821443634461049522097", OF q2_a0_6]; simp only: semiring_norm)

lemma q2_a0_8: "(2::nat) ^ 417 mod 19757330305831588566944191468367130476339 = 19721272643449736927818165121131915651915"
  by (rule pw_sq1[where q = "35582727951749561139672184478506847998237", OF q2_a0_7]; simp only: semiring_norm)

lemma q2_a0_9: "(2::nat) ^ 835 mod 19757330305831588566944191468367130476339 = 18477411835312802816702207322939914487696"
  by (rule pw_sq1[where q = "39370561574554687301581838168829004414486", OF q2_a0_8]; simp only: semiring_norm)

lemma q2_a0_10: "(2::nat) ^ 1671 mod 19757330305831588566944191468367130476339 = 19523825019163716789559465115755042913239"
  by (rule pw_sq1[where q = "34560817969519434990886678306333903303987", OF q2_a0_9]; simp only: semiring_norm)

lemma q2_a0_11: "(2::nat) ^ 3342 mod 19757330305831588566944191468367130476339 = 2741074543570134387368872531500694667537"
  by (rule pw_sq0[where q = "19293079453473215695698998085832837987456", OF q2_a0_10]; simp only: semiring_norm)

lemma q2_a0_12: "(2::nat) ^ 6684 mod 19757330305831588566944191468367130476339 = 18129074954164426131222341246417038296043"
  by (rule pw_sq0[where q = "380288709916973613942502556697489333234", OF q2_a0_11]; simp only: semiring_norm)

lemma q2_a0_13: "(2::nat) ^ 13368 mod 19757330305831588566944191468367130476339 = 18809579709454361105253480884714360622318"
  by (rule pw_sq0[where q = "16635008556631933400475953206080385080329", OF q2_a0_12]; simp only: semiring_norm)

lemma q2_a0_14: "(2::nat) ^ 26736 mod 19757330305831588566944191468367130476339 = 16983469284660113529419339998214789416117"
  by (rule pw_sq0[where q = "17907292299602302366417758034714585391413", OF q2_a0_13]; simp only: semiring_norm)

lemma q2_a0_15: "(2::nat) ^ 53472 mod 19757330305831588566944191468367130476339 = 3097813472089334610536828706139684916534"
  by (rule pw_sq0[where q = "14599048782307286849932576057763754948145", OF q2_a0_14]; simp only: semiring_norm)

lemma q2_a0_16: "(2::nat) ^ 106945 mod 19757330305831588566944191468367130476339 = 164580144388749734687458214494025342198"
  by (rule pw_sq1[where q = "971431682247644942009228690512624938726", OF q2_a0_15]; simp only: semiring_norm)

lemma q2_a0_17: "(2::nat) ^ 213890 mod 19757330305831588566944191468367130476339 = 7294318263710464622891738576646156954481"
  by (rule pw_sq0[where q = "1370965788785077018286373018622158657", OF q2_a0_16]; simp only: semiring_norm)

lemma q2_a0_18: "(2::nat) ^ 427781 mod 19757330305831588566944191468367130476339 = 3503720168317033537504664039577593350780"
  by (rule pw_sq1[where q = "5386059564595668639357184563906369756578", OF q2_a0_17]; simp only: semiring_norm)

lemma q2_a0_19: "(2::nat) ^ 855563 mod 19757330305831588566944191468367130476339 = 7208976363552009668359812791358536409515"
  by (rule pw_sq1[where q = "1242683584051650149527848379523960869815", OF q2_a0_18]; simp only: semiring_norm)

lemma q2_a0_20: "(2::nat) ^ 1711126 mod 19757330305831588566944191468367130476339 = 4067196661299211085214309862462615068967"
  by (rule pw_sq0[where q = "2630382719010991443572685526520117421222", OF q2_a0_19]; simp only: semiring_norm)

lemma q2_a0_21: "(2::nat) ^ 3422252 mod 19757330305831588566944191468367130476339 = 10092219781375010978830624923642664867203"
  by (rule pw_sq0[where q = "837263356213712444687325741322744717274", OF q2_a0_20]; simp only: semiring_norm)

lemma q2_a0_22: "(2::nat) ^ 6844505 mod 19757330305831588566944191468367130476339 = 3958465358828108782955647323664437892612"
  by (rule pw_sq1[where q = "10310390982886396884317052184490097818554", OF q2_a0_21]; simp only: semiring_norm)

lemma q2_a0_23: "(2::nat) ^ 13689011 mod 19757330305831588566944191468367130476339 = 12307617549479279985696195657247487818311"
  by (rule pw_sq1[where q = "1586190821784979916441459249440682587843", OF q2_a0_22]; simp only: semiring_norm)

lemma q2_a0_24: "(2::nat) ^ 27378022 mod 19757330305831588566944191468367130476339 = 9519791704869126618125401996451058285890"
  by (rule pw_sq0[where q = "7666898685170038292600220041457734787029", OF q2_a0_23]; simp only: semiring_norm)

lemma q2_a0_25: "(2::nat) ^ 54756045 mod 19757330305831588566944191468367130476339 = 16910861352137393034221682432921983706256"
  by (rule pw_sq1[where q = "9173955458683166872136660192551249814696", OF q2_a0_24]; simp only: semiring_norm)

lemma q2_a0_26: "(2::nat) ^ 109512091 mod 19757330305831588566944191468367130476339 = 12510372665995464893132709347956518793016"
  by (rule pw_sq1[where q = "28948975113991476961760718558251605025304", OF q2_a0_25]; simp only: semiring_norm)

lemma q2_a0_27: "(2::nat) ^ 219024183 mod 19757330305831588566944191468367130476339 = 7248993891039766726246535810340135089056"
  by (rule pw_sq1[where q = "15843175350051321021271226685164880127904", OF q2_a0_26]; simp only: semiring_norm)

lemma q2_a0_28: "(2::nat) ^ 438048366 mod 19757330305831588566944191468367130476339 = 14696419350991820950982570575210186715154"
  by (rule pw_sq0[where q = "2659666646197729244138036022980969550938", OF q2_a0_27]; simp only: semiring_norm)

lemma q2_a0_29: "(2::nat) ^ 876096733 mod 19757330305831588566944191468367130476339 = 1000800396041786658643875649397670388887"
  by (rule pw_sq1[where q = "21863757744279512894159191721587587694155", OF q2_a0_28]; simp only: semiring_norm)

lemma q2_a0_30: "(2::nat) ^ 1752193467 mod 19757330305831588566944191468367130476339 = 5559330094633165847650652553677567736791"
  by (rule pw_sq1[where q = "101390361674700917265942562400919592073", OF q2_a0_29]; simp only: semiring_norm)

lemma q2_a0_31: "(2::nat) ^ 3504386934 mod 19757330305831588566944191468367130476339 = 17165912182971479704515406995458772334885"
  by (rule pw_sq0[where q = "1564287817366282619059731248455431668964", OF q2_a0_30]; simp only: semiring_norm)

lemma q2_a0_32: "(2::nat) ^ 7008773869 mod 19757330305831588566944191468367130476339 = 6293122669717138753539957413292806374399"
  by (rule pw_sq1[where q = "29828781167515742964764306696043480635009", OF q2_a0_31]; simp only: semiring_norm)

lemma q2_a0_33: "(2::nat) ^ 14017547739 mod 19757330305831588566944191468367130476339 = 5098046884010214108570199030460054449170"
  by (rule pw_sq1[where q = "4008982218049814191852102300302208068688", OF q2_a0_32]; simp only: semiring_norm)

lemma q2_a0_34: "(2::nat) ^ 28035095479 mod 19757330305831588566944191468367130476339 = 5251203743877784770365842570837209422886"
  by (rule pw_sq1[where q = "2630930558861487594910332034193975035926", OF q2_a0_33]; simp only: semiring_norm)

lemma q2_a0_35: "(2::nat) ^ 56070190958 mod 19757330305831588566944191468367130476339 = 11425944374501064380602063708702788149002"
  by (rule pw_sq0[where q = "1395691641171629548326246902906297595646", OF q2_a0_34]; simp only: semiring_norm)

lemma q2_a0_36: "(2::nat) ^ 112140381916 mod 19757330305831588566944191468367130476339 = 11630358414123007096396431092496607988532"
  by (rule pw_sq0[where q = "6607785709320182381223143520816606648848", OF q2_a0_35]; simp only: semiring_norm)

lemma q2_a0_37: "(2::nat) ^ 224280763833 mod 19757330305831588566944191468367130476339 = 14265641388208725410251473003479857581710"
  by (rule pw_sq1[where q = "13692663406152281510216047375549691483942", OF q2_a0_36]; simp only: semiring_norm)

lemma q2_a0_38: "(2::nat) ^ 448561527667 mod 19757330305831588566944191468367130476339 = 18525015456028222876042134081102116080243"
  by (rule pw_sq1[where q = "20600812059806080197748111100446930957463", OF q2_a0_37]; simp only: semiring_norm)

lemma q2_a0_39: "(2::nat) ^ 897123055335 mod 19757330305831588566944191468367130476339 = 19624084581796951438104079787668754963220"
  by (rule pw_sq1[where q = "34739126423856202892583423970774564569802", OF q2_a0_38]; simp only: semiring_norm)

lemma q2_a0_40: "(2::nat) ^ 1794246110670 mod 19757330305831588566944191468367130476339 = 8605839234462744138583551664326542235592"
  by (rule pw_sq0[where q = "19491737482358789991289569573383607547672", OF q2_a0_39]; simp only: semiring_norm)

lemma q2_a0_41: "(2::nat) ^ 3588492221341 mod 19757330305831588566944191468367130476339 = 12016577457375382630174239618735459296153"
  by (rule pw_sq1[where q = "7497011770619491644432398638029799801725", OF q2_a0_40]; simp only: semiring_norm)

lemma q2_a0_42: "(2::nat) ^ 7176984442682 mod 19757330305831588566944191468367130476339 = 5592002592978128606989292496417672317871"
  by (rule pw_sq0[where q = "7308585297401317084387724670572847442742", OF q2_a0_41]; simp only: semiring_norm)

lemma q2_a0_43: "(2::nat) ^ 14353968885364 mod 19757330305831588566944191468367130476339 = 928513593475896652103538037313128212518"
  by (rule pw_sq0[where q = "1582728664036369908457436297281939119257", OF q2_a0_42]; simp only: semiring_norm)

lemma q2_a0_44: "(2::nat) ^ 28707937770729 mod 19757330305831588566944191468367130476339 = 5380239711509991466164012245749058765940"
  by (rule pw_sq1[where q = "87272670945330454374536224206744759772", OF q2_a0_43]; simp only: semiring_norm)

lemma q2_a0_45: "(2::nat) ^ 57415875541459 mod 19757330305831588566944191468367130476339 = 15333042075391074190205731085039102515507"
  by (rule pw_sq1[where q = "2930252104431852704621644124163911201887", OF q2_a0_44]; simp only: semiring_norm)

lemma q2_a0_46: "(2::nat) ^ 114831751082918 mod 19757330305831588566944191468367130476339 = 9148758478138211201771971577098600188172"
  by (rule pw_sq0[where q = "11899491259521033692969125360158426181743", OF q2_a0_45]; simp only: semiring_norm)

lemma q2_b0_1: "(2::nat) ^ 3 mod 19757330305831588566944191468367130476339 = 8"
  by (rule pw_init1[where q = "0"]; simp only: semiring_norm)

lemma q2_b0_2: "(2::nat) ^ 7 mod 19757330305831588566944191468367130476339 = 128"
  by (rule pw_sq1[where q = "0", OF q2_b0_1]; simp only: semiring_norm)

lemma q2_b0_3: "(2::nat) ^ 14 mod 19757330305831588566944191468367130476339 = 16384"
  by (rule pw_sq0[where q = "0", OF q2_b0_2]; simp only: semiring_norm)

lemma q2_b0_4: "(2::nat) ^ 29 mod 19757330305831588566944191468367130476339 = 536870912"
  by (rule pw_sq1[where q = "0", OF q2_b0_3]; simp only: semiring_norm)

lemma q2_b0_5: "(2::nat) ^ 58 mod 19757330305831588566944191468367130476339 = 288230376151711744"
  by (rule pw_sq0[where q = "0", OF q2_b0_4]; simp only: semiring_norm)

lemma q2_b0_6: "(2::nat) ^ 116 mod 19757330305831588566944191468367130476339 = 83076749736557242056487941267521536"
  by (rule pw_sq0[where q = "0", OF q2_b0_5]; simp only: semiring_norm)

lemma q2_b0_7: "(2::nat) ^ 232 mod 19757330305831588566944191468367130476339 = 1619361847007976702014523425326475170303"
  by (rule pw_sq0[where q = "349325857287178071418934062587", OF q2_b0_6]; simp only: semiring_norm)

lemma q2_b0_8: "(2::nat) ^ 464 mod 19757330305831588566944191468367130476339 = 19562361158645873597581409104891251722287"
  by (rule pw_sq0[where q = "132727081592145878700922027800538989798", OF q2_b0_7]; simp only: semiring_norm)

lemma q2_b0_9: "(2::nat) ^ 928 mod 19757330305831588566944191468367130476339 = 11703182838014489695100769160889534803008"
  by (rule pw_sq0[where q = "19369316004619452272808222939004939638299", OF q2_b0_8]; simp only: semiring_norm)

lemma q2_b0_10: "(2::nat) ^ 1857 mod 19757330305831588566944191468367130476339 = 18880617727888554791907352021290245512212"
  by (rule pw_sq1[where q = "13864675684403610263405268401355368275044", OF q2_b0_9]; simp only: semiring_norm)

lemma q2_b0_11: "(2::nat) ^ 3715 mod 19757330305831588566944191468367130476339 = 8186063759360150637770811242217047780628"
  by (rule pw_sq1[where q = "36085616859018785335353913275709199270340", OF q2_b0_10]; simp only: semiring_norm)

lemma q2_b0_12: "(2::nat) ^ 7431 mod 19757330305831588566944191468367130476339 = 15137470273834310244178733764317756093121"
  by (rule pw_sq1[where q = "6783471130462442681752612304755979291173", OF q2_b0_11]; simp only: semiring_norm)

lemma q2_b0_13: "(2::nat) ^ 14863 mod 19757330305831588566944191468367130476339 = 13336465597306171292088369112389604199884"
  by (rule pw_sq1[where q = "23195745856775332080070445360842985514482", OF q2_b0_12]; simp only: semiring_norm)

lemma q2_b0_14: "(2::nat) ^ 29727 mod 19757330305831588566944191468367130476339 = 16658519595388914898900202686708461235803"
  by (rule pw_sq1[where q = "18004589878788772587530515761001622651431", OF q2_b0_13]; simp only: semiring_norm)

lemma q2_b0_15: "(2::nat) ^ 59455 mod 19757330305831588566944191468367130476339 = 10392783780435703415783569069555303727337"
  by (rule pw_sq1[where q = "28091474993263385868861795165686074338579", OF q2_b0_14]; simp only: semiring_norm)

lemma q2_b0_16: "(2::nat) ^ 118910 mod 19757330305831588566944191468367130476339 = 9731061256971484152178024118141860264508"
  by (rule pw_sq0[where q = "5466829426595511803713355242870585680599", OF q2_b0_15]; simp only: semiring_norm)

lemma q2_b0_17: "(2::nat) ^ 237820 mod 19757330305831588566944191468367130476339 = 8445612247177216603463075118926881974291"
  by (rule pw_sq0[where q = "4792831405920344425028051623995638830607", OF q2_b0_16]; simp only: semiring_norm)

lemma q2_b0_18: "(2::nat) ^ 475640 mod 19757330305831588566944191468367130476339 = 7742269166387525084957806299243274421937"
  by (rule pw_sq0[where q = "3610222895783468269446270307527004129896", OF q2_b0_17]; simp only: semiring_norm)

lemma q2_b0_19: "(2::nat) ^ 951280 mod 19757330305831588566944191468367130476339 = 5342816821726778074614170052046377125079"
  by (rule pw_sq0[where q = "3033948965620230608190408766559355666510", OF q2_b0_18]; simp only: semiring_norm)

lemma q2_b0_20: "(2::nat) ^ 1902561 mod 19757330305831588566944191468367130476339 = 12439973860133595534260708182925173354195"
  by (rule pw_sq1[where q = "2889630445880743548681511175818486306933", OF q2_b0_19]; simp only: semiring_norm)

lemma q2_b0_21: "(2::nat) ^ 3805123 mod 19757330305831588566944191468367130476339 = 3978678905118092496381558421918923565856"
  by (rule pw_sq1[where q = "15665370497463430245236467571860310797446", OF q2_b0_20]; simp only: semiring_norm)

lemma q2_b0_22: "(2::nat) ^ 7610246 mod 19757330305831588566944191468367130476339 = 13138802078496741084939323099265587826000"
  by (rule pw_sq0[where q = "801215831541741355132612946980309921424", OF q2_b0_21]; simp only: semiring_norm)

lemma q2_b0_23: "(2::nat) ^ 15220493 mod 19757330305831588566944191468367130476339 = 4175370477986640217187608120925983640126"
  by (rule pw_sq1[where q = "17474842742995215007131299764514134368566", OF q2_b0_22]; simp only: semiring_norm)

lemma q2_b0_24: "(2::nat) ^ 30440987 mod 19757330305831588566944191468367130476339 = 6884451411422439117455419951372607032882"
  by (rule pw_sq1[where q = "1764784852870191152591949718050219653330", OF q2_b0_23]; simp only: semiring_norm)

lemma q2_b0_25: "(2::nat) ^ 60881974 mod 19757330305831588566944191468367130476339 = 2899717532777486813747096178095641080961"
  by (rule pw_sq0[where q = "2398890462556425039006310723064013584817", OF q2_b0_24]; simp only: semiring_norm)

lemma q2_b0_26: "(2::nat) ^ 121763948 mod 19757330305831588566944191468367130476339 = 15554825367944987205289407003058023693694"
  by (rule pw_sq0[where q = "425581879724678029498043171561441927793", OF q2_b0_25]; simp only: semiring_norm)

lemma q2_b0_27: "(2::nat) ^ 243527897 mod 19757330305831588566944191468367130476339 = 15326265273001920157321719593109806324053"
  by (rule pw_sq1[where q = "24492437842763604184348678388673382241921", OF q2_b0_26]; simp only: semiring_norm)

lemma q2_b0_28: "(2::nat) ^ 487055795 mod 19757330305831588566944191468367130476339 = 10581653344545812732519539782957955103429"
  by (rule pw_sq1[where q = "23777950115972198044299613516321736117151", OF q2_b0_27]; simp only: semiring_norm)

lemma q2_b0_29: "(2::nat) ^ 974111591 mod 19757330305831588566944191468367130476339 = 436537712718503123566775228154779404944"
  by (rule pw_sq1[where q = "11334667768457363402433055105465560189142", OF q2_b0_28]; simp only: semiring_norm)

lemma q2_b0_30: "(2::nat) ^ 1948223183 mod 19757330305831588566944191468367130476339 = 15085588252406633529453414902829941774329"
  by (rule pw_sq1[where q = "19290579412872902427785408583652956637", OF q2_b0_29]; simp only: semiring_norm)

lemma q2_b0_31: "(2::nat) ^ 3896446367 mod 19757330305831588566944191468367130476339 = 10950042474005030808164944435227137972905"
  by (rule pw_sq1[where q = "23037016580522301258486325157668002355043", OF q2_b0_30]; simp only: semiring_norm)

lemma q2_b0_32: "(2::nat) ^ 7792892734 mod 19757330305831588566944191468367130476339 = 11691828580684039707609597826712772820899"
  by (rule pw_sq0[where q = "6068807289572084979381716494949928633434", OF q2_b0_31]; simp only: semiring_norm)

lemma q2_b0_33: "(2::nat) ^ 15585785469 mod 19757330305831588566944191468367130476339 = 12342179655867855468476310845060126376627"
  by (rule pw_sq1[where q = "13837786122323624739487871550822792226725", OF q2_b0_32]; simp only: semiring_norm)

lemma q2_b0_34: "(2::nat) ^ 31171570939 mod 19757330305831588566944191468367130476339 = 13209754946270787462754927364534326634235"
  by (rule pw_sq1[where q = "15420038669167434492533005827929477313357", OF q2_b0_33]; simp only: semiring_norm)

lemma q2_b0_35: "(2::nat) ^ 62343141879 mod 19757330305831588566944191468367130476339 = 15728154782787925552120978473084188800907"
  by (rule pw_sq1[where q = "17664089534305217712545938803113247055037", OF q2_b0_34]; simp only: semiring_norm)

lemma q2_b0_36: "(2::nat) ^ 124686283758 mod 19757330305831588566944191468367130476339 = 13062752512106526018090676591421712867408"
  by (rule pw_sq0[where q = "12520661903309848942476227545178781383219", OF q2_b0_35]; simp only: semiring_norm)

lemma q2_b0_37: "(2::nat) ^ 249372567516 mod 19757330305831588566944191468367130476339 = 16954463015510559380800672376034476808091"
  by (rule pw_sq0[where q = "8636566810961319601584751883887455264007", OF q2_b0_36]; simp only: semiring_norm)

lemma q2_b0_38: "(2::nat) ^ 498745135033 mod 19757330305831588566944191468367130476339 = 10115390547343274290876271029563718401204"
  by (rule pw_sq1[where q = "29098447178308328890196983028721823226122", OF q2_b0_37]; simp only: semiring_norm)

lemma q2_b0_39: "(2::nat) ^ 997490270067 mod 19757330305831588566944191468367130476339 = 3602777628843355901757948682728231594425"
  by (rule pw_sq1[where q = "10357788662882300982778980268007194831613", OF q2_b0_38]; simp only: semiring_norm)

lemma q2_b0_40: "(2::nat) ^ 1994980540135 mod 19757330305831588566944191468367130476339 = 15902499285523653161523587471940071602286"
  by (rule pw_sq1[where q = "1313943376151682330310867456140887874876", OF q2_b0_39]; simp only: semiring_norm)

lemma q2_b0_41: "(2::nat) ^ 3989961080271 mod 19757330305831588566944191468367130476339 = 4952337138585441474911418425578853699533"
  by (rule pw_sq1[where q = "25599560225142082876940005391855885947481", OF q2_b0_40]; simp only: semiring_norm)

lemma q2_b0_42: "(2::nat) ^ 7979922160542 mod 19757330305831588566944191468367130476339 = 18460587600651156974321413410847427819311"
  by (rule pw_sq0[where q = "1241343984970157165950930951382113519902", OF q2_b0_41]; simp only: semiring_norm)

lemma q2_b0_43: "(2::nat) ^ 15959844321084 mod 19757330305831588566944191468367130476339 = 3074910640844818053279930998090810043712"
  by (rule pw_sq0[where q = "17248954655615917600497788026957760565531", OF q2_b0_42]; simp only: semiring_norm)

lemma q2_b0_44: "(2::nat) ^ 31919688642168 mod 19757330305831588566944191468367130476339 = 11158197767385901331818491026167089529449"
  by (rule pw_sq0[where q = "478560377481259318552294620760140040205", OF q2_b0_43]; simp only: semiring_norm)

lemma q2_b0_45: "(2::nat) ^ 63839377284336 mod 19757330305831588566944191468367130476339 = 7463426772326548444198858830457048511586"
  by (rule pw_sq0[where q = "6301730825411498617992850329882980148885", OF q2_b0_44]; simp only: semiring_norm)

lemma q2_b0_46: "(2::nat) ^ 127678754568673 mod 19757330305831588566944191468367130476339 = 4954415581713227535779016964535582331476"
  by (rule pw_sq1[where q = "5638690888256235522614138892024987243644", OF q2_b0_45]; simp only: semiring_norm)

lemma q2_b0_47: "(2::nat) ^ 255357509137347 mod 19757330305831588566944191468367130476339 = 17012444883971741020900742563841058082800"
  by (rule pw_sq1[where q = "2484772322612608633629894871994213194768", OF q2_b0_46]; simp only: semiring_norm)

lemma q2_b0_48: "(2::nat) ^ 510715018274695 mod 19757330305831588566944191468367130476339 = 13808093328164256467970600455367950006838"
  by (rule pw_sq1[where q = "29297812654855486234385452071453660684558", OF q2_b0_47]; simp only: semiring_norm)

lemma q2_b0_49: "(2::nat) ^ 1021430036549391 mod 19757330305831588566944191468367130476339 = 10760604004700830034263621211515256297497"
  by (rule pw_sq1[where q = "19300526782509465583264272033810609144469", OF q2_b0_48]; simp only: semiring_norm)

lemma q2_b0_50: "(2::nat) ^ 2042860073098783 mod 19757330305831588566944191468367130476339 = 3018145329411352110606926409657331597505"
  by (rule pw_sq1[where q = "11721279824107278325556313447144920850267", OF q2_b0_49]; simp only: semiring_norm)

lemma q2_b0_51: "(2::nat) ^ 4085720146197567 mod 19757330305831588566944191468367130476339 = 1832876295288540002267869300868821605625"
  by (rule pw_sq1[where q = "922108512480441794723951476991006021075", OF q2_b0_50]; simp only: semiring_norm)

lemma q2_b0_52: "(2::nat) ^ 8171440292395135 mod 19757330305831588566944191468367130476339 = 283177909839319082134009424801841169126"
  by (rule pw_sq1[where q = "340069782893599724530854082896399751316", OF q2_b0_51]; simp only: semiring_norm)

lemma q2_b0_53: "(2::nat) ^ 16342880584790271 mod 19757330305831588566944191468367130476339 = 18858767871530106537055385973192607598252"
  by (rule pw_sq1[where q = "8117466011822120120745528630460960500", OF q2_b0_52]; simp only: semiring_norm)

lemma q2_b0_54: "(2::nat) ^ 32685761169580542 mod 19757330305831588566944191468367130476339 = 9479982266044965941139418391621652893078"
  by (rule pw_sq0[where q = "18001072013625309445392982645607419247134", OF q2_b0_53]; simp only: semiring_norm)

lemma q2_b0_55: "(2::nat) ^ 65371522339161084 mod 19757330305831588566944191468367130476339 = 8390565137055451058771314261375179903585"
  by (rule pw_sq0[where q = "4548694705883462977981585899980320355441", OF q2_b0_54]; simp only: semiring_norm)

lemma q2_b0_56: "(2::nat) ^ 130743044678322168 mod 19757330305831588566944191468367130476339 = 2510370284539389580222553436897459342213"
  by (rule pw_sq0[where q = "3563314589035876754676145224631864458708", OF q2_b0_55]; simp only: semiring_norm)

lemma q2_b0_57: "(2::nat) ^ 261486089356644336 mod 19757330305831588566944191468367130476339 = 15381213368278193359867389444171394377860"
  by (rule pw_sq0[where q = "318968143364910229071008615537422987031", OF q2_b0_56]; simp only: semiring_norm)

lemma q2_b0_58: "(2::nat) ^ 522972178713288673 mod 19757330305831588566944191468367130476339 = 13141263587204363069644592465943505914074"
  by (rule pw_sq1[where q = "23948754312283797305894596942531135126434", OF q2_b0_57]; simp only: semiring_norm)

lemma q2_b0_59: "(2::nat) ^ 1045944357426577346 mod 19757330305831588566944191468367130476339 = 858000744963162942060994796890207168808"
  by (rule pw_sq0[where q = "8740695528960769785101481204935611563412", OF q2_b0_58]; simp only: semiring_norm)

lemma q2_b0_60: "(2::nat) ^ 2091888714853154693 mod 19757330305831588566944191468367130476339 = 19603227265107078576245240238081531412907"
  by (rule pw_sq1[where q = "74520723899630860343926291187323604439", OF q2_b0_59]; simp only: semiring_norm)

lemma q2_b0_61: "(2::nat) ^ 4183777429706309386 mod 19757330305831588566944191468367130476339 = 15103470954901421376513216613316169510794"
  by (rule pw_sq0[where q = "19450326195842929835955360675950763831445", OF q2_b0_60]; simp only: semiring_norm)

lemma q2_b0_62: "(2::nat) ^ 8367554859412618772 mod 19757330305831588566944191468367130476339 = 3414241553426565695093199834103937908566"
  by (rule pw_sq0[where q = "11545832931599078745574029588029197190330", OF q2_b0_61]; simp only: semiring_norm)

lemma q2_b0_63: "(2::nat) ^ 16735109718825237545 mod 19757330305831588566944191468367130476339 = 11676694876518579601243487210961073228608"
  by (rule pw_sq1[where q = "1180022321305621550791466652476014178136", OF q2_b0_62]; simp only: semiring_norm)

lemma q2_b0_64: "(2::nat) ^ 33470219437650475090 mod 19757330305831588566944191468367130476339 = 16506654837968491184141812380601278552257"
  by (rule pw_sq0[where q = "6900993258136272264316925183357509507013", OF q2_b0_63]; simp only: semiring_norm)

lemma q2_b0_65: "(2::nat) ^ 66940438875300950181 mod 19757330305831588566944191468367130476339 = 8612688314379037259666025456862420023711"
  by (rule pw_sq1[where q = "27581626639041029411303922857240249666833", OF q2_b0_64]; simp only: semiring_norm)

lemma q2_b0_66: "(2::nat) ^ 133880877750601900363 mod 19757330305831588566944191468367130476339 = 9414904300215241232260624714287305015490"
  by (rule pw_sq1[where q = "7508949726749941459631229288273949973568", OF q2_b0_65]; simp only: semiring_norm)

lemma q2_b0_67: "(2::nat) ^ 267761755501203800726 mod 19757330305831588566944191468367130476339 = 435705108150346903965159130541433816400"
  by (rule pw_sq0[where q = "4486457512736336997361831844319038098300", OF q2_b0_66]; simp only: semiring_norm)

lemma q2_b0_68: "(2::nat) ^ 535523511002407601453 mod 19757330305831588566944191468367130476339 = 18772652047336607671406033737320912141085"
  by (rule pw_sq1[where q = "19217064079985795094216270294248515985", OF q2_b0_67]; simp only: semiring_norm)

lemma q2_b0_69: "(2::nat) ^ 1071047022004815202906 mod 19757330305831588566944191468367130476339 = 216270484648483705049703522717080485061"
  by (rule pw_sq0[where q = "17837048803418192473220279548311854733676", OF q2_b0_68]; simp only: semiring_norm)

lemma q2_b0_70: "(2::nat) ^ 2142094044009630405812 mod 19757330305831588566944191468367130476339 = 3625678127686420775532009167387543345886"
  by (rule pw_sq0[where q = "2367370581251278403722965816223282265", OF q2_b0_69]; simp only: semiring_norm)

lemma q2_b0_71: "(2::nat) ^ 4284188088019260811624 mod 19757330305831588566944191468367130476339 = 5149350621479649566232555868905117386366"
  by (rule pw_sq0[where q = "665350109660497077405722145502054899170", OF q2_b0_70]; simp only: semiring_norm)

lemma q2_b0_72: "(2::nat) ^ 8568376176038521623248 mod 19757330305831588566944191468367130476339 = 12361746476791716654432770976843388785812"
  by (rule pw_sq0[where q = "1342074633185963699652324110467744524496", OF q2_b0_71]; simp only: semiring_norm)

lemma q2_b0_73: "(2::nat) ^ 17136752352077043246497 mod 19757330305831588566944191468367130476339 = 1172131063560488075419871862789463466837"
  by (rule pw_sq1[where q = "15468970107906540904531198549313154643209", OF q2_b0_72]; simp only: semiring_norm)

lemma q2_b0_74: "(2::nat) ^ 34273504704154086492995 mod 19757330305831588566944191468367130476339 = 1947456036028832605853897730663702459258"
  by (rule pw_sq1[where q = "139076606899457682421136574241747802920", OF q2_b0_73]; simp only: semiring_norm)

lemma q2_b0_75: "(2::nat) ^ 68547009408308172985991 mod 19757330305831588566944191468367130476339 = 14811579295750740854449310040939677766842"
  by (rule pw_sq1[where q = "383916749232634076868846082976734306874", OF q2_b0_74]; simp only: semiring_norm)

lemma q2_b0_76: "(2::nat) ^ 137094018816616345971982 mod 19757330305831588566944191468367130476339 = 19225620332140871327210919683601959896945"
  by (rule pw_sq0[where q = "11103872731710052706152506819294476021121", OF q2_b0_75]; simp only: semiring_norm)

lemma q2_b0_77: "(2::nat) ^ 274188037633232691943965 mod 19757330305831588566944191468367130476339 = 13960060100916944636366497489440175146031"
  by (rule pw_sq1[where q = "37416439512228008567699061235773507097121", OF q2_b0_76]; simp only: semiring_norm)

lemma q2_b0_78: "(2::nat) ^ 548376075266465383887931 mod 19757330305831588566944191468367130476339 = 17346315590094180754837533242033190963787"
  by (rule pw_sq1[where q = "19727693469161804580598311108276119025965", OF q2_b0_77]; simp only: semiring_norm)

lemma q2_b0_79: "(2::nat) ^ 1096752150532930767775862 mod 19757330305831588566944191468367130476339 = 10922988966528132202468292568542791838468"
  by (rule pw_sq0[where q = "15229520380207042920296901863529580495159", OF q2_b0_78]; simp only: semiring_norm)

lemma q2_b0_80: "(2::nat) ^ 2193504301065861535551725 mod 19757330305831588566944191468367130476339 = 18100813620737317680156972534990608728419"
  by (rule pw_sq1[where q = "12077713548948380487736506938084544748111", OF q2_b0_79]; simp only: semiring_norm)

lemma q2_b0_81: "(2::nat) ^ 4387008602131723071103451 mod 19757330305831588566944191468367130476339 = 5397444497224535627262680516229718100362"
  by (rule pw_sq1[where q = "33166369004415874453285421051997272986840", OF q2_b0_80]; simp only: semiring_norm)

lemma q2_b0_82: "(2::nat) ^ 8774017204263446142206902 mod 19757330305831588566944191468367130476339 = 18041248118887594315696159565989522034839"
  by (rule pw_sq0[where q = "1474511315530351631114481833479063396095", OF q2_b0_81]; simp only: semiring_norm)

lemma q2_b0_83: "(2::nat) ^ 17548034408526892284413804 mod 19757330305831588566944191468367130476339 = 14255677331121657048233458658898316659536"
  by (rule pw_sq0[where q = "16474221397776311879920831178914924326715", OF q2_b0_82]; simp only: semiring_norm)

lemma q2_b0_84: "(2::nat) ^ 35096068817053784568827608 mod 19757330305831588566944191468367130476339 = 8635475489388849910809319681279090177522"
  by (rule pw_sq0[where q = "10286022100317472646128932109436410644666", OF q2_b0_83]; simp only: semiring_norm)

lemma q2_b0_85: "(2::nat) ^ 70192137634107569137655216 mod 19757330305831588566944191468367130476339 = 16180048278757857621174426190295818586755"
  by (rule pw_sq0[where q = "3774368083820769808332372710458169806011", OF q2_b0_84]; simp only: semiring_norm)

lemma q2_b0_86: "(2::nat) ^ 140384275268215138275310433 mod 19757330305831588566944191468367130476339 = 8832184709570162725358267579097802135762"
  by (rule pw_sq1[where q = "26500945041715864518622331523202947564992", OF q2_b0_85]; simp only: semiring_norm)

lemma q2_b0_87: "(2::nat) ^ 280768550536430276550620866 mod 19757330305831588566944191468367130476339 = 3673914295162933430005467107630022244458"
  by (rule pw_sq0[where q = "3948280741196103345044652415908222198974", OF q2_b0_86]; simp only: semiring_norm)

lemma q2_b0_88: "(2::nat) ^ 561537101072860553101241733 mod 19757330305831588566944191468367130476339 = 15698305665419561451471649839745897023568"
  by (rule pw_sq1[where q = "1366343128273618876291791713464479273640", OF q2_b0_87]; simp only: semiring_norm)

lemma q2_b0_89: "(2::nat) ^ 1123074202145721106202483467 mod 19757330305831588566944191468367130476339 = 3227133556061120444171020980690081917399"
  by (rule pw_sq1[where q = "24946366432129286962406993087125606583091", OF q2_b0_88]; simp only: semiring_norm)

lemma q2_b0_90: "(2::nat) ^ 2246148404291442212404966934 mod 19757330305831588566944191468367130476339 = 5807354526329973776940839584007547898291"
  by (rule pw_sq0[where q = "527115294801837335384314394076250827690", OF q2_b0_89]; simp only: semiring_norm)

lemma q2_b0_91: "(2::nat) ^ 4492296808582884424809933868 mod 19757330305831588566944191468367130476339 = 1682996929309808442595278090651632956112"
  by (rule pw_sq0[where q = "1706979944781852908541666704435200725571", OF q2_b0_90]; simp only: semiring_norm)

lemma q2_b0_92: "(2::nat) ^ 8984593617165768849619867736 mod 19757330305831588566944191468367130476339 = 13894969628929111689595452049907247743592"
  by (rule pw_sq0[where q = "143363431203567407571437881109704892168", OF q2_b0_91]; simp only: semiring_norm)

lemma q2_b0_93: "(2::nat) ^ 17969187234331537699239735473 mod 19757330305831588566944191468367130476339 = 4180692966765390086900430127720285295401"
  by (rule pw_sq1[where q = "19544156826884214721019191662736657270093", OF q2_b0_92]; simp only: semiring_norm)

lemma q2_b0_94: "(2::nat) ^ 35938374468663075398479470947 mod 19757330305831588566944191468367130476339 = 14352364924342046256072688791025871690437"
  by (rule pw_sq1[where q = "1769286984811173823980999561589138418735", OF q2_b0_93]; simp only: semiring_norm)

lemma q2_b0_95: "(2::nat) ^ 71876748937326150796958941894 mod 19757330305831588566944191468367130476339 = 14375054909927868804190912809347669272163"
  by (rule pw_sq0[where q = "10426022935937027635778052163086409133554", OF q2_b0_94]; simp only: semiring_norm)

lemma q2_b0_96: "(2::nat) ^ 143753497874652301593917883789 mod 19757330305831588566944191468367130476339 = 19571282801844662067742664337465542896516"
  by (rule pw_sq1[where q = "20918028950748336587048931585331186944698", OF q2_b0_95]; simp only: semiring_norm)

lemma q2_b0_97: "(2::nat) ^ 287506995749304603187835767579 mod 19757330305831588566944191468367130476339 = 16391378967931793004839352111002982515788"
  by (rule pw_sq1[where q = "38773974477384094031287433482095139818716", OF q2_b0_96]; simp only: semiring_norm)

lemma q2_b0_98: "(2::nat) ^ 575013991498609206375671535158 mod 19757330305831588566944191468367130476339 = 11564717337363423036608599393638092771816"
  by (rule pw_sq0[where q = "13598866866696748753999737946278859450552", OF q2_b0_97]; simp only: semiring_norm)

lemma q2_b0_99: "(2::nat) ^ 1150027982997218412751343070317 mod 19757330305831588566944191468367130476339 = 14235383532233750166484336876146357718523"
  by (rule pw_sq1[where q = "13538538357445848663489629898489785570151", OF q2_b0_98]; simp only: semiring_norm)

lemma q2_b0_100: "(2::nat) ^ 2300055965994436825502686140635 mod 19757330305831588566944191468367130476339 = 15959221112549160346246651132649264732025"
  by (rule pw_sq1[where q = "20513514849724271930854487467834749902947", OF q2_b0_99]; simp only: semiring_norm)

lemma q2_b0_101: "(2::nat) ^ 4600111931988873651005372281271 mod 19757330305831588566944191468367130476339 = 17586164952392367219799354506158110237796"
  by (rule pw_sq1[where q = "25782505488006988192343824350003641099786", OF q2_b0_100]; simp only: semiring_norm)

lemma q2_b0_102: "(2::nat) ^ 9200223863977747302010744562543 mod 19757330305831588566944191468367130476339 = 11928548357951797696981894721335552444219"
  by (rule pw_sq1[where q = "31307185024028101658834724696048914661767", OF q2_b0_101]; simp only: semiring_norm)

lemma q2_b0_103: "(2::nat) ^ 18400447727955494604021489125087 mod 19757330305831588566944191468367130476339 = 524849565703421183270312505587171094782"
  by (rule pw_sq1[where q = "14403794816954194117146020113968775723260", OF q2_b0_102]; simp only: semiring_norm)

lemma q2_b0_104: "(2::nat) ^ 36800895455910989208042978250174 mod 19757330305831588566944191468367130476339 = 14582637383276471324498961480093978418231"
  by (rule pw_sq0[where q = "13942524741703729158142533548147500287", OF q2_b0_103]; simp only: semiring_norm)

lemma q2_b0_105: "(2::nat) ^ 73601790911821978416085956500348 mod 19757330305831588566944191468367130476339 = 12263539898472494077194558563500777702895"
  by (rule pw_sq0[where q = "10763261521692813831232777509352609145494", OF q2_b0_104]; simp only: semiring_norm)

lemma q2_b0_106: "(2::nat) ^ 147203581823643956832171913000696 mod 19757330305831588566944191468367130476339 = 9946549506586676508295279814957564176894"
  by (rule pw_sq0[where q = "7612081617982375999688556402149779227729", OF q2_b0_105]; simp only: semiring_norm)

lemma q2_b0_107: "(2::nat) ^ 294407163647287913664343826001392 mod 19757330305831588566944191468367130476339 = 15683757686931630381278583322938517589512"
  by (rule pw_sq0[where q = "5007450174469081418196467463253201501716", OF q2_b0_106]; simp only: semiring_norm)

lemma q2_b0_108: "(2::nat) ^ 588814327294575827328687652002785 mod 19757330305831588566944191468367130476339 = 4237563034418926893985225395939144965286"
  by (rule pw_sq1[where q = "24900151121103976948357222818165365757118", OF q2_b0_107]; simp only: semiring_norm)

lemma q2_b0_109: "(2::nat) ^ 1177628654589151654657375304005571 mod 19757330305831588566944191468367130476339 = 14863274210456896743096292734764081646874"
  by (rule pw_sq1[where q = "1817749685074967770868431812129874478362", OF q2_b0_108]; simp only: semiring_norm)

lemma q2_b0_110: "(2::nat) ^ 2355257309178303309314750608011142 mod 19757330305831588566944191468367130476339 = 265872784925332325263061557017076124501"
  by (rule pw_sq0[where q = "11181516775575042234692148879173769995125", OF q2_b0_109]; simp only: semiring_norm)

lemma q2_b0_111: "(2::nat) ^ 4710514618356606618629501216022284 mod 19757330305831588566944191468367130476339 = 8772235075335678664098979803506257989067"
  by (rule pw_sq0[where q = "3577828414554956165570638043829062106", OF q2_b0_110]; simp only: semiring_norm)

lemma q2_b0_112: "(2::nat) ^ 9421029236713213237259002432044568 mod 19757330305831588566944191468367130476339 = 7187407821868695670541883281535586388325"
  by (rule pw_sq0[where q = "3894863679747071770256829760512653083676", OF q2_b0_111]; simp only: semiring_norm)

lemma q2_b0_113: "(2::nat) ^ 18842058473426426474518004864089136 mod 19757330305831588566944191468367130476339 = 758198465794860330415470502304657237140"
  by (rule pw_sq0[where q = "2614666576820434511794370425187651080615", OF q2_b0_112]; simp only: semiring_norm)

lemma q2_b0_114: "(2::nat) ^ 37684116946852852949036009728178273 mod 19757330305831588566944191468367130476339 = 10653747182369981405393508137341501825786"
  by (rule pw_sq1[where q = "58192570011749252121558130031286767426", OF q2_b0_113]; simp only: semiring_norm)

lemma q2_b0_115: "(2::nat) ^ 75368233893705705898072019456356546 mod 19757330305831588566944191468367130476339 = 5315728706825655226922789919026905336973"
  by (rule pw_sq0[where q = "5744821150879624889995136013396957740557", OF q2_b0_114]; simp only: semiring_norm)

lemma q2_b0_116: "(2::nat) ^ 150736467787411411796144038912713092 mod 19757330305831588566944191468367130476339 = 10738096786235579312948064898967611010984"
  by (rule pw_sq0[where q = "1430201917322301569723119310857660392955", OF q2_b0_115]; simp only: semiring_norm)

lemma q2_b0_117: "(2::nat) ^ 301472935574822823592288077825426185 mod 19757330305831588566944191468367130476339 = 11211437261921008878652227811551908667984"
  by (rule pw_sq1[where q = "11672297907225740636589426697695777275152", OF q2_b0_116]; simp only: semiring_norm)

lemma q2_b0_118: "(2::nat) ^ 602945871149645647184576155650852370 mod 19757330305831588566944191468367130476339 = 17949873054152915805010850290192936656370"
  by (rule pw_sq0[where q = "6362009620342796317817042256771771609274", OF q2_b0_117]; simp only: semiring_norm)

lemma q2_b0_119: "(2::nat) ^ 1205891742299291294369152311301704740 mod 19757330305831588566944191468367130476339 = 957669989516387990413462810197008700448"
  by (rule pw_sq0[where q = "16307767176676938830744574323837634238668", OF q2_b0_118]; simp only: semiring_norm)

lemma q2_b0_120: "(2::nat) ^ 2411783484598582588738304622603409481 mod 19757330305831588566944191468367130476339 = 3116706464691121822232208830202006085180"
  by (rule pw_sq1[where q = "92839649347727649683214990238059249452", OF q2_b0_119]; simp only: semiring_norm)

lemma q2_b0_121: "(2::nat) ^ 4823566969197165177476609245206818963 mod 19757330305831588566944191468367130476339 = 7308133757857051608325150864185739821507"
  by (rule pw_sq1[where q = "983316980248113882891791668872215306287", OF q2_b0_120]; simp only: semiring_norm)

lemma q2_b0_122: "(2::nat) ^ 9647133938394330354953218490413637927 mod 19757330305831588566944191468367130476339 = 11951838282062243661396897468505074615016"
  by (rule pw_sq1[where q = "5406481361195408388110703941940277185838", OF q2_b0_121]; simp only: semiring_norm)

lemma q2_b0_123: "(2::nat) ^ 19294267876788660709906436980827275855 mod 19757330305831588566944191468367130476339 = 11166573888284832482162356906566671818211"
  by (rule pw_sq1[where q = "14460095175754175757467393118212662059759", OF q2_b0_122]; simp only: semiring_norm)

lemma q2_b0_124: "(2::nat) ^ 38588535753577321419812873961654551711 mod 19757330305831588566944191468367130476339 = 7639791988753127129718196573076848030691"
  by (rule pw_sq1[where q = "12622390826327416052204363651926760834709", OF q2_b0_123]; simp only: semiring_norm)

lemma q2_b0_125: "(2::nat) ^ 77177071507154642839625747923309103423 mod 19757330305831588566944191468367130476339 = 1228861237180856371139865819936152987614"
  by (rule pw_sq1[where q = "5908330804611692317838242544622579025532", OF q2_b0_124]; simp only: semiring_norm)

lemma q2_b0_126: "(2::nat) ^ 154354143014309285679251495846618206846 mod 19757330305831588566944191468367130476339 = 12269325361069731028457136747049201098831"
  by (rule pw_sq0[where q = "76432388226052114724526162604356095735", OF q2_b0_125]; simp only: semiring_norm)

lemma q2_b0_127: "(2::nat) ^ 308708286028618571358502991693236413692 mod 19757330305831588566944191468367130476339 = 5918703698850793400733836064887586253145"
  by (rule pw_sq0[where q = "7619265482004745560154399259635426915544", OF q2_b0_126]; simp only: semiring_norm)

lemma q2_b0_128: "(2::nat) ^ 617416572057237142717005983386472827385 mod 19757330305831588566944191468367130476339 = 16339114451600895145340672360191484797302"
  by (rule pw_sq1[where q = "3546132289386311574819410644534201372132", OF q2_b0_127]; simp only: semiring_norm)

lemma q2_b0_129: "(2::nat) ^ 1234833144114474285434011966772945654771 mod 19757330305831588566944191468367130476339 = 19084947610355070521900031989049745363648"
  by (rule pw_sq1[where q = "27024568292378564807076738499169820730840", OF q2_b0_128]; simp only: semiring_norm)

lemma q2_b0_130: "(2::nat) ^ 2469666288228948570868023933545891309542 mod 19757330305831588566944191468367130476339 = 14844156124004850728336875399467522171200"
  by (rule pw_sq0[where q = "18435447484647749799414404734316296361536", OF q2_b0_129]; simp only: semiring_norm)

lemma q2_b0_131: "(2::nat) ^ 4939332576457897141736047867091782619084 mod 19757330305831588566944191468367130476339 = 18290544821388317092614628490158416946687"
  by (rule pw_sq0[where q = "11152770522280145523811701749013994537467", OF q2_b0_130]; simp only: semiring_norm)

lemma q2_b0_132: "(2::nat) ^ 9878665152915794283472095734183565238169 mod 19757330305831588566944191468367130476339 = 19757330305831588566944191468367130476338"
  by (rule pw_sq1[where q = "33865307173051686578565390960835052860400", OF q2_b0_131]; simp only: semiring_norm)

lemma q2_b0_133: "(2::nat) ^ 19757330305831588566944191468367130476338 mod 19757330305831588566944191468367130476339 = 1"
  by (rule pw_sq0[where q = "19757330305831588566944191468367130476337", OF q2_b0_132]; simp only: semiring_norm)

lemma prime_q2: "prime_nat 19757330305831588566944191468367130476339"
  by (rule pocklington1[where q = "172054593956031949258510691" and m = "114831751082918" and e = "19757330305831588566944191468367130476338" and a = "2"
        and c = "9148758478138211201771971577098600188172" and c' = "9148758478138211201771971577098600188171" and u = "16371654433361644093796961727196399386194" and v = "7580999557119167215323054323116539631207",
        OF prime_q3 _ _ q2_b0_133 q2_a0_46]; simp only: semiring_norm not_False_eq_True)

lemma q1_a0_1: "(2::nat) ^ 3 mod 276602624281642239937218680557139826668747 = 8"
  by (rule pw_init1[where q = "0"]; simp only: semiring_norm)

lemma q1_a0_2: "(2::nat) ^ 7 mod 276602624281642239937218680557139826668747 = 128"
  by (rule pw_sq1[where q = "0", OF q1_a0_1]; simp only: semiring_norm)

lemma q1_a0_3: "(2::nat) ^ 14 mod 276602624281642239937218680557139826668747 = 16384"
  by (rule pw_sq0[where q = "0", OF q1_a0_2]; simp only: semiring_norm)

lemma q1_b0_1: "(2::nat) ^ 3 mod 276602624281642239937218680557139826668747 = 8"
  by (rule pw_init1[where q = "0"]; simp only: semiring_norm)

lemma q1_b0_2: "(2::nat) ^ 6 mod 276602624281642239937218680557139826668747 = 64"
  by (rule pw_sq0[where q = "0", OF q1_b0_1]; simp only: semiring_norm)

lemma q1_b0_3: "(2::nat) ^ 12 mod 276602624281642239937218680557139826668747 = 4096"
  by (rule pw_sq0[where q = "0", OF q1_b0_2]; simp only: semiring_norm)

lemma q1_b0_4: "(2::nat) ^ 25 mod 276602624281642239937218680557139826668747 = 33554432"
  by (rule pw_sq1[where q = "0", OF q1_b0_3]; simp only: semiring_norm)

lemma q1_b0_5: "(2::nat) ^ 50 mod 276602624281642239937218680557139826668747 = 1125899906842624"
  by (rule pw_sq0[where q = "0", OF q1_b0_4]; simp only: semiring_norm)

lemma q1_b0_6: "(2::nat) ^ 101 mod 276602624281642239937218680557139826668747 = 2535301200456458802993406410752"
  by (rule pw_sq1[where q = "0", OF q1_b0_5]; simp only: semiring_norm)

lemma q1_b0_7: "(2::nat) ^ 203 mod 276602624281642239937218680557139826668747 = 70353966269710811067824481980038174682807"
  by (rule pw_sq1[where q = "46476436684064842683", OF q1_b0_6]; simp only: semiring_norm)

lemma q1_b0_8: "(2::nat) ^ 406 mod 276602624281642239937218680557139826668747 = 212856644023487045304013853280775616008920"
  by (rule pw_sq0[where q = "17894553902857206055508041733161791055307", OF q1_b0_7]; simp only: semiring_norm)

lemma q1_b0_9: "(2::nat) ^ 812 mod 276602624281642239937218680557139826668747 = 156582828171149672818525621127440707882630"
  by (rule pw_sq0[where q = "163801594517078895452742343591837327292910", OF q1_b0_8]; simp only: semiring_norm)

lemma q1_b0_10: "(2::nat) ^ 1625 mod 276602624281642239937218680557139826668747 = 76081431650864465283242547450583116615284"
  by (rule pw_sq1[where q = "177280907162405572089078559681975578968828", OF q1_b0_9]; simp only: semiring_norm)

lemma q1_b0_11: "(2::nat) ^ 3251 mod 276602624281642239937218680557139826668747 = 174027431430060482746779183325769382022478"
  by (rule pw_sq1[where q = "41853429677885589353303442799543486311222", OF q1_b0_10]; simp only: semiring_norm)

lemma q1_b0_12: "(2::nat) ^ 6502 mod 276602624281642239937218680557139826668747 = 111011292360259784473943481815722376859475"
  by (rule pw_sq0[where q = "109491176986473789992688937980024998301747", OF q1_b0_11]; simp only: semiring_norm)

lemma q1_b0_13: "(2::nat) ^ 13005 mod 276602624281642239937218680557139826668747 = 109928747843697709402756356406844733151850"
  by (rule pw_sq1[where q = "89106219172722199554433830872776694950200", OF q1_b0_12]; simp only: semiring_norm)

lemma q1_b0_14: "(2::nat) ^ 26011 mod 276602624281642239937218680557139826668747 = 14317682655849506634191859832484593589241"
  by (rule pw_sq1[where q = "87376825392508000094615690086792394745997", OF q1_b0_13]; simp only: semiring_norm)

lemma q1_b0_15: "(2::nat) ^ 52023 mod 276602624281642239937218680557139826668747 = 45192329780444293748055185797388162206803"
  by (rule pw_sq1[where q = "1482242167195657404753202406891139262797", OF q1_b0_14]; simp only: semiring_norm)

lemma q1_b0_16: "(2::nat) ^ 104046 mod 276602624281642239937218680557139826668747 = 90731068547858551758062419989841524743565"
  by (rule pw_sq0[where q = "7383685083569108084944879168518245679252", OF q1_b0_15]; simp only: semiring_norm)

lemma q1_b0_17: "(2::nat) ^ 208092 mod 276602624281642239937218680557139826668747 = 179318225697468380159041016549542288519969"
  by (rule pw_sq0[where q = "29761564342405130916628314076928722820248", OF q1_b0_16]; simp only: semiring_norm)

lemma q1_b0_18: "(2::nat) ^ 416185 mod 276602624281642239937218680557139826668747 = 134240868605597167973721818616348890373137"
  by (rule pw_sq1[where q = "232499790273481487111073822560174943919155", OF q1_b0_17]; simp only: semiring_norm)

lemma q1_b0_19: "(2::nat) ^ 832370 mod 276602624281642239937218680557139826668747 = 185627809385704545742869161440404559835132"
  by (rule pw_sq0[where q = "65149818628026690343745234418739555281871", OF q1_b0_18]; simp only: semiring_norm)

lemma q1_b0_20: "(2::nat) ^ 1664741 mod 276602624281642239937218680557139826668747 = 46480228491231259869716209852037695779718"
  by (rule pw_sq1[where q = "249149361520518102642170573648418792475790", OF q1_b0_19]; simp only: semiring_norm)

lemma q1_b0_21: "(2::nat) ^ 3329482 mod 276602624281642239937218680557139826668747 = 191943484231664255973159830003377270161062"
  by (rule pw_sq0[where q = "7810524741794540882184071639995880796346", OF q1_b0_20]; simp only: semiring_norm)

lemma q1_b0_22: "(2::nat) ^ 6658965 mod 276602624281642239937218680557139826668747 = 219967045057132398030342790774676006739164"
  by (rule pw_sq1[where q = "266391551668559646180640082460820822359492", OF q1_b0_21]; simp only: semiring_norm)

lemma q1_b0_23: "(2::nat) ^ 13317931 mod 276602624281642239937218680557139826668747 = 250745098536287159231538567699286758744833"
  by (rule pw_sq1[where q = "349855689452168353429766638026389478633597", OF q1_b0_22]; simp only: semiring_norm)

lemma q1_b0_24: "(2::nat) ^ 26635863 mod 276602624281642239937218680557139826668747 = 221648017188464041396044481869418561988824"
  by (rule pw_sq1[where q = "454609601794332389339516905310790383685182", OF q1_b0_23]; simp only: semiring_norm)

lemma q1_b0_25: "(2::nat) ^ 53271727 mod 276602624281642239937218680557139826668747 = 143044699768437632002074887302145173358608"
  by (rule pw_sq1[where q = "355223264068201415565803525288081503817552", OF q1_b0_24]; simp only: semiring_norm)

lemma q1_b0_26: "(2::nat) ^ 106543455 mod 276602624281642239937218680557139826668747 = 114177770231377213637910079168133932003046"
  by (rule pw_sq1[where q = "147950773677460612094795483770259960123406", OF q1_b0_25]; simp only: semiring_norm)

lemma q1_b0_27: "(2::nat) ^ 213086910 mod 276602624281642239937218680557139826668747 = 217622382134961419039905059263235646118126"
  by (rule pw_sq0[where q = "47131017823370624232475307672166544259170", OF q1_b0_26]; simp only: semiring_norm)

lemma q1_b0_28: "(2::nat) ^ 426173821 mod 276602624281642239937218680557139826668747 = 203723616741166263379903526628056508786108"
  by (rule pw_sq1[where q = "342437106871934794724340294533533148852452", OF q1_b0_27]; simp only: semiring_norm)

lemma q1_b0_29: "(2::nat) ^ 852347642 mod 276602624281642239937218680557139826668747 = 101956565890192115988601486640438365066449"
  by (rule pw_sq0[where q = "150046703735688744875885451878844131290845", OF q1_b0_28]; simp only: semiring_norm)

lemma q1_b0_30: "(2::nat) ^ 1704695285 mod 276602624281642239937218680557139826668747 = 264816795522180568001483414927331184672408"
  by (rule pw_sq1[where q = "75162998580494658103435237372936191731902", OF q1_b0_29]; simp only: semiring_norm)

lemma q1_b0_31: "(2::nat) ^ 3409390571 mod 276602624281642239937218680557139826668747 = 232179462166430805108443018569214981533531"
  by (rule pw_sq1[where q = "507066304036441456887858525916262040575951", OF q1_b0_30]; simp only: semiring_norm)

lemma q1_b0_32: "(2::nat) ^ 6818781143 mod 276602624281642239937218680557139826668747 = 256419174349469629550445421296978336559817"
  by (rule pw_sq1[where q = "389781570524823338652639872295517529186715", OF q1_b0_31]; simp only: semiring_norm)

lemma q1_b0_33: "(2::nat) ^ 13637562286 mod 276602624281642239937218680557139826668747 = 169203232511839421241940569827660101470259"
  by (rule pw_sq0[where q = "237708492986367877696525933153093977528090", OF q1_b0_32]; simp only: semiring_norm)

lemma q1_b0_34: "(2::nat) ^ 27275124572 mod 276602624281642239937218680557139826668747 = 260566261853566214888724898281293919721167"
  by (rule pw_sq0[where q = "103504925041145791903799772468411819718862", OF q1_b0_33]; simp only: semiring_norm)

lemma q1_b0_35: "(2::nat) ^ 54550249144 mod 276602624281642239937218680557139826668747 = 222538270137709186403989005634748337356328"
  by (rule pw_sq0[where q = "245459626396058473383071313182829868423563", OF q1_b0_34]; simp only: semiring_norm)

lemma q1_b0_36: "(2::nat) ^ 109100498288 mod 276602624281642239937218680557139826668747 = 79759462587725454381152848185850739929853"
  by (rule pw_sq0[where q = "179041257488065071391916062420410446701673", OF q1_b0_35]; simp only: semiring_norm)

lemma q1_b0_37: "(2::nat) ^ 218200996577 mod 276602624281642239937218680557139826668747 = 203053551521260696669200178733578858358763"
  by (rule pw_sq1[where q = "45997914074779700278501057689235789999765", OF q1_b0_36]; simp only: semiring_norm)

lemma q1_b0_38: "(2::nat) ^ 436401993154 mod 276602624281642239937218680557139826668747 = 52447857060452146514517244401496966093093"
  by (rule pw_sq0[where q = "149061292865447710908122852357145068309308", OF q1_b0_37]; simp only: semiring_norm)

lemma q1_b0_39: "(2::nat) ^ 872803986309 mod 276602624281642239937218680557139826668747 = 122935924436072566902350157573862435343924"
  by (rule pw_sq1[where q = "19889744122114503382022368596211286106042", OF q1_b0_38]; simp only: semiring_norm)

lemma q1_b0_40: "(2::nat) ^ 1745607972618 mod 276602624281642239937218680557139826668747 = 130451462592376927117089742768880152634577"
  by (rule pw_sq0[where q = "54638821870190009106684202424516419303517", OF q1_b0_39]; simp only: semiring_norm)

lemma q1_b0_41: "(2::nat) ^ 3491215945237 mod 276602624281642239937218680557139826668747 = 78222396131556472821117932889100821178744"
  by (rule pw_sq1[where q = "123047162959398949512434741504663929234462", OF q1_b0_40]; simp only: semiring_norm)

lemma q1_b0_42: "(2::nat) ^ 6982431890474 mod 276602624281642239937218680557139826668747 = 133448338832920893863264675058453835499731"
  by (rule pw_sq0[where q = "22121060031346326443549911877730009787815", OF q1_b0_41]; simp only: semiring_norm)

lemma q1_b0_43: "(2::nat) ^ 13964863780948 mod 276602624281642239937218680557139826668747 = 140045514475016996126235836163122465818260"
  by (rule pw_sq0[where q = "64382827832946150187093290402215201292383", OF q1_b0_42]; simp only: semiring_norm)

lemma q1_b0_44: "(2::nat) ^ 27929727561897 mod 276602624281642239937218680557139826668747 = 170729153373929162828836771967591609048250"
  by (rule pw_sq1[where q = "141811714010363911779108684991055717876850", OF q1_b0_43]; simp only: semiring_norm)

lemma q1_b0_45: "(2::nat) ^ 55859455123794 mod 276602624281642239937218680557139826668747 = 71527553180435404333214180810588199999093"
  by (rule pw_sq0[where q = "105380214260364746409645880362397525076781", OF q1_b0_44]; simp only: semiring_norm)

lemma q1_b0_46: "(2::nat) ^ 111718910247589 mod 276602624281642239937218680557139826668747 = 77803624399962516347353826772778606963749"
  by (rule pw_sq1[where q = "36993075371335657471731598275637104666567", OF q1_b0_45]; simp only: semiring_norm)

lemma q1_b0_47: "(2::nat) ^ 223437820495179 mod 276602624281642239937218680557139826668747 = 206435616331346379784669892916509390225994"
  by (rule pw_sq1[where q = "43769678508955486146361887327604857668664", OF q1_b0_46]; simp only: semiring_norm)

lemma q1_b0_48: "(2::nat) ^ 446875640990358 mod 276602624281642239937218680557139826668747 = 135776931645502567033136823615265281645150"
  by (rule pw_sq0[where q = "154068182833691180145453895463434914131538", OF q1_b0_47]; simp only: semiring_norm)

lemma q1_b0_49: "(2::nat) ^ 893751281980717 mod 276602624281642239937218680557139826668747 = 75289930501705680228100779136444365782908"
  by (rule pw_sq1[where q = "133298628058540864254078314732106402937636", OF q1_b0_48]; simp only: semiring_norm)

lemma q1_b0_50: "(2::nat) ^ 1787502563961435 mod 276602624281642239937218680557139826668747 = 82394338154934170359464596866654401964229"
  by (rule pw_sq1[where q = "40987128373589239846074423256802586820017", OF q1_b0_49]; simp only: semiring_norm)

lemma q1_b0_51: "(2::nat) ^ 3575005127922871 mod 276602624281642239937218680557139826668747 = 134674830741160024858462214123855150817382"
  by (rule pw_sq1[where q = "49087220178194141087108369814057268854500", OF q1_b0_50]; simp only: semiring_norm)

lemma q1_b0_52: "(2::nat) ^ 7150010255845743 mod 276602624281642239937218680557139826668747 = 210816797637131544558353970862241818084597"
  by (rule pw_sq1[where q = "131143441478648698177031330893129495911833", OF q1_b0_51]; simp only: semiring_norm)

lemma q1_b0_53: "(2::nat) ^ 14300020511691487 mod 276602624281642239937218680557139826668747 = 48600679529942174390987488114058095134462"
  by (rule pw_sq1[where q = "321354305884833537424498232110043172851548", OF q1_b0_52]; simp only: semiring_norm)

lemma q1_b0_54: "(2::nat) ^ 28600041023382974 mod 276602624281642239937218680557139826668747 = 242330486699291841957025536627366274011638"
  by (rule pw_sq0[where q = "8539420249198644067693178334696677089898", OF q1_b0_53]; simp only: semiring_norm)

lemma q1_b0_55: "(2::nat) ^ 57200082046765948 mod 276602624281642239937218680557139826668747 = 212155371055178793120292836638250788250906"
  by (rule pw_sq0[where q = "212304799842107285817424104402172239223454", OF q1_b0_54]; simp only: semiring_norm)

lemma q1_b0_56: "(2::nat) ^ 114400164093531897 mod 276602624281642239937218680557139826668747 = 30699225405018380488480178788957660669282"
  by (rule pw_sq1[where q = "325448115934942305369801961591006669488370", OF q1_b0_55]; simp only: semiring_norm)

lemma q1_b0_57: "(2::nat) ^ 228800328187063794 mod 276602624281642239937218680557139826668747 = 149457686695183284197034547590001369106938"
  by (rule pw_sq0[where q = "3407207154725012632403458999169010124638", OF q1_b0_56]; simp only: semiring_norm)

lemma q1_b0_58: "(2::nat) ^ 457600656374127589 mod 276602624281642239937218680557139826668747 = 231971657127414513688607902925195777763455"
  by (rule pw_sq1[where q = "161514014339437228891310318436405309249339", OF q1_b0_57]; simp only: semiring_norm)

lemma q1_b0_59: "(2::nat) ^ 915201312748255178 mod 276602624281642239937218680557139826668747 = 44591351396097192702425332365621155159922"
  by (rule pw_sq0[where q = "194542079454920477286930578860262260505549", OF q1_b0_58]; simp only: semiring_norm)

lemma q1_b0_60: "(2::nat) ^ 1830402625496510356 mod 276602624281642239937218680557139826668747 = 164245360654508702471257254509649902927307"
  by (rule pw_sq0[where q = "7188610825707866754440682582293142412491", OF q1_b0_59]; simp only: semiring_norm)

lemma q1_b0_61: "(2::nat) ^ 3660805250993020713 mod 276602624281642239937218680557139826668747 = 252780424058245930244344781875723953251504"
  by (rule pw_sq1[where q = "195056272995165747446768013312393625306502", OF q1_b0_60]; simp only: semiring_norm)

lemma q1_b0_62: "(2::nat) ^ 7321610501986041426 mod 276602624281642239937218680557139826668747 = 40457958014587486528759939115417282898325"
  by (rule pw_sq0[where q = "231009893535950309810325312229730439568353", OF q1_b0_61]; simp only: semiring_norm)

lemma q1_b0_63: "(2::nat) ^ 14643221003972082852 mod 276602624281642239937218680557139826668747 = 230995144897712490814626354204924874212905"
  by (rule pw_sq0[where q = "5917681984981655941697449426894753635760", OF q1_b0_62]; simp only: semiring_norm)

lemma q1_b0_64: "(2::nat) ^ 29286442007944165704 mod 276602624281642239937218680557139826668747 = 53021299221740305600621423418692846517229"
  by (rule pw_sq0[where q = "192907630955750628364155894284769403401068", OF q1_b0_63]; simp only: semiring_norm)

lemma q1_b0_65: "(2::nat) ^ 58572884015888331408 mod 276602624281642239937218680557139826668747 = 158661503378933536954813767050257900540457"
  by (rule pw_sq0[where q = "10163526750559100613171704951530267700672", OF q1_b0_64]; simp only: semiring_norm)

lemma q1_b0_66: "(2::nat) ^ 117145768031776662817 mod 276602624281642239937218680557139826668747 = 5967115716907620982023803092099084095049"
  by (rule pw_sq1[where q = "182019044250507272825668633664792554037867", OF q1_b0_65]; simp only: semiring_norm)

lemma q1_b0_67: "(2::nat) ^ 234291536063553325635 mod 276602624281642239937218680557139826668747 = 239045287360052269396496326669176533226135"
  by (rule pw_sq1[where q = "257455763996734481307312789350436423361", OF q1_b0_66]; simp only: semiring_norm)

lemma q1_b0_68: "(2::nat) ^ 468583072127106651271 mod 276602624281642239937218680557139826668747 = 52252565231814678577438446720077006060427"
  by (rule pw_sq1[where q = "413175034455683212754287794684526878375909", OF q1_b0_67]; simp only: semiring_norm)

lemma q1_b0_69: "(2::nat) ^ 937166144254213302542 mod 276602624281642239937218680557139826668747 = 276309912735515660738814925952017486381984"
  by (rule pw_sq0[where q = "9870949635405381435421312026957186038635", OF q1_b0_68]; simp only: semiring_norm)

lemma q1_b0_70: "(2::nat) ^ 1874332288508426605085 mod 276602624281642239937218680557139826668747 = 145996877665706704140236902354034780620105"
  by (rule pw_sq1[where q = "552035021896032985445689455928497065203781", OF q1_b0_69]; simp only: semiring_norm)

lemma q1_b0_71: "(2::nat) ^ 3748664577016853210171 mod 276602624281642239937218680557139826668747 = 157173172429815976039245107952374412410168"
  by (rule pw_sq1[where q = "154120651194052926530462776588288702750206", OF q1_b0_70]; simp only: semiring_norm)

lemma q1_b0_72: "(2::nat) ^ 7497329154033706420342 mod 276602624281642239937218680557139826668747 = 42380965118357990463832855235843004873899"
  by (rule pw_sq0[where q = "89310093119359453980928593665530791538975", OF q1_b0_71]; simp only: semiring_norm)

lemma q1_b0_73: "(2::nat) ^ 14994658308067412840685 mod 276602624281642239937218680557139826668747 = 249973321930109328718430516736547085235155"
  by (rule pw_sq1[where q = "12987195685711248169007482666437835701501", OF q1_b0_72]; simp only: semiring_norm)

lemma q1_b0_74: "(2::nat) ^ 29989316616134825681371 mod 276602624281642239937218680557139826668747 = 99292096711987632987750039307265054303529"
  by (rule pw_sq1[where q = "451815392851435334253087415386344835937243", OF q1_b0_73]; simp only: semiring_norm)

lemma q1_b0_75: "(2::nat) ^ 59978633232269651362742 mod 276602624281642239937218680557139826668747 = 149292031826472855050542006018055740912529"
  by (rule pw_sq0[where q = "35642902864956763089276207272434024752896", OF q1_b0_74]; simp only: semiring_norm)

lemma q1_b0_76: "(2::nat) ^ 119957266464539302725484 mod 276602624281642239937218680557139826668747 = 209204367987549443488126223854560002150023"
  by (rule pw_sq0[where q = "80578088601872375994142492825340900778894", OF q1_b0_75]; simp only: semiring_norm)

lemma q1_b0_77: "(2::nat) ^ 239914532929078605450969 mod 276602624281642239937218680557139826668747 = 149468611161057865530218597464376459846478"
  by (rule pw_sq1[where q = "316457356098734067536514649245598019390140", OF q1_b0_76]; simp only: semiring_norm)

lemma q1_b0_78: "(2::nat) ^ 479829065858157210901939 mod 276602624281642239937218680557139826668747 = 95366977754106419485022921597223024227523"
  by (rule pw_sq1[where q = "161537626625462543915158645388066981749935", OF q1_b0_77]; simp only: semiring_norm)

lemma q1_b0_79: "(2::nat) ^ 959658131716314421803879 mod 276602624281642239937218680557139826668747 = 7331251961035710305025282502486515664774"
  by (rule pw_sq1[where q = "65761201431636907810051232422556299169572", OF q1_b0_78]; simp only: semiring_norm)

lemma q1_b0_80: "(2::nat) ^ 1919316263432628843607759 mod 276602624281642239937218680557139826668747 = 148217070086301962890463980511185880728040"
  by (rule pw_sq1[where q = "388624333957608688871476377359813995296", OF q1_b0_79]; simp only: semiring_norm)

lemma q1_b0_81: "(2::nat) ^ 3838632526865257687215519 mod 276602624281642239937218680557139826668747 = 237941246288116580214546850094569522273448"
  by (rule pw_sq1[where q = "158843755890032283661487609974420866913416", OF q1_b0_80]; simp only: semiring_norm)

lemma q1_b0_82: "(2::nat) ^ 7677265053730515374431039 mod 276602624281642239937218680557139826668747 = 94689240898976288650797682059148041303294"
  by (rule pw_sq1[where q = "409367314082274133555727279661417482299462", OF q1_b0_81]; simp only: semiring_norm)

lemma q1_b0_83: "(2::nat) ^ 15354530107461030748862078 mod 276602624281642239937218680557139826668747 = 46020764696135488103929785029729203495722"
  by (rule pw_sq0[where q = "32414921461102815934217836491641363069262", OF q1_b0_82]; simp only: semiring_norm)

lemma q1_b0_84: "(2::nat) ^ 30709060214922061497724157 mod 276602624281642239937218680557139826668747 = 191458974073211450198765536467719475147526"
  by (rule pw_sq1[where q = "15313743235209309015248157512409088852486", OF q1_b0_83]; simp only: semiring_norm)

lemma q1_b0_85: "(2::nat) ^ 61418120429844122995448314 mod 276602624281642239937218680557139826668747 = 140575148997689222928575529700417903677066"
  by (rule pw_sq0[where q = "132524190066404592566003687338241857439630", OF q1_b0_84]; simp only: semiring_norm)

lemma q1_b0_86: "(2::nat) ^ 122836240859688245990896629 mod 276602624281642239937218680557139826668747 = 179592211900117949503309669201316525927392"
  by (rule pw_sq1[where q = "142886370417086908238289413036038391813560", OF q1_b0_85]; simp only: semiring_norm)

lemma q1_b0_87: "(2::nat) ^ 245672481719376491981793258 mod 276602624281642239937218680557139826668747 = 138598326955997689228203526517517235087110"
  by (rule pw_sq0[where q = "116605410591968419672196325377345716375982", OF q1_b0_86]; simp only: semiring_norm)

lemma q1_b0_88: "(2::nat) ^ 491344963438752983963586516 mod 276602624281642239937218680557139826668747 = 169915272418767322633817820212166746864043"
  by (rule pw_sq0[where q = "69447989818932984077492409193238322022731", OF q1_b0_87]; simp only: semiring_norm)

lemma q1_b0_89: "(2::nat) ^ 982689926877505967927173033 mod 276602624281642239937218680557139826668747 = 258265603259370148438207476860680049928282"
  by (rule pw_sq1[where q = "208755790919370938131383959249834661555528", OF q1_b0_88]; simp only: semiring_norm)

lemma q1_b0_90: "(2::nat) ^ 1965379853755011935854346067 mod 276602624281642239937218680557139826668747 = 20345276778855941742673631520946950501733"
  by (rule pw_sq1[where q = "482288423691960266206745533367674112259145", OF q1_b0_89]; simp only: semiring_norm)

lemma q1_b0_91: "(2::nat) ^ 3930759707510023871708692134 mod 276602624281642239937218680557139826668747 = 128600432662998803847903437116893626561412"
  by (rule pw_sq0[where q = "1496479971161744414639507896214826429791", OF q1_b0_90]; simp only: semiring_norm)

lemma q1_b0_92: "(2::nat) ^ 7861519415020047743417384269 mod 276602624281642239937218680557139826668747 = 181411410393591215366863925418831083819571"
  by (rule pw_sq1[where q = "119580002713720457780033521749688811811111", OF q1_b0_91]; simp only: semiring_norm)

lemma q1_b0_93: "(2::nat) ^ 15723038830040095486834768539 mod 276602624281642239937218680557139826668747 = 272823773989774864087860001728573645701742"
  by (rule pw_sq1[where q = "237959418544650270671403542444263395026220", OF q1_b0_92]; simp only: semiring_norm)

lemma q1_b0_94: "(2::nat) ^ 31446077660080190973669537079 mod 276602624281642239937218680557139826668747 = 29893560008760373580804060981334862424314"
  by (rule pw_sq1[where q = "538193098112003455369755597785730670947562", OF q1_b0_93]; simp only: semiring_norm)

lemma q1_b0_95: "(2::nat) ^ 62892155320160381947339074158 mod 276602624281642239937218680557139826668747 = 97773670139190902901898330855586316137914"
  by (rule pw_sq0[where q = "3230717468130204731060741740958324676606", OF q1_b0_94]; simp only: semiring_norm)

lemma q1_b0_96: "(2::nat) ^ 125784310640320763894678148316 mod 276602624281642239937218680557139826668747 = 46297005218628063141393040218938089276846"
  by (rule pw_sq0[where q = "34561098606040142294320299600940895647650", OF q1_b0_95]; simp only: semiring_norm)

lemma q1_b0_97: "(2::nat) ^ 251568621280641527789356296632 mod 276602624281642239937218680557139826668747 = 207335271996450179596998205464506846827568"
  by (rule pw_sq0[where q = "7749068533895069243015504051663621348284", OF q1_b0_96]; simp only: semiring_norm)

lemma q1_b0_98: "(2::nat) ^ 503137242561283055578712593264 mod 276602624281642239937218680557139826668747 = 179666137266174470148399040054455651583202"
  by (rule pw_sq0[where q = "155413981069358316342157950989114373392026", OF q1_b0_97]; simp only: semiring_norm)

lemma q1_b0_99: "(2::nat) ^ 1006274485122566111157425186528 mod 276602624281642239937218680557139826668747 = 51917688246056186138339340006614244686737"
  by (rule pw_sq0[where q = "116701426691020094924660494941284623677561", OF q1_b0_98]; simp only: semiring_norm)

lemma q1_b0_100: "(2::nat) ^ 2012548970245132222314850373056 mod 276602624281642239937218680557139826668747 = 229461634340221322260043665222001064567540"
  by (rule pw_sq0[where q = "9744832898151118407665289329936950847207", OF q1_b0_99]; simp only: semiring_norm)

lemma q1_b0_101: "(2::nat) ^ 4025097940490264444629700746112 mod 276602624281642239937218680557139826668747 = 11788757005839887734863395228031117396032"
  by (rule pw_sq0[where q = "190354815941563448168850417881308220348144", OF q1_b0_100]; simp only: semiring_norm)

lemma q1_b0_102: "(2::nat) ^ 8050195880980528889259401492225 mod 276602624281642239937218680557139826668747 = 249197566260479375446657796315315765387372"
  by (rule pw_sq1[where q = "1004869654463091172246524325684041474108", OF q1_b0_101]; simp only: semiring_norm)

lemma q1_b0_103: "(2::nat) ^ 16100391761961057778518802984451 mod 276602624281642239937218680557139826668747 = 10478776036212785150505051485705337001828"
  by (rule pw_sq1[where q = "449015458124613807572105692622534303748020", OF q1_b0_102]; simp only: semiring_norm)

lemma q1_b0_104: "(2::nat) ^ 32200783523922115557037605968902 mod 276602624281642239937218680557139826668747 = 187480237397385533269567953947756243294981"
  by (rule pw_sq0[where q = "396976520024994314101596180935554074049", OF q1_b0_103]; simp only: semiring_norm)

lemma q1_b0_105: "(2::nat) ^ 64401567047844231114075211937804 mod 276602624281642239937218680557139826668747 = 33594551686312040116874895799782756752042"
  by (rule pw_sq0[where q = "127073412646984854702795316312381361818477", OF q1_b0_104]; simp only: semiring_norm)

lemma q1_b0_106: "(2::nat) ^ 128803134095688462228150423875609 mod 276602624281642239937218680557139826668747 = 242894795911868408099838994824244282938803"
  by (rule pw_sq1[where q = "8160399099143286491257779041534706710175", OF q1_b0_105]; simp only: semiring_norm)

lemma q1_b0_107: "(2::nat) ^ 257606268191376924456300847751218 mod 276602624281642239937218680557139826668747 = 183139025912900202994724530817866116283709"
  by (rule pw_sq0[where q = "213294729340656582484091472786845801695300", OF q1_b0_106]; simp only: semiring_norm)

lemma q1_b0_108: "(2::nat) ^ 515212536382753848912601695502437 mod 276602624281642239937218680557139826668747 = 20690597397637500157268708465768994884326"
  by (rule pw_sq1[where q = "242513265370721446186635483212954734921988", OF q1_b0_107]; simp only: semiring_norm)

lemma q1_b0_109: "(2::nat) ^ 1030425072765507697825203391004874 mod 276602624281642239937218680557139826668747 = 208690569172743372983426134170549995406933"
  by (rule pw_sq0[where q = "1547710625605717342827232876951496275469", OF q1_b0_108]; simp only: semiring_norm)

lemma q1_b0_110: "(2::nat) ^ 2060850145531015395650406782009749 mod 276602624281642239937218680557139826668747 = 206655756330490786494333263061715837818727"
  by (rule pw_sq1[where q = "314904847882414400127129486112257407984833", OF q1_b0_109]; simp only: semiring_norm)

lemma q1_b0_111: "(2::nat) ^ 4121700291062030791300813564019498 mod 276602624281642239937218680557139826668747 = 34440364526853865582277195644726802837745"
  by (rule pw_sq0[where q = "154396950265527777006944181060052905779072", OF q1_b0_110]; simp only: semiring_norm)

lemma q1_b0_112: "(2::nat) ^ 8243400582124061582601627128038997 mod 276602624281642239937218680557139826668747 = 185168289721443850711563577304460097093327"
  by (rule pw_sq1[where q = "8576481960885694948243835062436185414009", OF q1_b0_111]; simp only: semiring_norm)

lemma q1_b0_113: "(2::nat) ^ 16486801164248123165203254256077994 mod 276602624281642239937218680557139826668747 = 60736295561698986065304732445552701020865"
  by (rule pw_sq0[where q = "123958677570074565892958707459774197497312", OF q1_b0_112]; simp only: semiring_norm)

lemma q1_b0_114: "(2::nat) ^ 32973602328496246330406508512155989 mod 276602624281642239937218680557139826668747 = 137968104351037473473229019532470649492370"
  by (rule pw_sq1[where q = "26672903831902532947834215510757308098640", OF q1_b0_113]; simp only: semiring_norm)

lemma q1_b0_115: "(2::nat) ^ 65947204656992492660813017024311978 mod 276602624281642239937218680557139826668747 = 81248670880993642536724262811021792531677"
  by (rule pw_sq0[where q = "68817849677509755252698048376318653319509", OF q1_b0_114]; simp only: semiring_norm)

lemma q1_b0_116: "(2::nat) ^ 131894409313984985321626034048623956 mod 276602624281642239937218680557139826668747 = 61153298704317222226487113773263235101918"
  by (rule pw_sq0[where q = "23865813048853806969944922921693704246113", OF q1_b0_115]; simp only: semiring_norm)

lemma q1_b0_117: "(2::nat) ^ 263788818627969970643252068097247912 mod 276602624281642239937218680557139826668747 = 97258459725170291265667087140645299918689"
  by (rule pw_sq0[where q = "13520211357834348814835677796559495952905", OF q1_b0_116]; simp only: semiring_norm)

lemma q1_b0_118: "(2::nat) ^ 527577637255939941286504136194495824 mod 276602624281642239937218680557139826668747 = 53681303967761676999050688458591287723807"
  by (rule pw_sq0[where q = "34197824451878734629881594509410819485862", OF q1_b0_117]; simp only: semiring_norm)

lemma q1_b0_119: "(2::nat) ^ 1055155274511879882573008272388991648 mod 276602624281642239937218680557139826668747 = 148869847657225780635933793553387918615718"
  by (rule pw_sq0[where q = "10418131075810183904691659441242756537073", OF q1_b0_118]; simp only: semiring_norm)

lemma q1_b0_120: "(2::nat) ^ 2110310549023759765146016544777983296 mod 276602624281642239937218680557139826668747 = 14261549569120370996774703612027084589805"
  by (rule pw_sq0[where q = "80122998106191471235957918968950885892677", OF q1_b0_119]; simp only: semiring_norm)

lemma q1_b0_121: "(2::nat) ^ 4220621098047519530292033089555966593 mod 276602624281642239937218680557139826668747 = 46709770264656791214855775330652550125971"
  by (rule pw_sq1[where q = "1470642562706707416351154419476382414557", OF q1_b0_120]; simp only: semiring_norm)

lemma q1_b0_122: "(2::nat) ^ 8441242196095039060584066179111933186 mod 276602624281642239937218680557139826668747 = 99990267136941987179324002108135651966059"
  by (rule pw_sq0[where q = "7887859501851512966122659782920135886906", OF q1_b0_121]; simp only: semiring_norm)

lemma q1_b0_123: "(2::nat) ^ 16882484392190078121168132358223866373 mod 276602624281642239937218680557139826668747 = 246278152786163021896943022405382228161331"
  by (rule pw_sq1[where q = "72291819704044497615490074180541589457373", OF q1_b0_122]; simp only: semiring_norm)

lemma q1_b0_124: "(2::nat) ^ 33764968784380156242336264716447732747 mod 276602624281642239937218680557139826668747 = 16023598011316136938572114729780847370274"
  by (rule pw_sq1[where q = "438556421489382910420410377987426482762384", OF q1_b0_123]; simp only: semiring_norm)

lemma q1_b0_125: "(2::nat) ^ 67529937568760312484672529432895465495 mod 276602624281642239937218680557139826668747 = 182361332345463845975517911102232194183111"
  by (rule pw_sq1[where q = "1856494990928363389081009632140570506403", OF q1_b0_124]; simp only: semiring_norm)

lemma q1_b0_126: "(2::nat) ^ 135059875137520624969345058865790930990 mod 276602624281642239937218680557139826668747 = 183006249711494574980820017591168019026194"
  by (rule pw_sq0[where q = "120228995011092717901681934939580758060541", OF q1_b0_125]; simp only: semiring_norm)

lemma q1_b0_127: "(2::nat) ^ 270119750275041249938690117731581861981 mod 276602624281642239937218680557139826668747 = 113422257292425085084474080503835906177849"
  by (rule pw_sq1[where q = "242161747528211588534491968332763923940109", OF q1_b0_126]; simp only: semiring_norm)

lemma q1_b0_128: "(2::nat) ^ 540239500550082499877380235463163723962 mod 276602624281642239937218680557139826668747 = 71061824089083083225899648539649097323965"
  by (rule pw_sq0[where q = "46509350671272293106756240480210335927388", OF q1_b0_127]; simp only: semiring_norm)

lemma q1_b0_129: "(2::nat) ^ 1080479001100164999754760470926327447924 mod 276602624281642239937218680557139826668747 = 11471479317928590902269449841853406647790"
  by (rule pw_sq0[where q = "18256453119280605310762522615481295765105", OF q1_b0_128]; simp only: semiring_norm)

lemma q1_b0_130: "(2::nat) ^ 2160958002200329999509520941852654895849 mod 276602624281642239937218680557139826668747 = 114064078156326435174241717479621662833322"
  by (rule pw_sq1[where q = "951508237374284298200547097759253350874", OF q1_b0_129]; simp only: semiring_norm)

lemma q1_b0_131: "(2::nat) ^ 4321916004400659999019041883705309791699 mod 276602624281642239937218680557139826668747 = 821121246262339589676506926402228017481"
  by (rule pw_sq1[where q = "94074406990476576693716201880599781566621", OF q1_b0_130]; simp only: semiring_norm)

lemma q1_b0_132: "(2::nat) ^ 8643832008801319998038083767410619583398 mod 276602624281642239937218680557139826668747 = 112361373123293941225554991403664577861056"
  by (rule pw_sq0[where q = "2437576660071356325991488759172727315", OF q1_b0_131]; simp only: semiring_norm)

lemma q1_b0_133: "(2::nat) ^ 17287664017602639996076167534821239166796 mod 276602624281642239937218680557139826668747 = 574068407018257077722423225307506476559"
  by (rule pw_sq0[where q = "45643378123907381296035709577603977715891", OF q1_b0_132]; simp only: semiring_norm)

lemma q1_b0_134: "(2::nat) ^ 34575328035205279992152335069642478333593 mod 276602624281642239937218680557139826668747 = 243480722944643250208350079281676085378038"
  by (rule pw_sq1[where q = "2382873530519510565006028371523230692", OF q1_b0_133]; simp only: semiring_norm)

lemma q1_b0_135: "(2::nat) ^ 69150656070410559984304670139284956667186 mod 276602624281642239937218680557139826668747 = 107201392961138624201561052344278940521085"
  by (rule pw_sq0[where q = "214325018063759033307653567637053343011797", OF q1_b0_134]; simp only: semiring_norm)

lemma q1_b0_136: "(2::nat) ^ 138301312140821119968609340278569913334373 mod 276602624281642239937218680557139826668747 = 276602624281642239937218680557139826668746"
  by (rule pw_sq1[where q = "83094935795742413781698532364962235721432", OF q1_b0_135]; simp only: semiring_norm)

lemma q1_b0_137: "(2::nat) ^ 276602624281642239937218680557139826668746 mod 276602624281642239937218680557139826668747 = 1"
  by (rule pw_sq0[where q = "276602624281642239937218680557139826668745", OF q1_b0_136]; simp only: semiring_norm)

lemma prime_q1: "prime_nat 276602624281642239937218680557139826668747"
  by (rule pocklington1[where q = "19757330305831588566944191468367130476339" and m = "14" and e = "276602624281642239937218680557139826668746" and a = "2"
        and c = "16384" and c' = "16383" and u = "94074944912245044309966580483695483989395" and v = "5572",
        OF prime_q2 _ _ q1_b0_137 q1_a0_3]; simp only: semiring_norm not_False_eq_True)

lemma ell_a0_1: "(2::nat) ^ 2 mod 7237005577332262213973186563042994240857116359379907606001950938285454250989 = 4"
  by (rule pw_init0[where q = "0"]; simp only: semiring_norm)

lemma ell_a0_2: "(2::nat) ^ 5 mod 7237005577332262213973186563042994240857116359379907606001950938285454250989 = 32"
  by (rule pw_sq1[where q = "0", OF ell_a0_1]; simp only: semiring_norm)

lemma ell_a0_3: "(2::nat) ^ 10 mod 7237005577332262213973186563042994240857116359379907606001950938285454250989 = 1024"
  by (rule pw_sq0[where q = "0", OF ell_a0_2]; simp only: semiring_norm)

lemma ell_a0_4: "(2::nat) ^ 20 mod 7237005577332262213973186563042994240857116359379907606001950938285454250989 = 1048576"
  by (rule pw_sq0[where q = "0", OF ell_a0_3]; simp only: semiring_norm)

lemma ell_a0_5: "(2::nat) ^ 40 mod 7237005577332262213973186563042994240857116359379907606001950938285454250989 = 1099511627776"
  by (rule pw_sq0[where q = "0", OF ell_a0_4]; simp only: semiring_norm)

lemma ell_a0_6: "(2::nat) ^ 80 mod 7237005577332262213973186563042994240857116359379907606001950938285454250989 = 1208925819614629174706176"
  by (rule pw_sq0[where q = "0", OF ell_a0_5]; simp only: semiring_norm)

lemma ell_a0_7: "(2::nat) ^ 161 mod 7237005577332262213973186563042994240857116359379907606001950938285454250989 = 2923003274661805836407369665432566039311865085952"
  by (rule pw_sq1[where q = "0", OF ell_a0_6]; simp only: semiring_norm)

lemma ell_a0_8: "(2::nat) ^ 322 mod 7237005577332262213973186563042994240857116359379907606001950938285454250989 = 7237005577332262181220838655797515680085442238763285995306520868193670910957"
  by (rule pw_sq0[where q = "1180591620717411303423", OF ell_a0_7]; simp only: semiring_norm)

lemma ell_a0_9: "(2::nat) ^ 644 mod 7237005577332262213973186563042994240857116359379907606001950938285454250989 = 2611804832130676291319858385883126619435344693425115756700986764597260087825"
  by (rule pw_sq0[where q = "7237005577332262148468490748552037267540307668870186080822129444820427749816", OF ell_a0_8]; simp only: semiring_norm)

lemma ell_a0_10: "(2::nat) ^ 1289 mod 7237005577332262213973186563042994240857116359379907606001950938285454250989 = 4017485412355440310094926674946908467883027725932059148200319967099897816930"
  by (rule pw_sq1[where q = "1885178727098820731891406126137868713026169488819676955566191267336752566880", OF ell_a0_9]; simp only: semiring_norm)

lemma ell_a0_11: "(2::nat) ^ 2579 mod 7237005577332262213973186563042994240857116359379907606001950938285454250989 = 5954349536862333263040815575697029833042237835187423801778513183288691756735"
  by (rule pw_sq1[where q = "4460460577519254000154614908083969709135982838162369233541486552158999531085", OF ell_a0_10]; simp only: semiring_norm)

lemma ell_a0_12: "(2::nat) ^ 5159 mod 7237005577332262213973186563042994240857116359379907606001950938285454250989 = 105557589556938751428501072189621482849841474754364338700376375882617352925"
  by (rule pw_sq1[where q = "9798051978343783278418794006374323176637583106976849570273957790464117555225", OF ell_a0_11]; simp only: semiring_norm)

lemma ell_a0_13: "(2::nat) ^ 10319 mod 7237005577332262213973186563042994240857116359379907606001950938285454250989 = 4827596321863700739405003279911731563091213775333425362972648674818418781750"
  by (rule pw_sq1[where q = "3079285926757157112348630337259153364883490458613189682035007588027015500", OF ell_a0_12]; simp only: semiring_norm)

lemma ell_a0_14: "(2::nat) ^ 20639 mod 7237005577332262213973186563042994240857116359379907606001950938285454250989 = 3811983215330863293229707139288980898569062990183842372811515657258174835448"
  by (rule pw_sq1[where q = "6440698711044238196006083390196071763307329586897214006752892749035185770768", OF ell_a0_13]; simp only: semiring_norm)

lemma ell_a0_15: "(2::nat) ^ 41279 mod 7237005577332262213973186563042994240857116359379907606001950938285454250989 = 937781808683861718277875613979453994729442522256439566052168817096085515244"
  by (rule pw_sq1[where q = "4015808991353794025805456034107131254746509694422359031679193343094062079076", OF ell_a0_14]; simp only: semiring_norm)

lemma ell_a0_16: "(2::nat) ^ 82558 mod 7237005577332262213973186563042994240857116359379907606001950938285454250989 = 1110076267799312249603094516958336734885867779746383368477762331179147383005"
  by (rule pw_sq0[where q = "121519143698457150148402787929160464601486360567607496437357575251095675679", OF ell_a0_15]; simp only: semiring_norm)

lemma ell_a0_17: "(2::nat) ^ 165117 mod 7237005577332262213973186563042994240857116359379907606001950938285454250989 = 3602452038933096886909846666721965718006048048612489491542586132439780150126"
  by (rule pw_sq1[where q = "340546737780875140957277988865173993670081434194262030407868215121144036916", OF ell_a0_16]; simp only: semiring_norm)

lemma ell_a0_18: "(2::nat) ^ 330234 mod 7237005577332262213973186563042994240857116359379907606001950938285454250989 = 7125774810740666022623121613736269223021558917840936527390279244486221007800"
  by (rule pw_sq0[where q = "1793236243103340414126070225649795135369080081690096111000907629793505025084", OF ell_a0_17]; simp only: semiring_norm)

lemma ell_a0_19: "(2::nat) ^ 660469 mod 7237005577332262213973186563042994240857116359379907606001950938285454250989 = 4177646349082429697640394332056893210165526240831812219179769757821774998431"
  by (rule pw_sq1[where q = "14032507260303563176004557654754349381931955484871945272408933305027973617221", OF ell_a0_18]; simp only: semiring_norm)

lemma ell_a0_20: "(2::nat) ^ 1320939 mod 7237005577332262213973186563042994240857116359379907606001950938285454250989 = 4817605178043158475489090468488951008977997557101018685879807842325572257259"
  by (rule pw_sq1[where q = "4823190705467234999394338508689652519680349197135289616417099307638095650067", OF ell_a0_19]; simp only: semiring_norm)

lemma ell_a0_21: "(2::nat) ^ 2641879 mod 7237005577332262213973186563042994240857116359379907606001950938285454250989 = 2589870763790148150344111952240530229032624834247000605612789702238721956463"
  by (rule pw_sq1[where q = "6414067089903716018112317678896853725554108106941448719186333943699451337391", OF ell_a0_20]; simp only: semiring_norm)

lemma ell_a0_22: "(2::nat) ^ 5283759 mod 7237005577332262213973186563042994240857116359379907606001950938285454250989 = 5970438957854705944380525230652300172709531223543142182298385140107615971073"
  by (rule pw_sq1[where q = "1853648032037993482985491965454657361362492081754614428946638017561741160485", OF ell_a0_21]; simp only: semiring_norm)

lemma ell_a0_23: "(2::nat) ^ 10567518 mod 7237005577332262213973186563042994240857116359379907606001950938285454250989 = 1175903960616180080889157288408106529894096820106321245821673607801845378634"
  by (rule pw_sq0[where q = "4925537360523802348250306482711578556825987725710529495005551291821681464755", OF ell_a0_22]; simp only: semiring_norm)

lemma ell_a0_24: "(2::nat) ^ 21135036 mod 7237005577332262213973186563042994240857116359379907606001950938285454250989 = 3726150025039699938929026044735931681432159900307483822495469680013652136783"
  by (rule pw_sq0[where q = "191066610328982834746374093136655894302694606187925785179162474035355085257", OF ell_a0_23]; simp only: semiring_norm)

lemma ell_a0_25: "(2::nat) ^ 42270072 mod 7237005577332262213973186563042994240857116359379907606001950938285454250989 = 3235137147955153393239389755332453315147462078442311316029612338584072229152"
  by (rule pw_sq0[where q = "1918499835427985255930231457452197729189608629537182893618618577797591965733", OF ell_a0_24]; simp only: semiring_norm)

lemma ell_a0_26: "(2::nat) ^ 84540145 mod 7237005577332262213973186563042994240857116359379907606001950938285454250989 = 5878319334376293248365392831773361611459433206296518087545571492531049691260"
  by (rule pw_sq1[where q = "2892387536320642112384223017198930762765384037206581019311523439023816467732", OF ell_a0_25]; simp only: semiring_norm)

lemma ell_a0_27: "(2::nat) ^ 169080291 mod 7237005577332262213973186563042994240857116359379907606001950938285454250989 = 1425425448580836209558132689396693829236221266173985235335486938316909547770"
  by (rule pw_sq1[where q = "9549429754520055131960380765470724592281089484241121278983265241186029103870", OF ell_a0_26]; simp only: semiring_norm)

lemma ell_a0_28: "(2::nat) ^ 338160583 mod 7237005577332262213973186563042994240857116359379907606001950938285454250989 = 2120568748155080600683797443334754342602943838034801786544658958258975621911"
  by (rule pw_sq1[where q = "561513373936313409693424753723187194364686415050592243573510094344263366101", OF ell_a0_27]; simp only: semiring_norm)

lemma ell_a0_29: "(2::nat) ^ 676321166 mod 7237005577332262213973186563042994240857116359379907606001950938285454250989 = 499520584794519990120309964324635657320633152822213309979224123229416620854"
  by (rule pw_sq0[where q = "621363596808176124213104158369480103882669841277557863243014924301439452903", OF ell_a0_28]; simp only: semiring_norm)

lemma ell_a0_30: "(2::nat) ^ 1352642333 mod 7237005577332262213973186563042994240857116359379907606001950938285454250989 = 1139369185415425288430273286321748804376940360587482645792315684719108417668"
  by (rule pw_sq1[where q = "68956922021728972828328363664171338397364267948926361589243183935354392276", OF ell_a0_29]; simp only: semiring_norm)

lemma ell_a0_31: "(2::nat) ^ 2705284666 mod 7237005577332262213973186563042994240857116359379907606001950938285454250989 = 1437977444237429928769915285643319893610097778392045018724035324094128381558"
  by (rule pw_sq0[where q = "179378352939275221605994312316747492950830748011258065255282512451272883394", OF ell_a0_30]; simp only: semiring_norm)

lemma ell_a0_32: "(2::nat) ^ 5410569333 mod 7237005577332262213973186563042994240857116359379907606001950938285454250989 = 6561688620917912004004213372806927110841566994450828736734825508058226692721"
  by (rule pw_sq1[where q = "571446051281846603771694712682937300422978772230449701382281028804101617363", OF ell_a0_31]; simp only: semiring_norm)

lemma ell_a0_33: "(2::nat) ^ 10821138667 mod 7237005577332262213973186563042994240857116359379907606001950938285454250989 = 4514471880770372973505872640590308294196817521165128112794289069430584452774"
  by (rule pw_sq1[where q = "11898776945189261090664321418729136075871170743325382929581037304752511823372", OF ell_a0_32]; simp only: semiring_norm)

lemma ell_a0_34: "(2::nat) ^ 21642277335 mod 7237005577332262213973186563042994240857116359379907606001950938285454250989 = 1500444802511618633933524210771063245765362910351225142911069406962752087448"
  by (rule pw_sq1[where q = "5632289803976943961003106586660494670250894835453614188121963895087236493936", OF ell_a0_33]; simp only: semiring_norm)

lemma ell_a0_35: "(2::nat) ^ 43284554671 mod 7237005577332262213973186563042994240857116359379907606001950938285454250989 = 3657020186905155123499389687557573367730793822000684892768077175016388586379"
  by (rule pw_sq1[where q = "622172964032460344418415123350700241480958333980622394602105529853754808361", OF ell_a0_34]; simp only: semiring_norm)

lemma ell_a0_36: "(2::nat) ^ 86569109343 mod 7237005577332262213973186563042994240857116359379907606001950938285454250989 = 4850344185767635225107706174644929111293116540133812628948506768267076750582"
  by (rule pw_sq1[where q = "3695947586200900850613370982578036464257833004624288601982471008508127944300", OF ell_a0_35]; simp only: semiring_norm)

lemma ell_a0_37: "(2::nat) ^ 173138218686 mod 7237005577332262213973186563042994240857116359379907606001950938285454250989 = 6180783840200222662920904053383527818540706043311650923895756743741696344344"
  by (rule pw_sq0[where q = "3250769737430837463636531989155289931974283705300339131187315501167882311420", OF ell_a0_36]; simp only: semiring_norm)

lemma ell_a0_38: "(2::nat) ^ 346276437372 mod 7237005577332262213973186563042994240857116359379907606001950938285454250989 = 3396120435908219389213880617461848588781281634402929565603447715239268088200"
  by (rule pw_sq0[where q = "5278714859490606982664642978658975420830951120585002706238739648488892265624", OF ell_a0_37]; simp only: semiring_norm)

lemma ell_a0_39: "(2::nat) ^ 692552874744 mod 7237005577332262213973186563042994240857116359379907606001950938285454250989 = 965619591279968602344434368338918612134160240133832769149408062948701102111"
  by (rule pw_sq0[where q = "1593702518527699478232578782661590362687633959821591661271486741547990292101", OF ell_a0_38]; simp only: semiring_norm)

lemma ell_a0_40: "(2::nat) ^ 1385105749489 mod 7237005577332262213973186563042994240857116359379907606001950938285454250989 = 5691392155944435834310625158151162189980992221094897088113506879165425651854"
  by (rule pw_sq1[where q = "257681491357204934276811710440032937427474894157729522812167972095556148292", OF ell_a0_39]; simp only: semiring_norm)

lemma ell_a0_41: "(2::nat) ^ 2770211498979 mod 7237005577332262213973186563042994240857116359379907606001950938285454250989 = 5063884045141117366391025700369213326700675086619040055119989147278253649376"
  by (rule pw_sq1[where q = "8951753408676055997249742015017472750534029412580808247230242563557375461704", OF ell_a0_40]; simp only: semiring_norm)

lemma ell_a0_42: "(2::nat) ^ 5540422997959 mod 7237005577332262213973186563042994240857116359379907606001950938285454250989 = 3376028641225745103548801789062941928330568491187553995036581408704832790131"
  by (rule pw_sq1[where q = "7086610988100792908111708729376358179334039848684525348466282375138274195489", OF ell_a0_41]; simp only: semiring_norm)

lemma ell_a0_43: "(2::nat) ^ 11080845995918 mod 7237005577332262213973186563042994240857116359379907606001950938285454250989 = 435843798335572085711041021712287037888841710763420579974071716651598038858"
  by (rule pw_sq0[where q = "1574901285426116034546009205495524138297729754386896180622023468516931474427", OF ell_a0_42]; simp only: semiring_norm)

lemma ell_a0_44: "(2::nat) ^ 22161691991836 mod 7237005577332262213973186563042994240857116359379907606001950938285454250989 = 1623984475907613967740195506245056013989799347608068708149069746581161819680"
  by (rule pw_sq0[where q = "26248399910395354020782229867858275012688375227454362187330713354291711956", OF ell_a0_43]; simp only: semiring_norm)

lemma ell_a0_45: "(2::nat) ^ 44323383983673 mod 7237005577332262213973186563042994240857116359379907606001950938285454250989 = 6977111591715565755810367626184354019123682152056362475559002166172528822676"
  by (rule pw_sq1[where q = "728844423237576256126949266331969567460901013472727112701637209028715266716", OF ell_a0_44]; simp only: semiring_norm)

lemma ell_a0_46: "(2::nat) ^ 88646767967347 mod 7237005577332262213973186563042994240857116359379907606001950938285454250989 = 6178583140845116446978992620247260732628621170336415772673227709850836767143"
  by (rule pw_sq1[where q = "13453101740235604313388195151429361920676624341092816557807713326292334072381", OF ell_a0_45]; simp only: semiring_norm)

lemma ell_a0_47: "(2::nat) ^ 177293535934695 mod 7237005577332262213973186563042994240857116359379907606001950938285454250989 = 2182689126414920216193923106936800717679195421568139464842972315160769074237"
  by (rule pw_sq1[where q = "10549913004877828170252860095092308461713259234945751830982325708631525309849", OF ell_a0_46]; simp only: semiring_norm)

lemma ell_a0_48: "(2::nat) ^ 354587071869391 mod 7237005577332262213973186563042994240857116359379907606001950938285454250989 = 2885453622033188444158597956786647803795336188906141635904697789513422366818"
  by (rule pw_sq1[where q = "1316603054028902219659709382626905223888959408990419198957791577584368525680", OF ell_a0_47]; simp only: semiring_norm)

lemma ell_a0_49: "(2::nat) ^ 709174143738782 mod 7237005577332262213973186563042994240857116359379907606001950938285454250989 = 5145745539838177555133627103053671229471831670527412798134386673580446442156"
  by (rule pw_sq0[where q = "1150454081586262386348676895878636628212008360850242589283252171461166809912", OF ell_a0_48]; simp only: semiring_norm)

lemma ell_a0_50: "(2::nat) ^ 1418348287477564 mod 7237005577332262213973186563042994240857116359379907606001950938285454250989 = 4743142618867068972568744494122800357280383972099262530237870946310861670216"
  by (rule pw_sq0[where q = "3658791868794606438832004976534700331706402582304141592319406032491091711080", OF ell_a0_49]; simp only: semiring_norm)

lemma ell_a0_51: "(2::nat) ^ 2836696574955129 mod 7237005577332262213973186563042994240857116359379907606001950938285454250989 = 1107554376125822989571401554581261258080092292287160240413477339692998137943"
  by (rule pw_sq1[where q = "6217323356328337041474674632160684886678389410970444914180808830070529621421", OF ell_a0_50]; simp only: semiring_norm)

lemma ell_a0_52: "(2::nat) ^ 5673393149910259 mod 7237005577332262213973186563042994240857116359379907606001950938285454250989 = 5975209018297670150835835507217814336139647884744445701348654352110231987021"
  by (rule pw_sq1[where q = "339001174717249313788311203890265002053550575734873993698767649857855571593", OF ell_a0_51]; simp only: semiring_norm)

lemma ell_a0_53: "(2::nat) ^ 11346786299820518 mod 7237005577332262213973186563042994240857116359379907606001950938285454250989 = 5573444365848962473729431320998493393986545539782570542083647210921350336677"
  by (rule pw_sq0[where q = "4933410984810495884900883310532892374241443273171199011340747346120503123476", OF ell_a0_52]; simp only: semiring_norm)

lemma ell_a0_54: "(2::nat) ^ 22693572599641036 mod 7237005577332262213973186563042994240857116359379907606001950938285454250989 = 1196503838460363647830489001845405599061731334861857675097421552679765052038"
  by (rule pw_sq0[where q = "4292283841332098468300782335984846195238332294480339033367574273681282083519", OF ell_a0_53]; simp only: semiring_norm)

lemma ell_a0_55: "(2::nat) ^ 45387145199282072 mod 7237005577332262213973186563042994240857116359379907606001950938285454250989 = 6274767538492446986828372664311936975920639425811260434366619472276321168512"
  by (rule pw_sq0[where q = "197819584378172438452565870086241223158391154858942676408286465143828491188", OF ell_a0_54]; simp only: semiring_norm)

lemma ell_a0_56: "(2::nat) ^ 90774290398564145 mod 7237005577332262213973186563042994240857116359379907606001950938285454250989 = 3675016020712552690134451074537405002577983476101811972594219691553947020182"
  by (rule pw_sq1[where q = "10880938874896461823792144563861036454692211580182722863094047534308246662354", OF ell_a0_55]; simp only: semiring_norm)

lemma ell_a0_57: "(2::nat) ^ 181548580797128291 mod 7237005577332262213973186563042994240857116359379907606001950938285454250989 = 4833793800694891698927235503984320150792955043680670202360665167007319583854"
  by (rule pw_sq1[where q = "3732411867913047426365924351795883464567737315011569410738064252025153782146", OF ell_a0_56]; simp only: semiring_norm)

lemma ell_a0_58: "(2::nat) ^ 363097161594256583 mod 7237005577332262213973186563042994240857116359379907606001950938285454250989 = 5655530478811257262365822935562061499230730542274391948860453187281369923043"
  by (rule pw_sq1[where q = "6457245958417372366001194853950713863080161269408558127184201731024032053401", OF ell_a0_57]; simp only: semiring_norm)

lemma ell_a0_59: "(2::nat) ^ 726194323188513166 mod 7237005577332262213973186563042994240857116359379907606001950938285454250989 = 267123692686847191988093182870624308622236491355678879225205325375911871010"
  by (rule pw_sq0[where q = "4419649073775282851911850544639413680037464361129072120896031457692106535651", OF ell_a0_58]; simp only: semiring_norm)

lemma ell_a0_60: "(2::nat) ^ 1452388646377026333 mod 7237005577332262213973186563042994240857116359379907606001950938285454250989 = 1845361661838516135180268783192527985744959146440731445237671749858046871041"
  by (rule pw_sq1[where q = "19719500401700784144134281928461317407200834184903825093541068967894846531", OF ell_a0_59]; simp only: semiring_norm)

lemma ell_a0_61: "(2::nat) ^ 2904777292754052667 mod 7237005577332262213973186563042994240857116359379907606001950938285454250989 = 2260527335106983930074679913577278208385982821465748678292415154486257781239"
  by (rule pw_sq1[where q = "941096321287818900916587196138551209470776194697025396617675943601202862807", OF ell_a0_60]; simp only: semiring_norm)

lemma ell_a0_62: "(2::nat) ^ 5809554585508105335 mod 7237005577332262213973186563042994240857116359379907606001950938285454250989 = 2783269685281434627935444849556554892494832325639038663211292882691244042516"
  by (rule pw_sq1[where q = "1412181814194358494587100763122910805962330748314243723759779138386028156934", OF ell_a0_61]; simp only: semiring_norm)

lemma ell_a0_63: "(2::nat) ^ 11619109171016210670 mod 7237005577332262213973186563042994240857116359379907606001950938285454250989 = 6725323525365839703718628360323971980066436962981005526849248157025817734851"
  by (rule pw_sq0[where q = "1070413730959455653525368758291795756660876345783129608640980765195155138145", OF ell_a0_62]; simp only: semiring_norm)

lemma ell_a0_64: "(2::nat) ^ 23238218342032421341 mod 7237005577332262213973186563042994240857116359379907606001950938285454250989 = 4704802044303763536159546903309631354190630547693465205991772027952285981855"
  by (rule pw_sq1[where q = "12499638431261810698812452328435659214846438316199187987049242515812781088223", OF ell_a0_63]; simp only: semiring_norm)

lemma ell_a0_65: "(2::nat) ^ 46476436684064842683 mod 7237005577332262213973186563042994240857116359379907606001950938285454250989 = 2763690157806818824802035988750538821474694446523544853706487223053445427789"
  by (rule pw_sq1[where q = "6117215757140382461339898880205785178930257707744760560318235920017045222249", OF ell_a0_64]; simp only: semiring_norm)

lemma ell_a0_66: "(2::nat) ^ 92952873368129685366 mod 7237005577332262213973186563042994240857116359379907606001950938285454250989 = 5738153914782625623838146529072198090198883432736635298604143775252216289599"
  by (rule pw_sq0[where q = "1055406577588106149488332422191575682362953718313826929550497532631790678098", OF ell_a0_65]; simp only: semiring_norm)

lemma ell_a0_67: "(2::nat) ^ 185905746736259370733 mod 7237005577332262213973186563042994240857116359379907606001950938285454250989 = 3912892250095155041810666317385178645293238720956130669721420819099363566983"
  by (rule pw_sq1[where q = "9099456950224613351501343530496318703265865408458829757398389044504788529671", OF ell_a0_66]; simp only: semiring_norm)

lemma ell_a0_68: "(2::nat) ^ 371811493472518741466 mod 7237005577332262213973186563042994240857116359379907606001950938285454250989 = 3264312685169514244821452160846305435510914073744642814471393207190551427424"
  by (rule pw_sq0[where q = "2115616133945088716176048083183160267073797868878887239833124768577836567285", OF ell_a0_67]; simp only: semiring_norm)

lemma ell_a0_69: "(2::nat) ^ 743622986945037482932 mod 7237005577332262213973186563042994240857116359379907606001950938285454250989 = 6591681757659379865112286601113410276962543706833737456148011305685421296887"
  by (rule pw_sq0[where q = "1472395895331971042961989665402837039929198251734146586546987691000124761101", OF ell_a0_68]; simp only: semiring_norm)

lemma ell_a0_70: "(2::nat) ^ 1487245973890074965864 mod 7237005577332262213973186563042994240857116359379907606001950938285454250989 = 743511002384845381334909495207431841448404784873648202372095295101599616359"
  by (rule pw_sq0[where q = "6003901465870679390730458512419635627139022350360233728578549963586878628690", OF ell_a0_69]; simp only: semiring_norm)

lemma ell_a0_71: "(2::nat) ^ 2974491947780149931728 mod 7237005577332262213973186563042994240857116359379907606001950938285454250989 = 3497422166423102048698901595977028881009387895649021247599372731509316450362"
  by (rule pw_sq0[where q = "76386373446888563696907795802901235523895681745275726694886109721522686771", OF ell_a0_70]; simp only: semiring_norm)

lemma ell_a0_72: "(2::nat) ^ 5948983895560299863456 mod 7237005577332262213973186563042994240857116359379907606001950938285454250989 = 2909471083522110165711060240657929524451861520969684902813887100622618826972"
  by (rule pw_sq0[where q = "1690196543236141280905447628689239788262711520194952425797987134721873849448", OF ell_a0_71]; simp only: semiring_norm)

lemma ell_a0_73: "(2::nat) ^ 11897967791120599726913 mod 7237005577332262213973186563042994240857116359379907606001950938285454250989 = 3572580424592613849087134433433762548260023354990695903963662777775534758818"
  by (rule pw_sq1[where q = "2339371414156554099651294029161741178640034064068312991046030419168419693750", OF ell_a0_72]; simp only: semiring_norm)

lemma ell_a0_74: "(2::nat) ^ 23795935582241199453826 mod 7237005577332262213973186563042994240857116359379907606001950938285454250989 = 1731694890804388718101801884318231082875256957448040938735802585543174353773"
  by (rule pw_sq0[where q = "1763620430272933119788907965765088727970825150503388170313453066208922855059", OF ell_a0_73]; simp only: semiring_norm)

lemma ell_a0_75: "(2::nat) ^ 47591871164482398907652 mod 7237005577332262213973186563042994240857116359379907606001950938285454250989 = 1063930095449879844393366599576955776084541343883679968111228369066671733578"
  by (rule pw_sq0[where q = "414365743233742665779160911601057711009836395510202707265620284724117782459", OF ell_a0_74]; simp only: semiring_norm)

lemma ell_a0_76: "(2::nat) ^ 95183742328964797815304 mod 7237005577332262213973186563042994240857116359379907606001950938285454250989 = 7025378486590662371498458191466820183502228385479041901486335420701066215995"
  by (rule pw_sq0[where q = "156410995667804080878366343374135399268399252916009773516485698474564425901", OF ell_a0_75]; simp only: semiring_norm)

lemma ell_a0_77: "(2::nat) ^ 190367484657929595630609 mod 7237005577332262213973186563042994240857116359379907606001950938285454250989 = 1348556146240331667086051196855715518507523956390952278528765356824820351666"
  by (rule pw_sq1[where q = "13639879740992190010645851345888025210069091738539037970497213810322516157056", OF ell_a0_76]; simp only: semiring_norm)

lemma ell_a0_78: "(2::nat) ^ 380734969315859191261219 mod 7237005577332262213973186563042994240857116359379907606001950938285454250989 = 3042255317122063440595711132825626834027267886944608041706199439570743809270"
  by (rule pw_sq1[where q = "502584573171755586175636180031254532439713387086661635273847157707658612378", OF ell_a0_77]; simp only: semiring_norm)

lemma ell_a0_79: "(2::nat) ^ 761469938631718382522439 mod 7237005577332262213973186563042994240857116359379907606001950938285454250989 = 1348252109991741172735449851352185443159453945778082134498579167458142572004"
  by (rule pw_sq1[where q = "2557775399136614685756650177231176436260143753001454680005760522664008024564", OF ell_a0_78]; simp only: semiring_norm)

lemma ell_a0_80: "(2::nat) ^ 1522939877263436765044878 mod 7237005577332262213973186563042994240857116359379907606001950938285454250989 = 6453769709553246824009667300669756849432575763343591304051511793955126979649"
  by (rule pw_sq0[where q = "251178990077172473357949892755059379440916442029337427493208113508133250603", OF ell_a0_79]; simp only: semiring_norm)

lemma ell_a0_81: "(2::nat) ^ 3045879754526873530089757 mod 7237005577332262213973186563042994240857116359379907606001950938285454250989 = 4604270491351603442866954559541718158172924404873643674795870801391110030306"
  by (rule pw_sq1[where q = "11510601454946130659393985327075359750414287165349648193709161026119188815264", OF ell_a0_80]; simp only: semiring_norm)

lemma ell_a0_82: "(2::nat) ^ 6091759509053747060179514 mod 7237005577332262213973186563042994240857116359379907606001950938285454250989 = 796341523453050335404220276658866817922914186199357311139774486690005598681"
  by (rule pw_sq0[where q = "2929292582547065039428247276158744096043704361985568080709066210623969999095", OF ell_a0_81]; simp only: semiring_norm)

lemma ell_a0_83: "(2::nat) ^ 12183519018107494120359028 mod 7237005577332262213973186563042994240857116359379907606001950938285454250989 = 6194617715409362199404257189122770961122006463841266473352560544216410932138"
  by (rule pw_sq0[where q = "87627377815189135763551196719921277597252160498296968966491051925211186307", OF ell_a0_82]; simp only: semiring_norm)

lemma ell_a0_84: "(2::nat) ^ 24367038036214988240718056 mod 7237005577332262213973186563042994240857116359379907606001950938285454250989 = 1958832464138357784733598358479952567123214779175085325295519136846109194283"
  by (rule pw_sq0[where q = "5302371019342069018214281194594999684423831177585825109857029367229435994749", OF ell_a0_83]; simp only: semiring_norm)

lemma ell_a0_85: "(2::nat) ^ 48734076072429976481436113 mod 7237005577332262213973186563042994240857116359379907606001950938285454250989 = 3946464569676863857950075319426219063668413244333104059403475783808294576257"
  by (rule pw_sq1[where q = "1060390124495875306015556980744839596331180510761281374897278720456210295189", OF ell_a0_84]; simp only: semiring_norm)

lemma ell_a0_86: "(2::nat) ^ 97468152144859952962872227 mod 7237005577332262213973186563042994240857116359379907606001950938285454250989 = 6532189792343843294611617672391353646514095233007271760914677058326234282893"
  by (rule pw_sq1[where q = "4304151056204095792070075949264881222076404282730890029562719515141449874345", OF ell_a0_85]; simp only: semiring_norm)

lemma ell_a0_87: "(2::nat) ^ 194936304289719905925744454 mod 7237005577332262213973186563042994240857116359379907606001950938285454250989 = 6869235043837095817381338677346472732152352974841671659348381791487966993068"
  by (rule pw_sq0[where q = "5896016387889827810156885668389368292044113528660142563938624360774503829329", OF ell_a0_86]; simp only: semiring_norm)

lemma ell_a0_88: "(2::nat) ^ 389872608579439811851488909 mod 7237005577332262213973186563042994240857116359379907606001950938285454250989 = 3691870950161008658652252554906113387575407324212104503671413285072087556241"
  by (rule pw_sq1[where q = "13040307785661176347061474003540761065321876473125413556810106556484710960363", OF ell_a0_87]; simp only: semiring_norm)

lemma ell_a0_89: "(2::nat) ^ 779745217158879623702977818 mod 7237005577332262213973186563042994240857116359379907606001950938285454250989 = 2958322708905941519728065555336946935595792168180216859144904822789358113591"
  by (rule pw_sq0[where q = "1883363356155802282691409421920283036301105847505899145632917045284290179410", OF ell_a0_88]; simp only: semiring_norm)

lemma ell_a0_90: "(2::nat) ^ 1559490434317759247405955636 mod 7237005577332262213973186563042994240857116359379907606001950938285454250989 = 3842146550872381237203513431230549047196706059773248818115231798531491921839"
  by (rule pw_sq0[where q = "1209294805221729489259258784278661786725633062622095712627083604501905116778", OF ell_a0_89]; simp only: semiring_norm)

lemma ell_a0_91: "(2::nat) ^ 3118980868635518494811911273 mod 7237005577332262213973186563042994240857116359379907606001950938285454250989 = 7019635331666654028133891614922621875771510745484690196827807151320037337747"
  by (rule pw_sq1[where q = "4079612751610509098788772396336034160423649206727600726528458891600480105355", OF ell_a0_90]; simp only: semiring_norm)

lemma ell_a0_92: "(2::nat) ^ 6237961737271036989623822546 mod 7237005577332262213973186563042994240857116359379907606001950938285454250989 = 1332918924517356882699493142856174374310993703967087778967135001901345012682"
  by (rule pw_sq0[where q = "6808794005067893418001365792221646053845783182317500270155761809772783997243", OF ell_a0_91]; simp only: semiring_norm)

lemma ell_a0_93: "(2::nat) ^ 12475923474542073979247645092 mod 7237005577332262213973186563042994240857116359379907606001950938285454250989 = 6374188420617293976168651343404034082532951537575058732434544356478634246712"
  by (rule pw_sq0[where q = "245498340487866880215618429837366470631266417091779108350769242608455356508", OF ell_a0_92]; simp only: semiring_norm)

lemma ell_a0_94: "(2::nat) ^ 24951846949084147958495290184 mod 7237005577332262213973186563042994240857116359379907606001950938285454250989 = 2856007608584746157073667060264289817653332707176298642580825093446621298454"
  by (rule pw_sq0[where q = "5614238870948737033508195673741085500858327650494163497212370002494426763410", OF ell_a0_93]; simp only: semiring_norm)

lemma ell_a0_95: "(2::nat) ^ 49903693898168295916990580369 mod 7237005577332262213973186563042994240857116359379907606001950938285454250989 = 3226068417891948299204455340991129141456912027334892355609068506217826337488"
  by (rule pw_sq1[where q = "2254186313146590005311853013043737433384862678416060796308844812876313550296", OF ell_a0_94]; simp only: semiring_norm)

lemma ell_a0_96: "(2::nat) ^ 99807387796336591833981160739 mod 7237005577332262213973186563042994240857116359379907606001950938285454250989 = 2768625750172722694288732356310649089557468140019638981849507970597871093516"
  by (rule pw_sq1[where q = "2876194394410381150508890941726559727901239054776095394182853468771250503748", OF ell_a0_95]; simp only: semiring_norm)

lemma ell_a0_97: "(2::nat) ^ 199614775592673183667962321478 mod 7237005577332262213973186563042994240857116359379907606001950938285454250989 = 5870908681857710792663355422604293191594190733516577120405727644002584573665"
  by (rule pw_sq0[where q = "1059179582302475562269853740525530299192733803870415800758982067796915118219", OF ell_a0_96]; simp only: semiring_norm)

lemma ell_a0_98: "(2::nat) ^ 399229551185346367335924642956 mod 7237005577332262213973186563042994240857116359379907606001950938285454250989 = 43340748415225003893213662881322179775429115183868834776408243912129465316"
  by (rule pw_sq0[where q = "4762683734647311768470264414843641555356801115116255477675990479296423951281", OF ell_a0_97]; simp only: semiring_norm)

lemma ell_a0_99: "(2::nat) ^ 798459102370692734671849285913 mod 7237005577332262213973186563042994240857116359379907606001950938285454250989 = 1217925815792693538171927343726237615542613503879357150038879797016514990701"
  by (rule pw_sq1[where q = "519115386362396739297477638155513070313992154357650858724313797176979999", OF ell_a0_98]; simp only: semiring_norm)

lemma ell_a0_100: "(2::nat) ^ 1596918204741385469343698571826 mod 7237005577332262213973186563042994240857116359379907606001950938285454250989 = 69124628901190054606737025558685767785245782699553476921542446429320260707"
  by (rule pw_sq0[where q = "204966443223482328464602730190048245463009713519627649140264438131951466846", OF ell_a0_99]; simp only: semiring_norm)

lemma ell_a0_101: "(2::nat) ^ 3193836409482770938687397143653 mod 7237005577332262213973186563042994240857116359379907606001950938285454250989 = 3490019556828185374794009938742705143051500224985716324468754364128170937094"
  by (rule pw_sq1[where q = "1320494856517329474994531784831322442856278673047879388745551819040063036", OF ell_a0_100]; simp only: semiring_norm)

lemma ell_a0_102: "(2::nat) ^ 6387672818965541877374794287306 mod 7237005577332262213973186563042994240857116359379907606001950938285454250989 = 3099254869956675443167523301600884608033458798877158734277036696017283045037"
  by (rule pw_sq0[where q = "1683049208251838519838532484307973073636472740648728926789370215163127538291", OF ell_a0_101]; simp only: semiring_norm)

lemma ell_a0_103: "(2::nat) ^ 12775345637931083754749588574613 mod 7237005577332262213973186563042994240857116359379907606001950938285454250989 = 14174788217718845098876324885237656234077953282388351819005717707249320539"
  by (rule pw_sq1[where q = "2654517989881375270444887583620497943927314100240602025434359368794372299891", OF ell_a0_102]; simp only: semiring_norm)

lemma ell_a0_104: "(2::nat) ^ 25550691275862167509499177149226 mod 7237005577332262213973186563042994240857116359379907606001950938285454250989 = 132519813397325631271586313887749444914019736835409931230203406200676637914"
  by (rule pw_sq0[where q = "27763502303565549735555363852485162495366731108471674319496440843172763", OF ell_a0_103]; simp only: semiring_norm)

lemma ell_a0_105: "(2::nat) ^ 51101382551724335018998354298453 mod 7237005577332262213973186563042994240857116359379907606001950938285454250989 = 6469539990136696692195297335980482989915450267966377404966348771988429281622"
  by (rule pw_sq1[where q = "4853250631136201477731363276670582356694521643197931199935271164776433530", OF ell_a0_104]; simp only: semiring_norm)

lemma ell_a0_106: "(2::nat) ^ 102202765103448670037996708596906 mod 7237005577332262213973186563042994240857116359379907606001950938285454250989 = 5129451927560834399831211981051166362445360162975388049316268502513801564758"
  by (rule pw_sq0[where q = "5783462129015891955269966291299480499029544717905330632872867950894482422534", OF ell_a0_105]; simp only: semiring_norm)

lemma ell_a0_107: "(2::nat) ^ 204405530206897340075993417193812 mod 7237005577332262213973186563042994240857116359379907606001950938285454250989 = 5457226314789839271281202031632734691260975151199518578614870093195262803274"
  by (rule pw_sq0[where q = "3635657979810006127563023890795605377791458167194151074125861847802556028610", OF ell_a0_106]; simp only: semiring_norm)

lemma ell_a0_108: "(2::nat) ^ 408811060413794680151986834387625 mod 7237005577332262213973186563042994240857116359379907606001950938285454250989 = 4237384754090503099216940166079123036783892202138438950425714342294947304226"
  by (rule pw_sq1[where q = "8230287715713717791909582339169995180231836778814793407235244644073753572734", OF ell_a0_107]; simp only: semiring_norm)

lemma ell_a0_109: "(2::nat) ^ 817622120827589360303973668775250 mod 7237005577332262213973186563042994240857116359379907606001950938285454250989 = 3007451707067829586002618916901521083425011859863474962108993888300001844837"
  by (rule pw_sq0[where q = "2481057857746939199964201523464926043590231971919656365295098640739305944251", OF ell_a0_108]; simp only: semiring_norm)

lemma ell_a0_110: "(2::nat) ^ 1635244241655178720607947337550500 mod 7237005577332262213973186563042994240857116359379907606001950938285454250989 = 3563261994466887876552575845726691709939174004975931541978581777795212096547"
  by (rule pw_sq0[where q = "1249793947744797067928801553195984031559706199141510056794080934292803457998", OF ell_a0_109]; simp only: semiring_norm)

lemma ell_a0_111: "(2::nat) ^ 3270488483310357441215894675101000 mod 7237005577332262213973186563042994240857116359379907606001950938285454250989 = 3233177761479467822872886232408611582284494554515571783939188293838617613983"
  by (rule pw_sq0[where q = "1754432258692898357239585418871764500034893269313110597920198388853503020434", OF ell_a0_110]; simp only: semiring_norm)

lemma ell_a0_112: "(2::nat) ^ 6540976966620714882431789350202001 mod 7237005577332262213973186563042994240857116359379907606001950938285454250989 = 365979940237149356608087986514861648705115591459065704776577207044542435270"
  by (rule pw_sq1[where q = "2888885002401442494253691067498378601972967660612107312190248928334413468972", OF ell_a0_111]; simp only: semiring_norm)

lemma ell_a0_113: "(2::nat) ^ 13081953933241429764863578700404002 mod 7237005577332262213973186563042994240857116359379907606001950938285454250989 = 3743276341021084130220847770418178715050142664038367499324203904051907253023"
  by (rule pw_sq0[where q = "18507836594118180807166378055642526409990205611621147499734710271072611193", OF ell_a0_112]; simp only: semiring_norm)

lemma ell_a0_114: "(2::nat) ^ 26163907866482859529727157400808004 mod 7237005577332262213973186563042994240857116359379907606001950938285454250989 = 2975531125133123119648879457563281269120703404158613135195788908093573672641"
  by (rule pw_sq0[where q = "1936176173352267343520497200905905078743049758970125478992980689367857384192", OF ell_a0_113]; simp only: semiring_norm)

lemma ell_b0_1: "(2::nat) ^ 2 mod 7237005577332262213973186563042994240857116359379907606001950938285454250989 = 4"
  by (rule pw_init0[where q = "0"]; simp only: semiring_norm)

lemma ell_b0_2: "(2::nat) ^ 4 mod 7237005577332262213973186563042994240857116359379907606001950938285454250989 = 16"
  by (rule pw_sq0[where q = "0", OF ell_b0_1]; simp only: semiring_norm)

lemma ell_b0_3: "(2::nat) ^ 8 mod 7237005577332262213973186563042994240857116359379907606001950938285454250989 = 256"
  by (rule pw_sq0[where q = "0", OF ell_b0_2]; simp only: semiring_norm)

lemma ell_b0_4: "(2::nat) ^ 16 mod 7237005577332262213973186563042994240857116359379907606001950938285454250989 = 65536"
  by (rule pw_sq0[where q = "0", OF ell_b0_3]; simp only: semiring_norm)

lemma ell_b0_5: "(2::nat) ^ 32 mod 7237005577332262213973186563042994240857116359379907606001950938285454250989 = 4294967296"
  by (rule pw_sq0[where q = "0", OF ell_b0_4]; simp only: semiring_norm)

lemma ell_b0_6: "(2::nat) ^ 64 mod 7237005577332262213973186563042994240857116359379907606001950938285454250989 = 18446744073709551616"
  by (rule pw_sq0[where q = "0", OF ell_b0_5]; simp only: semiring_norm)

lemma ell_b0_7: "(2::nat) ^ 128 mod 7237005577332262213973186563042994240857116359379907606001950938285454250989 = 340282366920938463463374607431768211456"
  by (rule pw_sq0[where q = "0", OF ell_b0_6]; simp only: semiring_norm)

lemma ell_b0_8: "(2::nat) ^ 256 mod 7237005577332262213973186563042994240857116359379907606001950938285454250989 = 7237005577332262213973186563042994240413239274941949949428319933631315875101"
  by (rule pw_sq0[where q = "15", OF ell_b0_7]; simp only: semiring_norm)

lemma ell_b0_9: "(2::nat) ^ 512 mod 7237005577332262213973186563042994240857116359379907606001950938285454250989 = 1627715501170711445284395025044413883736156588369414752970002579683115011841"
  by (rule pw_sq0[where q = "7237005577332262213973186563042994239969362190503992292854688928977177499240", OF ell_b0_8]; simp only: semiring_norm)

lemma ell_b0_10: "(2::nat) ^ 1024 mod 7237005577332262213973186563042994240857116359379907606001950938285454250989 = 4460531758850015836181350679139994174100493552997170650645149546199170259469"
  by (rule pw_sq0[where q = "366098619717808128819716404516769999285687009209230871130201714971063287108", OF ell_b0_9]; simp only: semiring_norm)

lemma ell_b0_11: "(2::nat) ^ 2048 mod 7237005577332262213973186563042994240857116359379907606001950938285454250989 = 6296368983248914727815342852381933597288498944308070913585183069169991320937"
  by (rule pw_sq0[where q = "2749250827445665192446140270154516795078445639981165598865190313677752906816", OF ell_b0_10]; simp only: semiring_norm)

lemma ell_b0_12: "(2::nat) ^ 4096 mod 7237005577332262213973186563042994240857116359379907606001950938285454250989 = 6835038230836649041129843311500620796431096176830742705941271920348483012040"
  by (rule pw_sq0[where q = "5477992513560120794091624584356882757115879159076018145870596263255392560461", OF ell_b0_11]; simp only: semiring_norm)

lemma ell_b0_13: "(2::nat) ^ 8192 mod 7237005577332262213973186563042994240857116359379907606001950938285454250989 = 7039930457811067649673902465159767523690970682995390718697680416150800611408"
  by (rule pw_sq0[where q = "6455397486956186243939054146344199889966432884838984090389805380206955652528", OF ell_b0_12]; simp only: semiring_norm)

lemma ell_b0_14: "(2::nat) ^ 16384 mod 7237005577332262213973186563042994240857116359379907606001950938285454250989 = 5645917675513515478896491896805673757446698105415329748759467109354945772118"
  by (rule pw_sq0[where q = "6848222005804396403532409446759737605095915534899677084212128472147524458514", OF ell_b0_13]; simp only: semiring_norm)

lemma ell_b0_15: "(2::nat) ^ 32768 mod 7237005577332262213973186563042994240857116359379907606001950938285454250989 = 6776315972082996496340175452773963442869618238981245500410996383150051780300"
  by (rule pw_sq0[where q = "4404637533860566105224845558775561502567995599334282561130869252656244708216", OF ell_b0_14]; simp only: semiring_norm)

lemma ell_b0_16: "(2::nat) ^ 65536 mod 7237005577332262213973186563042994240857116359379907606001950938285454250989 = 4784498346523861356500353588357029728336905222471856861391858715160818914763"
  by (rule pw_sq0[where q = "6344952710459813663401061200246444799712370231571395486938305767254096773433", OF ell_b0_15]; simp only: semiring_norm)

lemma ell_b0_17: "(2::nat) ^ 131072 mod 7237005577332262213973186563042994240857116359379907606001950938285454250989 = 4361217650212848722569037915529088465155124838597941966462485170908909564727"
  by (rule pw_sq0[where q = "3163107197207370937930991316012012106014371812879058366484028739607151408778", OF ell_b0_16]; simp only: semiring_norm)

lemma ell_b0_18: "(2::nat) ^ 262144 mod 7237005577332262213973186563042994240857116359379907606001950938285454250989 = 5090056102835009019844514877008137113277824563772687693310110189925913393981"
  by (rule pw_sq0[where q = "2628189130059977259604009887393911648678018574174390891857497164229346540132", OF ell_b0_17]; simp only: semiring_norm)

lemma ell_b0_19: "(2::nat) ^ 524288 mod 7237005577332262213973186563042994240857116359379907606001950938285454250989 = 227396815405719726307642340825831039572788470745306523928840959560116752274"
  by (rule pw_sq0[where q = "3580026414676122394183928986360043766884554686494593054927996580121262596083", OF ell_b0_18]; simp only: semiring_norm)

lemma ell_b0_20: "(2::nat) ^ 1048576 mod 7237005577332262213973186563042994240857116359379907606001950938285454250989 = 3311227481411755661686655794442654976534142452219419120844711389927761641038"
  by (rule pw_sq0[where q = "7145125301357622140591966255111047871363928676335560979025758388457046542", OF ell_b0_19]; simp only: semiring_norm)

lemma ell_b0_21: "(2::nat) ^ 2097152 mod 7237005577332262213973186563042994240857116359379907606001950938285454250989 = 6017948102341605966222449087741595862266139983146683263060410333785619746962"
  by (rule pw_sq0[where q = "1515022659095161548900299684217948022186501425454672017185996982379240606138", OF ell_b0_20]; simp only: semiring_norm)

lemma ell_b0_22: "(2::nat) ^ 4194304 mod 7237005577332262213973186563042994240857116359379907606001950938285454250989 = 6784969975362325110915850597444091200171356168159339713179362017887564274936"
  by (rule pw_sq0[where q = "5004238144559635885309856792530035627214407298699067711348595712045700619772", OF ell_b0_21]; simp only: semiring_norm)

lemma ell_b0_23: "(2::nat) ^ 8388608 mod 7237005577332262213973186563042994240857116359379907606001950938285454250989 = 5235914857497286385831850575113627039878959066303084051095178639741267652547"
  by (rule pw_sq0[where q = "6361169281223376129754080860584115998493510754666201571212199917201126649041", OF ell_b0_22]; simp only: semiring_norm)

lemma ell_b0_24: "(2::nat) ^ 16777216 mod 7237005577332262213973186563042994240857116359379907606001950938285454250989 = 649396332513218500543574328056481486767705355943565670769658882545902208111"
  by (rule pw_sq0[where q = "3788141946557211057232979619043239968366074548177822530131911716997283382082", OF ell_b0_23]; simp only: semiring_norm)

lemma ell_b0_25: "(2::nat) ^ 33554432 mod 7237005577332262213973186563042994240857116359379907606001950938285454250989 = 3203750950569865977825263413989989492829691449473068942606726992663540122079"
  by (rule pw_sq0[where q = "58272111604074977346670768098860224042312863419570940591746295022589491978", OF ell_b0_24]; simp only: semiring_norm)

lemma ell_b0_26: "(2::nat) ^ 67108864 mod 7237005577332262213973186563042994240857116359379907606001950938285454250989 = 6024473293013539979509879166593198570232139409848614682394132883951552378846"
  by (rule pw_sq0[where q = "1418268929545428020808796892624387889159162513634399091099428603123913991055", OF ell_b0_25]; simp only: semiring_norm)

lemma ell_b0_27: "(2::nat) ^ 134217728 mod 7237005577332262213973186563042994240857116359379907606001950938285454250989 = 903762493064593465276469589444421811734708922725249386868393985629702442558"
  by (rule pw_sq0[where q = "5015096101613392387313879377591511020302573455830953689339086832636222206622", OF ell_b0_26]; simp only: semiring_norm)

lemma ell_b0_28: "(2::nat) ^ 268435456 mod 7237005577332262213973186563042994240857116359379907606001950938285454250989 = 5038801569111668581892234830961465457736391435301653445755125023933941548947"
  by (rule pw_sq0[where q = "112862514080225007213758983391407509839427967941092271776062268741101388053", OF ell_b0_27]; simp only: semiring_norm)

lemma ell_b0_29: "(2::nat) ^ 536870912 mod 7237005577332262213973186563042994240857116359379907606001950938285454250989 = 2901084670550627560751107433798296916867461085354494449071761621209378166859"
  by (rule pw_sq0[where q = "3508290961168695654617931500777477337422909145233684818696301782414245582550", OF ell_b0_28]; simp only: semiring_norm)

lemma ell_b0_30: "(2::nat) ^ 1073741824 mod 7237005577332262213973186563042994240857116359379907606001950938285454250989 = 5163316386418799127306362420515719783955892287169087990875515794646706657631"
  by (rule pw_sq0[where q = "1162952297848897753561006296451807016629854512007663636735016971565896589250", OF ell_b0_29]; simp only: semiring_norm)

lemma ell_b0_31: "(2::nat) ^ 2147483648 mod 7237005577332262213973186563042994240857116359379907606001950938285454250989 = 801679053654715595599176086362913140070049364209555133674472093135544840154"
  by (rule pw_sq0[where q = "3683821412237788459395340409318992124758409751528627494865108078682334947363", OF ell_b0_30]; simp only: semiring_norm)

lemma ell_b0_32: "(2::nat) ^ 4294967296 mod 7237005577332262213973186563042994240857116359379907606001950938285454250989 = 2527106544734160346671529848292917923101391282423788522012798805426611027914"
  by (rule pw_sq0[where q = "88805970674079735938139350135373028713269631928012987132793027312168982018", OF ell_b0_31]; simp only: semiring_norm)

lemma ell_b0_33: "(2::nat) ^ 8589934592 mod 7237005577332262213973186563042994240857116359379907606001950938285454250989 = 4115028273789676276137754823479233519074461028408880619795407895900740187023"
  by (rule pw_sq0[where q = "882446119489155019619427471450529950705933243102420410089804274243902482057", OF ell_b0_32]; simp only: semiring_norm)

lemma ell_b0_34: "(2::nat) ^ 17179869184 mod 7237005577332262213973186563042994240857116359379907606001950938285454250989 = 2774991396082907723563304118367568615157822848201642816560447811813141770719"
  by (rule pw_sq0[where q = "2339843117867339109358751222222393047407036896425305512903773409013182905290", OF ell_b0_33]; simp only: semiring_norm)

lemma ell_b0_35: "(2::nat) ^ 34359738368 mod 7237005577332262213973186563042994240857116359379907606001950938285454250989 = 4802947769841506627746524329116232691746185839077551683569956880907024905297"
  by (rule pw_sq0[where q = "1064055729410227555868913812154114098778045610653859872923133831392720518576", OF ell_b0_34]; simp only: semiring_norm)

lemma ell_b0_36: "(2::nat) ^ 68719476736 mod 7237005577332262213973186563042994240857116359379907606001950938285454250989 = 1654392169876241757967827305791037195957733675253372880758909168327146354186"
  by (rule pw_sq0[where q = "3187548639188564239291021907342051216725966550642248342513819099519254213907", OF ell_b0_35]; simp only: semiring_norm)

lemma ell_b0_37: "(2::nat) ^ 137438953472 mod 7237005577332262213973186563042994240857116359379907606001950938285454250989 = 2360512569251797307066580412610128569404770369868557506201923185742053545190"
  by (rule pw_sq0[where q = "378196952109680405488439724256051506715635609523665580363442045836367216054", OF ell_b0_36]; simp only: semiring_norm)

lemma ell_b0_38: "(2::nat) ^ 274877906944 mod 7237005577332262213973186563042994240857116359379907606001950938285454250989 = 5654093843388139231176296626096271764126730183104386283788212698080317447943"
  by (rule pw_sq0[where q = "769934405888589115162258549464431527665042676276394620316330391967670297713", OF ell_b0_37]; simp only: semiring_norm)

lemma ell_b0_39: "(2::nat) ^ 549755813888 mod 7237005577332262213973186563042994240857116359379907606001950938285454250989 = 1793712940137299701659334466329257271604359156042581919055305378676330727411"
  by (rule pw_sq0[where q = "4417403972987421051356363482232091307476451264533282013946035361398372730742", OF ell_b0_38]; simp only: semiring_norm)

lemma ell_b0_40: "(2::nat) ^ 1099511627776 mod 7237005577332262213973186563042994240857116359379907606001950938285454250989 = 1999258849202363690312241303707473942454030729292749507700673727029509203170"
  by (rule pw_sq0[where q = "444576983841708039923907759923972463130844037138045986882061346158599622659", OF ell_b0_39]; simp only: semiring_norm)

lemma ell_b0_41: "(2::nat) ^ 2199023255552 mod 7237005577332262213973186563042994240857116359379907606001950938285454250989 = 3937677029153955925763807715669731076566333470761797474917854455586117345548"
  by (rule pw_sq0[where q = "552305218422584814255837714583191643004819486592375678668581833631737114968", OF ell_b0_40]; simp only: semiring_norm)

lemma ell_b0_42: "(2::nat) ^ 4398046511104 mod 7237005577332262213973186563042994240857116359379907606001950938285454250989 = 3030796489495847121575099210710718566347085566654760562117928854061352917453"
  by (rule pw_sq0[where q = "2142502202083746126790373097488306986624396283884547600603526589966585800559", OF ell_b0_41]; simp only: semiring_norm)

lemma ell_b0_43: "(2::nat) ^ 8796093022208 mod 7237005577332262213973186563042994240857116359379907606001950938285454250989 = 1296727118465386674581327637950578847043798768012600615911462252048590406459"
  by (rule pw_sq0[where q = "1269271836615943992518934017810528121274611735274854711908701729216884331750", OF ell_b0_42]; simp only: semiring_norm)

lemma ell_b0_44: "(2::nat) ^ 17592186044416 mod 7237005577332262213973186563042994240857116359379907606001950938285454250989 = 136675057104026925736830340276351863128312430608104820284023016529906673482"
  by (rule pw_sq0[where q = "232347647351598085284573391833414518300859631034751207175070316754040126891", OF ell_b0_43]; simp only: semiring_norm)

lemma ell_b0_45: "(2::nat) ^ 35184372088832 mod 7237005577332262213973186563042994240857116359379907606001950938285454250989 = 3590557691305450296932333198739207599948454890516968931953929528928676945685"
  by (rule pw_sq0[where q = "2581187900821675684808705644622435981219048268706815161287293937230503851", OF ell_b0_44]; simp only: semiring_norm)

lemma ell_b0_46: "(2::nat) ^ 70368744177664 mod 7237005577332262213973186563042994240857116359379907606001950938285454250989 = 5013866656166822929625398177645817344577670663832670478585948588233815630313"
  by (rule pw_sq0[where q = "1781414204650243104157023672078993588233493503831220870032655247404226229008", OF ell_b0_45]; simp only: semiring_norm)

lemma ell_b0_47: "(2::nat) ^ 140737488355328 mod 7237005577332262213973186563042994240857116359379907606001950938285454250989 = 6063941872717738342464268490555204725393364189154959156978785731513377441150"
  by (rule pw_sq0[where q = "3473654756403860370369952276065119666506368480716566826755720694999671289471", OF ell_b0_46]; simp only: semiring_norm)

lemma ell_b0_48: "(2::nat) ^ 281474976710656 mod 7237005577332262213973186563042994240857116359379907606001950938285454250989 = 4561337922418587014220864864158082618484769863401585380438786083197804504863"
  by (rule pw_sq0[where q = "5081022895833437830707779944264570939889238735731304010309058550568013315033", OF ell_b0_47]; simp only: semiring_norm)

lemma ell_b0_49: "(2::nat) ^ 562949953421312 mod 7237005577332262213973186563042994240857116359379907606001950938285454250989 = 4022409813790765622358643002525431716533498153070041701085110212459439635426"
  by (rule pw_sq0[where q = "2874918834892406057122680400571829481164099436581489108246196541762950865787", OF ell_b0_48]; simp only: semiring_norm)

lemma ell_b0_50: "(2::nat) ^ 1125899906842624 mod 7237005577332262213973186563042994240857116359379907606001950938285454250989 = 5738791276211700196695032930573463670498227861141831918925134062017199913566"
  by (rule pw_sq0[where q = "2235701014347501144551491374302573737602074563853514356871945551567919400190", OF ell_b0_49]; simp only: semiring_norm)

lemma ell_b0_51: "(2::nat) ^ 2251799813685248 mod 7237005577332262213973186563042994240857116359379907606001950938285454250989 = 1576821451744277353777906453826111118872133909548495175322513104761365895448"
  by (rule pw_sq0[where q = "4550739247055229395527306011770540945540358252041714054040504422027234857372", OF ell_b0_50]; simp only: semiring_norm)

lemma ell_b0_52: "(2::nat) ^ 4503599627370496 mod 7237005577332262213973186563042994240857116359379907606001950938285454250989 = 5763231549419467457229453942902837224864886132638133070154463182617758709112"
  by (rule pw_sq0[where q = "343562798744928680226326157874145223528923566439678599129360147608850065128", OF ell_b0_51]; simp only: semiring_norm)

lemma ell_b0_53: "(2::nat) ^ 9007199254740992 mod 7237005577332262213973186563042994240857116359379907606001950938285454250989 = 2113179715659523647084026883209351097038403644276148593798459445173209820936"
  by (rule pw_sq0[where q = "4589583017078137945073885316075168951650370439264340345229000808732033787672", OF ell_b0_52]; simp only: semiring_norm)

lemma ell_b0_54: "(2::nat) ^ 18014398509481984 mod 7237005577332262213973186563042994240857116359379907606001950938285454250989 = 4664589445957162846185028758443339771802290308725284581397964559427647131323"
  by (rule pw_sq0[where q = "617040910492287966847360910780666291541838171429730324583858830052056465657", OF ell_b0_53]; simp only: semiring_norm)

lemma ell_b0_55: "(2::nat) ^ 36028797018963968 mod 7237005577332262213973186563042994240857116359379907606001950938285454250989 = 604896687342319865654410239608819116377470725345534211791138166117134579088"
  by (rule pw_sq0[where q = "3006546625787682408267960222263959120535579887220906941085114509984065197069", OF ell_b0_54]; simp only: semiring_norm)

lemma ell_b0_56: "(2::nat) ^ 72057594037927936 mod 7237005577332262213973186563042994240857116359379907606001950938285454250989 = 1349327741689056282167937949047857107732533036106013632860439865213997635616"
  by (rule pw_sq0[where q = "50559585514730526309468333045055157235061094560121531345488908613683552352", OF ell_b0_55]; simp only: semiring_norm)

lemma ell_b0_57: "(2::nat) ^ 144115188075855872 mod 7237005577332262213973186563042994240857116359379907606001950938285454250989 = 2695305814247621705406359817066654382894962111800545373824000052288560579492"
  by (rule pw_sq0[where q = "251579929714913647953866607325129006719690073408770390047581439344935923276", OF ell_b0_56]; simp only: semiring_norm)

lemma ell_b0_58: "(2::nat) ^ 288230376151711744 mod 7237005577332262213973186563042994240857116359379907606001950938285454250989 = 5878498742647980943044726250055191511888047617563341410405870531419344053703"
  by (rule pw_sq0[where q = "1003823108147302530705174551873390522180940744334328634643905535423179043149", OF ell_b0_57]; simp only: semiring_norm)

lemma ell_b0_59: "(2::nat) ^ 576460752303423488 mod 7237005577332262213973186563042994240857116359379907606001950938285454250989 = 5353596239867494319434398659407317871377259209595089301343881858159568769142"
  by (rule pw_sq0[where q = "4775006333496893297388294568409353766279116604947064423075045936215055400903", OF ell_b0_58]; simp only: semiring_norm)

lemma ell_b0_60: "(2::nat) ^ 1152921504606846976 mod 7237005577332262213973186563042994240857116359379907606001950938285454250989 = 2699272742937149238076182943388817317777877650755075886176572849650313683225"
  by (rule pw_sq0[where q = "3960338622550643212623860077445943987021951095471274811298886453318305142551", OF ell_b0_59]; simp only: semiring_norm)

lemma ell_b0_61: "(2::nat) ^ 2305843009213693952 mod 7237005577332262213973186563042994240857116359379907606001950938285454250989 = 5491000976391381730598124088057415827097718321166071349853135112520781831471"
  by (rule pw_sq0[where q = "1006780119609810597829075256124770821301930432436857407681664958636088446986", OF ell_b0_60]; simp only: semiring_norm)

lemma ell_b0_62: "(2::nat) ^ 4611686018427387904 mod 7237005577332262213973186563042994240857116359379907606001950938285454250989 = 4555094810867386227372892730917739278752024965334339174650034776270475566496"
  by (rule pw_sq0[where q = "4166238563801900446761204423051479520121043807662739888967423843137916581605", OF ell_b0_61]; simp only: semiring_norm)

lemma ell_b0_63: "(2::nat) ^ 9223372036854775808 mod 7237005577332262213973186563042994240857116359379907606001950938285454250989 = 3716585689011103498565366456309547669841787181570210684088513032598756128921"
  by (rule pw_sq0[where q = "2867054407278699166456624574815007264405049733773994256539717994792953592355", OF ell_b0_62]; simp only: semiring_norm)

lemma ell_b0_64: "(2::nat) ^ 18446744073709551616 mod 7237005577332262213973186563042994240857116359379907606001950938285454250989 = 3112734776432989962555634119511870139882290373513408335273112745603847135968"
  by (rule pw_sq0[where q = "1908663609024597844698787339875401237475567677834140548365298299795744447157", OF ell_b0_63]; simp only: semiring_norm)

lemma ell_b0_65: "(2::nat) ^ 36893488147419103232 mod 7237005577332262213973186563042994240857116359379907606001950938285454250989 = 6278898245724447578865135499102378136855295925630925790437981138288272982503"
  by (rule pw_sq0[where q = "1338829669934700050892845480995378192129845834615140146135348124917744138589", OF ell_b0_64]; simp only: semiring_norm)

lemma ell_b0_66: "(2::nat) ^ 73786976294838206464 mod 7237005577332262213973186563042994240857116359379907606001950938285454250989 = 174964831033501327789167062032881038825479773330446602293992530788695770259"
  by (rule pw_sq0[where q = "5447634765357526005473109885891474464039141980192716469631976701129507897750", OF ell_b0_65]; simp only: semiring_norm)

lemma ell_b0_67: "(2::nat) ^ 147573952589676412928 mod 7237005577332262213973186563042994240857116359379907606001950938285454250989 = 5221759499469622561358071617093815613094059124477777653876984615756019933971"
  by (rule pw_sq0[where q = "4230021902216946829437423743755255216776754758622144647176317622013226990", OF ell_b0_66]; simp only: semiring_norm)

lemma ell_b0_68: "(2::nat) ^ 295147905179352825856 mod 7237005577332262213973186563042994240857116359379907606001950938285454250989 = 1643171063341245148086671817357975575892142005642835547278557116497781419318"
  by (rule pw_sq0[where q = "3767687060475148103976842769588609008462146942726786594409099442186938613407", OF ell_b0_67]; simp only: semiring_norm)

lemma ell_b0_69: "(2::nat) ^ 590295810358705651712 mod 7237005577332262213973186563042994240857116359379907606001950938285454250989 = 1893507714358118229195435350290342188485700321650104140562429681666123209388"
  by (rule pw_sq0[where q = "373084021360846956223288192432147711484334075415174954807874646198949968024", OF ell_b0_68]; simp only: semiring_norm)

lemma ell_b0_70: "(2::nat) ^ 1180591620717411303424 mod 7237005577332262213973186563042994240857116359379907606001950938285454250989 = 3794355272946009140577876564632940104208542330028573759993495114503836932805"
  by (rule pw_sq0[where q = "495421956777786667018549766997104802908328842141657291216835599164656281751", OF ell_b0_69]; simp only: semiring_norm)

lemma ell_b0_71: "(2::nat) ^ 2361183241434822606848 mod 7237005577332262213973186563042994240857116359379907606001950938285454250989 = 586266673329763448275258970951685537681599285979218606492564693322491710238"
  by (rule pw_sq0[where q = "1989376929931884829546856454419667748963025122325407879095441307773245061383", OF ell_b0_70]; simp only: semiring_norm)

lemma ell_b0_72: "(2::nat) ^ 4722366482869645213696 mod 7237005577332262213973186563042994240857116359379907606001950938285454250989 = 5773628544683968332506775502429672672657470217399578138295340208012715890337"
  by (rule pw_sq0[where q = "47493208148645229379691690290545079405991123734819432938178754656191426063", OF ell_b0_71]; simp only: semiring_norm)

lemma ell_b0_73: "(2::nat) ^ 9444732965739290427392 mod 7237005577332262213973186563042994240857116359379907606001950938285454250989 = 2926385833074357836135739373960351477108957070479182516785079781418845927336"
  by (rule pw_sq0[where q = "4606157369340806584613763895433739512795140676705292238255420762098413272797", OF ell_b0_72]; simp only: semiring_norm)

lemma ell_b0_74: "(2::nat) ^ 18889465931478580854784 mod 7237005577332262213973186563042994240857116359379907606001950938285454250989 = 5078301719985989153348867604287517029256809531274035743511183436291371737468"
  by (rule pw_sq0[where q = "1183325610642282490843336503609556120120992117772879902602281040275346612052", OF ell_b0_73]; simp only: semiring_norm)

lemma ell_b0_75: "(2::nat) ^ 37778931862957161709568 mod 7237005577332262213973186563042994240857116359379907606001950938285454250989 = 5219758006287543812754313265118022342277298475498496234365483333260413804999"
  by (rule pw_sq0[where q = "3563510913959965262704127517259054092755368135625437338032052812729635611725", OF ell_b0_74]; simp only: semiring_norm)

lemma ell_b0_76: "(2::nat) ^ 75557863725914323419136 mod 7237005577332262213973186563042994240857116359379907606001950938285454250989 = 1520303490747869935228237090254882500987851861146607852613280359092025669246"
  by (rule pw_sq0[where q = "3764799315554267081882624116270822057826175125098769029647906944301981211295", OF ell_b0_75]; simp only: semiring_norm)

lemma ell_b0_77: "(2::nat) ^ 151115727451828646838272 mod 7237005577332262213973186563042994240857116359379907606001950938285454250989 = 1200697656009093473978003255637454047951825835775530233269909221766670003326"
  by (rule pw_sq0[where q = "319375559308628983155697962082615473687260046107089437207543726477497727710", OF ell_b0_76]; simp only: semiring_norm)

lemma ell_b0_78: "(2::nat) ^ 302231454903657293676544 mod 7237005577332262213973186563042994240857116359379907606001950938285454250989 = 6077890308093419811098488486305037695544342295022000547803283659655766781204"
  by (rule pw_sq0[where q = "199208753639950638420435835718056318846534885675814195114321985883514742448", OF ell_b0_77]; simp only: semiring_norm)

lemma ell_b0_79: "(2::nat) ^ 604462909807314587353088 mod 7237005577332262213973186563042994240857116359379907606001950938285454250989 = 3916093088720375213210376643563813981706237052444265342177994950580808001923"
  by (rule pw_sq0[where q = "5104424779348200040037676486045999342053117968617292633618365909056807499937", OF ell_b0_78]; simp only: semiring_norm)

lemma ell_b0_80: "(2::nat) ^ 1208925819614629174706176 mod 7237005577332262213973186563042994240857116359379907606001950938285454250989 = 6609368818009231778209319308495775710651113640858197906565696118354603430052"
  by (rule pw_sq0[where q = "2119078797943476936188903322073701101054945468860107952904274823585017743193", OF ell_b0_79]; simp only: semiring_norm)

lemma ell_b0_81: "(2::nat) ^ 2417851639229258349412352 mod 7237005577332262213973186563042994240857116359379907606001950938285454250989 = 2867083320775550404507374091242790170506008625711179843599325163386346093114"
  by (rule pw_sq0[where q = "6036164502801952199802136967430594362769365217300935457631900950011033107310", OF ell_b0_80]; simp only: semiring_norm)

lemma ell_b0_82: "(2::nat) ^ 4835703278458516698824704 mod 7237005577332262213973186563042994240857116359379907606001950938285454250989 = 2557487986015732046390795822129712787210558008608183750613881736037039168008"
  by (rule pw_sq0[where q = "1135851932188162383121458795872507790055356116573102484390734182384235822092", OF ell_b0_81]; simp only: semiring_norm)

lemma ell_b0_83: "(2::nat) ^ 9671406556917033397649408 mod 7237005577332262213973186563042994240857116359379907606001950938285454250989 = 239502159355461752651170687171368239314532128709287644525566104513061541270"
  by (rule pw_sq0[where q = "903791592907115627561977526657093746325920868736150043114862348126510281746", OF ell_b0_82]; simp only: semiring_norm)

lemma ell_b0_84: "(2::nat) ^ 19342813113834066795298816 mod 7237005577332262213973186563042994240857116359379907606001950938285454250989 = 7029377834924118161651725575212505184038502003004462006021199011689141556070"
  by (rule pw_sq0[where q = "7926107520988504206730777653511049135406213355518906886834908121614028470", OF ell_b0_83]; simp only: semiring_norm)

lemma ell_b0_85: "(2::nat) ^ 38685626227668133590597632 mod 7237005577332262213973186563042994240857116359379907606001950938285454250989 = 5777651029092684768918792594016609915912975785913296569745757593059263350777"
  by (rule pw_sq0[where q = "6827706876569385569883199367751530024958933265021382768877415751661754914807", OF ell_b0_84]; simp only: semiring_norm)

lemma ell_b0_86: "(2::nat) ^ 77371252455336267181195264 mod 7237005577332262213973186563042994240857116359379907606001950938285454250989 = 5281529253197589591731240254948543950594945843533327500372380429025375707297"
  by (rule pw_sq0[where q = "4612577820657270722347264030870846536419913927735641281487108361590963444688", OF ell_b0_85]; simp only: semiring_norm)

lemma ell_b0_87: "(2::nat) ^ 154742504910672534362390528 mod 7237005577332262213973186563042994240857116359379907606001950938285454250989 = 229117608023388194543032939011246619176069783728891003009839411327159299718"
  by (rule pw_sq0[where q = "3854432742148653186004824637757889194356861904535781002705670995096575029319", OF ell_b0_86]; simp only: semiring_norm)

lemma ell_b0_88: "(2::nat) ^ 309485009821345068724781056 mod 7237005577332262213973186563042994240857116359379907606001950938285454250989 = 3400263337827589751837938958039834490850334455779005350426853280479331434493"
  by (rule pw_sq0[where q = "7253673877326188032161559302662706664948316392819412228616881873440862179", OF ell_b0_87]; simp only: semiring_norm)

lemma ell_b0_89: "(2::nat) ^ 618970019642690137449562112 mod 7237005577332262213973186563042994240857116359379907606001950938285454250989 = 3294707410101899408861710264163503364765740125469082672296337731832730061849"
  by (rule pw_sq0[where q = "1597593181741941043220755343500328011110870376117980001866167804561082426800", OF ell_b0_88]; simp only: semiring_norm)

lemma ell_b0_90: "(2::nat) ^ 1237940039285380274899124224 mod 7237005577332262213973186563042994240857116359379907606001950938285454250989 = 6675158481851869024456830337590819033879935796853324859602138554898690071400"
  by (rule pw_sq0[where q = "1499943146676670184935008498744961287705370242488709964411428022657445866509", OF ell_b0_89]; simp only: semiring_norm)

lemma ell_b0_91: "(2::nat) ^ 2475880078570760549798248448 mod 7237005577332262213973186563042994240857116359379907606001950938285454250989 = 6194827431353048296434699430280066913625464639838264911640783190117493927605"
  by (rule pw_sq0[where q = "6156930553902381422914762610155927486919783357223050647992505083758239252055", OF ell_b0_90]; simp only: semiring_norm)

lemma ell_b0_92: "(2::nat) ^ 4951760157141521099596496896 mod 7237005577332262213973186563042994240857116359379907606001950938285454250989 = 2779519471025543971833181157400530365917218753226401085636021676386908272324"
  by (rule pw_sq0[where q = "5302730044100712108517502989217108554488927377259811470939161977346698063209", OF ell_b0_91]; simp only: semiring_norm)

lemma ell_b0_93: "(2::nat) ^ 9903520314283042199192993792 mod 7237005577332262213973186563042994240857116359379907606001950938285454250989 = 4901785170600030310207267223836026686734515213301920225970758540828760437074"
  by (rule pw_sq0[where q = "1067531095182327165696497720993927818696906233721263513275322696223842044918", OF ell_b0_92]; simp only: semiring_norm)

lemma ell_b0_94: "(2::nat) ^ 19807040628566084398385987584 mod 7237005577332262213973186563042994240857116359379907606001950938285454250989 = 1065494124639771462418168578394484582974212381611375329461155789634485600049"
  by (rule pw_sq0[where q = "3320088343440450045825756761238226744514279616272597511557210589627012710143", OF ell_b0_93]; simp only: semiring_norm)

lemma ell_b0_95: "(2::nat) ^ 39614081257132168796771975168 mod 7237005577332262213973186563042994240857116359379907606001950938285454250989 = 5279631207024979636111789920061169261593373640826337087508618446027882985382"
  by (rule pw_sq0[where q = "156871197280514472776279603596767705567258317462732490939645609002494291271", OF ell_b0_94]; simp only: semiring_norm)

lemma ell_b0_96: "(2::nat) ^ 79228162514264337593543950336 mod 7237005577332262213973186563042994240857116359379907606001950938285454250989 = 1006648077550984713180657050131269058832870355007884743443154882090922190976"
  by (rule pw_sq0[where q = "3851662871381573532341037996454240167816914668397061625233364405314108839732", OF ell_b0_95]; simp only: semiring_norm)

lemma ell_b0_97: "(2::nat) ^ 158456325028528675187087900672 mod 7237005577332262213973186563042994240857116359379907606001950938285454250989 = 4521897602811648443428454193739825206056846860493328120785502985914535759141"
  by (rule pw_sq0[where q = "140022049341937283012208358295545908362751529784108035526020792589181917415", OF ell_b0_96]; simp only: semiring_norm)

lemma ell_b0_98: "(2::nat) ^ 316912650057057350374175801344 mod 7237005577332262213973186563042994240857116359379907606001950938285454250989 = 2794423109620188500490658504104520347136597326935637761516159911608436131467"
  by (rule pw_sq0[where q = "2825416909219960025880796797012020217257692711451279682541226421409717536326", OF ell_b0_97]; simp only: semiring_norm)

lemma ell_b0_99: "(2::nat) ^ 633825300114114700748351602688 mod 7237005577332262213973186563042994240857116359379907606001950938285454250989 = 3909764884290748338534032657663562023671249735289292259534497580196990607782"
  by (rule pw_sq0[where q = "1079009879450428648654584439939912408840448126683122330644103138410297168063", OF ell_b0_98]; simp only: semiring_norm)

lemma ell_b0_100: "(2::nat) ^ 1267650600228229401496703205376 mod 7237005577332262213973186563042994240857116359379907606001950938285454250989 = 1931248268365753333736857532558533744453485878739627763729407197811129808376"
  by (rule pw_sq0[where q = "2112235687410916670945605054302904976339289431275277014421481525688946125532", OF ell_b0_99]; simp only: semiring_norm)

lemma ell_b0_101: "(2::nat) ^ 2535301200456458802993406410752 mod 7237005577332262213973186563042994240857116359379907606001950938285454250989 = 4461818637230369236813191578795454658503258715691449423760409025575431328260"
  by (rule pw_sq0[where q = "515367831931475040768056415954354812027150254955672514894509296672549910444", OF ell_b0_100]; simp only: semiring_norm)

lemma ell_b0_102: "(2::nat) ^ 5070602400912917605986812821504 mod 7237005577332262213973186563042994240857116359379907606001950938285454250989 = 2460522624638185793747797906988269159548260376911710420286939523654222063768"
  by (rule pw_sq0[where q = "2750837392455731964840052843044144488425155985411964757765869503791866611288", OF ell_b0_101]; simp only: semiring_norm)

lemma ell_b0_103: "(2::nat) ^ 10141204801825835211973625643008 mod 7237005577332262213973186563042994240857116359379907606001950938285454250989 = 6381183279019772237478764772501738581443190937808862058220600625700486118851"
  by (rule pw_sq0[where q = "836557540499796423405266095551284213250639024415798070437786383253582133457", OF ell_b0_102]; simp only: semiring_norm)

lemma ell_b0_104: "(2::nat) ^ 20282409603651670423947251286016 mod 7237005577332262213973186563042994240857116359379907606001950938285454250989 = 3610949101229093389825561072062767585287701888203791068833140377669749495195"
  by (rule pw_sq0[where q = "5626567453254850051401070287785856585877929979429723999169022554707011444454", OF ell_b0_103]; simp only: semiring_norm)

lemma ell_b0_105: "(2::nat) ^ 40564819207303340847894502572032 mod 7237005577332262213973186563042994240857116359379907606001950938285454250989 = 4141312058583009739579106052765494658052016233795135731232020130479621875735"
  by (rule pw_sq0[where q = "1801705591122906861964605961563647781682567574006683882043457801858247081610", OF ell_b0_104]; simp only: semiring_norm)

lemma ell_b0_106: "(2::nat) ^ 81129638414606681695789005144064 mod 7237005577332262213973186563042994240857116359379907606001950938285454250989 = 3252197776791476477041552551652628412029260573590170708725927466439738748466"
  by (rule pw_sq0[where q = "2369828982899185248015565494918121864431027059699727244453043114990441239931", OF ell_b0_105]; simp only: semiring_norm)

lemma ell_b0_107: "(2::nat) ^ 162259276829213363391578010288128 mod 7237005577332262213973186563042994240857116359379907606001950938285454250989 = 1316826441265737247606827515664071518314928413148486988069559722537341762429"
  by (rule pw_sq0[where q = "1461487111809893981783359087343299724023859942277389410295443544297397363843", OF ell_b0_106]; simp only: semiring_norm)

lemma ell_b0_108: "(2::nat) ^ 324518553658426726783156020576256 mod 7237005577332262213973186563042994240857116359379907606001950938285454250989 = 304752334069101649281068473201523012887809802065485162327596207758363928949"
  by (rule pw_sq0[where q = "239606265034245397954452989916436565021537011654581865425252670468738870628", OF ell_b0_107]; simp only: semiring_norm)

lemma ell_b0_109: "(2::nat) ^ 649037107316853453566312041152512 mod 7237005577332262213973186563042994240857116359379907606001950938285454250989 = 5601146537701769101288776846658045618287968094537588725186752294893344612362"
  by (rule pw_sq0[where q = "12833206238152570694228999947486413903172079375490499389598184071204306251", OF ell_b0_108]; simp only: semiring_norm)

lemma ell_b0_110: "(2::nat) ^ 1298074214633706907132624082305024 mod 7237005577332262213973186563042994240857116359379907606001950938285454250989 = 2626085790022234232850138573813823528977362949772857647324855792363125036574"
  by (rule pw_sq0[where q = "4335058499205042049362759876350671564986994313320304864553971399845718595230", OF ell_b0_109]; simp only: semiring_norm)

lemma ell_b0_111: "(2::nat) ^ 2596148429267413814265248164610048 mod 7237005577332262213973186563042994240857116359379907606001950938285454250989 = 2775030876097027041615047031499193195603949065056931723943936587222913610000"
  by (rule pw_sq0[where q = "952925419617937790101762517816463092915007320438860251349679939340070239684", OF ell_b0_110]; simp only: semiring_norm)

lemma ell_b0_112: "(2::nat) ^ 5192296858534827628530496329220096 mod 7237005577332262213973186563042994240857116359379907606001950938285454250989 = 5100257159183706229215089334335782924459993721664035483404757240320570395078"
  by (rule pw_sq0[where q = "1064086006429545394315043222928690967872501519177599420349644432992296272098", OF ell_b0_111]; simp only: semiring_norm)

lemma ell_b0_113: "(2::nat) ^ 10384593717069655257060992658440192 mod 7237005577332262213973186563042994240857116359379907606001950938285454250989 = 6496871582713998839374068436039225394745834481875820256164880038503146915726"
  by (rule pw_sq0[where q = "3594390361019113693466200928758649705252185197778983533762305758699992837422", OF ell_b0_112]; simp only: semiring_norm)

lemma ell_b0_114: "(2::nat) ^ 20769187434139310514121985316880384 mod 7237005577332262213973186563042994240857116359379907606001950938285454250989 = 5467726557670796714144020172396976471612284721592681975344572366945897366223"
  by (rule pw_sq0[where q = "5832431647487564677703582192953771905822507757304168759649137513752033262377", OF ell_b0_113]; simp only: semiring_norm)

lemma ell_b0_115: "(2::nat) ^ 41538374868278621028243970633760768 mod 7237005577332262213973186563042994240857116359379907606001950938285454250989 = 2295701645331855481892231607237782226642037552360982062722069380726527138971"
  by (rule pw_sq0[where q = "4130994979898709939610137291401495673104954749406001905721929497073883125022", OF ell_b0_114]; simp only: semiring_norm)

lemma ell_b0_116: "(2::nat) ^ 83076749736557242056487941267521536 mod 7237005577332262213973186563042994240857116359379907606001950938285454250989 = 2000089611710161015208022833114889299973315082077228907571799240144374836143"
  by (rule pw_sq0[where q = "728235730657282476806371796397220838478671962600511124393991513611055534482", OF ell_b0_115]; simp only: semiring_norm)

lemma ell_b0_117: "(2::nat) ^ 166153499473114484112975882535043072 mod 7237005577332262213973186563042994240857116359379907606001950938285454250989 = 5340626186873345878356431788968822954284435214358008599722430357676223811193"
  by (rule pw_sq0[where q = "552764318352996615715132760962257648134142702611490887895819140114522581704", OF ell_b0_116]; simp only: semiring_norm)

lemma ell_b0_118: "(2::nat) ^ 332306998946228968225951765070086144 mod 7237005577332262213973186563042994240857116359379907606001950938285454250989 = 284333590015813164928410001516181207391266916591960075635451505703611409833"
  by (rule pw_sq0[where q = "3941172597303890622482402542517241483995439813434489978069389265719303679144", OF ell_b0_117]; simp only: semiring_norm)

lemma ell_b0_119: "(2::nat) ^ 664613997892457936451903530140172288 mod 7237005577332262213973186563042994240857116359379907606001950938285454250989 = 5956132822642793884530647383648478028216370279999705754503336961440458081352"
  by (rule pw_sq0[where q = "11171138331647133502311251210497400467675368916099043978709852007578125133", OF ell_b0_118]; simp only: semiring_norm)

lemma ell_b0_120: "(2::nat) ^ 1329227995784915872903807060280344576 mod 7237005577332262213973186563042994240857116359379907606001950938285454250989 = 3841839563262087987611863382675405896108780372051087756073376032593139614531"
  by (rule pw_sq0[where q = "4901960876205371316897491413634105695864029702242674389737346461463461343057", OF ell_b0_119]; simp only: semiring_norm)

lemma ell_b0_121: "(2::nat) ^ 2658455991569831745807614120560689152 mod 7237005577332262213973186563042994240857116359379907606001950938285454250989 = 5192733042727783197411439637178374188835998808824055809903277308036755012407"
  by (rule pw_sq0[where q = "2039480427661440323138711856813373009164143598277519116380298299071336522586", OF ell_b0_120]; simp only: semiring_norm)

lemma ell_b0_122: "(2::nat) ^ 5316911983139663491615228241121378304 mod 7237005577332262213973186563042994240857116359379907606001950938285454250989 = 182267987389002183830776996679131846668529110766288759506011978739186483070"
  by (rule pw_sq0[where q = "3725916218372835489934028297384696002730442133873423967929123055573929237311", OF ell_b0_121]; simp only: semiring_norm)

lemma ell_b0_123: "(2::nat) ^ 10633823966279326983230456482242756608 mod 7237005577332262213973186563042994240857116359379907606001950938285454250989 = 5883654767348131456829308458711588264878663725267287384844031128736477575829"
  by (rule pw_sq0[where q = "4590520053058154879197853946252538247946124883174056940299432034883294539", OF ell_b0_122]; simp only: semiring_norm)

lemma ell_b0_124: "(2::nat) ^ 21267647932558653966460912964485513216 mod 7237005577332262213973186563042994240857116359379907606001950938285454250989 = 7056929592589063046722350420976464130419380011782753640540668979178346765302"
  by (rule pw_sq0[where q = "4783386312395135020870605330269019672318431825134295305137436913956776093551", OF ell_b0_123]; simp only: semiring_norm)

lemma ell_b0_125: "(2::nat) ^ 42535295865117307932921825928971026432 mod 7237005577332262213973186563042994240857116359379907606001950938285454250989 = 3892664850987322762817638910543859297949601037144316263690907809828758414497"
  by (rule pw_sq0[where q = "6881334378232831913248478618206235428793286754850668119838972434323625879663", OF ell_b0_124]; simp only: semiring_norm)

lemma ell_b0_126: "(2::nat) ^ 85070591730234615865843651857942052864 mod 7237005577332262213973186563042994240857116359379907606001950938285454250989 = 4769198355059561213418962719079810354882345975046607184411986474280005326265"
  by (rule pw_sq0[where q = "2093799635801560917771467374599641500453035779492095580363000365990190896296", OF ell_b0_125]; simp only: semiring_norm)

lemma ell_b0_127: "(2::nat) ^ 170141183460469231731687303715884105728 mod 7237005577332262213973186563042994240857116359379907606001950938285454250989 = 5078024576175201683193588698867252846113301830106001236940206944347486772985"
  by (rule pw_sq0[where q = "3142909412857918883332269870547636673448531741128950517342155548214835371160", OF ell_b0_126]; simp only: semiring_norm)

lemma ell_b0_128: "(2::nat) ^ 340282366920938463463374607431768211457 mod 7237005577332262213973186563042994240857116359379907606001950938285454250989 = 1580293041063162259917089660055755398309164336307740180055844211574068022473"
  by (rule pw_sq1[where q = "7126243947360563402375389438501879860939517809124803545351329355430378704093", OF ell_b0_127]; simp only: semiring_norm)

lemma ell_b0_129: "(2::nat) ^ 680564733841876926926749214863536422914 mod 7237005577332262213973186563042994240857116359379907606001950938285454250989 = 955205760628093481865558375264795038397723528857385921886082566165374252246"
  by (rule pw_sq0[where q = "345077265582712608755432515067601426110098091761112356106779945722802183047", OF ell_b0_128]; simp only: semiring_norm)

lemma ell_b0_130: "(2::nat) ^ 1361129467683753853853498429727072845829 mod 7237005577332262213973186563042994240857116359379907606001950938285454250989 = 5207373647105742968634072601019226205590940191611515047285833091880298872129"
  by (rule pw_sq1[where q = "252153472976439047503385772241241105976649038370675743276223760522443941827", OF ell_b0_129]; simp only: semiring_norm)

lemma ell_b0_131: "(2::nat) ^ 2722258935367507707706996859454145691658 mod 7237005577332262213973186563042994240857116359379907606001950938285454250989 = 1893138407674244076355239040401604928963364335206234330584057648385399405406"
  by (rule pw_sq0[where q = "3746955838407307484505956270406943960236505786185036557583176745305880161615", OF ell_b0_130]; simp only: semiring_norm)

lemma ell_b0_132: "(2::nat) ^ 5444517870735015415413993718908291383316 mod 7237005577332262213973186563042994240857116359379907606001950938285454250989 = 2733167024590211784586860171756170011652924141605559082778682538183628507716"
  by (rule pw_sq0[where q = "495228723028359574635543427561469583691821819958121386473865173979297142080", OF ell_b0_131]; simp only: semiring_norm)

lemma ell_b0_133: "(2::nat) ^ 10889035741470030830827987437816582766633 mod 7237005577332262213973186563042994240857116359379907606001950938285454250989 = 5423193274027318762954841512120527366547040193415331498445273249521486144090"
  by (rule pw_sq1[where q = "2064445551266525637284551620045034900047709678703148836223929592927417760798", OF ell_b0_132]; simp only: semiring_norm)

lemma ell_b0_134: "(2::nat) ^ 21778071482940061661655974875633165533267 mod 7237005577332262213973186563042994240857116359379907606001950938285454250989 = 5501147924828808360343444428779922211177871481621975445093627557313512308802"
  by (rule pw_sq1[where q = "8127954296339446608176858920670911598118720962865843227494897349340438066782", OF ell_b0_133]; simp only: semiring_norm)

lemma ell_b0_135: "(2::nat) ^ 43556142965880123323311949751266331066534 mod 7237005577332262213973186563042994240857116359379907606001950938285454250989 = 553688661633331478102101546935283293314176915945030279092285629499291858567"
  by (rule pw_sq0[where q = "4181650569074710011424700486321793861597438795871318981300503915476507406033", OF ell_b0_134]; simp only: semiring_norm)

lemma ell_b0_136: "(2::nat) ^ 87112285931760246646623899502532662133069 mod 7237005577332262213973186563042994240857116359379907606001950938285454250989 = 3947849666599548225238362908503983221486589655994982172180672754133595791356"
  by (rule pw_sq1[where q = "84723199601103382878583682329206003514036813424138356052214449856503918398", OF ell_b0_135]; simp only: semiring_norm)

lemma ell_b0_137: "(2::nat) ^ 174224571863520493293247799005065324266139 mod 7237005577332262213973186563042994240857116359379907606001950938285454250989 = 5846042278340009811254537785627806321418348058058825373599125774624616677835"
  by (rule pw_sq1[where q = "4307172855825093330131879358765379850901658643061735528157915677786407393033", OF ell_b0_136]; simp only: semiring_norm)

lemma ell_b0_138: "(2::nat) ^ 348449143727040986586495598010130648532279 mod 7237005577332262213973186563042994240857116359379907606001950938285454250989 = 6230719236004948258442176781729522317850733017262634300725734419617873882294"
  by (rule pw_sq1[where q = "9444848412770476886711161107522128202325926974083263463195078436785850373804", OF ell_b0_137]; simp only: semiring_norm)

lemma ell_b0_139: "(2::nat) ^ 696898287454081973172991196020261297064559 mod 7237005577332262213973186563042994240857116359379907606001950938285454250989 = 6472254392455181733085885093146811442611529352221228811558297979628957288548"
  by (rule pw_sq1[where q = "10728708658044941525467366986325357992228884768407829808027133588088742854516", OF ell_b0_138]; simp only: semiring_norm)

lemma ell_b0_140: "(2::nat) ^ 1393796574908163946345982392040522594129118 mod 7237005577332262213973186563042994240857116359379907606001950938285454250989 = 4972692615439147507191931893241139162486692534973765706941049262348265020420"
  by (rule pw_sq0[where q = "5788316241162426126038094172268646007650906769705341891109745581449072602556", OF ell_b0_139]; simp only: semiring_norm)

lemma ell_b0_141: "(2::nat) ^ 2787593149816327892691964784081045188258237 mod 7237005577332262213973186563042994240857116359379907606001950938285454250989 = 2041751969867213642359726110096426578165771175914570255450911055831103596510"
  by (rule pw_sq1[where q = "6833674945641884054473148816785497088808280102243923567066079740019489977610", OF ell_b0_140]; simp only: semiring_norm)

lemma ell_b0_142: "(2::nat) ^ 5575186299632655785383929568162090376516475 mod 7237005577332262213973186563042994240857116359379907606001950938285454250989 = 6759637357601126872025250910227011823830946991823493966996281204202486580662"
  by (rule pw_sq1[where q = "1152065191027074268595461601410067751656223697725913952359403358078785342042", OF ell_b0_141]; simp only: semiring_norm)

lemma ell_b0_143: "(2::nat) ^ 11150372599265311570767859136324180753032951 mod 7237005577332262213973186563042994240857116359379907606001950938285454250989 = 884547077836214565699244777178794886324064887205787589194489042535625069038"
  by (rule pw_sq1[where q = "12627514713929568047456992637192584315309745563240181607442635142608514082050", OF ell_b0_142]; simp only: semiring_norm)

lemma ell_b0_144: "(2::nat) ^ 22300745198530623141535718272648361506065903 mod 7237005577332262213973186563042994240857116359379907606001950938285454250989 = 3134346622838530361916510633983509318423999486359528224541494536440434540292"
  by (rule pw_sq1[where q = "216228528373473144992899200415828968293004614272900643805331441642632255764", OF ell_b0_143]; simp only: semiring_norm)

lemma ell_b0_145: "(2::nat) ^ 44601490397061246283071436545296723012131807 mod 7237005577332262213973186563042994240857116359379907606001950938285454250989 = 3850339921203772179607652946091133672418695974847292977100451721329064594463"
  by (rule pw_sq1[where q = "2714970617922534571827784680799559793486473033077877179805952090028626458085", OF ell_b0_144]; simp only: semiring_norm)

lemma ell_b0_146: "(2::nat) ^ 89202980794122492566142873090593446024263614 mod 7237005577332262213973186563042994240857116359379907606001950938285454250989 = 3157435952628978242768936864919611556608889953704388680708855108250023129214"
  by (rule pw_sq0[where q = "2048515418483396076648218623922288477890702455293952291061185411211043046895", OF ell_b0_145]; simp only: semiring_norm)

lemma ell_b0_147: "(2::nat) ^ 178405961588244985132285746181186892048527228 mod 7237005577332262213973186563042994240857116359379907606001950938285454250989 = 2687883697291952272797981227466528060477365346882018260275216501626987756832"
  by (rule pw_sq0[where q = "1377558948714950334175465765182751530151749828742252606536811150799370252276", OF ell_b0_146]; simp only: semiring_norm)

lemma ell_b0_148: "(2::nat) ^ 356811923176489970264571492362373784097054457 mod 7237005577332262213973186563042994240857116359379907606001950938285454250989 = 7082787551485719860928746024825626570827483468978847186476820330330034176001"
  by (rule pw_sq1[where q = "1996604449994375680803732756161385372328631356771395265557235376843222263323", OF ell_b0_147]; simp only: semiring_norm)

lemma ell_b0_149: "(2::nat) ^ 713623846352979940529142984724747568194108915 mod 7237005577332262213973186563042994240857116359379907606001950938285454250989 = 3193392184209565243814953181539069708636470587954101149244827469220965010414"
  by (rule pw_sq1[where q = "13863711714306416927530950047601043375137874035237993737092836413184389163492", OF ell_b0_148]; simp only: semiring_norm)

lemma ell_b0_150: "(2::nat) ^ 1427247692705959881058285969449495136388217831 mod 7237005577332262213973186563042994240857116359379907606001950938285454250989 = 530392442541637691314172746489936689721990350535215334026198237134372525153"
  by (rule pw_sq1[where q = "2818224618787672685984805435978392277471976674335709526904582612471332474851", OF ell_b0_149]; simp only: semiring_norm)

lemma ell_b0_151: "(2::nat) ^ 2854495385411919762116571938898990272776435662 mod 7237005577332262213973186563042994240857116359379907606001950938285454250989 = 5574528793250009192804003009360052217654227394835758574696151721883905864396"
  by (rule pw_sq0[where q = "38871898066020901303410422871957081306020265386340569615844662380983659817", OF ell_b0_150]; simp only: semiring_norm)

lemma ell_b0_152: "(2::nat) ^ 5708990770823839524233143877797980545552871325 mod 7237005577332262213973186563042994240857116359379907606001950938285454250989 = 1495727365775818826318631124057752504360525470261612403502873454118553210072"
  by (rule pw_sq1[where q = "8587908613503804398685659451107609912411854285755652826113831422731054760040", OF ell_b0_151]; simp only: semiring_norm)

lemma ell_b0_153: "(2::nat) ^ 11417981541647679048466287755595961091105742651 mod 7237005577332262213973186563042994240857116359379907606001950938285454250989 = 6197173980287781884934738404973057329933581914585556479352229622013389570433"
  by (rule pw_sq1[where q = "618266858806362024045511585345393626775485788315068425103181220481330885915", OF ell_b0_152]; simp only: semiring_norm)

lemma ell_b0_154: "(2::nat) ^ 22835963083295358096932575511191922182211485303 mod 7237005577332262213973186563042994240857116359379907606001950938285454250989 = 4777432166513576597824888300636429019917335032690646012601383929206934760490"
  by (rule pw_sq1[where q = "10613496129462130814539561918038347149555760755479794889631365785747371521592", OF ell_b0_153]; simp only: semiring_norm)

lemma ell_b0_155: "(2::nat) ^ 45671926166590716193865151022383844364422970607 mod 7237005577332262213973186563042994240857116359379907606001950938285454250989 = 2627656740168259515306046868835624961921472156444189909420518653124705186070"
  by (rule pw_sq1[where q = "6307541941691314893243490662318159649055364322524637283782950168626957434170", OF ell_b0_154]; simp only: semiring_norm)

lemma ell_b0_156: "(2::nat) ^ 91343852333181432387730302044767688728845941214 mod 7237005577332262213973186563042994240857116359379907606001950938285454250989 = 2801638986382227672411203363433216729126127634558508231407069742493073670989"
  by (rule pw_sq0[where q = "954065859197096493311350662418292192615806600660501933438854785311305134099", OF ell_b0_155]; simp only: semiring_norm)

lemma ell_b0_157: "(2::nat) ^ 182687704666362864775460604089535377457691882429 mod 7237005577332262213973186563042994240857116359379907606001950938285454250989 = 2206951799943595462124128340837534949126409369877764208650665988510233940913"
  by (rule pw_sq1[where q = "2169179207102459291176084076793593541915330592980809801842168446019952525061", OF ell_b0_156]; simp only: semiring_norm)

lemma ell_b0_158: "(2::nat) ^ 365375409332725729550921208179070754915383764858 mod 7237005577332262213973186563042994240857116359379907606001950938285454250989 = 1376444714886662316086318566283234146483316640738968642445460363082294377393"
  by (rule pw_sq0[where q = "673018169632212969639163024459880533043097753709639194291762976941569007984", OF ell_b0_157]; simp only: semiring_norm)

lemma ell_b0_159: "(2::nat) ^ 730750818665451459101842416358141509830767529717 mod 7237005577332262213973186563042994240857116359379907606001950938285454250989 = 1981715439579776907106002721872760628918216382891460003770084716238182802866"
  by (rule pw_sq1[where q = "523586732908894943471325809688644954702864167655849174614016553133832267088", OF ell_b0_158]; simp only: semiring_norm)

lemma ell_b0_160: "(2::nat) ^ 1461501637330902918203684832716283019661535059434 mod 7237005577332262213973186563042994240857116359379907606001950938285454250989 = 1203829031149478169323776252730047583318520861189858187525154124047900492835"
  by (rule pw_sq0[where q = "542654837211902388959030124483145335613993145046831063358957089311738537989", OF ell_b0_159]; simp only: semiring_norm)

lemma ell_b0_161: "(2::nat) ^ 2923003274661805836407369665432566039323070118868 mod 7237005577332262213973186563042994240857116359379907606001950938285454250989 = 1238213006080193961691924083892168051090475512032934898532050256616623171983"
  by (rule pw_sq0[where q = "200249166696442363265970586544264097940452062029566471981183175501361482978", OF ell_b0_160]; simp only: semiring_norm)

lemma ell_b0_162: "(2::nat) ^ 5846006549323611672814739330865132078646140237736 mod 7237005577332262213973186563042994240857116359379907606001950938285454250989 = 5822411392818364804708567947331826824281379045444829492066529883317722098687"
  by (rule pw_sq0[where q = "211851632839464392772094768258106436530881383296404650328133610497372242218", OF ell_b0_161]; simp only: semiring_norm)

lemma ell_b0_163: "(2::nat) ^ 11692013098647223345629478661730264157292280475473 mod 7237005577332262213973186563042994240857116359379907606001950938285454250989 = 1797132587355788762794210064175665606078571498218533384864734917551279157633"
  by (rule pw_sq1[where q = "9368646760036804412967633836730153720924365058936374504958612027628192582245", OF ell_b0_162]; simp only: semiring_norm)

lemma ell_b0_164: "(2::nat) ^ 23384026197294446691258957323460528314584560950946 mod 7237005577332262213973186563042994240857116359379907606001950938285454250989 = 1902926569113290775248452990794226125136355091339862986681257146092251506623"
  by (rule pw_sq0[where q = "446273738775623970761337091787227857759547986951757001237713417745929257994", OF ell_b0_163]; simp only: semiring_norm)

lemma ell_b0_165: "(2::nat) ^ 46768052394588893382517914646921056629169121901893 mod 7237005577332262213973186563042994240857116359379907606001950938285454250989 = 4552014613743797165647556710065848418399285606360035913121211774414689600654"
  by (rule pw_sq1[where q = "1000725918680890940216552054603324884924361660049864425226149480299258628036", OF ell_b0_164]; simp only: semiring_norm)

lemma ell_b0_166: "(2::nat) ^ 93536104789177786765035829293842113258338243803787 mod 7237005577332262213973186563042994240857116359379907606001950938285454250989 = 6936071208341841115751944758628483004912155660659709488680088198469105832632"
  by (rule pw_sq1[where q = "5726356521995468666978353032911096593946686406617831957304611207481503325200", OF ell_b0_165]; simp only: semiring_norm)

lemma ell_b0_167: "(2::nat) ^ 187072209578355573530071658587684226516676487607575 mod 7237005577332262213973186563042994240857116359379907606001950938285454250989 = 4296220501720720347159806816146849364077268949167056920236896980542852415314"
  by (rule pw_sq1[where q = "13295301017281469708545790065966550441931792195982241730084478881790726202406", OF ell_b0_166]; simp only: semiring_norm)

lemma ell_b0_168: "(2::nat) ^ 374144419156711147060143317175368453033352975215151 mod 7237005577332262213973186563042994240857116359379907606001950938285454250989 = 4749496780322544218971053294691970522992977508420200631344326542488210972656"
  by (rule pw_sq1[where q = "5100869524605045074352917608092710671578902052686995710162622186659137887224", OF ell_b0_167]; simp only: semiring_norm)

lemma ell_b0_169: "(2::nat) ^ 748288838313422294120286634350736906066705950430302 mod 7237005577332262213973186563042994240857116359379907606001950938285454250989 = 3392041359446561654433209740290403250075186171501844142951379253054692782181"
  by (rule pw_sq0[where q = "3116996308106970215845590076866841312060289413821465369537120054492882793895", OF ell_b0_168]; simp only: semiring_norm)

lemma ell_b0_170: "(2::nat) ^ 1496577676626844588240573268701473812133411900860605 mod 7237005577332262213973186563042994240857116359379907606001950938285454250989 = 1991287500317204557879764018426410253542930157208455547821455802518918499939"
  by (rule pw_sq1[where q = "3179752858070188612017497504042512084609293677724713023858827299535267723947", OF ell_b0_169]; simp only: semiring_norm)

lemma ell_b0_171: "(2::nat) ^ 2993155353253689176481146537402947624266823801721211 mod 7237005577332262213973186563042994240857116359379907606001950938285454250989 = 2908060107073058343156523376471302800667891029155476707987793614014077710930"
  by (rule pw_sq1[where q = "1095819497870615289138910608298316862135990128689379224771320140643955737408", OF ell_b0_170]; simp only: semiring_norm)

lemma ell_b0_172: "(2::nat) ^ 5986310706507378352962293074805895248533647603442423 mod 7237005577332262213973186563042994240857116359379907606001950938285454250989 = 1611442107616133305180505300630401103598676662604568106895943981125864783227"
  by (rule pw_sq1[where q = "2337102962263338892319023250391030928391630329960184663642881763592060541857", OF ell_b0_171]; simp only: semiring_norm)

lemma ell_b0_173: "(2::nat) ^ 11972621413014756705924586149611790497067295206884847 mod 7237005577332262213973186563042994240857116359379907606001950938285454250989 = 561785107766282267124350221934850767845759347733482700899728309831913446253"
  by (rule pw_sq1[where q = "717629864575992189692592411046818169884704859209948748432435040322612306745", OF ell_b0_172]; simp only: semiring_norm)

lemma ell_b0_174: "(2::nat) ^ 23945242826029513411849172299223580994134590413769694 mod 7237005577332262213973186563042994240857116359379907606001950938285454250989 = 510866476475516707188239027020197770660381280252133293772010755859809128909"
  by (rule pw_sq0[where q = "43609543192353349912728584070333082781320249216416258104834423552650389900", OF ell_b0_173]; simp only: semiring_norm)

lemma ell_b0_175: "(2::nat) ^ 47890485652059026823698344598447161988269180827539388 mod 7237005577332262213973186563042994240857116359379907606001950938285454250989 = 3319345756124996893666398509492435524066286803152308767576413054915731440823"
  by (rule pw_sq0[where q = "36062505962958643318204719200937865289850778755198753821284380483246339322", OF ell_b0_174]; simp only: semiring_norm)

lemma ell_b0_176: "(2::nat) ^ 95780971304118053647396689196894323976538361655078777 mod 7237005577332262213973186563042994240857116359379907606001950938285454250989 = 2434094561149620517540609908992374534068138298291108992122616820656369039746"
  by (rule pw_sq1[where q = "3044921309226502812528161395612313839227637592411801312422304352055730383008", OF ell_b0_175]; simp only: semiring_norm)

lemma ell_b0_177: "(2::nat) ^ 191561942608236107294793378393788647953076723310157555 mod 7237005577332262213973186563042994240857116359379907606001950938285454250989 = 992598895135580634676491630728017512653320992845804823391070404564649213652"
  by (rule pw_sq1[where q = "1637366800206943142412371274554457431774184719174295386135157437870901740420", OF ell_b0_176]; simp only: semiring_norm)

lemma ell_b0_178: "(2::nat) ^ 383123885216472214589586756787577295906153446620315111 mod 7237005577332262213973186563042994240857116359379907606001950938285454250989 = 3830067683636686637844387461306177056227300506943154985970383402623283132830"
  by (rule pw_sq1[where q = "272281831510640804709649548877258289447837847289915764758394317712444534602", OF ell_b0_177]; simp only: semiring_norm)

lemma ell_b0_179: "(2::nat) ^ 766247770432944429179173513575154591812306893240630222 mod 7237005577332262213973186563042994240857116359379907606001950938285454250989 = 6081583489709940680852525411189232291294980465568682535628783812384574653775"
  by (rule pw_sq0[where q = "2027001126983461828391945561466319207949333186498938449058584284748971883625", OF ell_b0_178]; simp only: semiring_norm)

lemma ell_b0_180: "(2::nat) ^ 1532495540865888858358347027150309183624613786481260444 mod 7237005577332262213973186563042994240857116359379907606001950938285454250989 = 3085614266937730082158407960271907042531395538482476670904360329630729287424"
  by (rule pw_sq0[where q = "5110629990138319183426983725887921106065042512267901794645106273387825408709", OF ell_b0_179]; simp only: semiring_norm)

lemma ell_b0_181: "(2::nat) ^ 3064991081731777716716694054300618367249227572962520889 mod 7237005577332262213973186563042994240857116359379907606001950938285454250989 = 1801950294516489668407367578492156267592765631461756399659787928119874312984"
  by (rule pw_sq1[where q = "2631203003118133627934205711515286343973024964791768384696216833911627410312", OF ell_b0_180]; simp only: semiring_norm)

lemma ell_b0_182: "(2::nat) ^ 6129982163463555433433388108601236734498455145925041779 mod 7237005577332262213973186563042994240857116359379907606001950938285454250989 = 4346725512431521531271930773285725116455207100141124352624931830079376408949"
  by (rule pw_sq1[where q = "897339328873364464974671634583641450015984591601504720443419148148810359767", OF ell_b0_181]; simp only: semiring_norm)

lemma ell_b0_183: "(2::nat) ^ 12259964326927110866866776217202473468996910291850083558 mod 7237005577332262213973186563042994240857116359379907606001950938285454250989 = 7169223645289952417753603075189686821034748360537896302116543394165488374714"
  by (rule pw_sq0[where q = "2610751432830575997619445966957210491225610658653671049679895135276824920283", OF ell_b0_182]; simp only: semiring_norm)

lemma ell_b0_184: "(2::nat) ^ 24519928653854221733733552434404946937993820583700167117 mod 7237005577332262213973186563042994240857116359379907606001950938285454250989 = 912017434422466102481566033342653570828423407776410796935134390958868103593"
  by (rule pw_sq1[where q = "14204153120227670594755346387905865709843221813858501001523535682614875980091", OF ell_b0_183]; simp only: semiring_norm)

lemma ell_b0_185: "(2::nat) ^ 49039857307708443467467104868809893875987641167400334234 mod 7237005577332262213973186563042994240857116359379907606001950938285454250989 = 717351126503581048920165496326933736356707165666368435191845046823346370396"
  by (rule pw_sq0[where q = "114933696236993950471995065112725229699201225861483063504225812751157007977", OF ell_b0_184]; simp only: semiring_norm)

lemma ell_b0_186: "(2::nat) ^ 98079714615416886934934209737619787751975282334800668469 mod 7237005577332262213973186563042994240857116359379907606001950938285454250989 = 5968345450979043450346967377363125181111334832185931820284043091238102177995"
  by (rule pw_sq1[where q = "142211480479651146336429231134471317978748901910354029454695608644908097033", OF ell_b0_185]; simp only: semiring_norm)

lemma ell_b0_187: "(2::nat) ^ 196159429230833773869868419475239575503950564669601336939 mod 7237005577332262213973186563042994240857116359379907606001950938285454250989 = 5795848043970859527678608652995287729029738097870841857423840848459616168417"
  by (rule pw_sq1[where q = "9844167464453736210569364619556343951400433039936662249678518957641512761397", OF ell_b0_186]; simp only: semiring_norm)

lemma ell_b0_188: "(2::nat) ^ 392318858461667547739736838950479151007901129339202673878 mod 7237005577332262213973186563042994240857116359379907606001950938285454250989 = 3884139027733210185210308045201311325389199429412382272443617437707516686894"
  by (rule pw_sq0[where q = "4641678687386561343777072983215178119263328320262248395006721141319866691455", OF ell_b0_187]; simp only: semiring_norm)

lemma ell_b0_189: "(2::nat) ^ 784637716923335095479473677900958302015802258678405347756 mod 7237005577332262213973186563042994240857116359379907606001950938285454250989 = 6097438884853476462517098477054110921478368914508083110759126301892800441853"
  by (rule pw_sq0[where q = "2084637883106558910684496544873192597853685690073899903007433019471901270147", OF ell_b0_188]; simp only: semiring_norm)

lemma ell_b0_190: "(2::nat) ^ 1569275433846670190958947355801916604031604517356810695513 mod 7237005577332262213973186563042994240857116359379907606001950938285454250989 = 1376276257821079373714028352306889371607538092661293067200469899955193954347"
  by (rule pw_sq1[where q = "10274625480730445950851051683979706349911128270415596692092404416628093208739", OF ell_b0_189]; simp only: semiring_norm)

lemma ell_b0_191: "(2::nat) ^ 3138550867693340381917894711603833208063209034713621391026 mod 7237005577332262213973186563042994240857116359379907606001950938285454250989 = 6898172159113124345204085259493237564858854545331592183870174071060700672988"
  by (rule pw_sq0[where q = "261729290878924438106067528078841906307031281883557993741395504831826128689", OF ell_b0_190]; simp only: semiring_norm)

lemma ell_b0_192: "(2::nat) ^ 6277101735386680763835789423207666416126418069427242782053 mod 7237005577332262213973186563042994240857116359379907606001950938285454250989 = 6799786302629167091566677128555339797413336570672232510667046776204208188428"
  by (rule pw_sq1[where q = "13150405545024974427397492049334921566212093254452848615375235640246228384740", OF ell_b0_191]; simp only: semiring_norm)

lemma ell_b0_193: "(2::nat) ^ 12554203470773361527671578846415332832252836138854485564107 mod 7237005577332262213973186563042994240857116359379907606001950938285454250989 = 4902572217889344587349127677600031200881142612931862035555238264319554712638"
  by (rule pw_sq1[where q = "12777962727083420528175335952554724355360559543047207735433099916392571414570", OF ell_b0_192]; simp only: semiring_norm)

lemma ell_b0_194: "(2::nat) ^ 25108406941546723055343157692830665664505672277708971128214 mod 7237005577332262213973186563042994240857116359379907606001950938285454250989 = 123961067800272643033081254742015507512672682481138528077366598985774458314"
  by (rule pw_sq0[where q = "3321154598374707462318437608720696850787097086925182372975648570955914873570", OF ell_b0_193]; simp only: semiring_norm)

lemma ell_b0_195: "(2::nat) ^ 50216813883093446110686315385661331329011344555417942256428 mod 7237005577332262213973186563042994240857116359379907606001950938285454250989 = 4053581382690177668180243737536488544107537881337940842687498114386083372592"
  by (rule pw_sq0[where q = "2123301711734786763912975141788298515979670242635090354002496563318389636", OF ell_b0_194]; simp only: semiring_norm)

lemma ell_b0_196: "(2::nat) ^ 100433627766186892221372630771322662658022689110835884512856 mod 7237005577332262213973186563042994240857116359379907606001950938285454250989 = 1924369375893898865565515805506061472914301791977163188659171656288213337210"
  by (rule pw_sq0[where q = "2270486301345296836878585829345854484375286321844726652256030107132645265886", OF ell_b0_195]; simp only: semiring_norm)

lemma ell_b0_197: "(2::nat) ^ 200867255532373784442745261542645325316045378221671769025712 mod 7237005577332262213973186563042994240857116359379907606001950938285454250989 = 3071921769744303537658284684317210900987504138984096458906547836422274529031"
  by (rule pw_sq0[where q = "511703004137156305417996270916492166563775036174553944258292265510840628721", OF ell_b0_196]; simp only: semiring_norm)

lemma ell_b0_198: "(2::nat) ^ 401734511064747568885490523085290650632090756443343538051424 mod 7237005577332262213973186563042994240857116359379907606001950938285454250989 = 6089254402540305892640717039443072924358280949657688529946233443547968169179"
  by (rule pw_sq0[where q = "1303951373063273800981209312782560116913861698713584368052892117300511609838", OF ell_b0_197]; simp only: semiring_norm)

lemma ell_b0_199: "(2::nat) ^ 803469022129495137770981046170581301264181512886687076102848 mod 7237005577332262213973186563042994240857116359379907606001950938285454250989 = 1662602277539411405464082222122501216865362446578588724157942092564502894012"
  by (rule pw_sq0[where q = "5123530551778949122423295587407871560929073510654679756477586856126778997361", OF ell_b0_198]; simp only: semiring_norm)

lemma ell_b0_200: "(2::nat) ^ 1606938044258990275541962092341162602528363025773374152205697 mod 7237005577332262213973186563042994240857116359379907606001950938285454250989 = 694689474370770106006920010219975779510636213006608280013215947176794140984"
  by (rule pw_sq1[where q = "763919912384040748273755078616141642346237110590913265628550277554692051336", OF ell_b0_199]; simp only: semiring_norm)

lemma ell_b0_201: "(2::nat) ^ 3213876088517980551083924184682325205056726051546748304411394 mod 7237005577332262213973186563042994240857116359379907606001950938285454250989 = 43770926721728239072652872974658773378672335681490253730414002085387779658"
  by (rule pw_sq0[where q = "66684136227988461204858962626216572959061732580926224743526006951176397582", OF ell_b0_200]; simp only: semiring_norm)

lemma ell_b0_202: "(2::nat) ^ 6427752177035961102167848369364650410113452103093496608822788 mod 7237005577332262213973186563042994240857116359379907606001950938285454250989 = 6756767847804747046451866231415486318049515203022496036281260203053637178215"
  by (rule pw_sq0[where q = "264735739886654715916059960546671996302629674644532695774424660553333841", OF ell_b0_201]; simp only: semiring_norm)

lemma ell_b0_203: "(2::nat) ^ 12855504354071922204335696738729300820226904206186993217645577 mod 7237005577332262213973186563042994240857116359379907606001950938285454250989 = 3553620423792709049080343126736369204612883761653901072737882730075304685283"
  by (rule pw_sq1[where q = "12616796066076031724863953829797977658158869924859557555640638030204242187803", OF ell_b0_202]; simp only: semiring_norm)

lemma ell_b0_204: "(2::nat) ^ 25711008708143844408671393477458601640453808412373986435291154 mod 7237005577332262213973186563042994240857116359379907606001950938285454250989 = 2746226427639903965500726969148817445009574095009498767029794443779413137636"
  by (rule pw_sq0[where q = "1744950723259183122177357925329542688238741171039601873475542026070772306777", OF ell_b0_203]; simp only: semiring_norm)

lemma ell_b0_205: "(2::nat) ^ 51422017416287688817342786954917203280907616824747972870582308 mod 7237005577332262213973186563042994240857116359379907606001950938285454250989 = 3486194560665547504159461172094694679978072289850852015212421960497445833172"
  by (rule pw_sq0[where q = "1042110512597933672269345094716121225765480538148000215833736282334930425516", OF ell_b0_204]; simp only: semiring_norm)

lemma ell_b0_206: "(2::nat) ^ 102844034832575377634685573909834406561815233649495945741164617 mod 7237005577332262213973186563042994240857116359379907606001950938285454250989 = 4951432744198904398793865037131621515654467181607021513327243789114787849069"
  by (rule pw_sq1[where q = "3358724097956035394342090659053090797466596439698688480089509398454026856991", OF ell_b0_205]; simp only: semiring_norm)

lemma ell_b0_207: "(2::nat) ^ 205688069665150755269371147819668813123630467298991891482329235 mod 7237005577332262213973186563042994240857116359379907606001950938285454250989 = 5806611360608618787702038315899136520328878660629254682704724823840775357299"
  by (rule pw_sq1[where q = "6775367507554842868955726492991103813327697701871265296325664968735425043707", OF ell_b0_206]; simp only: semiring_norm)

lemma ell_b0_208: "(2::nat) ^ 411376139330301510538742295639337626247260934597983782964658470 mod 7237005577332262213973186563042994240857116359379907606001950938285454250989 = 1955077017484268559525339271864205087123717718258311959347790448368787390175"
  by (rule pw_sq0[where q = "4658934573541933200774887048370060818527328270047948881250152158703956704434", OF ell_b0_207]; simp only: semiring_norm)

lemma ell_b0_209: "(2::nat) ^ 822752278660603021077484591278675252494521869195967565929316940 mod 7237005577332262213973186563042994240857116359379907606001950938285454250989 = 6463140795414429342383265909388786123819431886350942003314503991698516665676"
  by (rule pw_sq0[where q = "528164045674839196775837058964605716431510406570469546739057264413816729641", OF ell_b0_208]; simp only: semiring_norm)

lemma ell_b0_210: "(2::nat) ^ 1645504557321206042154969182557350504989043738391935131858633880 mod 7237005577332262213973186563042994240857116359379907606001950938285454250989 = 1479537244890886228919412082582275867641550717039842674242308175072262443370"
  by (rule pw_sq0[where q = "5772026633804048546405650502167982550796852884365293799763050850945138841854", OF ell_b0_209]; simp only: semiring_norm)

lemma ell_b0_211: "(2::nat) ^ 3291009114642412084309938365114701009978087476783870263717267761 mod 7237005577332262213973186563042994240857116359379907606001950938285454250989 = 1263655743402866481673364263522261451265245349538557618113620602434147419071"
  by (rule pw_sq1[where q = "604954752522449920390957627374259516240424904637346690205308001986860219661", OF ell_b0_210]; simp only: semiring_norm)

lemma ell_b0_212: "(2::nat) ^ 6582018229284824168619876730229402019956174953567740527434535523 mod 7237005577332262213973186563042994240857116359379907606001950938285454250989 = 2430109816955760634662631062975901630523196009493066908465181944160611786259"
  by (rule pw_sq1[where q = "441294626837549104394187694700415279984638606835790037012064542605554876107", OF ell_b0_211]; simp only: semiring_norm)

lemma ell_b0_213: "(2::nat) ^ 13164036458569648337239753460458804039912349907135481054869071046 mod 7237005577332262213973186563042994240857116359379907606001950938285454250989 = 494628165741899640760429894160074187989422236625897882267235570198251586025"
  by (rule pw_sq0[where q = "816005136290311965279319651650910434288646144492422698848599475556187115904", OF ell_b0_212]; simp only: semiring_norm)

lemma ell_b0_214: "(2::nat) ^ 26328072917139296674479506920917608079824699814270962109738142092 mod 7237005577332262213973186563042994240857116359379907606001950938285454250989 = 6052514108774584372752491858618533392672298836043985993308048955658658633448"
  by (rule pw_sq0[where q = "33806388530569948999472969566113526286564077763275345286137652258021406893", OF ell_b0_213]; simp only: semiring_norm)

lemma ell_b0_215: "(2::nat) ^ 52656145834278593348959013841835216159649399628541924219476284184 mod 7237005577332262213973186563042994240857116359379907606001950938285454250989 = 2664993804721090504134628959291139445207398291211286539288848221633394621701"
  by (rule pw_sq0[where q = "5061890120916446342815476454643115019922328803584137529645769911696455702727", OF ell_b0_214]; simp only: semiring_norm)

lemma ell_b0_216: "(2::nat) ^ 105312291668557186697918027683670432319298799257083848438952568369 mod 7237005577332262213973186563042994240857116359379907606001950938285454250989 = 4822391389150963490461978358768046037142085164738228645209907186357845156238"
  by (rule pw_sq1[where q = "1962743265376848321971793333152232135056696455201882225385299704321308778676", OF ell_b0_215]; simp only: semiring_norm)

lemma ell_b0_217: "(2::nat) ^ 210624583337114373395836055367340864638597598514167696877905136739 mod 7237005577332262213973186563042994240857116359379907606001950938285454250989 = 3047515480545654080433531206061630050900256110532498209279910122320690699730"
  by (rule pw_sq1[where q = "6426817959902662380346345210371813805143603787064033666917128256736275254222", OF ell_b0_216]; simp only: semiring_norm)

lemma ell_b0_218: "(2::nat) ^ 421249166674228746791672110734681729277195197028335393755810273478 mod 7237005577332262213973186563042994240857116359379907606001950938285454250989 = 6018559235875097359462957098336396748785666610128006780143002804273031436383"
  by (rule pw_sq0[where q = "1283314003965291149285808950439972273032714504855855327878885903202500596953", OF ell_b0_217]; simp only: semiring_norm)

lemma ell_b0_219: "(2::nat) ^ 842498333348457493583344221469363458554390394056670787511620546957 mod 7237005577332262213973186563042994240857116359379907606001950938285454250989 = 5219831577851960302440495760352835731497099455646357995819589171735682010059"
  by (rule pw_sq1[where q = "10010509150136690256082127123717984109408822799127599016683125091679080225971", OF ell_b0_218]; simp only: semiring_norm)

lemma ell_b0_220: "(2::nat) ^ 1684996666696914987166688442938726917108780788113341575023241093914 mod 7237005577332262213973186563042994240857116359379907606001950938285454250989 = 3446542091621591397503457352259217819549523351667932555092549761779719301410"
  by (rule pw_sq0[where q = "3764905444661031479172203694403656979167065126708938804194192067945929491539", OF ell_b0_219]; simp only: semiring_norm)

lemma ell_b0_221: "(2::nat) ^ 3369993333393829974333376885877453834217561576226683150046482187828 mod 7237005577332262213973186563042994240857116359379907606001950938285454250989 = 1727502720758804117469086107606774002455200068237445416036762157875795796084"
  by (rule pw_sq0[where q = "1641376707864594015672902632839896326749105939399257895666961296211951486544", OF ell_b0_220]; simp only: semiring_norm)

lemma ell_b0_222: "(2::nat) ^ 6739986666787659948666753771754907668435123152453366300092964375657 mod 7237005577332262213973186563042994240857116359379907606001950938285454250989 = 942835553003919147822645441240493047791652572678472865776207132222147555172"
  by (rule pw_sq1[where q = "824723877393816871896591877190736181121752481688828188219827984037602140460", OF ell_b0_221]; simp only: semiring_norm)

lemma ell_b0_223: "(2::nat) ^ 13479973333575319897333507543509815336870246304906732600185928751314 mod 7237005577332262213973186563042994240857116359379907606001950938285454250989 = 1379707508136547870728817729609833074639618714266027059235743624757774119190"
  by (rule pw_sq0[where q = "122832416046843881312366268510369422497295368486195182099875161781444074146", OF ell_b0_222]; simp only: semiring_norm)

lemma ell_b0_224: "(2::nat) ^ 26959946667150639794667015087019630673740492609813465200371857502629 mod 7237005577332262213973186563042994240857116359379907606001950938285454250989 = 12778846517448583150798841628060426901408587698670099500202643613986378594"
  by (rule pw_sq1[where q = "526071947207224155484837764181478117734775643702026214548753297269883201854", OF ell_b0_223]; simp only: semiring_norm)

lemma ell_b0_225: "(2::nat) ^ 53919893334301279589334030174039261347480985219626930400743715005259 mod 7237005577332262213973186563042994240857116359379907606001950938285454250989 = 1111532944336713283572098238790205011288902183378923698313900214250115174152"
  by (rule pw_sq1[where q = "45128863470270743916598101786194757794472098841630505748451875594183680", OF ell_b0_224]; simp only: semiring_norm)

lemma ell_b0_226: "(2::nat) ^ 107839786668602559178668060348078522694961970439253860801487430010519 mod 7237005577332262213973186563042994240857116359379907606001950938285454250989 = 6227029157829731089101063734157038736991636263006501338001536491907734602409"
  by (rule pw_sq1[where q = "341441076186452403199917873108004518867939600581341259097924052572165982291", OF ell_b0_225]; simp only: semiring_norm)

lemma ell_b0_227: "(2::nat) ^ 215679573337205118357336120696157045389923940878507721602974860021038 mod 7237005577332262213973186563042994240857116359379907606001950938285454250989 = 423421087503523213938594704849237819191358929481380610597299062060797464962"
  by (rule pw_sq0[where q = "5358002245281589939805744272044598056522800032165538054441582921088238052971", OF ell_b0_226]; simp only: semiring_norm)

lemma ell_b0_228: "(2::nat) ^ 431359146674410236714672241392314090779847881757015443205949720042076 mod 7237005577332262213973186563042994240857116359379907606001950938285454250989 = 2264059006443796989497270620939238819844812241744320404749109741695189402578"
  by (rule pw_sq0[where q = "24773425338267497269080807348688559912889414888670886546215884906895403194", OF ell_b0_227]; simp only: semiring_norm)

lemma ell_b0_229: "(2::nat) ^ 862718293348820473429344482784628181559695763514030886411899440084153 mod 7237005577332262213973186563042994240857116359379907606001950938285454250989 = 4088438017694024628351077744522657256642045815327751777471738103328704252640"
  by (rule pw_sq1[where q = "1416597826237638178617990898910312884641406713404240934800581724240984282952", OF ell_b0_228]; simp only: semiring_norm)

lemma ell_b0_230: "(2::nat) ^ 1725436586697640946858688965569256363119391527028061772823798880168307 mod 7237005577332262213973186563042994240857116359379907606001950938285454250989 = 3548361097479815105628895177721732008290263132790186227068113389866090035243"
  by (rule pw_sq1[where q = "4619403770222745809578421271396784307084577234138521738369976367934939659913", OF ell_b0_229]; simp only: semiring_norm)

lemma ell_b0_231: "(2::nat) ^ 3450873173395281893717377931138512726238783054056123545647597760336615 mod 7237005577332262213973186563042994240857116359379907606001950938285454250989 = 6973549450278852517685352451705448320247687712918285470889220133951014680296"
  by (rule pw_sq1[where q = "3479579045108173087083440637233528966406194809057722433624062637924062460018", OF ell_b0_230]; simp only: semiring_norm)

lemma ell_b0_232: "(2::nat) ^ 6901746346790563787434755862277025452477566108112247091295195520673231 mod 7237005577332262213973186563042994240857116359379907606001950938285454250989 = 6981817373162516824204766496431034999523637105917883583871403901389903377532"
  by (rule pw_sq1[where q = "13439368372964786786082676354258437008078575716378700293320697142174521489300", OF ell_b0_231]; simp only: semiring_norm)

lemma ell_b0_233: "(2::nat) ^ 13803492693581127574869511724554050904955132216224494182590391041346462 mod 7237005577332262213973186563042994240857116359379907606001950938285454250989 = 6024126807776609759032675225498239559476948236478786088868507761530129208755"
  by (rule pw_sq0[where q = "6735627506613423768328207340092283028263934492348306977397830147896632233521", OF ell_b0_232]; simp only: semiring_norm)

lemma ell_b0_234: "(2::nat) ^ 27606985387162255149739023449108101809910264432448988365180782082692925 mod 7237005577332262213973186563042994240857116359379907606001950938285454250989 = 529607876451237680556446252570451716875549584831812197718694388752115691121"
  by (rule pw_sq1[where q = "10029038504499876058827718311801507959449745850405164195517905261909396827461", OF ell_b0_233]; simp only: semiring_norm)

lemma ell_b0_235: "(2::nat) ^ 55213970774324510299478046898216203619820528864897976730361564165385850 mod 7237005577332262213973186563042994240857116359379907606001950938285454250989 = 2057656277952285964668922623260819595598476190912137688602639019416785150299"
  by (rule pw_sq0[where q = "38756983092250552556924596288100256027801126768388047384381946326754662878", OF ell_b0_234]; simp only: semiring_norm)

lemma ell_b0_236: "(2::nat) ^ 110427941548649020598956093796432407239641057729795953460723128330771701 mod 7237005577332262213973186563042994240857116359379907606001950938285454250989 = 523764727436431042296757862198216038934087168592575414301592088466171172003"
  by (rule pw_sq1[where q = "1170083209955792990090294620026114556085334903973378324248967698421635421291", OF ell_b0_235]; simp only: semiring_norm)

lemma ell_b0_237: "(2::nat) ^ 220855883097298041197912187592864814479282115459591906921446256661543403 mod 7237005577332262213973186563042994240857116359379907606001950938285454250989 = 3148459619161213899213264887049304708927631529608861324318450482955744752416"
  by (rule pw_sq1[where q = "75812982807644451226172154879312211338368715079785400511607704948755764218", OF ell_b0_236]; simp only: semiring_norm)

lemma ell_b0_238: "(2::nat) ^ 441711766194596082395824375185729628958564230919183813842892513323086807 mod 7237005577332262213973186563042994240857116359379907606001950938285454250989 = 6232630776600959428860010961175970328327513062226800230656314501217655009253"
  by (rule pw_sq1[where q = "2739475012852726463490372227546113315514114739691362956648509467698513537831", OF ell_b0_237]; simp only: semiring_norm)

lemma ell_b0_239: "(2::nat) ^ 883423532389192164791648750371459257917128461838367627685785026646173614 mod 7237005577332262213973186563042994240857116359379907606001950938285454250989 = 3415521438468207159150713937769451634503847535668334831324756786459929638089"
  by (rule pw_sq0[where q = "5367646325865200115650638284725490853820954516455919424212062079922671027280", OF ell_b0_238]; simp only: semiring_norm)

lemma ell_b0_240: "(2::nat) ^ 1766847064778384329583297500742918515834256923676735255371570053292347229 mod 7237005577332262213973186563042994240857116359379907606001950938285454250989 = 648224240994021814394302594781123650450843440206774939027241062188327009535"
  by (rule pw_sq1[where q = "3223926407677642324491220398024371313047274299482007660012679723510736698063", OF ell_b0_239]; simp only: semiring_norm)

lemma ell_b0_241: "(2::nat) ^ 3533694129556768659166595001485837031668513847353470510743140106584694458 mod 7237005577332262213973186563042994240857116359379907606001950938285454250989 = 1935888718308138893846486140149975227483450954720608955452611967819865617764"
  by (rule pw_sq0[where q = "58061951469045258524015422016540099069088898489234847151027529334013000049", OF ell_b0_240]; simp only: semiring_norm)

lemma ell_b0_242: "(2::nat) ^ 7067388259113537318333190002971674063337027694706941021486280213169388916 mod 7237005577332262213973186563042994240857116359379907606001950938285454250989 = 3873001265330890846632359068171634851271984639792962026539994157746535731865"
  by (rule pw_sq0[where q = "517847483966457027496171379611095975093138551595522815913979512162029227379", OF ell_b0_241]; simp only: semiring_norm)

lemma ell_b0_243: "(2::nat) ^ 14134776518227074636666380005943348126674055389413882042972560426338777833 mod 7237005577332262213973186563042994240857116359379907606001950938285454250989 = 4640279811868840667358036902964992324008246033071110498328893334461953810355"
  by (rule pw_sq1[where q = "4145399265198328253671532420848563785361912699129838875982375824731474105355", OF ell_b0_242]; simp only: semiring_norm)

lemma ell_b0_244: "(2::nat) ^ 28269553036454149273332760011886696253348110778827764085945120852677555667 mod 7237005577332262213973186563042994240857116359379907606001950938285454250989 = 2043258341788969847463852649565706682156008251399586885604764703303542471495"
  by (rule pw_sq1[where q = "5950581770969097209627333688168772446557071006867915917907361862529509569495", OF ell_b0_243]; simp only: semiring_norm)

lemma ell_b0_245: "(2::nat) ^ 56539106072908298546665520023773392506696221557655528171890241705355111335 mod 7237005577332262213973186563042994240857116359379907606001950938285454250989 = 917624786484374621477429587240086343758827444304150995735335314401215581015"
  by (rule pw_sq1[where q = "1153765768639681771114698330081050750334129183931000439433436853033091097815", OF ell_b0_244]; simp only: semiring_norm)

lemma ell_b0_246: "(2::nat) ^ 113078212145816597093331040047546785013392443115311056343780483410710222671 mod 7237005577332262213973186563042994240857116359379907606001950938285454250989 = 6058068606829362359372853385524432391365011749673199850920807311120489685485"
  by (rule pw_sq1[where q = "232702666806811819969220788656250815199588678237737413909882739943222478185", OF ell_b0_245]; simp only: semiring_norm)

lemma ell_b0_247: "(2::nat) ^ 226156424291633194186662080095093570026784886230622112687560966821420445343 mod 7237005577332262213973186563042994240857116359379907606001950938285454250989 = 5695245539383507570080751804507743623619794040431210544766733251760787932378"
  by (rule pw_sq1[where q = "10142370308516479998975020649918504612527052524683526778125003698304823455448", OF ell_b0_246]; simp only: semiring_norm)

lemma ell_b0_248: "(2::nat) ^ 452312848583266388373324160190187140053569772461244225375121933642840890686 mod 7237005577332262213973186563042994240857116359379907606001950938285454250989 = 4175108886707338195638130053205679194111973649648163554496038292325879012558"
  by (rule pw_sq0[where q = "4481939582230414648195234463942290385899500617864257846000284064835647828334", OF ell_b0_247]; simp only: semiring_norm)

lemma ell_b0_249: "(2::nat) ^ 904625697166532776746648320380374280107139544922488450750243867285681781373 mod 7237005577332262213973186563042994240857116359379907606001950938285454250989 = 1517324550730149047136726081747285395831783494694165768749415686921067947532"
  by (rule pw_sq1[where q = "4817333365186732408635348848956335158470017293895391873159204745205594973164", OF ell_b0_248]; simp only: semiring_norm)

lemma ell_b0_250: "(2::nat) ^ 1809251394333065553493296640760748560214279089844976901500487734571363562747 mod 7237005577332262213973186563042994240857116359379907606001950938285454250989 = 4202356475871964119699734399548423449193549369991576068503119564443318355924"
  by (rule pw_sq1[where q = "636250384954690955468714319183014362220978758881328021278319197846137662716", OF ell_b0_249]; simp only: semiring_norm)

lemma ell_b0_251: "(2::nat) ^ 3618502788666131106986593281521497120428558179689953803000975469142727125494 mod 7237005577332262213973186563042994240857116359379907606001950938285454250989 = 7237005577332262213973186563042994240857116359379907606001950938285454250988"
  by (rule pw_sq0[where q = "2440208144321047936363710874419881381971939898365900573560926586293457786292", OF ell_b0_250]; simp only: semiring_norm)

lemma ell_b0_252: "(2::nat) ^ 7237005577332262213973186563042994240857116359379907606001950938285454250988 mod 7237005577332262213973186563042994240857116359379907606001950938285454250989 = 1"
  by (rule pw_sq0[where q = "7237005577332262213973186563042994240857116359379907606001950938285454250987", OF ell_b0_251]; simp only: semiring_norm)

lemma prime_ell: "prime_nat 7237005577332262213973186563042994240857116359379907606001950938285454250989"
  by (rule pocklington1[where q = "276602624281642239937218680557139826668747" and m = "26163907866482859529727157400808004" and e = "7237005577332262213973186563042994240857116359379907606001950938285454250988" and a = "2"
        and c = "2975531125133123119648879457563281269120703404158613135195788908093573672641" and c' = "2975531125133123119648879457563281269120703404158613135195788908093573672640" and u = "2233364593245673852815932892735013076939656528578070433728021143254617821614" and v = "918259049265850385831298250211759012539362291049224222049079815310237912731",
        OF prime_q1 _ _ ell_b0_252 ell_a0_114]; simp only: semiring_norm not_False_eq_True)


section \<open>The scalar field and byte encodings\<close>

subsection \<open>Scalars: the integers modulo the group order\<close>

text \<open>
  Modelled from the spec: the type \<^verbatim>\<open>Scalar\<close> and its methods (NewScalar, Add, Sub, Mul,
  Invert, Equal, Bytes, SetBytes, BigInt, NewScalarFromBigInt) are declared in a file of
  package \<^verbatim>\<open>internal\<close> that the sources at hand do not include; it wraps
  \<^verbatim>\<open>edwards25519.Scalar\<close>. The spec: all scalars are elements of Z/ell, ell the order
  of the edwards25519 prime-order subgroup, with a canonical 32-byte little-endian
  encoding of the value below ell.
\<close>

definition ell :: nat where
  "ell = 7237005577332262213973186563042994240857116359379907606001950938285454250989"

lemma ell_prime: "prime_nat ell"
  unfolding ell_def by (rule prime_ell)

lemma ell_gt_2: "2 < ell"
  by (simp add: ell_def)

lemma ell_gt_1: "1 < ell"
  using ell_gt_2 by simp

lemma ell_pos: "0 < ell"
  using ell_gt_2 by simp

typedef scalar = "{n::nat. n < ell}"
  morphisms BigInt scalar_of_rep
  using ell_pos by (auto intro: exI[of _ 0])

setup_lifting type_definition_scalar

instantiation scalar :: field
begin

lift_definition zero_scalar :: scalar is 0
  by (rule ell_pos)

lift_definition one_scalar :: scalar is 1
  by (rule ell_gt_1)

lift_definition plus_scalar :: "scalar \<Rightarrow> scalar \<Rightarrow> scalar" is "\<lambda>a b. (a + b) mod ell"
  using ell_pos by simp

lift_definition minus_scalar :: "scalar \<Rightarrow> scalar \<Rightarrow> scalar" is "\<lambda>a b. (a + (ell - b)) mod ell"
  using ell_pos by simp

lift_definition uminus_scalar :: "scalar \<Rightarrow> scalar" is "\<lambda>a. (ell - a) mod ell"
  using ell_pos by simp

lift_definition times_scalar :: "scalar \<Rightarrow> scalar \<Rightarrow> scalar" is "\<lambda>a b. (a * b) mod ell"
  using ell_pos by simp

text \<open>\<^verbatim>\<open>Invert\<close> of edwards25519 raises to the power \<open>ell - 2\<close>; the inverse of zero is zero.\<close>

lift_definition inverse_scalar :: "scalar \<Rightarrow> scalar" is "\<lambda>a. a ^ (ell - 2) mod ell"
  using ell_pos by simp

lift_definition divide_scalar :: "scalar \<Rightarrow> scalar \<Rightarrow> scalar"
  is "\<lambda>a b. (a * (b ^ (ell - 2) mod ell)) mod ell"
  using ell_pos by simp

instance
proof
  fix a b c :: scalar
  show "a + b + c = a + (b + c)"
    by transfer (simp add: mod_simps add.assoc)
  show "a + b = b + a"
    by transfer (simp add: add.commute)
  show "0 + a = a"
    by transfer simp
  show "- a + a = 0"
    by transfer (simp add: mod_simps)
  show "a - b = a + - b"
    by transfer (simp add: mod_simps)
  show "a * b * c = a * (b * c)"
    by transfer (simp add: mod_simps mult.assoc)
  show "a * b = b * a"
    by transfer (simp add: mult.commute)
  show "1 * a = a"
    by transfer simp
  show "(a + b) * c = a * c + b * c"
    by transfer (simp add: mod_simps algebra_simps)
  show "(0::scalar) \<noteq> 1"
    by transfer simp
  show "a \<noteq> 0 \<Longrightarrow> inverse a * a = 1"
  proof transfer
    fix a :: nat
    assume a: "a < ell" "a \<noteq> 0"
    then have "\<not> ell dvd a" by (simp add: nat_dvd_not_less)
    with ell_prime have "a ^ (ell - 1) mod ell = 1" by (rule fermat_little)
    moreover have "ell - 1 = Suc (ell - 2)" using ell_gt_2 by simp
    then have "a ^ (ell - 2) * a = a ^ (ell - 1)" by simp
    ultimately show "a ^ (ell - 2) mod ell * a mod ell = 1"
      by (simp add: mod_simps)
  qed
  show "a div b = a * inverse b"
    by transfer simp
  show "inverse (0::scalar) = 0"
    using ell_gt_2 by transfer (simp add: power_0_left)
qed

end

lemma BigInt_of_nat: "BigInt (of_nat n) = n mod ell"
proof (induction n)
  case 0
  then show ?case by (simp add: zero_scalar.rep_eq)
next
  case (Suc n)
  then show ?case
    using ell_gt_1 by (simp add: plus_scalar.rep_eq one_scalar.rep_eq mod_simps)
qed

lemma BigInt_less: "BigInt x < ell"
  using BigInt[of x] by simp

lemma of_nat_BigInt: "of_nat (BigInt x) = x"
  by (rule BigInt_inject[THEN iffD1]) (simp add: BigInt_of_nat BigInt_less)

lemma of_nat_scalar_eq_iff: "(of_nat m :: scalar) = of_nat n \<longleftrightarrow> m mod ell = n mod ell"
  by (metis BigInt_of_nat BigInt_inject)

lemma of_nat_mod_ell: "(of_nat (n mod ell) :: scalar) = of_nat n"
  by (simp add: of_nat_scalar_eq_iff)


subsection \<open>Outcomes: values, returned errors and panics\<close>

text \<open>
  The Go code returns \<^verbatim>\<open>fmt.Errorf\<close> errors; the constructors carry the names the
  specification gives to the kinds: \<open>NotAParticipant\<close> is "xi not in L",
  \<open>DuplicateIdentifier\<close> is "duplicate value in L", \<open>UnknownParticipant\<close> is
  "participant not found", \<open>MissingGroupCommitment\<close> is "group commitment not computed",
  \<open>RngFailure\<close> is the error of \<^verbatim>\<open>rand.Read\<close>, \<open>MalformedEncoding\<close> the error of a decoder.
  A run-time panic is an outcome of its own, not a returned error.
\<close>

datatype error =
    RngFailure
  | NotAParticipant
  | DuplicateIdentifier
  | UnknownParticipant
  | MissingGroupCommitment
  | MalformedEncoding

datatype panic = NilPointerDereference | IndexOutOfRange

datatype 'a outcome = Ok 'a | Err error | Panic panic

subsection \<open>Byte strings and the encoding of scalars\<close>

type_synonym byte = "8 word"

fun le_bytes :: "nat \<Rightarrow> nat \<Rightarrow> byte list" where
  "le_bytes 0 n = []"
| "le_bytes (Suc k) n = of_nat (n mod 256) # le_bytes k (n div 256)"

fun le_nat :: "byte list \<Rightarrow> nat" where
  "le_nat [] = 0"
| "le_nat (b # bs) = unat b + 256 * le_nat bs"

text \<open>\<^verbatim>\<open>Scalar.Bytes\<close>: the canonical 32-byte little-endian encoding.\<close>

definition ScalarBytes :: "scalar \<Rightarrow> byte list" where
  "ScalarBytes x = le_bytes 32 (BigInt x)"

text \<open>\<^verbatim>\<open>Scalar.SetBytes\<close>: decodes 32 bytes, and rejects a value that is not below ell.\<close>

definition ScalarSetBytes :: "byte list \<Rightarrow> scalar outcome" where
  "ScalarSetBytes bs =
     (if length bs = 32 \<and> le_nat bs < ell then Ok (of_nat (le_nat bs)) else Err MalformedEncoding)"

text \<open>
  \<^verbatim>\<open>NewScalarFromBigInt\<close>: the scalar of a non-negative integer below ell (the callers
  pass a participant number below \<open>2 ^ 32\<close> or a power already reduced modulo ell).
\<close>

definition NewScalarFromBigInt :: "nat \<Rightarrow> scalar outcome" where
  "NewScalarFromBigInt n = (if n < ell then Ok (of_nat n) else Err MalformedEncoding)"

text \<open>\<^verbatim>\<open>edwards25519.Scalar.SetUniformBytes\<close>: 64 bytes, reduced modulo ell.\<close>

definition SetUniformBytes :: "byte list \<Rightarrow> scalar outcome" where
  "SetUniformBytes bs =
     (if length bs = 64 then Ok (of_nat (le_nat bs)) else Err MalformedEncoding)"

lemma le_bytes_numeral:
  "le_bytes (numeral k) n = of_nat (n mod 256) # le_bytes (pred_numeral k) (n div 256)"
  by (simp only: numeral_eq_Suc[of k] le_bytes.simps)

lemma length_le_bytes [simp]: "length (le_bytes k n) = k"
  by (induction k arbitrary: n) simp_all

lemma unat_byte_of_nat: "unat (of_nat (n mod 256) :: byte) = n mod 256"
proof -
  have "unat (of_nat (n mod 256) :: byte) = (n mod 256) mod 2 ^ 8"
    by (simp add: unat_of_nat)
  then show ?thesis by simp
qed

lemma le_nat_le_bytes: "le_nat (le_bytes k n) = n mod 256 ^ k"
proof (induction k arbitrary: n)
  case 0
  then show ?case by simp
next
  case (Suc k)
  have "le_nat (le_bytes (Suc k) n) = n mod 256 + 256 * (n div 256 mod 256 ^ k)"
    by (simp only: le_bytes.simps le_nat.simps unat_byte_of_nat Suc)
  also have "\<dots> = n mod (256 * 256 ^ k)"
    by (simp only: mod_mult2_eq add.commute)
  finally show ?case by (simp only: power_Suc)
qed

lemma ell_less_256_32: "ell < 256 ^ 32"
  unfolding ell_def by simp

lemma le_nat_ScalarBytes [simp]: "le_nat (ScalarBytes x) = BigInt x"
proof -
  have "BigInt x < 256 ^ 32"
    using BigInt_less[of x] ell_less_256_32 by (rule less_trans)
  then show ?thesis
    by (simp only: ScalarBytes_def le_nat_le_bytes mod_less)
qed

lemma length_ScalarBytes [simp]: "length (ScalarBytes x) = 32"
  by (simp only: ScalarBytes_def length_le_bytes)

lemma ScalarBytes_inject [simp]: "ScalarBytes x = ScalarBytes y \<longleftrightarrow> x = y"
proof
  assume "ScalarBytes x = ScalarBytes y"
  then have "le_nat (ScalarBytes x) = le_nat (ScalarBytes y)" by (rule arg_cong)
  then show "x = y" by (simp only: le_nat_ScalarBytes BigInt_inject)
qed (rule arg_cong)

lemma ScalarSetBytes_ScalarBytes [simp]: "ScalarSetBytes (ScalarBytes x) = Ok x"
  by (simp only: ScalarSetBytes_def length_ScalarBytes le_nat_ScalarBytes BigInt_less of_nat_BigInt
      simp_thms if_True)


section \<open>The data model\<close>

subsection \<open>Group elements and the ciphersuite\<close>

text \<open>
  Modelled from the spec: the type \<^verbatim>\<open>Element\<close> (a point of the edwards25519 prime-order
  group) and its methods are declared in the same missing file as \<^verbatim>\<open>Scalar\<close>, over the
  library \<^verbatim>\<open>filippo.io/edwards25519\<close>. The operations the code calls are the fields of a
  record: \<open>NewElement\<close> is the identity (\<^verbatim>\<open>NewElement()\<close>, \<^verbatim>\<open>NewIdentityPoint()\<close>),
  \<open>ElementMul s P\<close> is \<^verbatim>\<open>Mul(s, P)\<close> and \<^verbatim>\<open>ScalarMult(s, P)\<close>, \<open>ElementBaseMul s\<close> is
  \<^verbatim>\<open>Mul(s, nil)\<close> and \<^verbatim>\<open>ScalarBaseMult(s)\<close>, \<open>ElementBytes\<close> and \<open>ElementSetBytes\<close> are the
  canonical encoding and its decoder. Equality of elements (\<^verbatim>\<open>Equal\<close>) is equality.
\<close>

record 'e Group =
  NewElement :: 'e
  ElementAdd :: "'e \<Rightarrow> 'e \<Rightarrow> 'e"
  ElementMul :: "scalar \<Rightarrow> 'e \<Rightarrow> 'e"
  ElementBaseMul :: "scalar \<Rightarrow> 'e"
  ElementBytes :: "'e \<Rightarrow> byte list"
  ElementSetBytes :: "byte list \<Rightarrow> 'e outcome"

text \<open>
  What the theorems on signatures and key generation need of the group: multiplication of
  the base point by a scalar maps zero to the identity, sums to sums and products to
  scalar multiples, and decoding inverts encoding.
\<close>

definition group_laws :: "'e Group \<Rightarrow> bool" where
  "group_laws G \<longleftrightarrow>
     ElementBaseMul G 0 = NewElement G \<and>
     (\<forall>a b. ElementAdd G (ElementBaseMul G a) (ElementBaseMul G b) = ElementBaseMul G (a + b)) \<and>
     (\<forall>a b. ElementMul G a (ElementBaseMul G b) = ElementBaseMul G (a * b)) \<and>
     (\<forall>P. ElementSetBytes G (ElementBytes G P) = Ok P)"

text \<open>The interface \<^verbatim>\<open>Ciphersuite\<close>: five hash functions.\<close>

record Ciphersuite =
  H1 :: "byte list \<Rightarrow> scalar"
  H2 :: "byte list \<Rightarrow> scalar"
  H3 :: "byte list \<Rightarrow> scalar"
  H4 :: "byte list \<Rightarrow> byte list"
  H5 :: "byte list \<Rightarrow> byte list"

text \<open>
  The CSPRNG (\<^verbatim>\<open>crypto/rand\<close>) is a sequence of outcomes, one for each call of
  \<^verbatim>\<open>rand.Read\<close>: an error, or the bytes that fill the buffer. A read consumes the first.
\<close>

type_synonym rng = "nat \<Rightarrow> byte list option"

definition rand_Read :: "nat \<Rightarrow> rng \<Rightarrow> byte list outcome \<times> rng" where
  "rand_Read n r =
     (case r 0 of
        None \<Rightarrow> (Err RngFailure, \<lambda>i. r (Suc i))
      | Some bs \<Rightarrow> (Ok (take n (bs @ replicate n 0)), \<lambda>i. r (Suc i)))"

subsection \<open>Records of the protocol\<close>

record 'e Commitment =
  cIdentifier :: scalar
  cHiding :: 'e
  cBinding :: 'e

record BindingFactor =
  bIdentifier :: scalar
  bFactor :: scalar

record SecretShare =
  ssIdentifier :: scalar
  ssScalar :: scalar

record Nonce =
  nHiding :: scalar
  nBinding :: scalar

record 'e Participant =
  pIdentifier :: scalar
  pPublicKeyShare :: 'e

record SignatureShare =
  shIdentifier :: scalar
  shShare :: scalar

record 'e Signature =
  sigR :: 'e
  sigZ :: scalar

text \<open>
  The struct \<^verbatim>\<open>State\<close>. A pointer field that is nil in a state the constructors build
  is an option. \<open>GroupKey\<close> is the element of the group key the caller supplies.
  \<open>MyIdentifier\<close> is nil exactly when \<open>MySecretShare\<close> is (\<^verbatim>\<open>frost.NewState\<close>), and then no
  method reads it: \<open>Commit\<close> dereferences the share first and \<open>Sign\<close> returns before; the
  model keeps a scalar there.
\<close>

record 'e State =
  Ciphersuite :: Ciphersuite
  Participants :: "'e Participant list"
  GroupKey :: 'e
  Message :: "byte list"
  Commitments :: "'e Commitment list"
  SignatureShares :: "SignatureShare list"
  MyIdentifier :: scalar
  MySecretShare :: "SecretShare option"
  MyNonce :: "Nonce option"
  MyCommitment :: "'e Commitment option"
  bindingFactors :: "BindingFactor list"
  groupCommitment :: "'e option"
  challenge :: "scalar option"

text \<open>\<^verbatim>\<open>frost.NewState\<close>, which calls \<^verbatim>\<open>internal.NewState\<close>.\<close>

definition NewState ::
  "Ciphersuite \<Rightarrow> 'e Participant list \<Rightarrow> 'e \<Rightarrow> byte list \<Rightarrow> SecretShare option \<Rightarrow> 'e State" where
  "NewState c participants groupKey msg mySecretShare =
     \<lparr>Ciphersuite = c, Participants = participants, GroupKey = groupKey, Message = msg,
      Commitments = [], SignatureShares = [],
      MyIdentifier = (case mySecretShare of Some sh \<Rightarrow> ssIdentifier sh | None \<Rightarrow> 0),
      MySecretShare = mySecretShare, MyNonce = None, MyCommitment = None,
      bindingFactors = [], groupCommitment = None, challenge = None\<rparr>"

section \<open>helpers.go\<close>

definition NonceGenerate :: "Ciphersuite \<Rightarrow> scalar \<Rightarrow> rng \<Rightarrow> scalar outcome \<times> rng" where
  "NonceGenerate c secret r =
     (case rand_Read 32 r of
        (Ok randomBytes, r') \<Rightarrow> (Ok (H3 c (randomBytes @ ScalarBytes secret)), r')
      | (Err e, r') \<Rightarrow> (Err e, r')
      | (Panic p, r') \<Rightarrow> (Panic p, r'))"

text \<open>
  \<^verbatim>\<open>DeriveInterpolatingValue\<close>. The second check is the pair of nested loops over the
  indices of \<open>L\<close>; the third loop multiplies the numerator and the denominator.
\<close>

definition has_duplicate :: "scalar list \<Rightarrow> bool" where
  "has_duplicate L =
     list_ex (\<lambda>(i, xj). list_ex (\<lambda>(j, xk). i \<noteq> j \<and> xj = xk) (enumerate 0 L)) (enumerate 0 L)"

definition interpolating_products :: "scalar list \<Rightarrow> scalar \<Rightarrow> scalar \<times> scalar" where
  "interpolating_products L xi =
     fold (\<lambda>xj (numerator, denominator).
             if xj = xi then (numerator, denominator)
             else (numerator * xj, denominator * (xj - xi))) L (1, 1)"

definition DeriveInterpolatingValue :: "scalar list \<Rightarrow> scalar \<Rightarrow> scalar outcome" where
  "DeriveInterpolatingValue L xi =
     (if \<not> list_ex (\<lambda>xj. xj = xi) L then Err NotAParticipant
      else if has_duplicate L then Err DuplicateIdentifier
      else (case interpolating_products L xi of
              (numerator, denominator) \<Rightarrow> Ok (numerator * inverse denominator)))"

text \<open>
  \<^verbatim>\<open>sort.Slice\<close> of the standard library, as its insertion sort (which is what it runs
  on a slice of fewer than 12 elements): each element moves left past the neighbours it
  is less than. The prefix already sorted is kept in reverse.
\<close>

fun insert_back :: "('a \<Rightarrow> 'a \<Rightarrow> bool) \<Rightarrow> 'a \<Rightarrow> 'a list \<Rightarrow> 'a list" where
  "insert_back lt x [] = [x]"
| "insert_back lt x (y # ys) = (if lt x y then y # insert_back lt x ys else x # y # ys)"

definition sortSlice :: "('a \<Rightarrow> 'a \<Rightarrow> bool) \<Rightarrow> 'a list \<Rightarrow> 'a list" where
  "sortSlice lt xs = rev (foldl (\<lambda>sorted x. insert_back lt x sorted) [] xs)"

text \<open>
  The comparison both sorts use: \<^verbatim>\<open>bytes.Compare\<close> of the identifiers' encodings is
  negative, which is the lexicographic order of byte strings.
\<close>

definition identifier_less :: "'e Commitment \<Rightarrow> 'e Commitment \<Rightarrow> bool" where
  "identifier_less ci cj \<longleftrightarrow> ScalarBytes (cIdentifier ci) < ScalarBytes (cIdentifier cj)"

text \<open>
  \<^verbatim>\<open>EncodeGroupCommitmentList\<close> sorts the caller's slice in place: the second component
  is the slice after the call.
\<close>

definition EncodeGroupCommitmentList ::
  "'e Group \<Rightarrow> 'e Commitment list \<Rightarrow> byte list \<times> 'e Commitment list" where
  "EncodeGroupCommitmentList G commitments =
     (let sorted = sortSlice identifier_less commitments
      in (concat (map (\<lambda>c. ScalarBytes (cIdentifier c) @ ElementBytes G (cHiding c)
                              @ ElementBytes G (cBinding c)) sorted),
          sorted))"

definition ParticipantsFromCommitmentList ::
  "'e Commitment list \<Rightarrow> scalar list \<times> 'e Commitment list" where
  "ParticipantsFromCommitmentList commitments =
     (let sorted = sortSlice identifier_less commitments
      in (map cIdentifier sorted, sorted))"

fun BindingFactorForParticipant :: "BindingFactor list \<Rightarrow> scalar \<Rightarrow> scalar outcome" where
  "BindingFactorForParticipant [] identifier = Err UnknownParticipant"
| "BindingFactorForParticipant (bf # bfs) identifier =
     (if bIdentifier bf = identifier then Ok (bFactor bf)
      else BindingFactorForParticipant bfs identifier)"

text \<open>
  \<^verbatim>\<open>ComputeBindingFactors\<close>: the loop runs over the slice that
  \<^verbatim>\<open>EncodeGroupCommitmentList\<close> has sorted.
\<close>

definition ComputeBindingFactors ::
  "Ciphersuite \<Rightarrow> 'e Group \<Rightarrow> 'e \<Rightarrow> 'e Commitment list \<Rightarrow> byte list
     \<Rightarrow> BindingFactor list \<times> 'e Commitment list" where
  "ComputeBindingFactors c G groupPublicKey commitments msg =
     (let groupPublicKeyEnc = ElementBytes G groupPublicKey;
          msgHash = H4 c msg;
          (encoded, commitments') = EncodeGroupCommitmentList G commitments;
          encodedCommitmentHash = H5 c encoded;
          rhoInputPrefix = groupPublicKeyEnc @ msgHash @ encodedCommitmentHash
      in (map (\<lambda>commitment.
                 \<lparr>bIdentifier = cIdentifier commitment,
                  bFactor = H1 c (rhoInputPrefix @ ScalarBytes (cIdentifier commitment))\<rparr>)
            commitments',
          commitments'))"

fun group_commitment_loop ::
  "'e Group \<Rightarrow> BindingFactor list \<Rightarrow> 'e \<Rightarrow> 'e Commitment list \<Rightarrow> 'e outcome" where
  "group_commitment_loop G bfs gc [] = Ok gc"
| "group_commitment_loop G bfs gc (commitment # commitments) =
     (case BindingFactorForParticipant bfs (cIdentifier commitment) of
        Ok bindingFactor \<Rightarrow>
          (let bindingNonce = ElementMul G bindingFactor (cBinding commitment);
               gc1 = ElementAdd G gc (cHiding commitment);
               gc2 = ElementAdd G gc1 bindingNonce
           in group_commitment_loop G bfs gc2 commitments)
      | Err e \<Rightarrow> Err e
      | Panic p \<Rightarrow> Panic p)"

definition ComputeGroupCommitment ::
  "'e Group \<Rightarrow> 'e Commitment list \<Rightarrow> BindingFactor list \<Rightarrow> 'e outcome" where
  "ComputeGroupCommitment G commitments bfs =
     group_commitment_loop G bfs (NewElement G) commitments"

definition ComputeChallenge :: "Ciphersuite \<Rightarrow> 'e Group \<Rightarrow> 'e \<Rightarrow> 'e \<Rightarrow> byte list \<Rightarrow> scalar" where
  "ComputeChallenge c G gc groupPublicKey msg =
     (let groupCommEnc = ElementBytes G gc;
          groupPublicKeyEnc = ElementBytes G groupPublicKey;
          challengeInput = groupCommEnc @ groupPublicKeyEnc @ msg
      in H2 c challengeInput)"

section \<open>frost.go\<close>

text \<open>
  Each method returns its result and the state it leaves. \<open>Commit\<close> evaluates
  \<^verbatim>\<open>s.MySecretShare.Scalar\<close> first: on a state without a share that is a nil dereference.
\<close>

definition Commit :: "'e Group \<Rightarrow> 'e State \<Rightarrow> rng \<Rightarrow> 'e Commitment outcome \<times> 'e State \<times> rng" where
  "Commit G s r =
     (case MySecretShare s of
        None \<Rightarrow> (Panic NilPointerDereference, s, r)
      | Some share \<Rightarrow>
          (case NonceGenerate (Ciphersuite s) (ssScalar share) r of
             (Err e, r1) \<Rightarrow> (Err e, s, r1)
           | (Panic p, r1) \<Rightarrow> (Panic p, s, r1)
           | (Ok hidingNonce, r1) \<Rightarrow>
               (case NonceGenerate (Ciphersuite s) (ssScalar share) r1 of
                  (Err e, r2) \<Rightarrow> (Err e, s, r2)
                | (Panic p, r2) \<Rightarrow> (Panic p, s, r2)
                | (Ok bindingNonce, r2) \<Rightarrow>
                    (let s1 = s\<lparr>MyNonce := Some \<lparr>nHiding = hidingNonce, nBinding = bindingNonce\<rparr>\<rparr>;
                         hidingCommitment = ElementBaseMul G hidingNonce;
                         bindingCommitment = ElementBaseMul G bindingNonce;
                         commitment = \<lparr>cIdentifier = MyIdentifier s1,
                                       cHiding = hidingCommitment,
                                       cBinding = bindingCommitment\<rparr>;
                         s2 = s1\<lparr>MyCommitment := Some commitment\<rparr>
                     in (Ok commitment, s2, r2)))))"

text \<open>
  \<open>Sign\<close>. The state's \<open>Commitments\<close> is the caller's slice, which the helpers sort in
  place. On an error of \<^verbatim>\<open>ComputeGroupCommitment\<close> the assignment stores nil. A state
  without a share returns no share and no error. \<^verbatim>\<open>s.MyNonce.Hiding\<close> on a state that
  never committed is a nil dereference.
\<close>

definition Sign ::
  "'e Group \<Rightarrow> 'e State \<Rightarrow> 'e Commitment list \<Rightarrow> SignatureShare option outcome \<times> 'e State" where
  "Sign G s commitments =
     (let (bfs, commitments1) =
            ComputeBindingFactors (Ciphersuite s) G (GroupKey s) commitments (Message s);
          s1 = s\<lparr>Commitments := commitments1, bindingFactors := bfs\<rparr>
      in case ComputeGroupCommitment G (Commitments s1) (bindingFactors s1) of
           Err e \<Rightarrow> (Err e, s1\<lparr>groupCommitment := None\<rparr>)
         | Panic p \<Rightarrow> (Panic p, s1)
         | Ok R \<Rightarrow>
             (let s2 = s1\<lparr>groupCommitment := Some R\<rparr>;
                  c = ComputeChallenge (Ciphersuite s2) G R (GroupKey s2) (Message s2);
                  s3 = s2\<lparr>challenge := Some c\<rparr>
              in case MySecretShare s3 of
                   None \<Rightarrow> (Ok None, s3)
                 | Some share \<Rightarrow>
                     (let (participantList, commitments2) =
                            ParticipantsFromCommitmentList (Commitments s3);
                          s4 = s3\<lparr>Commitments := commitments2\<rparr>
                      in case DeriveInterpolatingValue participantList (MyIdentifier s4) of
                           Err e \<Rightarrow> (Err e, s4)
                         | Panic p \<Rightarrow> (Panic p, s4)
                         | Ok lambda_i \<Rightarrow>
                             (case BindingFactorForParticipant (bindingFactors s4) (MyIdentifier s4) of
                                Err e \<Rightarrow> (Err e, s4)
                              | Panic p \<Rightarrow> (Panic p, s4)
                              | Ok bindingFactor \<Rightarrow>
                                  (case MyNonce s4 of
                                     None \<Rightarrow> (Panic NilPointerDereference, s4)
                                   | Some nonce \<Rightarrow>
                                       (let sigShare = nHiding nonce + nBinding nonce * bindingFactor;
                                            tmp = lambda_i * ssScalar share;
                                            tmp1 = tmp * c;
                                            sigShare1 = sigShare + tmp1
                                        in (Ok (Some \<lparr>shIdentifier = MyIdentifier s4,
                                                       shShare = sigShare1\<rparr>), s4)))))))"

definition Aggregate :: "'e State \<Rightarrow> SignatureShare list \<Rightarrow> 'e Signature outcome" where
  "Aggregate s shares =
     (case groupCommitment s of
        None \<Rightarrow> Err MissingGroupCommitment
      | Some R \<Rightarrow> Ok \<lparr>sigR = R, sigZ = fold (\<lambda>share z. z + shShare share) shares 0\<rparr>)"

definition SetGroupCommitment :: "'e State \<Rightarrow> 'e \<Rightarrow> 'e State" where
  "SetGroupCommitment s e = s\<lparr>groupCommitment := Some e\<rparr>"


section \<open>Package trusteddealer\<close>

record 'e KeygenOutput =
  ParticipantPrivateKeys :: "SecretShare list"
  koParticipants :: "'e Participant list"
  GroupPublicKey :: 'e
  VssCommitment :: "'e list"

text \<open>A loop whose body may return an error: the first failure ends it.\<close>

fun mapM :: "('a \<Rightarrow> 'b outcome) \<Rightarrow> 'a list \<Rightarrow> 'b list outcome" where
  "mapM f [] = Ok []"
| "mapM f (x # xs) =
     (case f x of
        Ok y \<Rightarrow> (case mapM f xs of Ok ys \<Rightarrow> Ok (y # ys) | Err e \<Rightarrow> Err e | Panic p \<Rightarrow> Panic p)
      | Err e \<Rightarrow> Err e
      | Panic p \<Rightarrow> Panic p)"

text \<open>
  The loop \<^verbatim>\<open>for i := uint32(1); i <= maxParticipants; i++\<close> that stores its result at
  index \<open>i - 1\<close> of a slice of length \<open>maxParticipants\<close>. When \<open>maxParticipants\<close> is the
  largest 32-bit number the counter wraps to 0, the condition still holds, and the store
  at index \<open>2 ^ 32 - 1\<close> is out of range.
\<close>

definition for_1_to :: "32 word \<Rightarrow> (nat \<Rightarrow> 'b outcome) \<Rightarrow> 'b list outcome" where
  "for_1_to maxParticipants body =
     (if unat maxParticipants = 2 ^ 32 - 1
      then (case mapM body ([1..<2 ^ 32] @ [0]) of
              Ok ys \<Rightarrow> Panic IndexOutOfRange
            | Err e \<Rightarrow> Err e
            | Panic p \<Rightarrow> Panic p)
      else mapM body [1..<Suc (unat maxParticipants)])"

text \<open>Horner's method, from the last coefficient down.\<close>

definition polynomialEvaluate :: "scalar \<Rightarrow> scalar list \<Rightarrow> scalar" where
  "polynomialEvaluate x coeffs = fold (\<lambda>coeff v. v * x + coeff) (rev coeffs) 0"

definition secretShareShard ::
  "scalar \<Rightarrow> scalar list \<Rightarrow> 32 word \<Rightarrow> (SecretShare list \<times> scalar list) outcome" where
  "secretShareShard s coefficients maxParticipants =
     (let fullCoefficients = s # coefficients
      in case for_1_to maxParticipants
                (\<lambda>i. case NewScalarFromBigInt i of
                        Err e \<Rightarrow> Err e
                      | Panic p \<Rightarrow> Panic p
                      | Ok x \<Rightarrow>
                          (let y = polynomialEvaluate x fullCoefficients
                           in case ScalarSetBytes (ScalarBytes y) of
                                Err e \<Rightarrow> Err e
                              | Panic p \<Rightarrow> Panic p
                              | Ok yScalar \<Rightarrow> Ok \<lparr>ssIdentifier = x, ssScalar = yScalar\<rparr>)) of
           Ok secretKeyShares \<Rightarrow> Ok (secretKeyShares, fullCoefficients)
         | Err e \<Rightarrow> Err e
         | Panic p \<Rightarrow> Panic p)"

definition vssCommit :: "'e Group \<Rightarrow> scalar list \<Rightarrow> 'e list" where
  "vssCommit G coeffs = map (\<lambda>coeff. ElementBaseMul G coeff) coeffs"

text \<open>
  The inner loop of \<^verbatim>\<open>VssVerify\<close> and of \<^verbatim>\<open>DeriveGroupInfo\<close>: the sum over \<open>j\<close> of
  \<open>i ^ j\<close> times the \<open>j\<close>-th commitment, the power computed by \<^verbatim>\<open>big.Int.Exp\<close> modulo
  the order. Reading past the end of the commitment is a panic.
\<close>

fun vss_sum :: "'e Group \<Rightarrow> scalar \<Rightarrow> 'e list \<Rightarrow> nat list \<Rightarrow> 'e \<Rightarrow> 'e outcome" where
  "vss_sum G iScalar vssCommitment [] acc = Ok acc"
| "vss_sum G iScalar vssCommitment (j # js) acc =
     (case NewScalarFromBigInt (BigInt iScalar ^ j mod ell) of
        Err e \<Rightarrow> Err e
      | Panic p \<Rightarrow> Panic p
      | Ok pow_i_j \<Rightarrow>
          (if j < length vssCommitment
           then vss_sum G iScalar vssCommitment js
                  (ElementAdd G acc (ElementMul G pow_i_j (vssCommitment ! j)))
           else Panic IndexOutOfRange))"

definition VssVerify :: "'e Group \<Rightarrow> SecretShare \<Rightarrow> 'e list \<Rightarrow> 32 word \<Rightarrow> bool outcome" where
  "VssVerify G share vssCommitment minParticipants =
     (let sk_i = ssScalar share;
          s_i = ElementBaseMul G sk_i;
          iScalar = ssIdentifier share
      in case vss_sum G iScalar vssCommitment [0..<unat minParticipants] (NewElement G) of
           Err e \<Rightarrow> Err e
         | Panic p \<Rightarrow> Panic p
         | Ok s_i_prime \<Rightarrow> Ok (s_i = s_i_prime))"

definition DeriveGroupInfo ::
  "'e Group \<Rightarrow> 32 word \<Rightarrow> 32 word \<Rightarrow> 'e list \<Rightarrow> ('e \<times> 'e Participant list) outcome" where
  "DeriveGroupInfo G maxParticipants minParticipants vssCommitment =
     (case vssCommitment of
        [] \<Rightarrow> Panic IndexOutOfRange
      | groupPublicKey # _ \<Rightarrow>
          (case for_1_to maxParticipants
                  (\<lambda>i. case NewScalarFromBigInt i of
                          Err e \<Rightarrow> Err e
                        | Panic p \<Rightarrow> Panic p
                        | Ok iScalar \<Rightarrow>
                            (case vss_sum G iScalar vssCommitment [0..<unat minParticipants]
                                    (NewElement G) of
                               Err e \<Rightarrow> Err e
                             | Panic p \<Rightarrow> Panic p
                             | Ok pk_i \<Rightarrow>
                                 (case ElementSetBytes G (ElementBytes G pk_i) of
                                    Err e \<Rightarrow> Err e
                                  | Panic p \<Rightarrow> Panic p
                                  | Ok pk \<Rightarrow> Ok \<lparr>pIdentifier = iScalar, pPublicKeyShare = pk\<rparr>))) of
             Ok participants \<Rightarrow> Ok (groupPublicKey, participants)
           | Err e \<Rightarrow> Err e
           | Panic p \<Rightarrow> Panic p))"

text \<open>The loop that draws the coefficients: one read of 64 bytes for each.\<close>

fun random_coefficients :: "nat \<Rightarrow> rng \<Rightarrow> scalar list outcome \<times> rng" where
  "random_coefficients 0 r = (Ok [], r)"
| "random_coefficients (Suc k) r =
     (case rand_Read 64 r of
        (Err e, r1) \<Rightarrow> (Err e, r1)
      | (Panic p, r1) \<Rightarrow> (Panic p, r1)
      | (Ok randomBytes, r1) \<Rightarrow>
          (case SetUniformBytes randomBytes of
             Err e \<Rightarrow> (Err e, r1)
           | Panic p \<Rightarrow> (Panic p, r1)
           | Ok coeff \<Rightarrow>
               (case random_coefficients k r1 of
                  (Ok coeffs, r2) \<Rightarrow> (Ok (coeff # coeffs), r2)
                | (Err e, r2) \<Rightarrow> (Err e, r2)
                | (Panic p, r2) \<Rightarrow> (Panic p, r2))))"

text \<open>
  \<open>Keygen\<close>. The number of coefficients is \<open>minParticipants - 1\<close> in 32-bit arithmetic.
\<close>

definition Keygen :: "'e Group \<Rightarrow> 32 word \<Rightarrow> 32 word \<Rightarrow> rng \<Rightarrow> 'e KeygenOutput outcome \<times> rng" where
  "Keygen G maxParticipants minParticipants r =
     (case rand_Read 64 r of
        (Err e, r1) \<Rightarrow> (Err e, r1)
      | (Panic p, r1) \<Rightarrow> (Panic p, r1)
      | (Ok secretKeyBytes, r1) \<Rightarrow>
          (case SetUniformBytes secretKeyBytes of
             Err e \<Rightarrow> (Err e, r1)
           | Panic p \<Rightarrow> (Panic p, r1)
           | Ok secretKey \<Rightarrow>
               (case random_coefficients (unat (minParticipants - 1)) r1 of
                  (Err e, r2) \<Rightarrow> (Err e, r2)
                | (Panic p, r2) \<Rightarrow> (Panic p, r2)
                | (Ok coefficients, r2) \<Rightarrow>
                    (case secretShareShard secretKey coefficients maxParticipants of
                       Err e \<Rightarrow> (Err e, r2)
                     | Panic p \<Rightarrow> (Panic p, r2)
                     | Ok (participantPrivateKeys, fullCoefficients) \<Rightarrow>
                         (let vssCommitment = vssCommit G fullCoefficients
                          in case DeriveGroupInfo G maxParticipants minParticipants vssCommitment of
                               Err e \<Rightarrow> (Err e, r2)
                             | Panic p \<Rightarrow> (Panic p, r2)
                             | Ok (groupPublicKey, participants) \<Rightarrow>
                                 (Ok \<lparr>ParticipantPrivateKeys = participantPrivateKeys,
                                      koParticipants = participants,
                                      GroupPublicKey = groupPublicKey,
                                      VssCommitment = vssCommitment\<rparr>, r2))))))"


section \<open>Fixtures for concrete evaluation\<close>

text \<open>
  A group that satisfies \<open>group_laws\<close>, for the closed instances of the theorems: every
  element written as its discrete logarithm to the base point, so that the elements are
  the scalars, addition is addition and multiplication by a scalar is multiplication.
  The hash functions of the fixture read the length and the first bytes of their input.
\<close>

definition dlog_group :: "scalar Group" where
  "dlog_group = \<lparr>NewElement = 0, ElementAdd = (\<lambda>P Q. P + Q), ElementMul = (\<lambda>s P. s * P),
     ElementBaseMul = (\<lambda>s. s), ElementBytes = ScalarBytes, ElementSetBytes = ScalarSetBytes\<rparr>"

definition length_suite :: Ciphersuite where
  "length_suite = \<lparr>H1 = (\<lambda>m. of_nat (length m)), H2 = (\<lambda>m. of_nat (length m) + 1),
     H3 = (\<lambda>m. of_nat (le_nat (take 2 m))), H4 = (\<lambda>m. take 1 m), H5 = (\<lambda>m. take 2 m)\<rparr>"

lemma group_laws_dlog_group: "group_laws dlog_group"
  by (simp add: group_laws_def dlog_group_def)

subsection \<open>Computing with numerals in the scalar field\<close>

lemma BigInt_numeral: "BigInt (numeral k) = numeral k mod ell"
  using BigInt_of_nat[of "numeral k"] by simp

lemma BigInt_0 [simp]: "BigInt 0 = 0"
  by (rule zero_scalar.rep_eq)

lemma BigInt_1 [simp]: "BigInt 1 = 1"
  by (rule one_scalar.rep_eq)

lemma scalar_numeral_eq_iff:
  "(numeral a :: scalar) = numeral b \<longleftrightarrow> (numeral a :: nat) mod ell = numeral b mod ell"
  using of_nat_scalar_eq_iff[of "numeral a" "numeral b"] by simp

lemma scalar_numeral_eq_1_iff:
  "(numeral a :: scalar) = 1 \<longleftrightarrow> (numeral a :: nat) mod ell = 1"
  "(1 :: scalar) = numeral a \<longleftrightarrow> (numeral a :: nat) mod ell = 1"
  using of_nat_scalar_eq_iff[of "numeral a" 1] ell_gt_1 by auto

lemma scalar_numeral_eq_0_iff:
  "(numeral a :: scalar) = 0 \<longleftrightarrow> (numeral a :: nat) mod ell = 0"
  "(0 :: scalar) = numeral a \<longleftrightarrow> (numeral a :: nat) mod ell = 0"
  using of_nat_scalar_eq_iff[of "numeral a" 0] by auto

lemmas scalar_eval = scalar_numeral_eq_iff scalar_numeral_eq_1_iff scalar_numeral_eq_0_iff
  BigInt_numeral ell_def


section \<open>Properties of the helpers\<close>

subsection \<open>The sort\<close>

lemma mset_insert_back [simp]: "mset (insert_back lt x ys) = add_mset x (mset ys)"
  by (induction ys) simp_all

lemma mset_foldl_insert_back:
  "mset (foldl (\<lambda>sorted x. insert_back lt x sorted) acc xs) = mset acc + mset xs"
  by (induction xs arbitrary: acc) simp_all

lemma mset_sortSlice [simp]: "mset (sortSlice lt xs) = mset xs"
  by (simp add: sortSlice_def mset_foldl_insert_back)

lemma set_sortSlice [simp]: "set (sortSlice lt xs) = set xs"
  by (metis mset_sortSlice set_mset_mset)

lemma length_sortSlice [simp]: "length (sortSlice lt xs) = length xs"
  by (metis mset_sortSlice size_mset)

lemma set_insert_back [simp]: "set (insert_back lt x ys) = insert x (set ys)"
  by (metis mset_insert_back set_mset_mset set_mset_add_mset_insert)

lemma sorted_insert_back:
  fixes key :: "'a \<Rightarrow> 'k::linorder"
  assumes "sorted_wrt (\<lambda>a b. key b \<le> key a) ys"
  shows "sorted_wrt (\<lambda>a b. key b \<le> key a) (insert_back (\<lambda>a b. key a < key b) x ys)"
  using assms by (induction ys) (auto simp: less_imp_le not_less)

lemma sorted_foldl_insert_back:
  fixes key :: "'a \<Rightarrow> 'k::linorder"
  assumes "sorted_wrt (\<lambda>a b. key b \<le> key a) acc"
  shows "sorted_wrt (\<lambda>a b. key b \<le> key a)
           (foldl (\<lambda>sorted x. insert_back (\<lambda>a b. key a < key b) x sorted) acc xs)"
  using assms by (induction xs arbitrary: acc) (simp_all add: sorted_insert_back)

lemma sorted_sortSlice:
  fixes key :: "'a \<Rightarrow> 'k::linorder"
  shows "sorted (map key (sortSlice (\<lambda>a b. key a < key b) xs))"
proof -
  have "sorted_wrt (\<lambda>a b. key b \<le> key a)
          (foldl (\<lambda>sorted x. insert_back (\<lambda>a b. key a < key b) x sorted) [] xs)"
    by (rule sorted_foldl_insert_back) simp
  then have "sorted_wrt (\<lambda>a b. key a \<le> key b) (sortSlice (\<lambda>a b. key a < key b) xs)"
    by (simp add: sortSlice_def sorted_wrt_rev)
  then show ?thesis by (simp add: sorted_map)
qed

lemma sorted_distinct_keys_unique:
  fixes key :: "'a \<Rightarrow> 'k::linorder"
  assumes "mset ys = mset xs" "distinct (map key xs)"
    and "sorted (map key xs)" "sorted (map key ys)"
  shows "ys = xs"
proof -
  have m: "mset (map key ys) = mset (map key xs)" using assms(1) by simp
  then have d: "distinct (map key ys)" using assms(2) by (metis mset_eq_imp_distinct_iff)
  have s: "set (map key ys) = set (map key xs)" using m by (metis set_mset_mset)
  have "map key ys = map key xs"
    using assms(3,4) d assms(2) s by (metis sorted_distinct_set_unique)
  moreover have "inj_on key (set ys \<union> set xs)"
    using assms(1,2) by (metis distinct_map mset_eq_setD sup.idem)
  ultimately show ?thesis by (simp add: inj_on_map_eq_map)
qed

lemma sortSlice_permutation:
  fixes key :: "'a \<Rightarrow> 'k::linorder"
  assumes "mset ys = mset xs" "distinct (map key xs)"
  shows "sortSlice (\<lambda>a b. key a < key b) ys = sortSlice (\<lambda>a b. key a < key b) xs"
proof (rule sorted_distinct_keys_unique[where key = key])
  show "mset (sortSlice (\<lambda>a b. key a < key b) ys) = mset (sortSlice (\<lambda>a b. key a < key b) xs)"
    using assms(1) by simp
  have "mset (map key (sortSlice (\<lambda>a b. key a < key b) xs)) = mset (map key xs)" by simp
  then show "distinct (map key (sortSlice (\<lambda>a b. key a < key b) xs))"
    using assms(2) by (metis mset_eq_imp_distinct_iff)
qed (rule sorted_sortSlice)+

lemma identifier_less_key:
  "identifier_less = (\<lambda>a b. (ScalarBytes \<circ> cIdentifier) a < (ScalarBytes \<circ> cIdentifier) b)"
  by (intro ext) (simp add: identifier_less_def)

lemma distinct_identifier_keys:
  "distinct (map (ScalarBytes \<circ> cIdentifier) C) \<longleftrightarrow> distinct (map cIdentifier C)"
  by (simp add: distinct_map inj_on_def comp_def)

lemma sortSlice_identifier_permutation:
  assumes "mset C' = mset C" "distinct (map cIdentifier C)"
  shows "sortSlice identifier_less C' = sortSlice identifier_less C"
  unfolding identifier_less_key
  using assms
  by (intro sortSlice_permutation)
     (simp_all add: distinct_identifier_keys distinct_identifier_keys[unfolded comp_def])

lemma sorted_sortSlice_identifier:
  "sorted (map (ScalarBytes \<circ> cIdentifier) (sortSlice identifier_less C))"
  unfolding identifier_less_key by (rule sorted_sortSlice)

lemma sortSlice_idem_identifier:
  assumes "distinct (map cIdentifier C)"
  shows "sortSlice identifier_less (sortSlice identifier_less C) = sortSlice identifier_less C"
  using assms by (intro sortSlice_identifier_permutation) simp_all


subsection \<open>The encoding of the commitment list\<close>

lemma EncodeGroupCommitmentList_simps:
  "fst (EncodeGroupCommitmentList G C) =
     concat (map (\<lambda>c. ScalarBytes (cIdentifier c) @ ElementBytes G (cHiding c)
                          @ ElementBytes G (cBinding c)) (sortSlice identifier_less C))"
  "snd (EncodeGroupCommitmentList G C) = sortSlice identifier_less C"
  by (simp_all add: EncodeGroupCommitmentList_def Let_def)

lemma ComputeBindingFactors_simps:
  "fst (ComputeBindingFactors c G pk C msg) =
     map (\<lambda>commitment.
            \<lparr>bIdentifier = cIdentifier commitment,
             bFactor = H1 c (ElementBytes G pk @ H4 c msg
                        @ H5 c (fst (EncodeGroupCommitmentList G C))
                        @ ScalarBytes (cIdentifier commitment))\<rparr>)
       (sortSlice identifier_less C)"
  "snd (ComputeBindingFactors c G pk C msg) = sortSlice identifier_less C"
  by (simp_all add: ComputeBindingFactors_def EncodeGroupCommitmentList_def Let_def)

text \<open>
  C9, as amended. For a commitment list whose identifiers are pairwise distinct, every
  permutation of the list has the same encoding: the concatenation of
  identifier, hiding and binding commitment of the list sorted in ascending order of the
  identifiers' byte encodings; and \<open>ComputeBindingFactors\<close> returns the same binding
  factors for every permutation.
\<close>

theorem EncodeGroupCommitmentList_permutation:
  assumes "distinct (map cIdentifier C)" and "mset C' = mset C"
  shows "fst (EncodeGroupCommitmentList G C') = fst (EncodeGroupCommitmentList G C)
       \<and> fst (EncodeGroupCommitmentList G C) =
           concat (map (\<lambda>c. ScalarBytes (cIdentifier c) @ ElementBytes G (cHiding c)
                                @ ElementBytes G (cBinding c))
                     (snd (EncodeGroupCommitmentList G C)))
       \<and> mset (snd (EncodeGroupCommitmentList G C)) = mset C
       \<and> sorted (map (ScalarBytes \<circ> cIdentifier) (snd (EncodeGroupCommitmentList G C)))
       \<and> fst (ComputeBindingFactors c G pk C' msg) = fst (ComputeBindingFactors c G pk C msg)"
proof -
  have s: "sortSlice identifier_less C' = sortSlice identifier_less C"
    using assms(2,1) by (rule sortSlice_identifier_permutation)
  show ?thesis
    by (simp add: EncodeGroupCommitmentList_simps ComputeBindingFactors_simps s
        sorted_sortSlice_identifier)
qed

theorem EncodeGroupCommitmentList_permutation_witness:
  "fst (EncodeGroupCommitmentList dlog_group
          [\<lparr>cIdentifier = 1, cHiding = 5, cBinding = 6\<rparr>, \<lparr>cIdentifier = 3, cHiding = 7, cBinding = 8\<rparr>])
   = fst (EncodeGroupCommitmentList dlog_group
          [\<lparr>cIdentifier = 3, cHiding = 7, cBinding = 8\<rparr>, \<lparr>cIdentifier = 1, cHiding = 5, cBinding = 6\<rparr>])
   \<and> fst (ComputeBindingFactors length_suite dlog_group 9
          [\<lparr>cIdentifier = 1, cHiding = 5, cBinding = 6\<rparr>, \<lparr>cIdentifier = 3, cHiding = 7, cBinding = 8\<rparr>] [])
   = fst (ComputeBindingFactors length_suite dlog_group 9
          [\<lparr>cIdentifier = 3, cHiding = 7, cBinding = 8\<rparr>, \<lparr>cIdentifier = 1, cHiding = 5, cBinding = 6\<rparr>] [])"
proof -
  have d: "distinct (map cIdentifier
      [\<lparr>cIdentifier = 3, cHiding = 7 :: scalar, cBinding = 8 :: scalar\<rparr>,
       \<lparr>cIdentifier = 1, cHiding = 5, cBinding = 6\<rparr>])"
    by (simp add: scalar_eval)
  have m: "mset [\<lparr>cIdentifier = 1, cHiding = 5 :: scalar, cBinding = 6 :: scalar\<rparr>,
                 \<lparr>cIdentifier = 3, cHiding = 7, cBinding = 8\<rparr>]
         = mset [\<lparr>cIdentifier = 3, cHiding = 7, cBinding = 8\<rparr>,
                 \<lparr>cIdentifier = 1, cHiding = 5, cBinding = 6\<rparr>]"
    by simp
  show ?thesis
    using EncodeGroupCommitmentList_permutation[OF d m, of dlog_group length_suite 9 "[]"]
    by blast
qed

text \<open>
  The claim as stated fails on a list in which an identifier occurs twice: the sort
  leaves the two commitments in the order they came in.
\<close>

theorem EncodeGroupCommitmentList_duplicate_counterexample:
  "mset [\<lparr>cIdentifier = 1, cHiding = 2 :: scalar, cBinding = 1 :: scalar\<rparr>,
         \<lparr>cIdentifier = 1, cHiding = 1, cBinding = 1\<rparr>]
   = mset [\<lparr>cIdentifier = 1, cHiding = 1, cBinding = 1\<rparr>,
           \<lparr>cIdentifier = 1, cHiding = 2, cBinding = 1\<rparr>]
   \<and> fst (EncodeGroupCommitmentList dlog_group
          [\<lparr>cIdentifier = 1, cHiding = 2, cBinding = 1\<rparr>, \<lparr>cIdentifier = 1, cHiding = 1, cBinding = 1\<rparr>])
     \<noteq> fst (EncodeGroupCommitmentList dlog_group
          [\<lparr>cIdentifier = 1, cHiding = 1, cBinding = 1\<rparr>, \<lparr>cIdentifier = 1, cHiding = 2, cBinding = 1\<rparr>])"
proof -
  have ne: "(2::scalar) \<noteq> 1" by (simp add: scalar_eval)
  show ?thesis
    by (simp add: EncodeGroupCommitmentList_simps sortSlice_def identifier_less_def dlog_group_def ne)
qed


subsection \<open>The interpolating value\<close>

lemma has_duplicate_iff: "has_duplicate L \<longleftrightarrow> \<not> distinct L"
proof -
  have e: "p \<in> set (enumerate 0 L) \<longleftrightarrow> fst p < length L \<and> L ! fst p = snd p" for p
    by (simp add: in_set_enumerate_eq)
  have "has_duplicate L \<longleftrightarrow>
      (\<exists>p\<in>set (enumerate 0 L). \<exists>q\<in>set (enumerate 0 L). fst p \<noteq> fst q \<and> snd p = snd q)"
    by (simp add: has_duplicate_def list_ex_iff case_prod_beta)
  also have "\<dots> \<longleftrightarrow> (\<exists>i<length L. \<exists>j<length L. i \<noteq> j \<and> L ! i = L ! j)"
  proof
    assume "\<exists>p\<in>set (enumerate 0 L). \<exists>q\<in>set (enumerate 0 L). fst p \<noteq> fst q \<and> snd p = snd q"
    then obtain p q where "p \<in> set (enumerate 0 L)" "q \<in> set (enumerate 0 L)"
      "fst p \<noteq> fst q" "snd p = snd q" by blast
    then have "fst p < length L" "L ! fst p = snd p" "fst q < length L"
      "L ! fst q = snd q" "fst p \<noteq> fst q" "snd p = snd q"
      by (simp_all add: e)
    then show "\<exists>i<length L. \<exists>j<length L. i \<noteq> j \<and> L ! i = L ! j" by metis
  next
    assume "\<exists>i<length L. \<exists>j<length L. i \<noteq> j \<and> L ! i = L ! j"
    then obtain i j where ij: "i < length L" "j < length L" "i \<noteq> j" "L ! i = L ! j" by blast
    then have "(i, L ! i) \<in> set (enumerate 0 L)" "(j, L ! j) \<in> set (enumerate 0 L)"
      by (simp_all add: e)
    moreover have "fst (i, L ! i) \<noteq> fst (j, L ! j) \<and> snd (i, L ! i) = snd (j, L ! j)"
      using ij by simp
    ultimately show "\<exists>p\<in>set (enumerate 0 L). \<exists>q\<in>set (enumerate 0 L). fst p \<noteq> fst q \<and> snd p = snd q"
      by blast
  qed
  finally show ?thesis by (auto simp: distinct_conv_nth)
qed

lemma fold_interpolating:
  "fold (\<lambda>xj (numerator, denominator).
           if xj = xi then (numerator, denominator)
           else (numerator * xj, denominator * (xj - xi))) L (n, d)
   = (n * prod_list (filter (\<lambda>xj. xj \<noteq> xi) L),
      d * prod_list (map (\<lambda>xj. xj - xi) (filter (\<lambda>xj. xj \<noteq> xi) L)))"
  by (induction L arbitrary: n d) (simp_all add: mult.assoc)

lemma interpolating_products_eq:
  "interpolating_products L xi =
     (prod_list (filter (\<lambda>xj. xj \<noteq> xi) L),
      prod_list (map (\<lambda>xj. xj - xi) (filter (\<lambda>xj. xj \<noteq> xi) L)))"
  by (simp add: interpolating_products_def fold_interpolating)

lemma prod_list_times_inverse:
  fixes g :: "scalar \<Rightarrow> scalar"
  shows "prod_list ys * inverse (prod_list (map g ys)) = (\<Prod>y\<leftarrow>ys. y * inverse (g y))"
  by (induction ys) (simp_all add: inverse_mult_distrib mult_ac)

lemma DeriveInterpolatingValue_cases:
  "DeriveInterpolatingValue L xi =
     (if xi \<notin> set L then Err NotAParticipant
      else if \<not> distinct L then Err DuplicateIdentifier
      else Ok (\<Prod>xj\<leftarrow>filter (\<lambda>xj. xj \<noteq> xi) L. xj * inverse (xj - xi)))"
proof -
  have m: "list_ex (\<lambda>xj. xj = xi) L \<longleftrightarrow> xi \<in> set L"
    by (auto simp: list_ex_iff)
  show ?thesis
    by (simp add: DeriveInterpolatingValue_def m has_duplicate_iff interpolating_products_eq
        prod_list_times_inverse)
qed

text \<open>
  C8. \<open>DeriveInterpolatingValue L xi\<close> fails with \<open>NotAParticipant\<close> when \<open>xi\<close> is not in
  \<open>L\<close>; otherwise it fails with \<open>DuplicateIdentifier\<close> when \<open>L\<close> holds two equal elements;
  otherwise it returns the product, over the elements \<open>xj\<close> of \<open>L\<close> other than \<open>xi\<close>, of
  \<open>xj * (xj - xi)\<^sup>-\<^sup>1\<close> in the scalar field. The membership check comes first in the code.
\<close>

theorem DeriveInterpolatingValue_correct:
  "(xi \<notin> set L \<longrightarrow> DeriveInterpolatingValue L xi = Err NotAParticipant)
   \<and> (xi \<in> set L \<and> \<not> distinct L \<longrightarrow> DeriveInterpolatingValue L xi = Err DuplicateIdentifier)
   \<and> (xi \<in> set L \<and> distinct L \<longrightarrow>
        DeriveInterpolatingValue L xi =
          Ok (\<Prod>xj\<leftarrow>filter (\<lambda>xj. xj \<noteq> xi) L. xj * inverse (xj - xi)))"
  by (simp add: DeriveInterpolatingValue_cases)

theorem DeriveInterpolatingValue_correct_witness:
  "DeriveInterpolatingValue [1, 2] 3 = Err NotAParticipant
   \<and> DeriveInterpolatingValue [2, 1, 2] 1 = Err DuplicateIdentifier
   \<and> DeriveInterpolatingValue [1, 2, 3] 2 = Ok ((1 * inverse (1 - 2)) * (3 * inverse (3 - 2)))"
proof -
  have a: "(3::scalar) \<notin> set [1, 2]" by (simp add: scalar_eval)
  have b: "(1::scalar) \<in> set [2, 1, 2] \<and> \<not> distinct [2, 1, 2 :: scalar]" by simp
  have c: "(2::scalar) \<in> set [1, 2, 3] \<and> distinct [1, 2, 3 :: scalar]" by (simp add: scalar_eval)
  have f: "filter (\<lambda>xj. xj \<noteq> 2) [1, 2, 3 :: scalar] = [1, 3]" by (simp add: scalar_eval)
  show ?thesis
    using DeriveInterpolatingValue_correct[of 3 "[1, 2]"]
      DeriveInterpolatingValue_correct[of 1 "[2, 1, 2]"]
      DeriveInterpolatingValue_correct[of 2 "[1, 2, 3]"] a b c
    by (simp add: f)
qed


section \<open>Properties of the signing state\<close>

subsection \<open>Aggregate\<close>

lemma fold_add_shares:
  "fold (\<lambda>share z. z + shShare share) shares a = a + sum_list (map shShare shares)"
  by (induction shares arbitrary: a) (simp_all add: add.assoc)

text \<open>
  C10. On a state whose group commitment is set, \<open>Aggregate\<close> returns, for every list of
  signature shares, the signature of the group commitment and the sum of the shares'
  scalars, zero for the empty list; it returns no error, whatever the shares are (it
  verifies none), and the result does not depend on the shares' identifiers.
\<close>

theorem Aggregate_sums_all_shares:
  assumes "groupCommitment s = Some R"
  shows "Aggregate s shares = Ok \<lparr>sigR = R, sigZ = sum_list (map shShare shares)\<rparr>
       \<and> Aggregate s [] = Ok \<lparr>sigR = R, sigZ = 0\<rparr>
       \<and> Aggregate s (map (\<lambda>share. share\<lparr>shIdentifier := f share\<rparr>) shares) = Aggregate s shares"
  using assms by (simp add: Aggregate_def fold_add_shares comp_def)

theorem Aggregate_sums_all_shares_witness:
  "Aggregate (SetGroupCommitment (NewState length_suite [] 9 [] None) (11 :: scalar))
     [\<lparr>shIdentifier = 4, shShare = 2\<rparr>, \<lparr>shIdentifier = 4, shShare = 3\<rparr>]
   = Ok \<lparr>sigR = 11, sigZ = 5\<rparr>
   \<and> Aggregate (SetGroupCommitment (NewState length_suite [] 9 [] None) (11 :: scalar)) []
   = Ok \<lparr>sigR = 11, sigZ = 0\<rparr>"
proof -
  have g: "groupCommitment (SetGroupCommitment (NewState length_suite [] 9 [] None) (11 :: scalar))
      = Some 11"
    by (simp add: SetGroupCommitment_def)
  show ?thesis
    using Aggregate_sums_all_shares[OF g,
        of "[\<lparr>shIdentifier = 4, shShare = 2\<rparr>, \<lparr>shIdentifier = 4, shShare = 3\<rparr>]"]
    by simp
qed

subsection \<open>Commit\<close>

lemma NonceGenerate_eq:
  "NonceGenerate c secret r =
     (case r 0 of
        None \<Rightarrow> (Err RngFailure, \<lambda>i. r (Suc i))
      | Some bs \<Rightarrow> (Ok (H3 c (take 32 (bs @ replicate 32 0) @ ScalarBytes secret)), \<lambda>i. r (Suc i)))"
  by (simp add: NonceGenerate_def rand_Read_def split: option.splits)

text \<open>What \<open>Commit\<close> does on a state that holds a share.\<close>

lemma Commit_with_share:
  assumes "MySecretShare s = Some share"
  shows "Commit G s r =
     (case r 0 of
        None \<Rightarrow> (Err RngFailure, s, \<lambda>i. r (Suc i))
      | Some b0 \<Rightarrow>
          (case r 1 of
             None \<Rightarrow> (Err RngFailure, s, \<lambda>i. r (Suc (Suc i)))
           | Some b1 \<Rightarrow>
               (let d = H3 (Ciphersuite s) (take 32 (b0 @ replicate 32 0) @ ScalarBytes (ssScalar share));
                    e = H3 (Ciphersuite s) (take 32 (b1 @ replicate 32 0) @ ScalarBytes (ssScalar share));
                    commitment = \<lparr>cIdentifier = MyIdentifier s, cHiding = ElementBaseMul G d,
                                  cBinding = ElementBaseMul G e\<rparr>
                in (Ok commitment,
                    s\<lparr>MyNonce := Some \<lparr>nHiding = d, nBinding = e\<rparr>, MyCommitment := Some commitment\<rparr>,
                    \<lambda>i. r (Suc (Suc i))))))"
  using assms by (simp add: Commit_def NonceGenerate_eq Let_def split: option.splits)

text \<open>
  C6, the failing case: a state built without a share, as the coordinator's is, makes
  \<open>Commit\<close> dereference nil; no error is returned.
\<close>

theorem Commit_without_share_panics:
  "fst (Commit G (NewState c participants groupKey msg None) r) = Panic NilPointerDereference"
  by (simp add: Commit_def NewState_def)

text \<open>
  C6, the rest: on a state with a share \<open>Commit\<close> returns the error of the CSPRNG exactly
  when one of its two reads fails, and otherwise the commitment of two fresh nonces.
\<close>

lemma Commit_RngFailure_iff:
  assumes "MySecretShare s = Some share"
  shows "fst (Commit G s r) = Err RngFailure \<longleftrightarrow> r 0 = None \<or> r 1 = None"
    and "r 0 \<noteq> None \<Longrightarrow> r 1 \<noteq> None \<Longrightarrow>
         \<exists>d e. fst (Commit G s r) =
                  Ok \<lparr>cIdentifier = MyIdentifier s, cHiding = ElementBaseMul G d,
                      cBinding = ElementBaseMul G e\<rparr>
               \<and> MyNonce (fst (snd (Commit G s r))) = Some \<lparr>nHiding = d, nBinding = e\<rparr>"
  by (auto simp: Commit_with_share[OF assms] Let_def split: option.splits)



text \<open>
  A signer's state and a random source for the closed instances: the share \<open>4\<close> of
  participant \<open>1\<close>, and reads that return the bytes \<open>5, 6, 7, ...\<close> in turn.
\<close>

definition signer1 :: "scalar State" where
  "signer1 = NewState length_suite [] 9 [] (Some \<lparr>ssIdentifier = 1, ssScalar = 4\<rparr>)"







subsection \<open>Sign\<close>

text \<open>
  The binding factor of an identifier and the group commitment, as \<open>Sign\<close> computes them
  from the commitment list.
\<close>

definition binding_factor ::
  "Ciphersuite \<Rightarrow> 'e Group \<Rightarrow> 'e \<Rightarrow> 'e Commitment list \<Rightarrow> byte list \<Rightarrow> scalar \<Rightarrow> scalar" where
  "binding_factor c G pk C msg identifier =
     H1 c (ElementBytes G pk @ H4 c msg @ H5 c (fst (EncodeGroupCommitmentList G C))
           @ ScalarBytes identifier)"

definition group_commitment ::
  "Ciphersuite \<Rightarrow> 'e Group \<Rightarrow> 'e \<Rightarrow> 'e Commitment list \<Rightarrow> byte list \<Rightarrow> 'e" where
  "group_commitment c G pk C msg =
     foldl (\<lambda>R cm. ElementAdd G (ElementAdd G R (cHiding cm))
                     (ElementMul G (binding_factor c G pk C msg (cIdentifier cm)) (cBinding cm)))
       (NewElement G) (sortSlice identifier_less C)"

lemma ComputeBindingFactors_binding_factor:
  "fst (ComputeBindingFactors c G pk C msg) =
     map (\<lambda>cm. \<lparr>bIdentifier = cIdentifier cm,
                 bFactor = binding_factor c G pk C msg (cIdentifier cm)\<rparr>)
       (sortSlice identifier_less C)"
  by (simp add: ComputeBindingFactors_simps binding_factor_def)

lemma BindingFactorForParticipant_map:
  "BindingFactorForParticipant
     (map (\<lambda>cm. \<lparr>bIdentifier = cIdentifier cm, bFactor = f (cIdentifier cm)\<rparr>) S) x
   = (if x \<in> cIdentifier ` set S then Ok (f x) else Err UnknownParticipant)"
  by (induction S) auto

lemma BindingFactorForParticipant_computed:
  "BindingFactorForParticipant (fst (ComputeBindingFactors c G pk C msg)) x
   = (if x \<in> cIdentifier ` set C then Ok (binding_factor c G pk C msg x)
      else Err UnknownParticipant)"
  by (simp add: ComputeBindingFactors_binding_factor BindingFactorForParticipant_map)

lemma group_commitment_loop_map:
  assumes "cIdentifier ` set S' \<subseteq> cIdentifier ` set S"
  shows "group_commitment_loop G
           (map (\<lambda>cm. \<lparr>bIdentifier = cIdentifier cm, bFactor = f (cIdentifier cm)\<rparr>) S) acc S'
         = Ok (foldl (\<lambda>R cm. ElementAdd G (ElementAdd G R (cHiding cm))
                                (ElementMul G (f (cIdentifier cm)) (cBinding cm))) acc S')"
  using assms
  by (induction S' arbitrary: acc) (simp_all add: BindingFactorForParticipant_map Let_def)

text \<open>
  \<^verbatim>\<open>ComputeGroupCommitment\<close> on the binding factors of the same list never fails.
\<close>

lemma ComputeGroupCommitment_computed:
  "ComputeGroupCommitment G (snd (ComputeBindingFactors c G pk C msg))
     (fst (ComputeBindingFactors c G pk C msg)) = Ok (group_commitment c G pk C msg)"
  by (simp add: ComputeGroupCommitment_def ComputeBindingFactors_binding_factor
      ComputeBindingFactors_simps group_commitment_loop_map group_commitment_def)


lemma DeriveInterpolatingValue_Ok_member:
  "DeriveInterpolatingValue L xi = Ok v \<Longrightarrow> xi \<in> set L"
  by (auto simp: DeriveInterpolatingValue_def list_ex_iff split: if_splits)

lemma DeriveInterpolatingValue_not_Panic [simp]:
  "DeriveInterpolatingValue L xi \<noteq> Panic p"
  by (auto simp: DeriveInterpolatingValue_def split: if_splits prod.splits)

text \<open>The state that the first half of \<open>Sign\<close> leaves, common to signers and coordinator.\<close>

definition signed_state :: "'e Group \<Rightarrow> 'e State \<Rightarrow> 'e Commitment list \<Rightarrow> 'e State" where
  "signed_state G s C =
     s\<lparr>Commitments := sortSlice identifier_less C,
       bindingFactors := fst (ComputeBindingFactors (Ciphersuite s) G (GroupKey s) C (Message s)),
       groupCommitment := Some (group_commitment (Ciphersuite s) G (GroupKey s) C (Message s)),
       challenge := Some (ComputeChallenge (Ciphersuite s) G
          (group_commitment (Ciphersuite s) G (GroupKey s) C (Message s)) (GroupKey s) (Message s))\<rparr>"

text \<open>The whole of \<open>Sign\<close>, with the calls that cannot fail resolved.\<close>

lemma Sign_eq:
  "Sign G s C =
     (case MySecretShare s of
        None \<Rightarrow> (Ok None, signed_state G s C)
      | Some share \<Rightarrow>
          (let s4 = (signed_state G s C)
                      \<lparr>Commitments := sortSlice identifier_less (sortSlice identifier_less C)\<rparr>
           in case DeriveInterpolatingValue
                     (map cIdentifier (sortSlice identifier_less (sortSlice identifier_less C)))
                     (MyIdentifier s) of
                Err e \<Rightarrow> (Err e, s4)
              | Panic p \<Rightarrow> (Panic p, s4)
              | Ok lambda_i \<Rightarrow>
                  (case MyNonce s of
                     None \<Rightarrow> (Panic NilPointerDereference, s4)
                   | Some nonce \<Rightarrow>
                       (Ok (Some \<lparr>shIdentifier = MyIdentifier s,
                                  shShare = nHiding nonce
                                    + nBinding nonce
                                      * binding_factor (Ciphersuite s) G (GroupKey s) C (Message s)
                                          (MyIdentifier s)
                                    + lambda_i * ssScalar share
                                      * ComputeChallenge (Ciphersuite s) G
                                          (group_commitment (Ciphersuite s) G (GroupKey s) C (Message s))
                                          (GroupKey s) (Message s)\<rparr>),
                        s4))))"
proof -
  obtain bfs C1 where cbf:
    "ComputeBindingFactors (Ciphersuite s) G (GroupKey s) C (Message s) = (bfs, C1)"
    by (cases "ComputeBindingFactors (Ciphersuite s) G (GroupKey s) C (Message s)")
  have bfs: "bfs = fst (ComputeBindingFactors (Ciphersuite s) G (GroupKey s) C (Message s))"
    and C1: "C1 = sortSlice identifier_less C"
    using cbf ComputeBindingFactors_simps(2)[of "Ciphersuite s" G "GroupKey s" C "Message s"]
    by simp_all
  have gc: "ComputeGroupCommitment G C1 bfs
      = Ok (group_commitment (Ciphersuite s) G (GroupKey s) C (Message s))"
    using ComputeGroupCommitment_computed[of G "Ciphersuite s" "GroupKey s" C "Message s"] cbf
    by simp
  have bf: "BindingFactorForParticipant bfs x
      = (if x \<in> cIdentifier ` set C
         then Ok (binding_factor (Ciphersuite s) G (GroupKey s) C (Message s) x)
         else Err UnknownParticipant)" for x
    unfolding bfs by (rule BindingFactorForParticipant_computed)
  show ?thesis
  proof (cases "MySecretShare s")
    case None
    then show ?thesis
      by (simp add: Sign_def cbf gc Let_def signed_state_def bfs[symmetric] C1[symmetric])
  next
    case (Some share)
    show ?thesis
    proof (cases "DeriveInterpolatingValue
                     (map cIdentifier (sortSlice identifier_less (sortSlice identifier_less C)))
                     (MyIdentifier s)")
      case (Ok lambda_i)
      then have "MyIdentifier s \<in> cIdentifier ` set C"
        using DeriveInterpolatingValue_Ok_member by fastforce
      then show ?thesis
        using Some Ok
        by (simp add: Sign_def cbf gc Let_def signed_state_def bfs[symmetric] C1[symmetric]
            ParticipantsFromCommitmentList_def bf mult.assoc split: option.splits)
    next
      case (Err e)
      then show ?thesis
        using Some
        by (simp add: Sign_def cbf gc Let_def signed_state_def bfs[symmetric] C1[symmetric]
            ParticipantsFromCommitmentList_def)
    next
      case (Panic p)
      then show ?thesis by simp
    qed
  qed
qed




text \<open>
  The signer of the fixture after its commitment, and a list of two commitments, its own
  and participant 3's, for the closed instances.
\<close>

definition committed1 :: "scalar State" where
  "committed1 = signer1\<lparr>MyNonce := Some \<lparr>nHiding = 5, nBinding = 6\<rparr>,
                        MyCommitment := Some \<lparr>cIdentifier = 1, cHiding = 5, cBinding = 6\<rparr>\<rparr>"

definition two_commitments :: "scalar Commitment list" where
  "two_commitments = [\<lparr>cIdentifier = 3, cHiding = 7, cBinding = 8\<rparr>,
                      \<lparr>cIdentifier = 1, cHiding = 5, cBinding = 6\<rparr>]"

lemma ScalarBytes_Cons:
  "ScalarBytes x = of_nat (BigInt x mod 256) # le_bytes 31 (BigInt x div 256)"
  unfolding ScalarBytes_def by (subst le_bytes_numeral) simp

lemma ScalarBytes_1_less_3: "ScalarBytes 1 < ScalarBytes 3" "\<not> ScalarBytes 3 < ScalarBytes 1"
  by (simp_all add: ScalarBytes_Cons[of 1] ScalarBytes_Cons[of 3] scalar_eval)

lemma sortSlice_two_commitments:
  "sortSlice identifier_less two_commitments =
     [\<lparr>cIdentifier = 1, cHiding = 5, cBinding = 6\<rparr>, \<lparr>cIdentifier = 3, cHiding = 7, cBinding = 8\<rparr>]"
  by (simp add: sortSlice_def two_commitments_def identifier_less_def ScalarBytes_1_less_3)

lemma binding_factor_two_commitments:
  "binding_factor length_suite dlog_group pk two_commitments [] x = 66"
  by (simp add: binding_factor_def length_suite_def dlog_group_def EncodeGroupCommitmentList_simps
      sortSlice_two_commitments)

lemma group_commitment_two_commitments:
  "group_commitment length_suite dlog_group 9 two_commitments [] = 936"
  unfolding group_commitment_def sortSlice_two_commitments binding_factor_two_commitments
  by (simp add: dlog_group_def)

lemma ComputeChallenge_length_suite:
  "ComputeChallenge length_suite dlog_group R pk [] = 65"
  by (simp add: ComputeChallenge_def length_suite_def dlog_group_def)

lemma committed1_fields:
  "MySecretShare committed1 = Some \<lparr>ssIdentifier = 1, ssScalar = 4\<rparr>"
  "MyNonce committed1 = Some \<lparr>nHiding = 5, nBinding = 6\<rparr>"
  "MyIdentifier committed1 = 1" "Ciphersuite committed1 = length_suite"
  "GroupKey committed1 = 9" "Message committed1 = []"
  "MyCommitment committed1 = Some \<lparr>cIdentifier = 1, cHiding = 5, cBinding = 6\<rparr>"
  by (simp_all add: committed1_def signer1_def NewState_def)

lemma two_commitments_identifiers:
  "distinct (map cIdentifier two_commitments)" "1 \<in> cIdentifier ` set two_commitments"
  by (simp_all add: two_commitments_def scalar_eval)



lemma Sign_MyNonce: "MyNonce (snd (Sign G s C)) = MyNonce s"
  by (simp add: Sign_eq signed_state_def Let_def split: option.splits outcome.splits)

lemma Sign_committed1_two_commitments:
  "fst (Sign dlog_group committed1 two_commitments) =
     Ok (Some \<lparr>shIdentifier = 1, shShare = 5 + 6 * 66 + 3 * inverse (3 - 1) * 4 * 65\<rparr>)"
proof -
  have ne: "(3::scalar) \<noteq> 1" by (simp add: scalar_eval)
  have idem: "sortSlice identifier_less (sortSlice identifier_less two_commitments)
      = sortSlice identifier_less two_commitments"
    using two_commitments_identifiers(1) by (rule sortSlice_idem_identifier)
  have d: "DeriveInterpolatingValue [1, 3] 1 = Ok (3 * inverse (3 - 1))"
    using ne by (simp add: DeriveInterpolatingValue_cases)
  show ?thesis
    unfolding Sign_eq committed1_fields option.case Let_def idem
    unfolding sortSlice_two_commitments list.map Commitment.simps d outcome.case
      binding_factor_two_commitments group_commitment_two_commitments
      ComputeChallenge_length_suite
    by (simp only: fst_conv Nonce.simps SecretShare.simps)
qed

text \<open>
  C4, as amended. \<open>Sign\<close> leaves the nonce pair of the state as it was: whatever it
  returns, the state holds the same \<open>MyNonce\<close> after the call as before.
\<close>

theorem Sign_keeps_nonce:
  "MyNonce (snd (Sign G s C)) = MyNonce s"
  by (rule Sign_MyNonce)

text \<open>
  The claim as stated fails: after \<open>Sign\<close> has returned the signer's share, the state
  still holds the nonce pair \<open>(5, 6)\<close>.
\<close>

theorem Sign_nonce_not_zeroized_counterexample:
  "fst (Sign dlog_group committed1 two_commitments) =
     Ok (Some \<lparr>shIdentifier = 1, shShare = 5 + 6 * 66 + 3 * inverse (3 - 1) * 4 * 65\<rparr>)
   \<and> MyNonce (snd (Sign dlog_group committed1 two_commitments)) = Some \<lparr>nHiding = 5, nBinding = 6\<rparr>
   \<and> (5::scalar) \<noteq> 0 \<and> (6::scalar) \<noteq> 0"
  by (simp add: Sign_committed1_two_commitments Sign_MyNonce committed1_fields scalar_eval)

text \<open>
  A list that holds a commitment under the signer's identifier with another hiding
  commitment than the signer's own.
\<close>

definition foreign_commitment :: "scalar Commitment list" where
  "foreign_commitment = [\<lparr>cIdentifier = 1, cHiding = 50, cBinding = 6\<rparr>]"

lemma Sign_committed1_foreign_commitment:
  "fst (Sign dlog_group committed1 foreign_commitment) =
     Ok (Some \<lparr>shIdentifier = 1, shShare = 661\<rparr>)"
proof -
  have s: "sortSlice identifier_less foreign_commitment = foreign_commitment"
    by (simp add: sortSlice_def foreign_commitment_def)
  have d: "DeriveInterpolatingValue [1] 1 = Ok 1"
    by (simp add: DeriveInterpolatingValue_cases)
  have b: "binding_factor length_suite dlog_group 9 foreign_commitment [] 1 = 66"
    by (simp add: binding_factor_def length_suite_def dlog_group_def
        EncodeGroupCommitmentList_simps s) (simp add: foreign_commitment_def)
  have m: "map cIdentifier foreign_commitment = [1]"
    by (simp add: foreign_commitment_def)
  show ?thesis
    unfolding Sign_eq committed1_fields option.case Let_def s b m d outcome.case
      ComputeChallenge_length_suite
    by simp
qed

text \<open>
  C5, as amended. On a signer's state \<open>Sign\<close> fails with \<open>NotAParticipant\<close> whenever the
  state's identifier is not among the identifiers of \<open>C\<close>. It compares no hiding or binding
  commitment with the state's own: the result is the same whatever commitment the state
  recorded, and when the identifier occurs in a list \<open>C\<close> of pairwise distinct
  identifiers and the state holds a nonce, \<open>Sign\<close> returns a signature share.
\<close>

theorem Sign_checks_identifier_only:
  assumes "MySecretShare s = Some share"
  shows "(MyIdentifier s \<notin> cIdentifier ` set C \<longrightarrow> fst (Sign G s C) = Err NotAParticipant)
       \<and> fst (Sign G (s\<lparr>MyCommitment := own\<rparr>) C) = fst (Sign G s C)
       \<and> (MyIdentifier s \<in> cIdentifier ` set C \<and> distinct (map cIdentifier C) \<and> MyNonce s \<noteq> None
            \<longrightarrow> (\<exists>z. fst (Sign G s C) = Ok (Some \<lparr>shIdentifier = MyIdentifier s, shShare = z\<rparr>)))"
proof -
  let ?L = "map cIdentifier (sortSlice identifier_less (sortSlice identifier_less C))"
  have set_L: "set ?L = cIdentifier ` set C" by simp
  have a: "MyIdentifier s \<notin> cIdentifier ` set C \<Longrightarrow> fst (Sign G s C) = Err NotAParticipant"
    using assms set_L by (simp add: Sign_eq DeriveInterpolatingValue_cases Let_def)
  have b: "fst (Sign G (s\<lparr>MyCommitment := own\<rparr>) C) = fst (Sign G s C)"
    by (simp add: Sign_eq signed_state_def Let_def split: option.splits outcome.splits)
  have c: "\<exists>z. fst (Sign G s C) = Ok (Some \<lparr>shIdentifier = MyIdentifier s, shShare = z\<rparr>)"
    if "MyIdentifier s \<in> cIdentifier ` set C" "distinct (map cIdentifier C)" "MyNonce s \<noteq> None"
  proof -
    have "mset ?L = mset (map cIdentifier C)" by simp
    then have "distinct ?L" using that(2) by (metis mset_eq_imp_distinct_iff)
    then show ?thesis
      using assms that(1,3) set_L
      by (auto simp: Sign_eq DeriveInterpolatingValue_cases Let_def)
  qed
  from a b c show ?thesis by blast
qed

theorem Sign_checks_identifier_only_witness:
  "fst (Sign dlog_group committed1 [\<lparr>cIdentifier = 3, cHiding = 7, cBinding = 8\<rparr>]) = Err NotAParticipant
   \<and> (\<exists>z. fst (Sign dlog_group committed1 two_commitments) = Ok (Some \<lparr>shIdentifier = 1, shShare = z\<rparr>))"
proof -
  have n: "MyIdentifier committed1 \<notin> cIdentifier ` set [\<lparr>cIdentifier = 3, cHiding = 7 :: scalar, cBinding = 8 :: scalar\<rparr>]"
    by (simp add: committed1_fields scalar_eval)
  have m: "MyIdentifier committed1 \<in> cIdentifier ` set two_commitments"
    "distinct (map cIdentifier two_commitments)" "MyNonce committed1 \<noteq> None"
    using two_commitments_identifiers by (simp_all add: committed1_fields)
  show ?thesis
    using Sign_checks_identifier_only[OF committed1_fields(1),
        of "[\<lparr>cIdentifier = 3, cHiding = 7, cBinding = 8\<rparr>]" dlog_group]
      Sign_checks_identifier_only[OF committed1_fields(1), of two_commitments dlog_group]
      n m
    by (simp add: committed1_fields)
qed

text \<open>
  The claim as stated fails: the signer's own commitment \<open>(1, 5, 6)\<close> is not in the
  list, which holds \<open>(1, 50, 6)\<close>, and \<open>Sign\<close> returns a share and no error.
\<close>

theorem Sign_own_commitment_missing_counterexample:
  "MyCommitment committed1 = Some \<lparr>cIdentifier = 1, cHiding = 5, cBinding = 6\<rparr>
   \<and> \<lparr>cIdentifier = 1, cHiding = 5, cBinding = 6\<rparr> \<notin> set foreign_commitment
   \<and> fst (Sign dlog_group committed1 foreign_commitment) = Ok (Some \<lparr>shIdentifier = 1, shShare = 661\<rparr>)"
proof -
  have "(5::scalar) \<noteq> 50" by (simp add: scalar_eval)
  then have "\<lparr>cIdentifier = 1, cHiding = 5 :: scalar, cBinding = 6 :: scalar\<rparr> \<notin> set foreign_commitment"
    by (simp add: foreign_commitment_def)
  then show ?thesis
    by (simp add: Sign_committed1_foreign_commitment committed1_fields)
qed


section \<open>Polynomials and Lagrange interpolation at zero\<close>

text \<open>
  The value of the polynomial with the coefficient list \<open>cs\<close>, lowest degree first, and the
  quotient of its division by \<open>X - a\<close>.
\<close>

fun poly :: "'a::field list \<Rightarrow> 'a \<Rightarrow> 'a" where
  "poly [] x = 0"
| "poly (c # cs) x = c + x * poly cs x"

fun sdiv :: "'a::field \<Rightarrow> 'a list \<Rightarrow> 'a list" where
  "sdiv a [] = []"
| "sdiv a (c # cs) = (if cs = [] then [] else poly cs a # sdiv a cs)"

lemma length_sdiv [simp]: "length (sdiv a cs) = length cs - 1"
  by (induction cs) auto

lemma poly_sdiv: "poly cs x = poly cs a + (x - a) * poly (sdiv a cs) x"
proof (induction cs)
  case Nil
  then show ?case by simp
next
  case (Cons c cs)
  have "poly (c # cs) x - poly (c # cs) a = x * poly cs x - a * poly cs a" by simp
  also have "\<dots> = (x - a) * poly cs a + x * (poly cs x - poly cs a)"
    by (simp add: algebra_simps)
  also have "poly cs x - poly cs a = (x - a) * poly (sdiv a cs) x"
    using Cons by simp
  finally show ?case by (cases cs) (simp_all add: algebra_simps)
qed

text \<open>The Lagrange coefficient at zero of the node \<open>x\<close> among the nodes \<open>S\<close>.\<close>

definition lag :: "'a::field set \<Rightarrow> 'a \<Rightarrow> 'a" where
  "lag S x = (\<Prod>y\<in>S - {x}. y / (y - x))"

lemma lag_insert:
  assumes "finite S" "a \<notin> S" "x \<in> S"
  shows "lag (insert a S) x = lag S x * (a / (a - x))"
proof -
  have "insert a S - {x} = insert a (S - {x})" using assms by auto
  then show ?thesis using assms by (simp add: lag_def mult.commute)
qed

lemma lag_insert_self:
  assumes "a \<notin> S"
  shows "lag (insert a S) a = (\<Prod>y\<in>S. y / (y - a))"
  using assms by (simp add: lag_def)

lemma lag_two_point:
  fixes a b x l :: "'a::field"
  assumes "a \<noteq> b" "a \<noteq> x" "b \<noteq> x"
  shows "l * (b / (b - x)) * (a / (a - x))
       = (a / (a - b)) * (l * (b / (b - x))) + (b / (b - a)) * (l * (a / (a - x)))"
proof -
  have n: "a - b \<noteq> 0" "b - a \<noteq> 0" "a - x \<noteq> 0" "b - x \<noteq> 0" using assms by simp_all
  have "(a / (a - b)) * (b / (b - x)) + (b / (b - a)) * (a / (a - x))
      = (b / (b - x)) * (a / (a - x))"
    using n by (simp add: divide_simps) (simp add: algebra_simps)
  then have "l * ((a / (a - b)) * (b / (b - x)) + (b / (b - a)) * (a / (a - x)))
      = l * ((b / (b - x)) * (a / (a - x)))" by simp
  then show ?thesis by (simp add: algebra_simps)
qed

lemma lag_sum_one:
  fixes S :: "'a::field set"
  assumes "finite S" "S \<noteq> {}"
  shows "sum (lag S) S = 1"
  using assms
proof (induction "card S" arbitrary: S rule: less_induct)
  case less
  obtain a where a: "a \<in> S" using less.prems(2) by blast
  show ?case
  proof (cases "S - {a} = {}")
    case True
    then have "S = {a}" using a by auto
    then show ?thesis by (simp add: lag_def)
  next
    case False
    then obtain b where b: "b \<in> S" "b \<noteq> a" by blast
    define T where "T = S - {a, b}"
    define Sa where "Sa = insert b T"
    define Sb where "Sb = insert a T"
    have fin: "finite T" "finite Sa" "finite Sb"
      using less.prems(1) by (simp_all add: T_def Sa_def Sb_def)
    have notin: "a \<notin> T" "b \<notin> T" "a \<notin> Sa" "b \<notin> Sb"
      using b by (auto simp: T_def Sa_def Sb_def)
    have S: "S = insert a Sa" "S = insert b Sb"
      using a b by (auto simp: T_def Sa_def Sb_def)
    have "card Sa < card S" "card Sb < card S"
      using fin notin unfolding S(1) by (simp_all add: Sa_def Sb_def)
    then have iha: "sum (lag Sa) Sa = 1" and ihb: "sum (lag Sb) Sb = 1"
      using less.hyps fin by (simp_all add: Sa_def Sb_def)
    have la: "lag S a = (b / (b - a)) * lag Sb a"
    proof -
      have "lag S a = (\<Prod>y\<in>Sa. y / (y - a))"
        unfolding S(1) using notin(3) by (rule lag_insert_self)
      also have "\<dots> = (b / (b - a)) * (\<Prod>y\<in>T. y / (y - a))"
        using fin notin by (simp add: Sa_def)
      also have "(\<Prod>y\<in>T. y / (y - a)) = lag Sb a"
        unfolding Sb_def using notin by (simp add: lag_insert_self)
      finally show ?thesis .
    qed
    have lb: "lag S b = (a / (a - b)) * lag Sa b"
    proof -
      have "lag S b = (\<Prod>y\<in>Sb. y / (y - b))"
        unfolding S(2) using notin(4) by (rule lag_insert_self)
      also have "\<dots> = (a / (a - b)) * (\<Prod>y\<in>T. y / (y - b))"
        using fin notin by (simp add: Sb_def)
      also have "(\<Prod>y\<in>T. y / (y - b)) = lag Sa b"
        unfolding Sa_def using notin by (simp add: lag_insert_self)
      finally show ?thesis .
    qed
    have lx: "lag S x = (a / (a - b)) * lag Sa x + (b / (b - a)) * lag Sb x" if "x \<in> T" for x
    proof -
      have x: "a \<noteq> x" "b \<noteq> x" using that notin by auto
      have 1: "lag Sa x = lag T x * (b / (b - x))"
        unfolding Sa_def using fin notin that by (simp add: lag_insert)
      have 2: "lag Sb x = lag T x * (a / (a - x))"
        unfolding Sb_def using fin notin that by (simp add: lag_insert)
      have "lag S x = lag Sa x * (a / (a - x))"
        unfolding S(1) using fin notin that by (simp add: lag_insert Sa_def)
      then show ?thesis
        unfolding 1 2 using lag_two_point[of a b x "lag T x"] b(2) x by simp
    qed
    have "sum (lag S) S = lag S a + (lag S b + sum (lag S) T)"
      unfolding S(1) Sa_def using fin notin b by simp
    also have "sum (lag S) T
        = (a / (a - b)) * sum (lag Sa) T + (b / (b - a)) * sum (lag Sb) T"
      by (simp add: lx sum.distrib sum_distrib_left)
    also have "lag S a + (lag S b + ((a / (a - b)) * sum (lag Sa) T + (b / (b - a)) * sum (lag Sb) T))
        = (a / (a - b)) * (lag Sa b + sum (lag Sa) T) + (b / (b - a)) * (lag Sb a + sum (lag Sb) T)"
      unfolding la lb by (simp add: algebra_simps)
    also have "lag Sa b + sum (lag Sa) T = sum (lag Sa) Sa"
      unfolding Sa_def using fin notin by simp
    also have "lag Sb a + sum (lag Sb) T = sum (lag Sb) Sb"
      unfolding Sb_def using fin notin by simp
    also have "(a / (a - b)) * sum (lag Sa) Sa + (b / (b - a)) * sum (lag Sb) Sb = 1"
    proof -
      have "a - b \<noteq> 0" "b - a \<noteq> 0" using b by simp_all
      then show ?thesis unfolding iha ihb by (simp add: divide_simps) (simp add: algebra_simps)
    qed
    finally show ?thesis .
  qed
qed

lemma lagrange_at_zero_set:
  fixes S :: "'a::field set"
  assumes "finite S" "length cs \<le> card S"
  shows "(\<Sum>x\<in>S. lag S x * poly cs x) = poly cs 0"
  using assms
proof (induction "card S" arbitrary: S cs rule: less_induct)
  case less
  show ?case
  proof (cases "S = {}")
    case True
    then show ?thesis using less.prems by simp
  next
    case False
    then obtain a where a: "a \<in> S" by blast
    define S' where "S' = S - {a}"
    have fin: "finite S'" using less.prems(1) by (simp add: S'_def)
    have S: "S = insert a S'" "a \<notin> S'" using a by (auto simp: S'_def)
    have card: "card S = Suc (card S')" unfolding S(1) using fin S(2) by simp
    define q where "q = sdiv a cs"
    have lq: "length q \<le> card S'" using less.prems(2) card by (simp add: q_def)
    have ih: "(\<Sum>x\<in>S'. lag S' x * poly q x) = poly q 0"
      using less.hyps[of S' q] card fin lq by simp
    have split: "poly cs x = poly cs a + (x - a) * poly q x" for x
      unfolding q_def by (rule poly_sdiv)
    have "(\<Sum>x\<in>S. lag S x * poly cs x)
        = (\<Sum>x\<in>S. poly cs a * lag S x + lag S x * (x - a) * poly q x)"
      by (subst split) (simp add: algebra_simps)
    also have "\<dots> = poly cs a * sum (lag S) S + (\<Sum>x\<in>S. lag S x * (x - a) * poly q x)"
      by (simp add: sum.distrib sum_distrib_left)
    also have "sum (lag S) S = 1" using less.prems(1) False by (rule lag_sum_one)
    also have "(\<Sum>x\<in>S. lag S x * (x - a) * poly q x)
        = (\<Sum>x\<in>S'. lag S x * (x - a) * poly q x)"
      unfolding S(1) using fin S(2) by simp
    also have "\<dots> = (\<Sum>x\<in>S'. (- a) * (lag S' x * poly q x))"
    proof (rule sum.cong)
      fix x assume x: "x \<in> S'"
      then have ne: "a - x \<noteq> 0" using S(2) by auto
      have e1: "lag S x = lag S' x * (a / (a - x))"
        unfolding S(1) using fin S(2) x by (rule lag_insert)
      have e2: "(a / (a - x)) * (x - a) = - a"
        using ne by (simp add: divide_simps) (simp add: algebra_simps)
      have "lag S x * (x - a) * poly q x = lag S' x * ((a / (a - x)) * (x - a)) * poly q x"
        unfolding e1 by (simp only: mult.assoc)
      also have "\<dots> = (- a) * (lag S' x * poly q x)"
        unfolding e2 by (simp only: mult.assoc mult.left_commute[of _ "- a"])
      finally show "lag S x * (x - a) * poly q x = (- a) * (lag S' x * poly q x)" .
    qed simp
    also have "\<dots> = (- a) * poly q 0"
      unfolding sum_distrib_left[symmetric] ih ..
    finally have "(\<Sum>x\<in>S. lag S x * poly cs x) = poly cs a + (0 - a) * poly q 0" by simp
    also have "\<dots> = poly cs 0" using split[of 0] by simp
    finally show ?thesis .
  qed
qed

text \<open>The same for a list of distinct nodes, with the coefficients as the code writes them.\<close>

lemma lag_list:
  fixes xs :: "'a::field list"
  assumes "distinct xs"
  shows "(\<Prod>y\<leftarrow>filter (\<lambda>y. y \<noteq> x) xs. y * inverse (y - x)) = lag (set xs) x"
proof -
  let ?ys = "filter (\<lambda>y. y \<noteq> x) xs"
  have d: "distinct ?ys" using assms by simp
  have s: "set ?ys = set xs - {x}" by auto
  have "lag (set xs) x = (\<Prod>y\<in>set ?ys. y * inverse (y - x))"
    unfolding s by (simp add: lag_def divide_inverse)
  also have "\<dots> = (\<Prod>y\<leftarrow>?ys. y * inverse (y - x))"
    using d by (rule prod.distinct_set_conv_list)
  finally show ?thesis by simp
qed

lemma lagrange_at_zero:
  fixes xs :: "'a::field list"
  assumes "distinct xs" "length cs \<le> length xs"
  shows "(\<Sum>x\<leftarrow>xs. (\<Prod>y\<leftarrow>filter (\<lambda>y. y \<noteq> x) xs. y * inverse (y - x)) * poly cs x) = poly cs 0"
proof -
  have "(\<Sum>x\<leftarrow>xs. (\<Prod>y\<leftarrow>filter (\<lambda>y. y \<noteq> x) xs. y * inverse (y - x)) * poly cs x)
      = (\<Sum>x\<in>set xs. lag (set xs) x * poly cs x)"
    using assms(1) by (simp add: lag_list sum_list_distinct_conv_sum_set)
  also have "\<dots> = poly cs 0"
    using assms by (intro lagrange_at_zero_set) (simp_all add: distinct_card)
  finally show ?thesis .
qed

end
